(* ===== verification/Go_Prelude.thy ===== *)
theory Go_Prelude imports Main "HOL-Library.Word" "HOL-Library.State_Monad" "HOL-Library.Sublist" begin

text \<open>
  What every component shares: the named collections of automation, Go's fixed-width integers,
  the string operations of Go's standard library that the services call, tables as lists of rows
  with the row-level operations that SQL statements are made of, and the state monad in which the
  handlers are written (one combinator, \<open>checked\<close>, for Go's
  \<open>if err != nil { return ... }\<close>) with a calculus of relations that every
  step of a handler keeps.
\<close>

named_theorems run_simps "running a handler on a state"
named_theorems table_simps "row-level operations on tables"

section \<open>Identifiers, time and Go integers\<close>

text \<open>\<open>uuid.UUID\<close> is an array of 16 bytes; the zero value is \<open>uuid.Nil\<close>.\<close>

type_synonym uuid = "128 word"

abbreviation uuid_nil :: uuid where "uuid_nil \<equiv> 0"

text \<open>A PostgreSQL \<open>TIMESTAMP\<close> and a Go duration, both counted in microseconds.\<close>

type_synonym timestamp = int

definition seconds :: "int \<Rightarrow> int" where
  "seconds n = n * 1000000"

definition hours :: "int \<Rightarrow> int" where
  "hours n = seconds (n * 3600)"

definition days :: "int \<Rightarrow> int" where
  "days n = hours (n * 24)"

text \<open>
  \<open>wrap32\<close> is what an \<open>int32\<close> expression of Go evaluates to (two's complement
  wrap-around); \<open>int4\<close> is the range of a PostgreSQL \<open>INTEGER\<close> column, which
  raises an error instead of wrapping.
\<close>

definition wrap32 :: "int \<Rightarrow> int" where
  "wrap32 x = (x + 2147483648) mod 4294967296 - 2147483648"

definition int4 :: "int \<Rightarrow> bool" where
  "int4 x \<longleftrightarrow> - 2147483648 \<le> x \<and> x < 2147483648"

lemma wrap32_id [simp]: "int4 x \<Longrightarrow> wrap32 x = x"
  by (simp add: wrap32_def int4_def)

lemma int4_wrap32 [simp]: "int4 (wrap32 x)"
  using pos_mod_bound [of 4294967296 "x + 2147483648"]
  by (simp add: wrap32_def int4_def)

lemma wrap32_signed_word: "wrap32 x = sint (word_of_int x :: 32 word)"
proof -
  have "signed_take_bit 31 x = wrap32 x"
    by (simp add: wrap32_def signed_take_bit_eq_take_bit_shift take_bit_eq_mod)
  then show ?thesis
    by (simp add: sint_sbintrunc')
qed

lemma seconds_mono [simp]: "seconds a \<le> seconds b \<longleftrightarrow> a \<le> b"
  by (simp add: seconds_def)

lemma seconds_less [simp]: "seconds a < seconds b \<longleftrightarrow> a < b"
  by (simp add: seconds_def)

section \<open>Strings\<close>

text \<open>
  \<open>strings.Contains\<close>, \<open>strings.SplitN(s, sep, 2)\<close> for a one-byte
  separator, \<open>strings.TrimSpace\<close> on ASCII text and \<open>strconv.Itoa\<close>.
\<close>

fun contains :: "string \<Rightarrow> string \<Rightarrow> bool" where
  "contains [] sub = (sub = [])"
| "contains (c # s) sub = (prefix sub (c # s) \<or> contains s sub)"

definition SplitN2 :: "string \<Rightarrow> char \<Rightarrow> string list" where
  "SplitN2 s sep =
     (if sep \<in> set s
      then [takeWhile (\<lambda>c. c \<noteq> sep) s, drop 1 (dropWhile (\<lambda>c. c \<noteq> sep) s)]
      else [s])"

definition is_space :: "char \<Rightarrow> bool" where
  "is_space c \<longleftrightarrow> of_char c \<in> {9, 10, 11, 12, 13, 32 :: nat}"

definition TrimSpace :: "string \<Rightarrow> string" where
  "TrimSpace s = rev (dropWhile is_space (rev (dropWhile is_space s)))"

fun digits_of :: "nat \<Rightarrow> string" where
  "digits_of n =
     (if n < 10 then [char_of (48 + n)] else digits_of (n div 10) @ [char_of (48 + n mod 10)])"

declare digits_of.simps [simp del]

definition Itoa :: "int \<Rightarrow> string" where
  "Itoa i = (if i < 0 then ''-'' @ digits_of (nat (- i)) else digits_of (nat i))"

lemma contains_iff_sublist: "contains s sub \<longleftrightarrow> (\<exists>a b. s = a @ sub @ b)"
proof (induction s)
  case Nil
  then show ?case by auto
next
  case (Cons c s)
  have "(\<exists>a b. c # s = a @ sub @ b) \<longleftrightarrow> prefix sub (c # s) \<or> (\<exists>a b. s = a @ sub @ b)"
    by (auto simp: prefix_def Cons_eq_append_conv; metis)
  with Cons show ?case by simp
qed

lemma SplitN2_join:
  assumes "sep \<notin> set a"
  shows "SplitN2 (a @ sep # b) sep = [a, b]"
proof -
  have "takeWhile (\<lambda>c. c \<noteq> sep) (a @ sep # b) = a"
    and "dropWhile (\<lambda>c. c \<noteq> sep) (a @ sep # b) = sep # b"
    using assms by (induction a) auto
  then show ?thesis by (simp add: SplitN2_def)
qed

lemma length_SplitN2: "length (SplitN2 s sep) = (if sep \<in> set s then 2 else 1)"
  by (simp add: SplitN2_def)

lemma SplitN2_recompose: "SplitN2 s sep = [a, b] \<Longrightarrow> s = a @ sep # b"
proof -
  assume *: "SplitN2 s sep = [a, b]"
  then have mem: "sep \<in> set s" by (auto simp: SplitN2_def split: if_splits)
  then have "dropWhile (\<lambda>c. c \<noteq> sep) s \<noteq> []" by auto
  then obtain c t where t: "dropWhile (\<lambda>c. c \<noteq> sep) s = c # t" by (cases "dropWhile (\<lambda>c. c \<noteq> sep) s") auto
  then have "c = sep" by (metis (mono_tags) dropWhile_eq_Cons_conv)
  with * mem t have "a = takeWhile (\<lambda>c. c \<noteq> sep) s" "b = t"
    by (auto simp: SplitN2_def)
  then show ?thesis using t \<open>c = sep\<close> by (metis takeWhile_dropWhile_id)
qed

section \<open>Tables\<close>

text \<open>
  A table is the list of its rows in the order they were inserted. \<open>upd_where\<close> is the
  effect of \<open>UPDATE ... SET ... WHERE\<close>, \<open>del_where\<close> of
  \<open>DELETE ... WHERE\<close>; \<open>order_asc\<close> and \<open>order_desc\<close> are
  \<open>ORDER BY\<close> on a column. SQL leaves the order of equal keys open; here they keep
  the order of insertion.
\<close>

definition upd_where :: "('r \<Rightarrow> bool) \<Rightarrow> ('r \<Rightarrow> 'r) \<Rightarrow> 'r list \<Rightarrow> 'r list" where
  "upd_where P f rows = map (\<lambda>r. if P r then f r else r) rows"

definition del_where :: "('r \<Rightarrow> bool) \<Rightarrow> 'r list \<Rightarrow> 'r list" where
  "del_where P rows = filter (\<lambda>r. \<not> P r) rows"

definition order_asc :: "('r \<Rightarrow> int) \<Rightarrow> 'r list \<Rightarrow> 'r list" where
  "order_asc k rows = sort_key k rows"

definition order_desc :: "('r \<Rightarrow> int) \<Rightarrow> 'r list \<Rightarrow> 'r list" where
  "order_desc k rows = sort_key (\<lambda>r. - k r) rows"

lemma upd_where_simps [simp]:
  "upd_where P f [] = []"
  "upd_where P f (r # rows) = (if P r then f r else r) # upd_where P f rows"
  by (simp_all add: upd_where_def)

lemma upd_where_append [simp]: "upd_where P f (xs @ ys) = upd_where P f xs @ upd_where P f ys"
  by (simp add: upd_where_def)

lemma length_upd_where [simp]: "length (upd_where P f rows) = length rows"
  by (simp add: upd_where_def)

lemma set_upd_where: "set (upd_where P f rows) = f ` {r \<in> set rows. P r} \<union> {r \<in> set rows. \<not> P r}"
  by (auto simp: upd_where_def)

lemma upd_where_none [table_simps]: "\<forall>r \<in> set rows. \<not> P r \<Longrightarrow> upd_where P f rows = rows"
  by (induction rows) auto

lemma map_upd_where [table_simps]:
  "(\<And>r. P r \<Longrightarrow> g (f r) = g r) \<Longrightarrow> map g (upd_where P f rows) = map g rows"
  by (induction rows) auto

lemma filter_upd_where_key [table_simps]:
  "(\<And>r. Q (f r) \<longleftrightarrow> Q r) \<Longrightarrow> filter Q (upd_where P f rows) = upd_where P f (filter Q rows)"
  by (induction rows) auto

lemma filter_upd_where_all:
  "(\<And>r. Q (f r) \<longleftrightarrow> Q r) \<Longrightarrow> (\<And>r. Q r \<Longrightarrow> P r) \<Longrightarrow> filter Q (upd_where P f rows) = map f (filter Q rows)"
  by (induction rows) auto

lemma filter_upd_where_other:
  "(\<And>r. P r \<Longrightarrow> \<not> Q r \<and> \<not> Q (f r)) \<Longrightarrow> filter Q (upd_where P f rows) = filter Q rows"
  by (induction rows) auto

lemma set_del_where [simp]: "set (del_where P rows) = {r \<in> set rows. \<not> P r}"
  by (auto simp: del_where_def)

lemma del_where_none [table_simps]: "\<forall>r \<in> set rows. \<not> P r \<Longrightarrow> del_where P rows = rows"
  by (simp add: del_where_def filter_id_conv)

lemma distinct_map_del_where [simp]: "distinct (map g rows) \<Longrightarrow> distinct (map g (del_where P rows))"
  by (simp add: del_where_def distinct_map_filter)

lemma set_order_asc [simp]: "set (order_asc k rows) = set rows"
  by (simp add: order_asc_def)

lemma set_order_desc [simp]: "set (order_desc k rows) = set rows"
  by (simp add: order_desc_def)

lemma order_asc_simps [simp]: "order_asc k [] = []" "order_asc k [r] = [r]"
  by (simp_all add: order_asc_def)

lemma order_desc_simps [simp]: "order_desc k [] = []" "order_desc k [r] = [r]"
  by (simp_all add: order_desc_def)

lemma length_order_asc [simp]: "length (order_asc k rows) = length rows"
  by (simp add: order_asc_def)

lemma sorted_order_asc [simp]: "sorted (map k (order_asc k rows))"
  by (simp add: order_asc_def)

lemma order_asc_eq_Nil [simp]: "order_asc k rows = [] \<longleftrightarrow> rows = []"
  by (metis length_0_conv length_order_asc)

lemma order_asc_head:
  assumes "order_asc k rows = r # rest"
  shows "r \<in> set rows \<and> (\<forall>q \<in> set rows. k r \<le> k q)"
proof -
  have "set rows = insert r (set rest)"
    using set_order_asc [of k rows] assms by simp
  moreover have "\<forall>q \<in> set rest. k r \<le> k q"
    using sorted_order_asc [of k rows] assms by simp
  ultimately show ?thesis by auto
qed

lemma sorted_order_desc: "sorted_wrt (\<lambda>a b. k b \<le> k a) (order_desc k rows)"
proof -
  have "sorted (map (\<lambda>r. - k r) (order_desc k rows))"
    by (simp add: order_desc_def)
  then show ?thesis
    by (simp add: sorted_wrt_map)
qed

lemma concat_map_if: "concat (map (\<lambda>x. if P x then [x] else []) xs) = filter P xs"
  by (induction xs) auto

section \<open>Handlers in the state monad\<close>

text \<open>
  \<open>checked call wrap k\<close> is Go's
  \<open>x, err := call(); if err != nil { return ..., wrap(err) }\<close> followed by \<open>k x\<close>.
  \<open>for_each\<close> is a \<open>for ... range\<close> loop whose body does not return;
  \<open>for_checked\<close> one whose body may return an error.
\<close>

definition modify :: "('w \<Rightarrow> 'w) \<Rightarrow> ('w, unit) state" where
  "modify f = State (\<lambda>w. ((), f w))"

definition gets :: "('w \<Rightarrow> 'a) \<Rightarrow> ('w, 'a) state" where
  "gets f = State (\<lambda>w. (f w, w))"

definition checked ::
  "('w, 'e + 'a) state \<Rightarrow> ('e \<Rightarrow> 'f) \<Rightarrow> ('a \<Rightarrow> ('w, 'f + 'b) state) \<Rightarrow> ('w, 'f + 'b) state" where
  "checked m wrap k =
     State_Monad.bind m
       (\<lambda>r. case r of Inl e \<Rightarrow> State_Monad.return (Inl (wrap e)) | Inr x \<Rightarrow> k x)"

primrec for_each :: "('a \<Rightarrow> ('w, unit) state) \<Rightarrow> 'a list \<Rightarrow> ('w, unit) state" where
  "for_each body [] = State_Monad.return ()"
| "for_each body (x # xs) = State_Monad.bind (body x) (\<lambda>_. for_each body xs)"

primrec for_checked :: "('a \<Rightarrow> ('w, 'e + unit) state) \<Rightarrow> 'a list \<Rightarrow> ('w, 'e + unit) state" where
  "for_checked body [] = State_Monad.return (Inr ())"
| "for_checked body (x # xs) = checked (body x) id (\<lambda>_. for_checked body xs)"

lemma run_modify [simp, run_simps]: "run_state (modify f) w = ((), f w)"
  by (simp add: modify_def)

lemma run_gets [simp, run_simps]: "run_state (gets f) w = (f w, w)"
  by (simp add: gets_def)

lemma run_checked [run_simps]:
  "run_state (checked m wrap k) w =
     (case run_state m w of (Inl e, w') \<Rightarrow> (Inl (wrap e), w') | (Inr x, w') \<Rightarrow> run_state (k x) w')"
  by (auto simp: checked_def split: prod.splits sum.splits)

lemma checked_return [simp]: "checked (State_Monad.return (Inr x)) wrap k = k x"
  "checked (State_Monad.return (Inl e)) wrap k = State_Monad.return (Inl (wrap e))"
  by (simp_all add: checked_def)

text \<open>
  A relation that every step keeps: reflexive, transitive, so that it lifts from the calls a
  handler makes to the handler. Invariants, frames and refinements are all stated as such a
  relation.
\<close>

locale kept_relation =
  fixes R :: "'w \<Rightarrow> 'w \<Rightarrow> bool"
  assumes kept_refl: "R w w"
    and kept_trans: "R w w' \<Longrightarrow> R w' w'' \<Longrightarrow> R w w''"
begin

lemma kept_return: "state_io_rel R (State_Monad.return x)"
  by (rule state_io_relI) (simp add: kept_refl)

lemma kept_gets: "state_io_rel R (gets f)"
  by (rule state_io_relI) (simp add: gets_def kept_refl)

lemma kept_modify: "(\<And>w. R w (f w)) \<Longrightarrow> state_io_rel R (modify f)"
  by (rule state_io_relI) (auto simp: modify_def)

lemma kept_bind:
  assumes "state_io_rel R m" and "\<And>a. state_io_rel R (k a)"
  shows "state_io_rel R (State_Monad.bind m k)"
proof (rule state_io_relI)
  fix b w w''
  assume "run_state (State_Monad.bind m k) w = (b, w'')"
  then obtain a w' where "run_state m w = (a, w')" "run_state (k a) w' = (b, w'')"
    by (auto split: prod.splits)
  then show "R w w''"
    using assms by (metis kept_trans state_io_relD)
qed

lemma kept_sum:
  assumes "\<And>e. x = Inl e \<Longrightarrow> state_io_rel R (f e)" and "\<And>a. x = Inr a \<Longrightarrow> state_io_rel R (g a)"
  shows "state_io_rel R (case x of Inl e \<Rightarrow> f e | Inr a \<Rightarrow> g a)"
  using assms by (cases x) auto

lemma kept_option:
  assumes "x = None \<Longrightarrow> state_io_rel R f" and "\<And>a. x = Some a \<Longrightarrow> state_io_rel R (g a)"
  shows "state_io_rel R (case x of None \<Rightarrow> f | Some a \<Rightarrow> g a)"
  using assms by (cases x) auto

lemma kept_list:
  assumes "xs = [] \<Longrightarrow> state_io_rel R f" and "\<And>a as. xs = a # as \<Longrightarrow> state_io_rel R (g a as)"
  shows "state_io_rel R (case xs of [] \<Rightarrow> f | a # as \<Rightarrow> g a as)"
  using assms by (cases xs) auto

lemma kept_if:
  assumes "b \<Longrightarrow> state_io_rel R m" and "\<not> b \<Longrightarrow> state_io_rel R n"
  shows "state_io_rel R (if b then m else n)"
  using assms by simp

lemma kept_let:
  assumes "\<And>x. x = t \<Longrightarrow> state_io_rel R (k x)"
  shows "state_io_rel R (let x = t in k x)"
  using assms by simp

lemma kept_checked:
  assumes "state_io_rel R m" and "\<And>a. state_io_rel R (k a)"
  shows "state_io_rel R (checked m wrap k)"
  unfolding checked_def by (intro kept_bind kept_sum kept_return assms)

text \<open>The continuation may rely on what the call returns.\<close>

lemma kept_checked_post:
  assumes "state_io_rel R m" and "\<And>w a w'. run_state m w = (Inr a, w') \<Longrightarrow> Q a"
    and "\<And>a. Q a \<Longrightarrow> state_io_rel R (k a)"
  shows "state_io_rel R (checked m wrap k)"
proof (rule state_io_relI)
  fix b w w''
  assume run: "run_state (checked m wrap k) w = (b, w'')"
  obtain r w' where m: "run_state m w = (r, w')" by fastforce
  have first: "R w w'" by (rule state_io_relD [OF assms(1) m])
  show "R w w''"
  proof (cases r)
    case (Inl e)
    with run m first show ?thesis by (simp add: run_checked)
  next
    case (Inr a)
    with run m have "run_state (k a) w' = (b, w'')" by (simp add: run_checked)
    moreover have "Q a" using assms(2) m Inr by blast
    ultimately show ?thesis using first assms(3) by (metis kept_trans state_io_relD)
  qed
qed

lemma kept_for_each:
  assumes "\<And>x. x \<in> set xs \<Longrightarrow> state_io_rel R (body x)"
  shows "state_io_rel R (for_each body xs)"
  using assms by (induction xs) (auto intro: kept_return kept_bind)

lemma kept_for_checked:
  assumes "\<And>x. x \<in> set xs \<Longrightarrow> state_io_rel R (body x)"
  shows "state_io_rel R (for_checked body xs)"
  using assms by (induction xs) (auto intro: kept_return kept_checked)

lemmas kept_intros =
  kept_return kept_gets kept_bind kept_sum kept_option kept_list kept_if kept_let kept_checked
  kept_for_each kept_for_checked

end

end
