(* ===== verification/Job_Errors.thy ===== *)
theory Job_Errors imports Go_Prelude begin

text \<open>
  Go error values, and \<open>internal/errors/errors.go\<close>: the job errors that carry a kind
  (transient or permanent) and the classification the worker's retry decision asks for.
  \<open>ErrorString\<close> is \<open>errors.New\<close> or a \<open>fmt.Errorf\<close> without
  \<open>%w\<close>; \<open>WrapError\<close> is \<open>fmt.Errorf("prefix: %w", err)\<close>.
\<close>

section \<open>Error values\<close>

datatype ErrorKind = Transient | Permanent

datatype go_error =
  ErrorString string
| WrapError string go_error
| JobError ErrorKind string "go_error option"

fun error_text :: "go_error \<Rightarrow> string" where
  "error_text (ErrorString s) = s"
| "error_text (WrapError p e) = p @ '': '' @ error_text e"
| "error_text (JobError k m (Some c)) = m @ '': '' @ error_text c"
| "error_text (JobError k m None) = m"

fun Unwrap :: "go_error \<Rightarrow> go_error option" where
  "Unwrap (ErrorString s) = None"
| "Unwrap (WrapError p e) = Some e"
| "Unwrap (JobError k m c) = c"

definition NewTransient :: "string \<Rightarrow> go_error option \<Rightarrow> go_error" where
  "NewTransient msg cause = JobError Transient msg cause"

definition NewPermanent :: "string \<Rightarrow> go_error option \<Rightarrow> go_error" where
  "NewPermanent msg cause = JobError Permanent msg cause"

text \<open>
  \<open>errors.As(err, &jobErr)\<close>: the first error of the chain, from the outside in, that is
  a \<open>*JobError\<close>.
\<close>

fun As_JobError :: "go_error \<Rightarrow> (ErrorKind \<times> string \<times> go_error option) option" where
  "As_JobError (ErrorString s) = None"
| "As_JobError (WrapError p e) = As_JobError e"
| "As_JobError (JobError k m c) = Some (k, m, c)"

definition IsTransient :: "go_error \<Rightarrow> bool" where
  "IsTransient err =
     (case As_JobError err of Some (kind, _, _) \<Rightarrow> kind = Transient | None \<Rightarrow> True)"

definition IsPermanent :: "go_error \<Rightarrow> bool" where
  "IsPermanent err \<longleftrightarrow> \<not> IsTransient err"

text \<open>The messages a handler puts around an error, outermost first.\<close>

definition wrap_all :: "string list \<Rightarrow> go_error \<Rightarrow> go_error" where
  "wrap_all ps e = foldr WrapError ps e"

section \<open>Classification\<close>

lemma wrap_all_simps [simp]:
  "wrap_all [] e = e" "wrap_all (p # ps) e = WrapError p (wrap_all ps e)"
  by (simp_all add: wrap_all_def)

lemma As_JobError_wrap_all [simp]: "As_JobError (wrap_all ps e) = As_JobError e"
  by (induction ps) auto

lemma IsTransient_simps [simp]:
  "IsTransient (ErrorString s)"
  "IsTransient (WrapError p e) = IsTransient e"
  "IsTransient (JobError k m c) = (k = Transient)"
  by (simp_all add: IsTransient_def)

lemma IsTransient_wrap_all [simp]: "IsTransient (wrap_all ps e) = IsTransient e"
  by (simp add: IsTransient_def)

text \<open>
  The retry decision of the worker must not depend on how many handlers wrapped an error: a
  permanent job error stays permanent and a transient one transient under any wrapping, the
  outermost job error decides when job errors are nested, and an error that holds no job error
  counts as transient.
\<close>

text \<open>
  The classification of an error is that of the outermost job error in it, whatever messages
  are wrapped around it and whatever its cause is, and an error without a job error is transient.
\<close>
theorem classification_survives_wrapping:
  "IsPermanent (wrap_all ps (NewPermanent msg cause))
   \<and> IsTransient (wrap_all ps (NewTransient msg cause))
   \<and> (IsTransient (wrap_all ps e) \<longleftrightarrow> IsTransient e)
   \<and> (As_JobError e = None \<longrightarrow> IsTransient (wrap_all ps e))"
  by (simp add: IsPermanent_def NewPermanent_def NewTransient_def) (simp add: IsTransient_def)

theorem classification_survives_wrapping_witness:
  "IsPermanent (wrap_all [''task runner failed'']
     (NewPermanent ''bad entrypoint'' (Some (NewTransient ''io'' None))))
   \<and> IsTransient (wrap_all [''failed to get job''] (ErrorString ''no rows in result set''))"
  using classification_survives_wrapping
      [of "[''task runner failed'']" "''bad entrypoint''" "Some (NewTransient ''io'' None)"
          "ErrorString ''no rows in result set''"]
    classification_survives_wrapping
      [of "[''failed to get job'']" "[]" None "ErrorString ''no rows in result set''"]
  by simp

section \<open>Texts\<close>

lemma contains_append: "contains s sub \<Longrightarrow> contains (a @ s @ b) sub"
  unfolding contains_iff_sublist by (metis append.assoc)

lemma contains_self [simp]: "contains s s"
  unfolding contains_iff_sublist by (metis append_Nil append_Nil2)

lemma error_text_wrap_contains:
  "contains (error_text e) sub \<Longrightarrow> contains (error_text (wrap_all ps e)) sub"
proof (induction ps)
  case (Cons p ps)
  then show ?case
    using contains_append [of "error_text (wrap_all ps e)" sub "p @ '': ''" "[]"] by simp
qed simp

lemma error_text_Unwrap_contains:
  "Unwrap e = Some c \<Longrightarrow> contains (error_text e) (error_text c)"
proof (cases e)
  case (WrapError p d)
  assume "Unwrap e = Some c"
  then show ?thesis
    using WrapError contains_append [of "error_text c" "error_text c" "p @ '': ''" "[]"] by simp
next
  case (JobError k m d)
  assume "Unwrap e = Some c"
  then show ?thesis
    using JobError contains_append [of "error_text c" "error_text c" "m @ '': ''" "[]"] by simp
qed simp

end
