(* ===== verification/Go_Json.thy ===== *)
theory Go_Json imports Job_Errors begin

text \<open>
  JSON documents as \<open>encoding/json\<close> sees them. A message or a \<open>JSONB\<close>
  column holds a document or, for a message, bytes that are no document at all. Encoding a document
  and decoding it again gives it back, so the documents themselves stand for their encodings, and
  the order of an object's keys, which \<open>JSONB\<close> does not keep, is never looked at.
  \<open>render\<close> is the encoding where the code handles it as text.
\<close>

section \<open>Documents\<close>

datatype json =
  JNull
| JBool bool
| JNumber string
| JString string
| JArray "json list"
| JObject "(string \<times> json) list"

text \<open>Bytes: text that is not JSON on the left, the encoding of a document on the right.\<close>

type_synonym raw_message = "string + json"

definition hex_digit :: "nat \<Rightarrow> char" where
  "hex_digit n = char_of (if n < 10 then 48 + n else 87 + n)"

definition escape_char :: "char \<Rightarrow> string" where
  "escape_char c =
     (let n = of_char c :: nat
      in if n = 34 \<or> n = 92 then [char_of (92 :: nat), c]
         else if n = 10 then char_of (92 :: nat) # ''n''
         else if n = 13 then char_of (92 :: nat) # ''r''
         else if n = 9 then char_of (92 :: nat) # ''t''
         else if n = 8 then char_of (92 :: nat) # ''b''
         else if n = 12 then char_of (92 :: nat) # ''f''
         else if n < 32 \<or> n = 60 \<or> n = 62 \<or> n = 38
           then char_of (92 :: nat) # ''u00'' @ [hex_digit (n div 16), hex_digit (n mod 16)]
         else [c])"

definition quote_string :: "string \<Rightarrow> string" where
  "quote_string s = [char_of (34 :: nat)] @ concat (map escape_char s) @ [char_of (34 :: nat)]"

fun join_commas :: "string list \<Rightarrow> string" where
  "join_commas [] = []"
| "join_commas [x] = x"
| "join_commas (x # xs) = x @ '','' @ join_commas xs"

fun render :: "json \<Rightarrow> string" where
  "render JNull = ''null''"
| "render (JBool b) = (if b then ''true'' else ''false'')"
| "render (JNumber s) = s"
| "render (JString s) = quote_string s"
| "render (JArray ds) = ''['' @ join_commas (map render ds) @ '']''"
| "render (JObject kvs) =
     ''{'' @ join_commas (map (\<lambda>(k, v). quote_string k @ '':'' @ render v) kvs) @ ''}''"

definition raw_text :: "raw_message \<Rightarrow> string" where
  "raw_text m = (case m of Inl bytes \<Rightarrow> bytes | Inr d \<Rightarrow> render d)"

text \<open>\<open>json.Marshal\<close> of a \<open>map[string]string\<close>.\<close>

definition Marshal_map :: "(string \<times> string) list \<Rightarrow> json" where
  "Marshal_map m = JObject (map (\<lambda>(k, v). (k, JString v)) m)"

section \<open>Decoding\<close>

definition syntax_error :: go_error where
  "syntax_error = ErrorString ''invalid character looking for beginning of value''"

definition type_error :: go_error where
  "type_error = ErrorString ''json: cannot unmarshal value of another type''"

text \<open>Keys of a document match a struct field up to the case of ASCII letters.\<close>

definition lower :: "char \<Rightarrow> char" where
  "lower c =
     (let n = of_char c :: nat in if 65 \<le> n \<and> n \<le> 90 then char_of (n + 32) else c)"

definition fold_eq :: "string \<Rightarrow> string \<Rightarrow> bool" where
  "fold_eq a b \<longleftrightarrow> map lower a = map lower b"

fun is_string_or_null :: "json \<Rightarrow> bool" where
  "is_string_or_null (JString s) = True"
| "is_string_or_null JNull = True"
| "is_string_or_null d = False"

text \<open>
  A field of type \<open>string\<close>: every matching key is assigned in turn, \<open>null\<close>
  leaves the field as it is, and a value of another type makes the decoding fail.
\<close>

fun assign_string :: "string \<Rightarrow> json \<Rightarrow> string" where
  "assign_string old (JString s) = s"
| "assign_string old d = old"

definition decode_string_field :: "string \<Rightarrow> (string \<times> json) list \<Rightarrow> go_error + string" where
  "decode_string_field name kvs =
     (let vs = map snd (filter (\<lambda>kv. fold_eq (fst kv) name) kvs)
      in if list_all is_string_or_null vs then Inr (foldl assign_string [] vs)
         else Inl type_error)"

text \<open>
  \<open>json.Unmarshal\<close> into a struct of string fields, and into a
  \<open>map[string]string\<close>.
\<close>

fun Unmarshal_fields :: "raw_message \<Rightarrow> go_error + (string \<times> json) list" where
  "Unmarshal_fields (Inl _) = Inl syntax_error"
| "Unmarshal_fields (Inr (JObject kvs)) = Inr kvs"
| "Unmarshal_fields (Inr JNull) = Inr []"
| "Unmarshal_fields (Inr d) = Inl type_error"

fun Unmarshal_map :: "raw_message \<Rightarrow> go_error + (string \<times> string) list" where
  "Unmarshal_map (Inl _) = Inl syntax_error"
| "Unmarshal_map (Inr (JObject kvs)) =
     (if list_all (is_string_or_null \<circ> snd) kvs
      then Inr (map (\<lambda>(k, v). (k, assign_string [] v)) kvs)
      else Inl type_error)"
| "Unmarshal_map (Inr JNull) = Inr []"
| "Unmarshal_map (Inr d) = Inl type_error"

text \<open>A key written twice keeps its last value.\<close>

definition map_get :: "(string \<times> string) list \<Rightarrow> string \<Rightarrow> string option" where
  "map_get m k = map_of (rev m) k"

section \<open>Round trips\<close>

lemma Unmarshal_map_Marshal_map [simp]: "Unmarshal_map (Inr (Marshal_map m)) = Inr m"
  by (auto simp: Marshal_map_def list_all_iff intro: map_idI)

lemma Unmarshal_fields_Marshal_map [simp]:
  "Unmarshal_fields (Inr (Marshal_map m)) = Inr (map (\<lambda>(k, v). (k, JString v)) m)"
  by (simp add: Marshal_map_def)

lemma fold_eq_refl [simp]: "fold_eq a a"
  by (simp add: fold_eq_def)

lemma decode_string_field_Nil [simp]: "decode_string_field name [] = Inr []"
  by (simp add: decode_string_field_def)

lemma decode_string_field_strings:
  "decode_string_field name (map (\<lambda>(k, v). (k, JString v)) m) =
     Inr (foldl (\<lambda>_ v. v) [] (map snd (filter (\<lambda>kv. fold_eq (fst kv) name) m)))"
proof -
  have "map snd (filter (\<lambda>kv. fold_eq (fst kv) name) (map (\<lambda>(k, v). (k, JString v)) m))
      = map JString (map snd (filter (\<lambda>kv. fold_eq (fst kv) name) m))"
    by (induction m) auto
  moreover have "list_all is_string_or_null (map JString vs)" for vs
    by (simp add: list_all_iff)
  moreover have "foldl assign_string a (map JString vs) = foldl (\<lambda>_ v. v) a vs" for a vs
    by (induction vs arbitrary: a) auto
  ultimately show ?thesis
    by (simp add: decode_string_field_def Let_def del: map_map)
qed

end
