(* ===== verification/Db_Enums.thy ===== *)
theory Db_Enums imports Go_Json begin

text \<open>
  The enumerations of the schema (\<open>internal/db/generated/models.go\<close> and the migrations
  that create the PostgreSQL types): one datatype per enum with its labels, the text decoding of
  \<open>Scan\<close> and \<open>Value\<close>, and the nullable wrappers. In Go an enum is a
  \<open>string\<close>; the database admits the listed labels only, which is what the label
  functions and their inverses say.
\<close>

section \<open>The enums\<close>

datatype DatasetState =
  DatasetStateINITIATED | DatasetStateUPLOADING | DatasetStateVALIDATING
| DatasetStateREGISTERING | DatasetStateREADY | DatasetStateFAILED | DatasetStateDEPRECATED

datatype FileFormat = FileFormatCsv | FileFormatParquet | FileFormatJson | FileFormatJsonl

datatype JobState =
  JobStateSUBMITTED | JobStateVALIDATING | JobStateQUEUED | JobStatePROVISIONING
| JobStateRUNNING | JobStateAGGREGATING | JobStateRETRYING | JobStateSUCCEEDED
| JobStateFAILED | JobStateCANCELLED

datatype OutboxStatus = OutboxStatusPENDING | OutboxStatusDELIVERED | OutboxStatusFAILED

datatype RunState =
  RunStateSUBMITTED | RunStatePLANNING | RunStatePROVISIONING | RunStateRUNNING
| RunStateAGGREGATING | RunStateSUCCEEDED | RunStateFAILED | RunStateCANCELLED

datatype TaskState =
  TaskStatePENDING | TaskStateLEASED | TaskStateRUNNING | TaskStateCHECKPOINTING
| TaskStateSUCCEEDED | TaskStateFAILED | TaskStateDEAD

datatype UserRole = UserRoleAdmin | UserRoleEditor | UserRoleViewer

datatype WorkspacePlan = WorkspacePlanFree | WorkspacePlanPro | WorkspacePlanEnterprise

primrec DatasetState_label :: "DatasetState \<Rightarrow> string" where
  "DatasetState_label DatasetStateINITIATED = ''INITIATED''"
| "DatasetState_label DatasetStateUPLOADING = ''UPLOADING''"
| "DatasetState_label DatasetStateVALIDATING = ''VALIDATING''"
| "DatasetState_label DatasetStateREGISTERING = ''REGISTERING''"
| "DatasetState_label DatasetStateREADY = ''READY''"
| "DatasetState_label DatasetStateFAILED = ''FAILED''"
| "DatasetState_label DatasetStateDEPRECATED = ''DEPRECATED''"

primrec FileFormat_label :: "FileFormat \<Rightarrow> string" where
  "FileFormat_label FileFormatCsv = ''csv''"
| "FileFormat_label FileFormatParquet = ''parquet''"
| "FileFormat_label FileFormatJson = ''json''"
| "FileFormat_label FileFormatJsonl = ''jsonl''"

primrec JobState_label :: "JobState \<Rightarrow> string" where
  "JobState_label JobStateSUBMITTED = ''SUBMITTED''"
| "JobState_label JobStateVALIDATING = ''VALIDATING''"
| "JobState_label JobStateQUEUED = ''QUEUED''"
| "JobState_label JobStatePROVISIONING = ''PROVISIONING''"
| "JobState_label JobStateRUNNING = ''RUNNING''"
| "JobState_label JobStateAGGREGATING = ''AGGREGATING''"
| "JobState_label JobStateRETRYING = ''RETRYING''"
| "JobState_label JobStateSUCCEEDED = ''SUCCEEDED''"
| "JobState_label JobStateFAILED = ''FAILED''"
| "JobState_label JobStateCANCELLED = ''CANCELLED''"

primrec OutboxStatus_label :: "OutboxStatus \<Rightarrow> string" where
  "OutboxStatus_label OutboxStatusPENDING = ''PENDING''"
| "OutboxStatus_label OutboxStatusDELIVERED = ''DELIVERED''"
| "OutboxStatus_label OutboxStatusFAILED = ''FAILED''"

primrec RunState_label :: "RunState \<Rightarrow> string" where
  "RunState_label RunStateSUBMITTED = ''SUBMITTED''"
| "RunState_label RunStatePLANNING = ''PLANNING''"
| "RunState_label RunStatePROVISIONING = ''PROVISIONING''"
| "RunState_label RunStateRUNNING = ''RUNNING''"
| "RunState_label RunStateAGGREGATING = ''AGGREGATING''"
| "RunState_label RunStateSUCCEEDED = ''SUCCEEDED''"
| "RunState_label RunStateFAILED = ''FAILED''"
| "RunState_label RunStateCANCELLED = ''CANCELLED''"

primrec TaskState_label :: "TaskState \<Rightarrow> string" where
  "TaskState_label TaskStatePENDING = ''PENDING''"
| "TaskState_label TaskStateLEASED = ''LEASED''"
| "TaskState_label TaskStateRUNNING = ''RUNNING''"
| "TaskState_label TaskStateCHECKPOINTING = ''CHECKPOINTING''"
| "TaskState_label TaskStateSUCCEEDED = ''SUCCEEDED''"
| "TaskState_label TaskStateFAILED = ''FAILED''"
| "TaskState_label TaskStateDEAD = ''DEAD''"

primrec UserRole_label :: "UserRole \<Rightarrow> string" where
  "UserRole_label UserRoleAdmin = ''admin''"
| "UserRole_label UserRoleEditor = ''editor''"
| "UserRole_label UserRoleViewer = ''viewer''"

primrec WorkspacePlan_label :: "WorkspacePlan \<Rightarrow> string" where
  "WorkspacePlan_label WorkspacePlanFree = ''free''"
| "WorkspacePlan_label WorkspacePlanPro = ''pro''"
| "WorkspacePlan_label WorkspacePlanEnterprise = ''enterprise''"

section \<open>Reading a label\<close>

text \<open>
  What the database does with a text for an enum column: the labels are looked up in the order of
  the type's declaration, and a text that is none of them is refused.
\<close>

definition enum_of :: "('e \<Rightarrow> string) \<Rightarrow> 'e list \<Rightarrow> string \<Rightarrow> 'e option" where
  "enum_of label vals s = find (\<lambda>e. label e = s) vals"

definition FileFormat_values :: "FileFormat list" where
  "FileFormat_values = [FileFormatCsv, FileFormatParquet, FileFormatJson, FileFormatJsonl]"

definition WorkspacePlan_values :: "WorkspacePlan list" where
  "WorkspacePlan_values = [WorkspacePlanFree, WorkspacePlanPro, WorkspacePlanEnterprise]"

definition FileFormat_of :: "string \<Rightarrow> FileFormat option" where
  "FileFormat_of = enum_of FileFormat_label FileFormat_values"

definition WorkspacePlan_of :: "string \<Rightarrow> WorkspacePlan option" where
  "WorkspacePlan_of = enum_of WorkspacePlan_label WorkspacePlan_values"

text \<open>
  The contract between an enum's labels and the reader of them: the labels are pairwise
  different and every value is listed.
\<close>

locale enum_codec =
  fixes label :: "'e \<Rightarrow> string" and vals :: "'e list"
  assumes all_vals: "e \<in> set vals"
    and distinct_labels: "distinct (map label vals)"
begin

lemma label_inj: "label a = label b \<longleftrightarrow> a = b"
  using distinct_labels all_vals by (metis distinct_map inj_onD)

lemma vals_UNIV: "set vals = UNIV"
  using all_vals by blast

lemma distinct_vals: "distinct vals"
  using distinct_labels by (simp add: distinct_map)

lemma enum_of_label: "enum_of label vals (label e) = Some e"
proof -
  have "find (\<lambda>a. label a = label e) vals = find (\<lambda>a. a = e) vals"
    by (simp add: label_inj)
  also have "\<dots> = Some e"
    using all_vals [of e] by (induction vals) auto
  finally show ?thesis by (simp add: enum_of_def)
qed

lemma enum_of_Some: "enum_of label vals s = Some e \<longleftrightarrow> label e = s"
  using enum_of_label by (auto simp: enum_of_def find_Some_iff)

lemma enum_of_None: "enum_of label vals s = None \<longleftrightarrow> (\<nexists>e. label e = s)"
  by (metis enum_of_Some not_None_eq)

end

interpretation file_format: enum_codec FileFormat_label FileFormat_values
proof
  show "e \<in> set FileFormat_values" for e
    by (cases e) (simp_all add: FileFormat_values_def)
qed (simp add: FileFormat_values_def)

interpretation workspace_plan: enum_codec WorkspacePlan_label WorkspacePlan_values
proof
  show "e \<in> set WorkspacePlan_values" for e
    by (cases e) (simp_all add: WorkspacePlan_values_def)
qed (simp add: WorkspacePlan_values_def)

lemma FileFormat_of_label [simp]: "FileFormat_of (FileFormat_label e) = Some e"
  by (simp add: FileFormat_of_def file_format.enum_of_label)

lemma WorkspacePlan_of_label [simp]: "WorkspacePlan_of (WorkspacePlan_label e) = Some e"
  by (simp add: WorkspacePlan_of_def workspace_plan.enum_of_label)

lemma FileFormat_of_Some: "FileFormat_of s = Some e \<longleftrightarrow> FileFormat_label e = s"
  by (simp add: FileFormat_of_def file_format.enum_of_Some)

lemma WorkspacePlan_of_Some: "WorkspacePlan_of s = Some e \<longleftrightarrow> WorkspacePlan_label e = s"
  by (simp add: WorkspacePlan_of_def workspace_plan.enum_of_Some)

end
