(* ===== verification/Db_Model.thy ===== *)
theory Db_Model imports Db_Enums begin

text \<open>
  The rows of the schema (\<open>internal/db/generated/models.go\<close>, with the columns of
  \<open>internal/db/migrations\<close>), the database as one list of rows per table, the context a
  statement runs in, and the integrity constraints the migrations declare. Nullable columns are
  options; \<open>INTEGER\<close> and \<open>BIGINT\<close> columns are integers with the range
  checks that PostgreSQL makes.
\<close>

section \<open>Rows\<close>

record User =
  u_id :: uuid
  u_email :: string
  u_password_hash :: string
  u_role :: UserRole
  u_created_at :: timestamp

record Workspace =
  w_id :: uuid
  w_owner_id :: uuid
  w_name :: string
  w_plan :: WorkspacePlan
  w_created_at :: timestamp

record Dataset =
  d_id :: uuid
  d_workspace_id :: uuid
  d_created_by :: uuid
  d_name :: string
  d_state :: DatasetState
  d_storage_path :: "string option"
  d_file_format :: FileFormat
  d_size_bytes :: "int option"
  d_created_at :: timestamp
  d_updated_at :: timestamp

record Job =
  j_id :: uuid
  j_workspace_id :: uuid
  j_created_by :: uuid
  j_dataset_id :: uuid
  j_state :: JobState
  j_entrypoint :: string
  j_parameters :: json
  j_compute :: json
  j_retry_count :: int
  j_max_retries :: int
  j_idempotency_key :: "string option"
  j_error_message :: "string option"
  j_created_at :: timestamp
  j_started_at :: "timestamp option"
  j_finished_at :: "timestamp option"

record Run =
  r_id :: uuid
  r_job_id :: uuid
  r_workspace_id :: uuid
  r_state :: RunState
  r_attempt_number :: int
  r_tasks_total :: int
  r_tasks_done :: int
  r_error_message :: "string option"
  r_created_at :: timestamp
  r_started_at :: "timestamp option"
  r_finished_at :: "timestamp option"
  r_tasks_pending :: int
  r_tasks_running :: int
  r_tasks_failed :: int

record Task =
  t_id :: uuid
  t_run_id :: uuid
  t_workspace_id :: uuid
  t_state :: TaskState
  t_partition_index :: int
  t_lease_owner :: "string option"
  t_lease_expires_at :: "timestamp option"
  t_retry_count :: int
  t_checkpoint_path :: "string option"
  t_error_message :: "string option"
  t_created_at :: timestamp
  t_started_at :: "timestamp option"
  t_finished_at :: "timestamp option"

record Artifact =
  a_id :: uuid
  a_run_id :: uuid
  a_workspace_id :: uuid
  a_name :: string
  a_storage_path :: string
  a_content_type :: string
  a_size_bytes :: int
  a_created_at :: timestamp
  a_expires_at :: "timestamp option"

record Outbox =
  o_id :: uuid
  o_event_type :: string
  o_aggregate_id :: uuid
  o_payload :: json
  o_status :: OutboxStatus
  o_attempts :: int
  o_created_at :: timestamp
  o_published_at :: "timestamp option"

text \<open>The row of \<open>audit_logs\<close>, which no statement of the services reads or writes.\<close>

record AuditLog =
  al_id :: uuid
  al_workspace_id :: uuid
  al_user_id :: uuid
  al_action :: string
  al_resource_type :: string
  al_resource_id :: uuid
  al_metadata :: json
  al_created_at :: timestamp

section \<open>The database and the context of a statement\<close>

text \<open>
  \<open>drawn\<close> counts the values \<open>gen_random_uuid()\<close> has given out. The
  statement context holds \<open>NOW()\<close> and the source of those values.
\<close>

record db =
  users :: "User list"
  workspaces :: "Workspace list"
  datasets :: "Dataset list"
  jobs :: "Job list"
  runs :: "Run list"
  tasks :: "Task list"
  artifacts :: "Artifact list"
  outbox :: "Outbox list"
  drawn :: nat

record pg =
  now :: timestamp
  gen :: "nat \<Rightarrow> uuid"

definition empty_db :: db where
  "empty_db = \<lparr>users = [], workspaces = [], datasets = [], jobs = [], runs = [], tasks = [],
     artifacts = [], outbox = [], drawn = 0\<rparr>"

text \<open>A query: its context, the database it runs on, its result and the database it leaves.\<close>

type_synonym 'a query = "pg \<Rightarrow> db \<Rightarrow> (go_error + 'a) \<times> db"

definition ErrNoRows :: go_error where
  "ErrNoRows = ErrorString ''no rows in result set''"

definition unique_violation :: go_error where
  "unique_violation =
     ErrorString ''ERROR: duplicate key value violates unique constraint (SQLSTATE 23505)''"

definition fk_violation :: go_error where
  "fk_violation = ErrorString ''ERROR: violates foreign key constraint (SQLSTATE 23503)''"

definition not_null_violation :: go_error where
  "not_null_violation =
     ErrorString ''ERROR: null value violates not-null constraint (SQLSTATE 23502)''"

definition out_of_range :: go_error where
  "out_of_range = ErrorString ''ERROR: integer out of range (SQLSTATE 22003)''"

definition invalid_enum :: go_error where
  "invalid_enum = ErrorString ''ERROR: invalid input value for enum (SQLSTATE 22P02)''"

lemma no_rows_text [simp]: "contains (error_text ErrNoRows) ''no rows''"
  by (simp add: ErrNoRows_def prefix_def)

section \<open>Building blocks of the statements\<close>

text \<open>
  \<open>one\<close> is how a \<open>:one\<close> query reads its rows: the first, or
  \<open>ErrNoRows\<close>. \<open>update_returning P f ok\<close> is
  \<open>UPDATE ... WHERE P RETURNING *\<close> with the assignments \<open>f\<close>; if a new row
  breaks a check \<open>ok\<close> the statement fails and changes nothing.
\<close>

definition one :: "'r list \<Rightarrow> go_error + 'r" where
  "one rows = (case rows of [] \<Rightarrow> Inl ErrNoRows | r # _ \<Rightarrow> Inr r)"

definition update_returning ::
  "('r \<Rightarrow> bool) \<Rightarrow> ('r \<Rightarrow> 'r) \<Rightarrow> ('r \<Rightarrow> bool) \<Rightarrow> 'r list \<Rightarrow> (go_error + 'r) \<times> 'r list" where
  "update_returning P f ok rows =
     (let new = map f (filter P rows)
      in if list_all ok new then (one new, upd_where P f rows) else (Inl out_of_range, rows))"

definition has_key :: "('r \<Rightarrow> uuid) \<Rightarrow> 'r list \<Rightarrow> uuid \<Rightarrow> bool" where
  "has_key key rows k \<longleftrightarrow> list_ex (\<lambda>r. key r = k) rows"

definition any_row :: "'r \<Rightarrow> bool" where
  "any_row r = True"

text \<open>Drawing the default of an \<open>id\<close> column.\<close>

definition draw :: "pg \<Rightarrow> db \<Rightarrow> uuid \<times> db" where
  "draw p d = (gen p (drawn d), d\<lparr>drawn := Suc (drawn d)\<rparr>)"

lemma one_simps [simp]: "one [] = Inl ErrNoRows" "one (r # rs) = Inr r"
  by (simp_all add: one_def)

lemma one_Inr: "one rows = Inr r \<longleftrightarrow> (\<exists>rest. rows = r # rest)"
  by (cases rows) auto

lemma one_Inl: "one rows = Inl e \<longleftrightarrow> rows = [] \<and> e = ErrNoRows"
  by (cases rows) auto

lemma has_key_iff: "has_key key rows k \<longleftrightarrow> k \<in> key ` set rows"
  by (auto simp: has_key_def list_ex_iff)

lemma has_key_append [simp]: "has_key key (xs @ ys) k \<longleftrightarrow> has_key key xs k \<or> has_key key ys k"
  by (simp add: has_key_def)

lemma has_key_Nil [simp]: "\<not> has_key key [] k"
  by (simp add: has_key_def)

lemma has_key_Cons [simp]: "has_key key (r # rs) k \<longleftrightarrow> key r = k \<or> has_key key rs k"
  by (simp add: has_key_def)

lemma has_key_upd_where [simp]:
  "(\<And>r. key (f r) = key r) \<Longrightarrow> has_key key (upd_where P f rows) k \<longleftrightarrow> has_key key rows k"
  by (induction rows) auto

lemma any_row_simp [simp]: "any_row r" "list_all any_row rows"
  by (simp_all add: any_row_def list_all_iff)

lemma update_returning_any:
  "update_returning P f any_row rows = (one (map f (filter P rows)), upd_where P f rows)"
  by (simp add: update_returning_def)

lemma update_returning_rows:
  "snd (update_returning P f ok rows) = rows
   \<or> snd (update_returning P f ok rows) = upd_where P f rows
     \<and> list_all ok (map f (filter P rows))"
  by (simp add: update_returning_def Let_def)

section \<open>Integrity\<close>

text \<open>
  The constraints of the migrations: primary keys, the two \<open>UNIQUE\<close> columns, the foreign
  keys and the ranges of the \<open>INTEGER\<close> columns that the statements write.
\<close>

definition keys_distinct :: "db \<Rightarrow> bool" where
  "keys_distinct d \<longleftrightarrow>
     distinct (map u_id (users d)) \<and> distinct (map w_id (workspaces d)) \<and>
     distinct (map d_id (datasets d)) \<and> distinct (map j_id (jobs d)) \<and>
     distinct (map r_id (runs d)) \<and> distinct (map t_id (tasks d)) \<and>
     distinct (map a_id (artifacts d)) \<and> distinct (map o_id (outbox d))"

definition unique_columns :: "db \<Rightarrow> bool" where
  "unique_columns d \<longleftrightarrow>
     distinct (map u_email (users d)) \<and>
     distinct (map j_idempotency_key (filter (\<lambda>j. j_idempotency_key j \<noteq> None) (jobs d)))"

definition refs_ok :: "db \<Rightarrow> bool" where
  "refs_ok d \<longleftrightarrow>
     list_all (\<lambda>w. has_key u_id (users d) (w_owner_id w)) (workspaces d) \<and>
     list_all (\<lambda>x. has_key w_id (workspaces d) (d_workspace_id x)
                 \<and> has_key u_id (users d) (d_created_by x)) (datasets d) \<and>
     list_all (\<lambda>j. has_key w_id (workspaces d) (j_workspace_id j)
                 \<and> has_key u_id (users d) (j_created_by j)
                 \<and> has_key d_id (datasets d) (j_dataset_id j)) (jobs d) \<and>
     list_all (\<lambda>r. has_key j_id (jobs d) (r_job_id r)
                 \<and> has_key w_id (workspaces d) (r_workspace_id r)) (runs d) \<and>
     list_all (\<lambda>t. has_key r_id (runs d) (t_run_id t)
                 \<and> has_key w_id (workspaces d) (t_workspace_id t)) (tasks d) \<and>
     list_all (\<lambda>a. has_key r_id (runs d) (a_run_id a)
                 \<and> has_key w_id (workspaces d) (a_workspace_id a)) (artifacts d)"

definition integrity :: "db \<Rightarrow> bool" where
  "integrity d \<longleftrightarrow> keys_distinct d \<and> unique_columns d \<and> refs_ok d"

lemma integrity_empty: "integrity empty_db"
  by (simp add: integrity_def keys_distinct_def unique_columns_def refs_ok_def empty_db_def)

lemmas integrity_defs = integrity_def keys_distinct_def unique_columns_def refs_ok_def

text \<open>
  A row updated in a way that keeps its key, its references and its unique columns: what every
  \<open>UPDATE\<close> of the services does.
\<close>

lemma list_all_upd_where:
  "list_all Q rows \<Longrightarrow> (\<And>r. Q r \<Longrightarrow> Q (f r)) \<Longrightarrow> list_all Q (upd_where P f rows)"
  by (induction rows) auto

lemma list_all_del_where: "list_all Q rows \<Longrightarrow> list_all Q (del_where P rows)"
  by (induction rows) (auto simp: del_where_def)

lemma list_all_impD: "list_all Q rows \<Longrightarrow> r \<in> set rows \<Longrightarrow> Q r"
  by (simp add: list_all_iff)

lemma distinct_snoc_key:
  "distinct (map key rows) \<Longrightarrow> \<not> has_key key rows (key r) \<Longrightarrow> distinct (map key (rows @ [r]))"
  by (simp add: has_key_iff)

lemma unique_row:
  "distinct (map key rows) \<Longrightarrow> r \<in> set rows \<Longrightarrow> q \<in> set rows \<Longrightarrow> key r = key q \<Longrightarrow> r = q"
  by (metis distinct_map inj_onD)

lemma filter_key_unique:
  "distinct (map key rows) \<Longrightarrow> r \<in> set rows \<Longrightarrow> filter (\<lambda>q. key q = key r) rows = [r]"
proof (induction rows)
  case (Cons a rows)
  then have "x \<in> set rows \<Longrightarrow> key x \<noteq> key a" for x
    by (metis distinct.simps(2) image_eqI list.simps(9) set_map)
  with Cons show ?case by (auto simp: filter_empty_conv)
qed simp

lemma filter_key_cases:
  assumes "distinct (map key rows)"
  obtains "filter (\<lambda>q. key q = k) rows = []" "\<not> has_key key rows k"
  | r where "r \<in> set rows" "key r = k" "filter (\<lambda>q. key q = k) rows = [r]"
proof (cases "has_key key rows k")
  case False
  then have "filter (\<lambda>q. key q = k) rows = []"
    by (auto simp: has_key_iff filter_empty_conv)
  with False that(1) show ?thesis by blast
next
  case True
  then obtain r where "r \<in> set rows" "key r = k" by (auto simp: has_key_iff)
  with assms that(2) show ?thesis by (metis filter_key_unique)
qed

text \<open>The join of a referring row with the row it refers to.\<close>

lemma join_row:
  assumes "distinct (map pk ps)" and "a \<in> set ps" and "distinct (map ck cs)" and "c \<in> set cs"
    and "ref c = pk a"
  shows "concat (map (\<lambda>a. map (\<lambda>_. a) (filter (\<lambda>q. ref q = pk a \<and> ck q = ck c) cs)) ps) = [a]"
proof -
  have "filter (\<lambda>q. ref q = k \<and> ck q = ck c) cs = filter (\<lambda>q. ref q = k) (filter (\<lambda>q. ck q = ck c) cs)" for k
    by (simp add: conj_commute)
  then have "filter (\<lambda>q. ref q = k \<and> ck q = ck c) cs = (if k = pk a then [c] else [])" for k
    using filter_key_unique [OF assms(3,4)] assms(5) by simp
  then have "concat (map (\<lambda>a. map (\<lambda>_. a) (filter (\<lambda>q. ref q = pk a \<and> ck q = ck c) cs)) ps)
      = concat (map (\<lambda>b. if pk b = pk a then [b] else []) ps)"
    by (intro arg_cong [of _ _ concat] map_cong) auto
  then show ?thesis
    using filter_key_unique [OF assms(1,2)] by (simp add: concat_map_if)
qed

end
