(* ===== verification/Samples.thy ===== *)
theory Samples imports Db_Model begin

text \<open>
  A small database for the concrete instances of the theorems: one user with one workspace, a
  dataset, a queued job with one run of three tasks (one leased, two pending), and the outbox event
  of its submission.
\<close>

definition sample_user :: User where
  "sample_user = \<lparr>u_id = 1, u_email = ''ada@example.org'', u_password_hash = ''hash'',
     u_role = UserRoleViewer, u_created_at = 0\<rparr>"

definition sample_workspace :: Workspace where
  "sample_workspace = \<lparr>w_id = 2, w_owner_id = 1, w_name = ''lab'', w_plan = WorkspacePlanFree,
     w_created_at = 0\<rparr>"

definition sample_dataset :: Dataset where
  "sample_dataset = \<lparr>d_id = 3, d_workspace_id = 2, d_created_by = 1, d_name = ''sales'',
     d_state = DatasetStateREADY, d_storage_path = Some ''2/3/sales.csv'',
     d_file_format = FileFormatCsv, d_size_bytes = Some 12, d_created_at = 0, d_updated_at = 0\<rparr>"

definition sample_job :: Job where
  "sample_job = \<lparr>j_id = 4, j_workspace_id = 2, j_created_by = 1, j_dataset_id = 3,
     j_state = JobStateQUEUED, j_entrypoint = ''transform'', j_parameters = JObject [],
     j_compute = JObject [], j_retry_count = 0, j_max_retries = 2,
     j_idempotency_key = Some ''k1'', j_error_message = None, j_created_at = 0,
     j_started_at = None, j_finished_at = None\<rparr>"

definition sample_run :: Run where
  "sample_run = \<lparr>r_id = 5, r_job_id = 4, r_workspace_id = 2, r_state = RunStateSUBMITTED,
     r_attempt_number = 1, r_tasks_total = 3, r_tasks_done = 0, r_error_message = None,
     r_created_at = 1, r_started_at = Some 2, r_finished_at = None, r_tasks_pending = 2,
     r_tasks_running = 1, r_tasks_failed = 0\<rparr>"

definition sample_task :: "uuid \<Rightarrow> int \<Rightarrow> timestamp \<Rightarrow> Task" where
  "sample_task i k t = \<lparr>t_id = i, t_run_id = 5, t_workspace_id = 2, t_state = TaskStatePENDING,
     t_partition_index = k, t_lease_owner = None, t_lease_expires_at = None, t_retry_count = 0,
     t_checkpoint_path = None, t_error_message = None, t_created_at = t, t_started_at = None,
     t_finished_at = None\<rparr>"

definition sample_leased :: Task where
  "sample_leased = (sample_task 6 0 1)\<lparr>t_state := TaskStateLEASED, t_lease_owner := Some ''w1'',
     t_lease_expires_at := Some 30000002\<rparr>"

definition sample_event :: Outbox where
  "sample_event = \<lparr>o_id = 9, o_event_type = ''job.submitted'', o_aggregate_id = 4,
     o_payload = JObject [], o_status = OutboxStatusPENDING, o_attempts = 0, o_created_at = 0,
     o_published_at = None\<rparr>"

definition sample_db :: db where
  "sample_db = \<lparr>users = [sample_user], workspaces = [sample_workspace],
     datasets = [sample_dataset], jobs = [sample_job], runs = [sample_run],
     tasks = [sample_leased, sample_task 7 1 2, sample_task 8 2 1], artifacts = [],
     outbox = [sample_event], drawn = 0\<rparr>"

definition sample_pg :: pg where
  "sample_pg = \<lparr>now = 10, gen = (\<lambda>n. if n < 1000 then word_of_nat (100 + n) else 0)\<rparr>"

lemmas sample_rows = sample_user_def sample_workspace_def sample_dataset_def sample_job_def
  sample_run_def sample_task_def sample_leased_def sample_event_def

lemma sample_pg_eta: "\<lparr>now = 10, gen = gen sample_pg\<rparr> = sample_pg"
  by (simp add: sample_pg_def)

lemma sample_gen: "gen sample_pg n = (if n < 1000 then word_of_nat (100 + n) else 0)"
  by (simp add: sample_pg_def)

lemma sample_gen_unat: "unat (gen sample_pg n) = (if n < 1000 then 100 + n else 0)"
  by (simp del: of_nat_add add: sample_gen unsigned_of_nat take_bit_nat_eq_self)

lemma sample_now [simp]: "now sample_pg = 10"
  by (simp add: sample_pg_def)

lemma sample_integrity [simp]: "integrity sample_db"
  by (simp add: integrity_defs sample_db_def sample_rows)

end
