(* ===== verification/Db_Tasks.thy ===== *)
theory Db_Tasks imports Samples begin

text \<open>
  The statements on \<open>tasks\<close> (\<open>internal/db/generated/tasks.sql.go\<close>): the
  queue the workers lease from. A statement that returns no row reports \<open>ErrNoRows\<close>;
  an \<open>:exec\<close> statement that matches no row succeeds.
\<close>

section \<open>Statements\<close>

definition cleanupDeadTasks :: "unit query" where
  "cleanupDeadTasks p d =
     (Inr (), d\<lparr>tasks := del_where
        (\<lambda>t. (t_state t = TaskStateDEAD \<or> t_state t = TaskStateFAILED)
             \<and> t_created_at t < now p - days 7) (tasks d)\<rparr>)"

definition createTask :: "uuid \<Rightarrow> uuid \<Rightarrow> int \<Rightarrow> Task query" where
  "createTask run_id workspace_id partition_index p d =
     (let (i, d1) = draw p d;
          t = \<lparr>t_id = i, t_run_id = run_id, t_workspace_id = workspace_id,
               t_state = TaskStatePENDING, t_partition_index = partition_index,
               t_lease_owner = None, t_lease_expires_at = None, t_retry_count = 0,
               t_checkpoint_path = None, t_error_message = None, t_created_at = now p,
               t_started_at = None, t_finished_at = None\<rparr>
      in if has_key t_id (tasks d) i then (Inl unique_violation, d1)
         else if \<not> has_key r_id (runs d) run_id \<or> \<not> has_key w_id (workspaces d) workspace_id
         then (Inl fk_violation, d1)
         else (Inr t, d1\<lparr>tasks := tasks d @ [t]\<rparr>))"

definition failTaskWithError :: "uuid \<Rightarrow> string option \<Rightarrow> Task query" where
  "failTaskWithError i msg p d =
     (let (r, ts) = update_returning (\<lambda>t. t_id t = i)
            (\<lambda>t. t\<lparr>t_state := TaskStateFAILED, t_error_message := msg,
                   t_finished_at := Some (now p)\<rparr>) any_row (tasks d)
      in (r, d\<lparr>tasks := ts\<rparr>))"

definition getPendingTaskCount :: "int query" where
  "getPendingTaskCount p d =
     (Inr (int (length (filter (\<lambda>t. t_state t = TaskStatePENDING) (tasks d)))), d)"

definition getRunTaskCount :: "uuid \<Rightarrow> int query" where
  "getRunTaskCount run_id p d =
     (Inr (int (length (filter (\<lambda>t. t_run_id t = run_id) (tasks d)))), d)"

definition getRunningTaskCount :: "int query" where
  "getRunningTaskCount p d =
     (Inr (int (length (filter (\<lambda>t. t_state t = TaskStateLEASED) (tasks d)))), d)"

definition heartbeatTask :: "uuid \<Rightarrow> string option \<Rightarrow> Task query" where
  "heartbeatTask i owner p d =
     (let (r, ts) = update_returning
            (\<lambda>t. t_id t = i \<and> owner \<noteq> None \<and> t_lease_owner t = owner)
            (\<lambda>t. t\<lparr>t_lease_expires_at := Some (now p + seconds 30)\<rparr>) any_row (tasks d)
      in (r, d\<lparr>tasks := ts\<rparr>))"

definition leasable :: "pg \<Rightarrow> Task \<Rightarrow> bool" where
  "leasable p t \<longleftrightarrow>
     t_state t = TaskStatePENDING \<and>
     (case t_lease_expires_at t of None \<Rightarrow> True | Some e \<Rightarrow> e < now p)"

definition lease_row :: "pg \<Rightarrow> string option \<Rightarrow> Task \<Rightarrow> Task" where
  "lease_row p owner t =
     t\<lparr>t_state := TaskStateLEASED, t_lease_owner := owner,
       t_lease_expires_at := Some (now p + seconds 30)\<rparr>"

definition leaseTask :: "string option \<Rightarrow> Task query" where
  "leaseTask owner p d =
     (case order_asc t_created_at (filter (leasable p) (tasks d)) of
        [] \<Rightarrow> (Inl ErrNoRows, d)
      | c # _ \<Rightarrow>
          (let (r, ts) = update_returning (\<lambda>t. t_id t = t_id c) (lease_row p owner) any_row (tasks d)
           in (r, d\<lparr>tasks := ts\<rparr>)))"

definition listTasksByRun :: "uuid \<Rightarrow> Task list query" where
  "listTasksByRun run_id p d =
     (Inr (order_asc t_partition_index (filter (\<lambda>t. t_run_id t = run_id) (tasks d))), d)"

definition retry_row :: "string option \<Rightarrow> Task \<Rightarrow> Task" where
  "retry_row msg t =
     t\<lparr>t_state := TaskStatePENDING, t_retry_count := t_retry_count t + 1,
       t_lease_owner := None, t_lease_expires_at := None, t_error_message := msg\<rparr>"

definition retryTask :: "uuid \<Rightarrow> string option \<Rightarrow> Task query" where
  "retryTask i msg p d =
     (let (r, ts) = update_returning (\<lambda>t. t_id t = i) (retry_row msg)
            (\<lambda>t. int4 (t_retry_count t)) (tasks d)
      in (r, d\<lparr>tasks := ts\<rparr>))"

definition updateTaskState :: "uuid \<Rightarrow> TaskState \<Rightarrow> Task query" where
  "updateTaskState i st p d =
     (let (r, ts) = update_returning (\<lambda>t. t_id t = i) (\<lambda>t. t\<lparr>t_state := st\<rparr>) any_row (tasks d)
      in (r, d\<lparr>tasks := ts\<rparr>))"

section \<open>Leasing\<close>

lemma lease_row_simps [simp]:
  "t_id (lease_row p owner t) = t_id t" "t_run_id (lease_row p owner t) = t_run_id t"
  "t_workspace_id (lease_row p owner t) = t_workspace_id t"
  "t_state (lease_row p owner t) = TaskStateLEASED"
  "t_retry_count (lease_row p owner t) = t_retry_count t"
  "t_partition_index (lease_row p owner t) = t_partition_index t"
  "t_lease_owner (lease_row p owner t) = owner"
  "t_lease_expires_at (lease_row p owner t) = Some (now p + seconds 30)"
  "t_created_at (lease_row p owner t) = t_created_at t"
  by (simp_all add: lease_row_def)

lemma retry_row_simps [simp]:
  "t_id (retry_row msg t) = t_id t" "t_run_id (retry_row msg t) = t_run_id t"
  "t_workspace_id (retry_row msg t) = t_workspace_id t"
  "t_state (retry_row msg t) = TaskStatePENDING"
  "t_retry_count (retry_row msg t) = t_retry_count t + 1"
  "t_lease_owner (retry_row msg t) = None" "t_lease_expires_at (retry_row msg t) = None"
  by (simp_all add: retry_row_def)

lemma leaseTask_none:
  "filter (leasable p) (tasks d) = [] \<Longrightarrow> leaseTask owner p d = (Inl ErrNoRows, d)"
  by (simp add: leaseTask_def)

lemma leaseTask_some:
  assumes "order_asc t_created_at (filter (leasable p) (tasks d)) = c # rest"
    and "distinct (map t_id (tasks d))"
  shows "leaseTask owner p d =
    (Inr (lease_row p owner c),
     d\<lparr>tasks := upd_where (\<lambda>t. t_id t = t_id c) (lease_row p owner) (tasks d)\<rparr>)"
proof -
  have "c \<in> set (tasks d)"
    using order_asc_head [OF assms(1)] by simp
  then have "filter (\<lambda>t. t_id t = t_id c) (tasks d) = [c]"
    using filter_key_unique [OF assms(2)] by simp
  then show ?thesis
    by (simp add: leaseTask_def assms(1) update_returning_any)
qed

lemma leaseTask_cases:
  assumes "distinct (map t_id (tasks d))"
  obtains "leaseTask owner p d = (Inl ErrNoRows, d)" "\<And>t. t \<in> set (tasks d) \<Longrightarrow> \<not> leasable p t"
  | c where "c \<in> set (tasks d)" "leasable p c"
      "\<And>t. t \<in> set (tasks d) \<Longrightarrow> leasable p t \<Longrightarrow> t_created_at c \<le> t_created_at t"
      "leaseTask owner p d =
         (Inr (lease_row p owner c),
          d\<lparr>tasks := upd_where (\<lambda>t. t_id t = t_id c) (lease_row p owner) (tasks d)\<rparr>)"
proof (cases "order_asc t_created_at (filter (leasable p) (tasks d))")
  case Nil
  then have "filter (leasable p) (tasks d) = []" by simp
  with that(1) leaseTask_none show ?thesis by (metis filter_empty_conv)
next
  case (Cons c rest)
  with order_asc_head [OF this] leaseTask_some [OF Cons assms] that(2) show ?thesis by auto
qed

lemma sample_leaseTask:
  "fst (leaseTask (Some ''w2'') sample_pg sample_db)
     = Inr (lease_row sample_pg (Some ''w2'') (sample_task 8 2 1))"
  by (simp add: leaseTask_def leasable_def sample_db_def sample_leased_def sample_task_def
      order_asc_def update_returning_any)

text \<open>
  C18: when \<open>LeaseTask\<close> returns a task, that task was pending with no live lease, no
  leasable task was created before it, the returned row is leased to the caller until 30 seconds
  from now, and the statement changed that one row and nothing else.
\<close>
theorem lease_takes_oldest_leasable:
  assumes "integrity d" and "leaseTask owner p d = (Inr t', d')"
  shows "\<exists>t. t \<in> set (tasks d) \<and> leasable p t
    \<and> list_all (\<lambda>q. leasable p q \<longrightarrow> t_created_at t \<le> t_created_at q) (tasks d)
    \<and> t' = t\<lparr>t_state := TaskStateLEASED, t_lease_owner := owner,
            t_lease_expires_at := Some (now p + seconds 30)\<rparr>
    \<and> d' = d\<lparr>tasks := map (\<lambda>q. if q = t then t' else q) (tasks d)\<rparr>"
proof -
  have ids: "distinct (map t_id (tasks d))"
    using assms(1) by (simp add: integrity_defs)
  show ?thesis
  proof (cases rule: leaseTask_cases [OF ids, of owner p])
    case 1
    with assms(2) show ?thesis by simp
  next
    case (2 c)
    have "upd_where (\<lambda>t. t_id t = t_id c) (lease_row p owner) (tasks d)
        = map (\<lambda>q. if q = c then lease_row p owner c else q) (tasks d)"
      using unique_row [OF ids _ 2(1)] by (auto simp: upd_where_def)
    then show ?thesis
      using 2 assms(2) by (intro exI [of _ c]) (auto simp: list_all_iff lease_row_def)
  qed
qed

theorem lease_takes_oldest_leasable_witness:
  "\<exists>t. t \<in> set (tasks sample_db) \<and> leasable sample_pg t
    \<and> list_all (\<lambda>q. leasable sample_pg q \<longrightarrow> t_created_at t \<le> t_created_at q) (tasks sample_db)
    \<and> lease_row sample_pg (Some ''w2'') (sample_task 8 2 1) =
        t\<lparr>t_state := TaskStateLEASED, t_lease_owner := Some ''w2'',
          t_lease_expires_at := Some (now sample_pg + seconds 30)\<rparr>
    \<and> snd (leaseTask (Some ''w2'') sample_pg sample_db) = sample_db\<lparr>tasks :=
        map (\<lambda>q. if q = t then lease_row sample_pg (Some ''w2'') (sample_task 8 2 1) else q)
          (tasks sample_db)\<rparr>"
  using lease_takes_oldest_leasable [OF sample_integrity, of "Some ''w2''" sample_pg
      "lease_row sample_pg (Some ''w2'') (sample_task 8 2 1)"
      "snd (leaseTask (Some ''w2'') sample_pg sample_db)"]
  by (simp add: sample_leaseTask prod_eq_iff)

text \<open>
  \<open>LeaseTask\<close> reports that there is no task exactly when no task is leasable, and
  then it changes nothing.
\<close>
theorem lease_none_iff_nothing_leasable:
  assumes "integrity d"
  shows "(fst (leaseTask owner p d) = Inl ErrNoRows \<longleftrightarrow> list_ex (leasable p) (tasks d) = False)
    \<and> (fst (leaseTask owner p d) = Inl ErrNoRows \<longrightarrow> snd (leaseTask owner p d) = d)"
proof -
  have "distinct (map t_id (tasks d))"
    using assms by (simp add: integrity_defs)
  then show ?thesis
    by (cases rule: leaseTask_cases [of d owner p]) (auto simp: list_ex_iff)
qed

theorem lease_none_iff_nothing_leasable_witness:
  "fst (leaseTask (Some ''w2'') sample_pg sample_db) \<noteq> Inl ErrNoRows
   \<and> leaseTask (Some ''w2'') sample_pg (sample_db\<lparr>tasks := [sample_leased]\<rparr>)
       = (Inl ErrNoRows, sample_db\<lparr>tasks := [sample_leased]\<rparr>)"
proof -
  have "integrity (sample_db\<lparr>tasks := [sample_leased]\<rparr>)"
    by (simp add: integrity_defs sample_db_def sample_rows)
  from lease_none_iff_nothing_leasable [OF this, of "Some ''w2''" sample_pg]
    lease_none_iff_nothing_leasable [OF sample_integrity, of "Some ''w2''" sample_pg]
  show ?thesis
    by (auto simp: prod_eq_iff leasable_def sample_db_def sample_leased_def sample_task_def)
qed

end
