(* ===== verification/Db_Runs.thy ===== *)
theory Db_Runs imports Db_Tasks begin

text \<open>
  The statements on \<open>runs\<close> (\<open>internal/db/generated/runs.sql.go\<close>): the run a
  job is executed by and its progress counters. The counters are \<open>INTEGER\<close> columns, so
  a statement that would leave their range fails.
\<close>

section \<open>Statements\<close>

definition completeRun :: "uuid \<Rightarrow> RunState \<Rightarrow> Run query" where
  "completeRun i st p d =
     (let (r, rs) = update_returning (\<lambda>r. r_id r = i)
            (\<lambda>r. r\<lparr>r_state := st, r_finished_at := Some (now p)\<rparr>) any_row (runs d)
      in (r, d\<lparr>runs := rs\<rparr>))"

definition createRun :: "uuid \<Rightarrow> uuid \<Rightarrow> Run query" where
  "createRun job_id workspace_id p d =
     (let (i, d1) = draw p d;
          r = \<lparr>r_id = i, r_job_id = job_id, r_workspace_id = workspace_id,
               r_state = RunStateSUBMITTED, r_attempt_number = 1, r_tasks_total = 0,
               r_tasks_done = 0, r_error_message = None, r_created_at = now p,
               r_started_at = None, r_finished_at = None, r_tasks_pending = 0,
               r_tasks_running = 0, r_tasks_failed = 0\<rparr>
      in if has_key r_id (runs d) i then (Inl unique_violation, d1)
         else if \<not> has_key j_id (jobs d) job_id \<or> \<not> has_key w_id (workspaces d) workspace_id
         then (Inl fk_violation, d1)
         else (Inr r, d1\<lparr>runs := runs d @ [r]\<rparr>))"

definition getRunByID :: "uuid \<Rightarrow> uuid \<Rightarrow> Run query" where
  "getRunByID i workspace_id p d =
     (one (filter (\<lambda>r. r_id r = i \<and> r_workspace_id r = workspace_id) (runs d)), d)"

text \<open>
  \<open>ROUND\<close> of a \<open>numeric\<close> rounds half away from zero. The quotient has at
  least 16 significant digits and a numerator and denominator below \<open>2 ^ 31\<close>, so rounding
  the rounded quotient is rounding the exact one.
\<close>

definition round_percent :: "int \<Rightarrow> int \<Rightarrow> int" where
  "round_percent x n =
     sgn x * sgn n * ((200 * \<bar>x\<bar> + \<bar>n\<bar>) div (2 * \<bar>n\<bar>))"

definition percent_complete :: "Run \<Rightarrow> int" where
  "percent_complete r =
     (if r_tasks_total r = 0 then 0 else round_percent (r_tasks_done r) (r_tasks_total r))"

record GetRunProgressRow =
  pr_id :: uuid
  pr_job_id :: uuid
  pr_state :: RunState
  pr_tasks_total :: int
  pr_tasks_pending :: int
  pr_tasks_running :: int
  pr_tasks_done :: int
  pr_tasks_failed :: int
  pr_percent_complete :: int
  pr_started_at :: "timestamp option"
  pr_finished_at :: "timestamp option"

definition progress_row :: "Run \<Rightarrow> GetRunProgressRow" where
  "progress_row r =
     \<lparr>pr_id = r_id r, pr_job_id = r_job_id r, pr_state = r_state r,
      pr_tasks_total = r_tasks_total r, pr_tasks_pending = r_tasks_pending r,
      pr_tasks_running = r_tasks_running r, pr_tasks_done = r_tasks_done r,
      pr_tasks_failed = r_tasks_failed r, pr_percent_complete = percent_complete r,
      pr_started_at = r_started_at r, pr_finished_at = r_finished_at r\<rparr>"

definition getRunProgress :: "uuid \<Rightarrow> GetRunProgressRow query" where
  "getRunProgress i p d = (one (map progress_row (filter (\<lambda>r. r_id r = i) (runs d))), d)"

definition getRunState :: "uuid \<Rightarrow> RunState query" where
  "getRunState i p d = (one (map r_state (filter (\<lambda>r. r_id r = i) (runs d))), d)"

definition initRunProgress :: "uuid \<Rightarrow> Run query" where
  "initRunProgress i p d =
     (let (r, rs) = update_returning (\<lambda>r. r_id r = i)
            (\<lambda>r. r\<lparr>r_tasks_pending := r_tasks_total r\<rparr>) any_row (runs d)
      in (r, d\<lparr>runs := rs\<rparr>))"

definition listRunsByJob :: "uuid \<Rightarrow> Run list query" where
  "listRunsByJob job_id p d =
     (Inr (order_desc r_created_at (filter (\<lambda>r. r_job_id r = job_id) (runs d))), d)"

definition counters_in_range :: "Run \<Rightarrow> bool" where
  "counters_in_range r \<longleftrightarrow>
     int4 (r_tasks_pending r) \<and> int4 (r_tasks_running r) \<and> int4 (r_tasks_done r)
     \<and> int4 (r_tasks_failed r)"

definition failed_row :: "Run \<Rightarrow> Run" where
  "failed_row r =
     r\<lparr>r_tasks_running := r_tasks_running r - 1, r_tasks_failed := r_tasks_failed r + 1\<rparr>"

definition taskFailed :: "uuid \<Rightarrow> Run query" where
  "taskFailed i p d =
     (let (r, rs) = update_returning (\<lambda>r. r_id r = i) failed_row counters_in_range (runs d)
      in (r, d\<lparr>runs := rs\<rparr>))"

definition started_row :: "pg \<Rightarrow> Run \<Rightarrow> Run" where
  "started_row p r =
     r\<lparr>r_tasks_pending := r_tasks_pending r - 1, r_tasks_running := r_tasks_running r + 1,
       r_started_at := (if r_started_at r = None then Some (now p) else r_started_at r)\<rparr>"

definition taskStarted :: "uuid \<Rightarrow> Run query" where
  "taskStarted i p d =
     (let (r, rs) = update_returning (\<lambda>r. r_id r = i) (started_row p) counters_in_range (runs d)
      in (r, d\<lparr>runs := rs\<rparr>))"

definition succeeded_row :: "Run \<Rightarrow> Run" where
  "succeeded_row r =
     r\<lparr>r_tasks_running := r_tasks_running r - 1, r_tasks_done := r_tasks_done r + 1\<rparr>"

definition taskSucceeded :: "uuid \<Rightarrow> Run query" where
  "taskSucceeded i p d =
     (let (r, rs) = update_returning (\<lambda>r. r_id r = i) succeeded_row counters_in_range (runs d)
      in (r, d\<lparr>runs := rs\<rparr>))"

definition updateRunState :: "uuid \<Rightarrow> RunState \<Rightarrow> Run query" where
  "updateRunState i st p d =
     (let (r, rs) = update_returning (\<lambda>r. r_id r = i) (\<lambda>r. r\<lparr>r_state := st\<rparr>) any_row (runs d)
      in (r, d\<lparr>runs := rs\<rparr>))"

definition updateRunTasksTotal :: "uuid \<Rightarrow> int \<Rightarrow> Run query" where
  "updateRunTasksTotal i n p d =
     (let (r, rs) = update_returning (\<lambda>r. r_id r = i) (\<lambda>r. r\<lparr>r_tasks_total := n\<rparr>) any_row
            (runs d)
      in (r, d\<lparr>runs := rs\<rparr>))"

section \<open>Progress\<close>

lemma counter_row_simps [simp]:
  "r_id (failed_row r) = r_id r" "r_job_id (failed_row r) = r_job_id r"
  "r_workspace_id (failed_row r) = r_workspace_id r" "r_state (failed_row r) = r_state r"
  "r_tasks_total (failed_row r) = r_tasks_total r"
  "r_id (started_row p r) = r_id r" "r_job_id (started_row p r) = r_job_id r"
  "r_workspace_id (started_row p r) = r_workspace_id r" "r_state (started_row p r) = r_state r"
  "r_tasks_total (started_row p r) = r_tasks_total r"
  "r_id (succeeded_row r) = r_id r" "r_job_id (succeeded_row r) = r_job_id r"
  "r_workspace_id (succeeded_row r) = r_workspace_id r" "r_state (succeeded_row r) = r_state r"
  "r_tasks_total (succeeded_row r) = r_tasks_total r"
  by (simp_all add: failed_row_def started_row_def succeeded_row_def)

text \<open>
  C40: for a run whose done counter is between zero and its total, the reported percentage is
  between 0 and 100 and is the integer nearest to the exact ratio (it is never more than half a
  percent away), and no task done is 0 percent while all tasks done is 100 percent.
\<close>
theorem percent_is_nearest:
  assumes "0 \<le> r_tasks_done r" and "r_tasks_done r \<le> r_tasks_total r" and "0 < r_tasks_total r"
  shows "0 \<le> percent_complete r \<and> percent_complete r \<le> 100
    \<and> 2 * \<bar>percent_complete r * r_tasks_total r - 100 * r_tasks_done r\<bar> \<le> r_tasks_total r
    \<and> (r_tasks_done r = 0 \<longrightarrow> percent_complete r = 0)
    \<and> (r_tasks_done r = r_tasks_total r \<longrightarrow> percent_complete r = 100)"
proof -
  define x t q where "x = r_tasks_done r" and "t = r_tasks_total r"
    and "q = (200 * x + t) div (2 * t)"
  have x: "0 \<le> x" "x \<le> t" and t: "0 < t"
    using assms by (simp_all add: x_def t_def)
  have small: "(t::int) div (2 * t) = 0"
    using t by (simp add: div_pos_pos_trivial)
  have pc: "percent_complete r = q"
    using x t small
    by (cases "x = 0") (auto simp: percent_complete_def round_percent_def q_def x_def t_def)
  have mod: "2 * t * q + (200 * x + t) mod (2 * t) = 200 * x + t"
    by (simp add: q_def)
  have rem: "0 \<le> (200 * x + t) mod (2 * t)" "(200 * x + t) mod (2 * t) < 2 * t"
    using t by simp_all
  have near: "- t \<le> 2 * (q * t) - 200 * x" "2 * (q * t) - 200 * x \<le> t"
    using mod rem by (simp_all add: algebra_simps)
  have full: "(201 * t) div (2 * t) = 100"
    using t by (simp add: div_mult_mult2 [of t 201 2, simplified])
  have "0 \<le> q"
    using x t by (simp add: q_def pos_imp_zdiv_nonneg_iff)
  moreover have "q \<le> 100"
    using zdiv_mono1 [of "200 * x + t" "201 * t" "2 * t"] x t full by (simp add: q_def)
  moreover have "x = 0 \<longrightarrow> q = 0"
    using small by (simp add: q_def)
  moreover have "x = t \<longrightarrow> q = 100"
    using full by (simp add: q_def)
  moreover have "2 * \<bar>q * t - 100 * x\<bar> \<le> t"
    using near by (simp add: abs_if)
  ultimately show ?thesis
    by (simp add: pc x_def [symmetric] t_def [symmetric])
qed

theorem percent_is_nearest_witness:
  "percent_complete (sample_run\<lparr>r_tasks_done := 2\<rparr>) = 67
   \<and> percent_complete (sample_run\<lparr>r_tasks_done := 3\<rparr>) = 100"
proof -
  have "percent_complete (sample_run\<lparr>r_tasks_done := 2\<rparr>) = 67"
    using percent_is_nearest [of "sample_run\<lparr>r_tasks_done := 2\<rparr>"]
    by (simp add: sample_run_def abs_le_iff) presburger
  moreover have "percent_complete (sample_run\<lparr>r_tasks_done := 3\<rparr>) = 100"
    using percent_is_nearest [of "sample_run\<lparr>r_tasks_done := 3\<rparr>"]
    by (simp add: sample_run_def)
  ultimately show ?thesis by simp
qed

end
