(* ===== verification/Db_Jobs.thy ===== *)
theory Db_Jobs imports Db_Runs begin

text \<open>
  The statements on \<open>jobs\<close> and \<open>outbox\<close>
  (\<open>internal/db/generated/jobs.sql.go\<close> and \<open>outbox.sql.go\<close>). The two
  inserts that run inside a transaction are split into the row they build and the checks they make,
  so that the same statement text runs on the pool and on a transaction.
\<close>

section \<open>Jobs\<close>

definition completeJob :: "uuid \<Rightarrow> JobState \<Rightarrow> Job query" where
  "completeJob i st p d =
     (let (r, js) = update_returning (\<lambda>j. j_id j = i)
            (\<lambda>j. j\<lparr>j_state := st, j_finished_at := Some (now p)\<rparr>) any_row (jobs d)
      in (r, d\<lparr>jobs := js\<rparr>))"

record CreateJobParams =
  cj_WorkspaceID :: uuid
  cj_CreatedBy :: uuid
  cj_DatasetID :: uuid
  cj_Entrypoint :: string
  cj_Parameters :: "json option"
  cj_Compute :: "json option"
  cj_MaxRetries :: int
  cj_IdempotencyKey :: "string option"

text \<open>
  \<open>parameters\<close> and \<open>compute\<close> are \<open>NOT NULL\<close>; a nil
  \<open>json.RawMessage\<close> reaches the database as \<open>NULL\<close> and is refused, since the
  statement names the columns and their defaults do not apply.
\<close>

definition check_job :: "Job \<Rightarrow> db \<Rightarrow> go_error option" where
  "check_job j d =
     (if has_key j_id (jobs d) (j_id j)
         \<or> (j_idempotency_key j \<noteq> None
            \<and> j_idempotency_key j \<in> set (map j_idempotency_key (jobs d)))
      then Some unique_violation
      else if \<not> has_key w_id (workspaces d) (j_workspace_id j)
         \<or> \<not> has_key u_id (users d) (j_created_by j)
         \<or> \<not> has_key d_id (datasets d) (j_dataset_id j)
      then Some fk_violation
      else None)"

definition new_job :: "CreateJobParams \<Rightarrow> uuid \<Rightarrow> timestamp \<Rightarrow> json \<Rightarrow> json \<Rightarrow> Job" where
  "new_job arg i t parameters compute =
     \<lparr>j_id = i, j_workspace_id = cj_WorkspaceID arg, j_created_by = cj_CreatedBy arg,
      j_dataset_id = cj_DatasetID arg, j_state = JobStateSUBMITTED,
      j_entrypoint = cj_Entrypoint arg, j_parameters = parameters, j_compute = compute,
      j_retry_count = 0, j_max_retries = cj_MaxRetries arg,
      j_idempotency_key = cj_IdempotencyKey arg, j_error_message = None, j_created_at = t,
      j_started_at = None, j_finished_at = None\<rparr>"

definition createJob :: "CreateJobParams \<Rightarrow> Job query" where
  "createJob arg p d =
     (let (i, d1) = draw p d in
      case (cj_Parameters arg, cj_Compute arg) of
        (Some ps, Some c) \<Rightarrow>
          (let j = new_job arg i (now p) ps c
           in case check_job j d of
                Some e \<Rightarrow> (Inl e, d1)
              | None \<Rightarrow> (Inr j, d1\<lparr>jobs := jobs d @ [j]\<rparr>))
      | _ \<Rightarrow> (Inl not_null_violation, d1))"

definition getJobByID :: "uuid \<Rightarrow> uuid \<Rightarrow> Job query" where
  "getJobByID i workspace_id p d =
     (one (filter (\<lambda>j. j_id j = i \<and> j_workspace_id j = workspace_id) (jobs d)), d)"

text \<open>\<open>jobs j JOIN runs r ON r.job_id = j.id WHERE r.id = $1\<close>.\<close>

definition getJobByRunID :: "uuid \<Rightarrow> Job query" where
  "getJobByRunID run_id p d =
     (one (concat (map (\<lambda>j. map (\<lambda>_. j)
         (filter (\<lambda>r. r_job_id r = j_id j \<and> r_id r = run_id) (runs d))) (jobs d))), d)"

definition listJobsByWorkspace :: "uuid \<Rightarrow> Job list query" where
  "listJobsByWorkspace workspace_id p d =
     (Inr (order_desc j_created_at (filter (\<lambda>j. j_workspace_id j = workspace_id) (jobs d))), d)"

definition updateJobState :: "uuid \<Rightarrow> JobState \<Rightarrow> Job query" where
  "updateJobState i st p d =
     (let (r, js) = update_returning (\<lambda>j. j_id j = i) (\<lambda>j. j\<lparr>j_state := st\<rparr>) any_row (jobs d)
      in (r, d\<lparr>jobs := js\<rparr>))"

section \<open>The outbox\<close>

definition cleanupDeliveredOutboxEvents :: "unit query" where
  "cleanupDeliveredOutboxEvents p d =
     (Inr (), d\<lparr>outbox := del_where
        (\<lambda>e. o_status e = OutboxStatusDELIVERED
             \<and> (case o_published_at e of None \<Rightarrow> False | Some t \<Rightarrow> t < now p - hours 24)) (outbox d)\<rparr>)"

definition check_event :: "Outbox \<Rightarrow> db \<Rightarrow> go_error option" where
  "check_event e d = (if has_key o_id (outbox d) (o_id e) then Some unique_violation else None)"

definition createOutboxEvent :: "string \<Rightarrow> uuid \<Rightarrow> json \<Rightarrow> Outbox query" where
  "createOutboxEvent event_type aggregate_id payload p d =
     (let (i, d1) = draw p d;
          e = \<lparr>o_id = i, o_event_type = event_type, o_aggregate_id = aggregate_id,
               o_payload = payload, o_status = OutboxStatusPENDING, o_attempts = 0,
               o_created_at = now p, o_published_at = None\<rparr>
      in case check_event e d of
           Some err \<Rightarrow> (Inl err, d1)
         | None \<Rightarrow> (Inr e, d1\<lparr>outbox := outbox d @ [e]\<rparr>))"

definition getPendingOutboxEvents :: "Outbox list query" where
  "getPendingOutboxEvents p d =
     (Inr (take 10 (order_asc o_created_at
        (filter (\<lambda>e. o_status e = OutboxStatusPENDING) (outbox d)))), d)"

definition markOutboxDelivered :: "uuid \<Rightarrow> Outbox query" where
  "markOutboxDelivered i p d =
     (let (r, es) = update_returning (\<lambda>e. o_id e = i)
            (\<lambda>e. e\<lparr>o_status := OutboxStatusDELIVERED, o_published_at := Some (now p)\<rparr>)
            any_row (outbox d)
      in (r, d\<lparr>outbox := es\<rparr>))"

definition markOutboxFailed :: "uuid \<Rightarrow> Outbox query" where
  "markOutboxFailed i p d =
     (let (r, es) = update_returning (\<lambda>e. o_id e = i)
            (\<lambda>e. e\<lparr>o_status := OutboxStatusFAILED, o_attempts := o_attempts e + 1\<rparr>)
            (\<lambda>e. int4 (o_attempts e)) (outbox d)
      in (r, d\<lparr>outbox := es\<rparr>))"

section \<open>What the queries return\<close>

lemma getJobByID_Inr:
  "fst (getJobByID i ws p d) = Inr j \<Longrightarrow> j \<in> set (jobs d) \<and> j_id j = i \<and> j_workspace_id j = ws"
  by (auto simp: getJobByID_def one_Inr filter_eq_Cons_iff)

text \<open>
  The dispatcher's batch holds pending events only, at most ten, oldest first, and an event
  that is pending but not in the batch is never older than one that is.
\<close>
theorem pending_batch_is_oldest_ten:
  assumes "fst (getPendingOutboxEvents p d) = Inr es"
  shows "length es = min 10 (length (filter (\<lambda>e. o_status e = OutboxStatusPENDING) (outbox d)))
    \<and> sorted (map o_created_at es)
    \<and> list_all (\<lambda>e. e \<in> set (outbox d) \<and> o_status e = OutboxStatusPENDING) es
    \<and> list_all (\<lambda>q. o_status q = OutboxStatusPENDING \<and> q \<notin> set es
          \<longrightarrow> list_all (\<lambda>e. o_created_at e \<le> o_created_at q) es) (outbox d)"
proof -
  define ps where "ps = order_asc o_created_at
    (filter (\<lambda>e. o_status e = OutboxStatusPENDING) (outbox d))"
  have es: "es = take 10 ps"
    using assms by (simp add: getPendingOutboxEvents_def ps_def)
  have srt: "sorted (map o_created_at ps)"
    by (simp add: ps_def)
  have old: "o_created_at e \<le> o_created_at q" if "e \<in> set es" "q \<in> set ps" "q \<notin> set es" for e q
  proof -
    have "q \<in> set (drop 10 ps)"
      using that(2,3) es by (metis append_take_drop_id Un_iff set_append)
    moreover have "sorted (map o_created_at (take 10 ps) @ map o_created_at (drop 10 ps))"
      using srt by (metis append_take_drop_id map_append)
    ultimately show ?thesis
      using that(1) by (auto simp: es sorted_append)
  qed
  have "sorted (map o_created_at es)"
    using srt by (simp add: es take_map [symmetric] sorted_wrt_take)
  moreover have "list_all (\<lambda>e. e \<in> set (outbox d) \<and> o_status e = OutboxStatusPENDING) es"
    by (auto simp: es ps_def list_all_iff dest!: in_set_takeD)
  moreover have "length es = min 10 (length (filter (\<lambda>e. o_status e = OutboxStatusPENDING) (outbox d)))"
    by (simp add: es ps_def min.commute)
  moreover have "list_all (\<lambda>q. o_status q = OutboxStatusPENDING \<and> q \<notin> set es
      \<longrightarrow> list_all (\<lambda>e. o_created_at e \<le> o_created_at q) es) (outbox d)"
    using old by (auto simp: list_all_iff ps_def)
  ultimately show ?thesis by blast
qed

theorem pending_batch_is_oldest_ten_witness:
  "\<exists>es. fst (getPendingOutboxEvents sample_pg sample_db) = Inr es \<and> length es = 1
     \<and> list_all (\<lambda>e. o_status e = OutboxStatusPENDING) es"
proof -
  obtain es where es: "fst (getPendingOutboxEvents sample_pg sample_db) = Inr es"
    by (simp add: getPendingOutboxEvents_def)
  have "length (filter (\<lambda>e. o_status e = OutboxStatusPENDING) (outbox sample_db)) = 1"
    by (simp add: sample_db_def sample_event_def)
  then show ?thesis
    using pending_batch_is_oldest_ten [OF es] es by (auto simp: list_all_iff)
qed

end
