(* ===== verification/Db_Assets.thy ===== *)
theory Db_Assets imports Db_Jobs begin

text \<open>
  The statements on \<open>users\<close>, \<open>workspaces\<close>, \<open>datasets\<close> and
  \<open>artifacts\<close> (\<open>users.sql.go\<close>, \<open>workspace.sql.go\<close>,
  \<open>datasets.sql.go\<close>, \<open>artifacts.sql.go\<close>), with the cascades of the schema:
  deleting a workspace deletes what belongs to it, and the reference from a job to its dataset,
  which does not cascade, can make a deletion fail.
\<close>

section \<open>Users\<close>

definition createUser :: "string \<Rightarrow> string \<Rightarrow> UserRole \<Rightarrow> User query" where
  "createUser email password_hash role p d =
     (let (i, d1) = draw p d;
          u = \<lparr>u_id = i, u_email = email, u_password_hash = password_hash, u_role = role,
               u_created_at = now p\<rparr>
      in if has_key u_id (users d) i \<or> email \<in> set (map u_email (users d))
         then (Inl unique_violation, d1)
         else (Inr u, d1\<lparr>users := users d @ [u]\<rparr>))"

definition getUserByEmail :: "string \<Rightarrow> User query" where
  "getUserByEmail email p d = (one (filter (\<lambda>u. u_email u = email) (users d)), d)"

definition getUserByID :: "uuid \<Rightarrow> User query" where
  "getUserByID i p d = (one (filter (\<lambda>u. u_id u = i) (users d)), d)"

section \<open>Workspaces\<close>

definition createWorkspace :: "uuid \<Rightarrow> string \<Rightarrow> string \<Rightarrow> Workspace query" where
  "createWorkspace owner_id name plan p d =
     (let (i, d1) = draw p d in
      case WorkspacePlan_of plan of
        None \<Rightarrow> (Inl invalid_enum, d1)
      | Some pl \<Rightarrow>
          (let w = \<lparr>w_id = i, w_owner_id = owner_id, w_name = name, w_plan = pl,
                    w_created_at = now p\<rparr>
           in if has_key w_id (workspaces d) i then (Inl unique_violation, d1)
              else if \<not> has_key u_id (users d) owner_id then (Inl fk_violation, d1)
              else (Inr w, d1\<lparr>workspaces := workspaces d @ [w]\<rparr>)))"

text \<open>
  The deletion of the workspaces with the ids \<open>ws\<close>: datasets, jobs, runs, tasks and
  artifacts of the workspace go with it, runs also with their job, tasks and artifacts with their
  run. A job left behind that refers to a deleted dataset makes the statement fail.
\<close>

definition cascade_workspaces :: "uuid list \<Rightarrow> db \<Rightarrow> db" where
  "cascade_workspaces ws d =
     (let gone_jobs = map j_id (filter (\<lambda>j. j_workspace_id j \<in> set ws) (jobs d));
          gone_run = (\<lambda>r. r_workspace_id r \<in> set ws \<or> r_job_id r \<in> set gone_jobs);
          gone_runs = map r_id (filter gone_run (runs d))
      in d\<lparr>workspaces := del_where (\<lambda>w. w_id w \<in> set ws) (workspaces d),
           datasets := del_where (\<lambda>x. d_workspace_id x \<in> set ws) (datasets d),
           jobs := del_where (\<lambda>j. j_workspace_id j \<in> set ws) (jobs d),
           runs := del_where gone_run (runs d),
           tasks := del_where (\<lambda>t. t_workspace_id t \<in> set ws \<or> t_run_id t \<in> set gone_runs)
             (tasks d),
           artifacts := del_where (\<lambda>a. a_workspace_id a \<in> set ws \<or> a_run_id a \<in> set gone_runs)
             (artifacts d)\<rparr>)"

definition jobs_have_datasets :: "db \<Rightarrow> bool" where
  "jobs_have_datasets d \<longleftrightarrow> list_all (\<lambda>j. has_key d_id (datasets d) (j_dataset_id j)) (jobs d)"

definition deleteWorkspace :: "uuid \<Rightarrow> uuid \<Rightarrow> unit query" where
  "deleteWorkspace i owner_id p d =
     (let d' = cascade_workspaces
            (map w_id (filter (\<lambda>w. w_id w = i \<and> w_owner_id w = owner_id) (workspaces d))) d
      in if jobs_have_datasets d' then (Inr (), d') else (Inl fk_violation, d))"

definition getWorkspaceByID :: "uuid \<Rightarrow> Workspace query" where
  "getWorkspaceByID i p d = (one (filter (\<lambda>w. w_id w = i) (workspaces d)), d)"

definition getWorkspacesByOwner :: "uuid \<Rightarrow> Workspace list query" where
  "getWorkspacesByOwner owner_id p d =
     (Inr (filter (\<lambda>w. w_owner_id w = owner_id) (workspaces d)), d)"

text \<open>
  The two parameters of \<open>COALESCE\<close> are Go strings, never \<open>NULL\<close>, so the
  update assigns them.
\<close>

definition updateWorkspace :: "uuid \<Rightarrow> string \<Rightarrow> string \<Rightarrow> uuid \<Rightarrow> Workspace query" where
  "updateWorkspace i name plan owner_id p d =
     (case WorkspacePlan_of plan of
        None \<Rightarrow> (Inl invalid_enum, d)
      | Some pl \<Rightarrow>
          (let (r, ws) = update_returning (\<lambda>w. w_id w = i \<and> w_owner_id w = owner_id)
                 (\<lambda>w. w\<lparr>w_name := name, w_plan := pl\<rparr>) any_row (workspaces d)
           in (r, d\<lparr>workspaces := ws\<rparr>)))"

section \<open>Datasets\<close>

text \<open>Deleting datasets that a job still refers to fails and changes nothing.\<close>

definition delete_datasets :: "(Dataset \<Rightarrow> bool) \<Rightarrow> unit query" where
  "delete_datasets P p d =
     (let d' = d\<lparr>datasets := del_where P (datasets d)\<rparr>
      in if jobs_have_datasets d' then (Inr (), d') else (Inl fk_violation, d))"

definition cleanupStaleDatasetsInitiated :: "unit query" where
  "cleanupStaleDatasetsInitiated p d =
     delete_datasets (\<lambda>x. d_state x = DatasetStateINITIATED
                          \<and> d_created_at x < now p - hours 24) p d"

definition deleteDataset :: "uuid \<Rightarrow> uuid \<Rightarrow> unit query" where
  "deleteDataset i workspace_id p d =
     delete_datasets (\<lambda>x. d_id x = i \<and> d_workspace_id x = workspace_id) p d"

definition getDatasetByID :: "uuid \<Rightarrow> uuid \<Rightarrow> Dataset query" where
  "getDatasetByID i workspace_id p d =
     (one (filter (\<lambda>x. d_id x = i \<and> d_workspace_id x = workspace_id) (datasets d)), d)"

text \<open>\<open>datasets d JOIN jobs j ON j.dataset_id = d.id WHERE j.id = $1\<close>.\<close>

definition getDatasetByJobID :: "uuid \<Rightarrow> Dataset query" where
  "getDatasetByJobID job_id p d =
     (one (concat (map (\<lambda>x. map (\<lambda>_. x)
         (filter (\<lambda>j. j_dataset_id j = d_id x \<and> j_id j = job_id) (jobs d))) (datasets d))), d)"

definition initiateDataset :: "uuid \<Rightarrow> uuid \<Rightarrow> string \<Rightarrow> string \<Rightarrow> Dataset query" where
  "initiateDataset workspace_id created_by name file_format p d =
     (let (i, d1) = draw p d in
      case FileFormat_of file_format of
        None \<Rightarrow> (Inl invalid_enum, d1)
      | Some ff \<Rightarrow>
          (let x = \<lparr>d_id = i, d_workspace_id = workspace_id, d_created_by = created_by,
                    d_name = name, d_state = DatasetStateINITIATED, d_storage_path = None,
                    d_file_format = ff, d_size_bytes = None, d_created_at = now p,
                    d_updated_at = now p\<rparr>
           in if has_key d_id (datasets d) i then (Inl unique_violation, d1)
              else if \<not> has_key w_id (workspaces d) workspace_id
                 \<or> \<not> has_key u_id (users d) created_by
              then (Inl fk_violation, d1)
              else (Inr x, d1\<lparr>datasets := datasets d @ [x]\<rparr>)))"

definition listDatasetsByWorkspace :: "uuid \<Rightarrow> Dataset list query" where
  "listDatasetsByWorkspace workspace_id p d =
     (Inr (order_desc d_created_at
        (filter (\<lambda>x. d_workspace_id x = workspace_id) (datasets d))), d)"

definition updateDatasetState :: "uuid \<Rightarrow> DatasetState \<Rightarrow> Dataset query" where
  "updateDatasetState i st p d =
     (let (r, xs) = update_returning (\<lambda>x. d_id x = i) (\<lambda>x. x\<lparr>d_state := st\<rparr>) any_row (datasets d)
      in (r, d\<lparr>datasets := xs\<rparr>))"

definition updateDatasetStoragePath ::
  "uuid \<Rightarrow> string option \<Rightarrow> int option \<Rightarrow> Dataset query" where
  "updateDatasetStoragePath i storage_path size_bytes p d =
     (let (r, xs) = update_returning (\<lambda>x. d_id x = i)
            (\<lambda>x. x\<lparr>d_storage_path := storage_path, d_size_bytes := size_bytes,
                   d_state := DatasetStateREADY\<rparr>) any_row (datasets d)
      in (r, d\<lparr>datasets := xs\<rparr>))"

section \<open>Artifacts\<close>

record CreateArtifactParams =
  ca_RunID :: uuid
  ca_WorkspaceID :: uuid
  ca_Name :: string
  ca_StoragePath :: string
  ca_ContentType :: string
  ca_SizeBytes :: int

definition createArtifact :: "CreateArtifactParams \<Rightarrow> Artifact query" where
  "createArtifact arg p d =
     (let (i, d1) = draw p d;
          a = \<lparr>a_id = i, a_run_id = ca_RunID arg, a_workspace_id = ca_WorkspaceID arg,
               a_name = ca_Name arg, a_storage_path = ca_StoragePath arg,
               a_content_type = ca_ContentType arg, a_size_bytes = ca_SizeBytes arg,
               a_created_at = now p, a_expires_at = None\<rparr>
      in if has_key a_id (artifacts d) i then (Inl unique_violation, d1)
         else if \<not> has_key r_id (runs d) (ca_RunID arg)
            \<or> \<not> has_key w_id (workspaces d) (ca_WorkspaceID arg)
         then (Inl fk_violation, d1)
         else (Inr a, d1\<lparr>artifacts := artifacts d @ [a]\<rparr>))"

definition getArtifact :: "uuid \<Rightarrow> Artifact query" where
  "getArtifact i p d = (one (filter (\<lambda>a. a_id a = i) (artifacts d)), d)"

text \<open>\<open>artifacts a JOIN runs r ON r.id = a.run_id WHERE r.job_id = $1\<close>.\<close>

definition listArtifactsByJob :: "uuid \<Rightarrow> Artifact list query" where
  "listArtifactsByJob job_id p d =
     (Inr (order_desc a_created_at (concat (map (\<lambda>a. map (\<lambda>_. a)
         (filter (\<lambda>r. r_id r = a_run_id a \<and> r_job_id r = job_id) (runs d))) (artifacts d)))), d)"

definition listArtifactsByRun :: "uuid \<Rightarrow> Artifact list query" where
  "listArtifactsByRun run_id p d =
     (Inr (order_desc a_created_at (filter (\<lambda>a. a_run_id a = run_id) (artifacts d))), d)"

end
