(* ===== verification/Statements.thy ===== *)
theory Statements imports Db_Assets begin

text \<open>
  The database as a transition system. Every statement of the generated \<open>Querier\<close>
  (\<open>internal/db/generated/querier.go\<close>) that writes is a constructor of
  \<open>stmt\<close>, together with the commit of a transaction, and \<open>exec_stmt\<close> is its
  effect. \<open>db_steps\<close> is a history: any sequence of allowed statements, run by any
  processes at any times, each atomic as the database makes it. What is proved about histories
  therefore holds under every interleaving of the services.
\<close>

section \<open>Transactions\<close>

text \<open>
  A transaction holds the rows it has inserted; its statements see them, no other process does,
  and the commit adds them to the tables. The database makes a conflicting statement of another
  process wait; here the commit checks the constraints again and fails when one is broken.
\<close>

record txn =
  tx_start :: timestamp
  tx_jobs :: "Job list"
  tx_outbox :: "Outbox list"

definition begin_txn :: "timestamp \<Rightarrow> txn" where
  "begin_txn t = \<lparr>tx_start = t, tx_jobs = [], tx_outbox = []\<rparr>"

definition txn_view :: "txn \<Rightarrow> db \<Rightarrow> db" where
  "txn_view t d = d\<lparr>jobs := jobs d @ tx_jobs t, outbox := outbox d @ tx_outbox t\<rparr>"

definition txn_query :: "'a query \<Rightarrow> txn \<Rightarrow> pg \<Rightarrow> db \<Rightarrow> (go_error + 'a) \<times> txn \<times> db" where
  "txn_query q t p d =
     (let (r, v) = q (p\<lparr>now := tx_start t\<rparr>) (txn_view t d)
      in (r, \<lparr>tx_start = tx_start t, tx_jobs = drop (length (jobs d)) (jobs v),
              tx_outbox = drop (length (outbox d)) (outbox v)\<rparr>, d\<lparr>drawn := drawn v\<rparr>))"

primrec commit_jobs :: "Job list \<Rightarrow> db \<Rightarrow> go_error + db" where
  "commit_jobs [] d = Inr d"
| "commit_jobs (j # js) d =
     (case check_job j d of
        Some e \<Rightarrow> Inl e
      | None \<Rightarrow> commit_jobs js (d\<lparr>jobs := jobs d @ [j]\<rparr>))"

primrec commit_events :: "Outbox list \<Rightarrow> db \<Rightarrow> go_error + db" where
  "commit_events [] d = Inr d"
| "commit_events (e # es) d =
     (case check_event e d of
        Some err \<Rightarrow> Inl err
      | None \<Rightarrow> commit_events es (d\<lparr>outbox := outbox d @ [e]\<rparr>))"

definition commit_txn :: "txn \<Rightarrow> unit query" where
  "commit_txn t p d =
     (case commit_jobs (tx_jobs t) d of
        Inl e \<Rightarrow> (Inl e, d)
      | Inr d1 \<Rightarrow>
          (case commit_events (tx_outbox t) d1 of
             Inl e \<Rightarrow> (Inl e, d)
           | Inr d2 \<Rightarrow> (Inr (), d2)))"

section \<open>Statements\<close>

datatype stmt =
  CleanupDeadTasks
| CleanupDeliveredOutboxEvents
| CleanupStaleDatasetsInitiated
| CompleteJob uuid JobState
| CompleteRun uuid RunState
| CreateArtifact CreateArtifactParams
| CreateJob CreateJobParams
| CreateOutboxEvent string uuid json
| CreateRun uuid uuid
| CreateTask uuid uuid int
| CreateUser string string UserRole
| CreateWorkspace uuid string string
| DeleteDataset uuid uuid
| DeleteWorkspace uuid uuid
| FailTaskWithError uuid "string option"
| HeartbeatTask uuid "string option"
| InitRunProgress uuid
| InitiateDataset uuid uuid string string
| LeaseTask "string option"
| MarkOutboxDelivered uuid
| MarkOutboxFailed uuid
| RetryTask uuid "string option"
| TaskFailed uuid
| TaskStarted uuid
| TaskSucceeded uuid
| UpdateDatasetState uuid DatasetState
| UpdateDatasetStoragePath uuid "string option" "int option"
| UpdateJobState uuid JobState
| UpdateRunState uuid RunState
| UpdateRunTasksTotal uuid int
| UpdateTaskState uuid TaskState
| UpdateWorkspace uuid string string uuid
| Draw
| CommitTxn txn

primrec exec_stmt :: "stmt \<Rightarrow> pg \<Rightarrow> db \<Rightarrow> db" where
  "exec_stmt CleanupDeadTasks p d = snd (cleanupDeadTasks p d)"
| "exec_stmt CleanupDeliveredOutboxEvents p d = snd (cleanupDeliveredOutboxEvents p d)"
| "exec_stmt CleanupStaleDatasetsInitiated p d = snd (cleanupStaleDatasetsInitiated p d)"
| "exec_stmt (CompleteJob i st) p d = snd (completeJob i st p d)"
| "exec_stmt (CompleteRun i st) p d = snd (completeRun i st p d)"
| "exec_stmt (CreateArtifact arg) p d = snd (createArtifact arg p d)"
| "exec_stmt (CreateJob arg) p d = snd (createJob arg p d)"
| "exec_stmt (CreateOutboxEvent ty i payload) p d = snd (createOutboxEvent ty i payload p d)"
| "exec_stmt (CreateRun j ws) p d = snd (createRun j ws p d)"
| "exec_stmt (CreateTask r ws k) p d = snd (createTask r ws k p d)"
| "exec_stmt (CreateUser email hash role) p d = snd (createUser email hash role p d)"
| "exec_stmt (CreateWorkspace own name plan) p d = snd (createWorkspace own name plan p d)"
| "exec_stmt (DeleteDataset i ws) p d = snd (deleteDataset i ws p d)"
| "exec_stmt (DeleteWorkspace i own) p d = snd (deleteWorkspace i own p d)"
| "exec_stmt (FailTaskWithError i msg) p d = snd (failTaskWithError i msg p d)"
| "exec_stmt (HeartbeatTask i own) p d = snd (heartbeatTask i own p d)"
| "exec_stmt (InitRunProgress i) p d = snd (initRunProgress i p d)"
| "exec_stmt (InitiateDataset ws creator name ff) p d = snd (initiateDataset ws creator name ff p d)"
| "exec_stmt (LeaseTask own) p d = snd (leaseTask own p d)"
| "exec_stmt (MarkOutboxDelivered i) p d = snd (markOutboxDelivered i p d)"
| "exec_stmt (MarkOutboxFailed i) p d = snd (markOutboxFailed i p d)"
| "exec_stmt (RetryTask i msg) p d = snd (retryTask i msg p d)"
| "exec_stmt (TaskFailed i) p d = snd (taskFailed i p d)"
| "exec_stmt (TaskStarted i) p d = snd (taskStarted i p d)"
| "exec_stmt (TaskSucceeded i) p d = snd (taskSucceeded i p d)"
| "exec_stmt (UpdateDatasetState i st) p d = snd (updateDatasetState i st p d)"
| "exec_stmt (UpdateDatasetStoragePath i path sz) p d = snd (updateDatasetStoragePath i path sz p d)"
| "exec_stmt (UpdateJobState i st) p d = snd (updateJobState i st p d)"
| "exec_stmt (UpdateRunState i st) p d = snd (updateRunState i st p d)"
| "exec_stmt (UpdateRunTasksTotal i n) p d = snd (updateRunTasksTotal i n p d)"
| "exec_stmt (UpdateTaskState i st) p d = snd (updateTaskState i st p d)"
| "exec_stmt (UpdateWorkspace i name plan own) p d = snd (updateWorkspace i name plan own p d)"
| "exec_stmt Draw p d = snd (draw p d)"
| "exec_stmt (CommitTxn t) p d = snd (commit_txn t p d)"

primrec exec_stmts :: "stmt list \<Rightarrow> pg \<Rightarrow> db \<Rightarrow> db" where
  "exec_stmts [] p d = d"
| "exec_stmts (s # ss) p d = exec_stmts ss p (exec_stmt s p d)"

section \<open>Histories\<close>

inductive db_steps :: "(nat \<Rightarrow> uuid) \<Rightarrow> (stmt \<Rightarrow> bool) \<Rightarrow> db \<Rightarrow> db \<Rightarrow> bool"
  for G :: "nat \<Rightarrow> uuid" and A :: "stmt \<Rightarrow> bool" where
  db_steps_refl: "db_steps G A d d"
| db_steps_step: "db_steps G A d e \<Longrightarrow> A s \<Longrightarrow> db_steps G A d (exec_stmt s \<lparr>now = t, gen = G\<rparr> e)"

lemma db_steps_trans: "db_steps G A e f \<Longrightarrow> db_steps G A d e \<Longrightarrow> db_steps G A d f"
  by (induction rule: db_steps.induct) (auto intro: db_steps.intros)

lemma db_steps_one: "A s \<Longrightarrow> db_steps G A d (exec_stmt s \<lparr>now = t, gen = G\<rparr> d)"
  by (rule db_steps_step [OF db_steps_refl])

lemma db_steps_stmts:
  "list_all A ss \<Longrightarrow> db_steps G A d (exec_stmts ss \<lparr>now = t, gen = G\<rparr> d)"
proof (induction ss arbitrary: d)
  case (Cons s ss)
  then have "db_steps G A d (exec_stmt s \<lparr>now = t, gen = G\<rparr> d)"
    and "db_steps G A (exec_stmt s \<lparr>now = t, gen = G\<rparr> d)
           (exec_stmts (s # ss) \<lparr>now = t, gen = G\<rparr> d)"
    by (auto intro: db_steps_one)
  then show ?case by (blast intro: db_steps_trans)
qed (simp add: db_steps_refl)

lemma db_steps_run: "list_all A ss \<Longrightarrow> db_steps (gen p) A d (exec_stmts ss p d)"
  using db_steps_stmts [of A ss "gen p" d "now p"] by (cases p) simp

text \<open>
  A property of the database that each allowed statement keeps holds along every history. Each
  invariant below is an instance.
\<close>

locale stmt_invariant =
  fixes G :: "nat \<Rightarrow> uuid" and A :: "stmt \<Rightarrow> bool" and I :: "db \<Rightarrow> bool"
  assumes stmt_keeps: "A s \<Longrightarrow> I d \<Longrightarrow> I (exec_stmt s \<lparr>now = t, gen = G\<rparr> d)"
begin

lemma history_keeps: "db_steps G A d e \<Longrightarrow> I d \<Longrightarrow> I e"
  by (induction rule: db_steps.induct) (auto intro: stmt_keeps)

lemma stmts_keep: "list_all A ss \<Longrightarrow> I d \<Longrightarrow> I (exec_stmts ss \<lparr>now = t, gen = G\<rparr> d)"
  by (blast intro: history_keeps db_steps_stmts)

end

end
