(* ===== verification/Db_Integrity.thy ===== *)
theory Db_Integrity imports Statements begin

text \<open>
  Every statement keeps the integrity constraints: primary keys and unique columns stay unique
  and every reference stays resolved, through inserts, updates, the cascades of a deletion and the
  commit of a transaction.
\<close>

section \<open>Reading a query off its parts\<close>

lemmas update_query_defs =
  completeJob_def completeRun_def failTaskWithError_def heartbeatTask_def initRunProgress_def
  markOutboxDelivered_def markOutboxFailed_def retryTask_def taskFailed_def taskStarted_def
  taskSucceeded_def updateDatasetState_def updateDatasetStoragePath_def updateJobState_def
  updateRunState_def updateRunTasksTotal_def updateTaskState_def

lemma update_returning_snd:
  obtains Q where "snd (update_returning P f ok rows) = upd_where Q f rows"
proof (cases "list_all ok (map f (filter P rows))")
  case True
  then show ?thesis using that [of P] by (simp add: update_returning_def)
next
  case False
  have "upd_where (\<lambda>_. False) f rows = rows" by (simp add: upd_where_def)
  with False show ?thesis using that [of "\<lambda>_. False"] by (simp add: update_returning_def Let_def)
qed

lemma integrity_drawn [simp]:
  "integrity (d\<lparr>drawn := n\<rparr>) = integrity d"
  "integrity (d\<lparr>drawn := n, jobs := js\<rparr>) = integrity (d\<lparr>jobs := js\<rparr>)"
  "integrity (d\<lparr>drawn := n, outbox := es\<rparr>) = integrity (d\<lparr>outbox := es\<rparr>)"
  by (simp_all add: integrity_defs)

section \<open>Updates\<close>

lemma map_upd_where_filter:
  assumes "\<And>r. g (f r) = g r"
  shows "map g (filter (\<lambda>r. g r \<noteq> None) (upd_where Q f rows)) = map g (filter (\<lambda>r. g r \<noteq> None) rows)"
  using assms by (induction rows) auto

lemma integrity_upd_tasks:
  assumes "integrity d"
    and "\<And>t. t_id (f t) = t_id t \<and> t_run_id (f t) = t_run_id t \<and> t_workspace_id (f t) = t_workspace_id t"
  shows "integrity (d\<lparr>tasks := upd_where Q f (tasks d)\<rparr>)"
  using assms by (auto simp: integrity_defs table_simps intro!: list_all_upd_where)

lemma integrity_upd_runs:
  assumes "integrity d"
    and "\<And>r. r_id (f r) = r_id r \<and> r_job_id (f r) = r_job_id r \<and> r_workspace_id (f r) = r_workspace_id r"
  shows "integrity (d\<lparr>runs := upd_where Q f (runs d)\<rparr>)"
  using assms by (auto simp: integrity_defs table_simps intro!: list_all_upd_where)

lemma integrity_upd_jobs:
  assumes "integrity d"
    and "\<And>j. j_id (f j) = j_id j \<and> j_workspace_id (f j) = j_workspace_id j
            \<and> j_created_by (f j) = j_created_by j \<and> j_dataset_id (f j) = j_dataset_id j
            \<and> j_idempotency_key (f j) = j_idempotency_key j"
  shows "integrity (d\<lparr>jobs := upd_where Q f (jobs d)\<rparr>)"
  using assms
  by (auto simp: integrity_defs table_simps map_upd_where_filter intro!: list_all_upd_where)

lemma integrity_upd_datasets:
  assumes "integrity d"
    and "\<And>x. d_id (f x) = d_id x \<and> d_workspace_id (f x) = d_workspace_id x
            \<and> d_created_by (f x) = d_created_by x"
  shows "integrity (d\<lparr>datasets := upd_where Q f (datasets d)\<rparr>)"
  using assms by (auto simp: integrity_defs table_simps intro!: list_all_upd_where)

lemma integrity_upd_workspaces:
  assumes "integrity d"
    and "\<And>w. w_id (f w) = w_id w \<and> w_owner_id (f w) = w_owner_id w"
  shows "integrity (d\<lparr>workspaces := upd_where Q f (workspaces d)\<rparr>)"
  using assms by (auto simp: integrity_defs table_simps intro!: list_all_upd_where)

lemma integrity_upd_outbox:
  assumes "integrity d" and "\<And>e. o_id (f e) = o_id e"
  shows "integrity (d\<lparr>outbox := upd_where Q f (outbox d)\<rparr>)"
  using assms by (auto simp: integrity_defs table_simps)

lemmas integrity_upds =
  integrity_upd_tasks integrity_upd_runs integrity_upd_jobs integrity_upd_datasets
  integrity_upd_workspaces integrity_upd_outbox

lemma integrity_returning_tasks:
  "integrity d \<Longrightarrow>
   (\<And>t. t_id (f t) = t_id t \<and> t_run_id (f t) = t_run_id t \<and> t_workspace_id (f t) = t_workspace_id t) \<Longrightarrow>
   integrity (d\<lparr>tasks := snd (update_returning P f ok (tasks d))\<rparr>)"
  by (metis update_returning_snd integrity_upd_tasks)

lemma integrity_returning_runs:
  "integrity d \<Longrightarrow>
   (\<And>r. r_id (f r) = r_id r \<and> r_job_id (f r) = r_job_id r \<and> r_workspace_id (f r) = r_workspace_id r) \<Longrightarrow>
   integrity (d\<lparr>runs := snd (update_returning P f ok (runs d))\<rparr>)"
  by (metis update_returning_snd integrity_upd_runs)

lemma integrity_returning_jobs:
  "integrity d \<Longrightarrow>
   (\<And>j. j_id (f j) = j_id j \<and> j_workspace_id (f j) = j_workspace_id j
        \<and> j_created_by (f j) = j_created_by j \<and> j_dataset_id (f j) = j_dataset_id j
        \<and> j_idempotency_key (f j) = j_idempotency_key j) \<Longrightarrow>
   integrity (d\<lparr>jobs := snd (update_returning P f ok (jobs d))\<rparr>)"
  by (rule update_returning_snd [of P f ok "jobs d"]) (simp add: integrity_upd_jobs)

lemma integrity_returning_datasets:
  "integrity d \<Longrightarrow>
   (\<And>x. d_id (f x) = d_id x \<and> d_workspace_id (f x) = d_workspace_id x \<and> d_created_by (f x) = d_created_by x) \<Longrightarrow>
   integrity (d\<lparr>datasets := snd (update_returning P f ok (datasets d))\<rparr>)"
  by (metis update_returning_snd integrity_upd_datasets)

lemma integrity_returning_workspaces:
  "integrity d \<Longrightarrow> (\<And>w. w_id (f w) = w_id w \<and> w_owner_id (f w) = w_owner_id w) \<Longrightarrow>
   integrity (d\<lparr>workspaces := snd (update_returning P f ok (workspaces d))\<rparr>)"
  by (metis update_returning_snd integrity_upd_workspaces)

lemma integrity_returning_outbox:
  "integrity d \<Longrightarrow> (\<And>e. o_id (f e) = o_id e) \<Longrightarrow>
   integrity (d\<lparr>outbox := snd (update_returning P f ok (outbox d))\<rparr>)"
  by (metis update_returning_snd integrity_upd_outbox)

lemmas integrity_returning =
  integrity_returning_tasks integrity_returning_runs integrity_returning_jobs
  integrity_returning_datasets integrity_returning_workspaces integrity_returning_outbox

section \<open>Inserts\<close>

lemma integrity_insert_job:
  assumes "integrity d" and "check_job j d = None"
  shows "integrity (d\<lparr>jobs := jobs d @ [j]\<rparr>)"
  using assms
  by (auto simp: integrity_defs check_job_def has_key_iff list_all_iff split: if_splits)

lemma integrity_insert_event:
  assumes "integrity d" and "check_event e d = None"
  shows "integrity (d\<lparr>outbox := outbox d @ [e]\<rparr>)"
  using assms
  by (auto simp: integrity_defs check_event_def has_key_iff list_all_iff split: if_splits)

lemma list_all_mono_key:
  "list_all (\<lambda>r. has_key key rows (g r) \<and> Q r) xs \<Longrightarrow> list_all (\<lambda>r. has_key key (rows @ ys) (g r) \<and> Q r) xs"
  by (simp add: list_all_iff)

lemma integrity_createRun: "integrity d \<Longrightarrow> integrity (snd (createRun j ws p d))"
  by (auto simp: createRun_def draw_def Let_def integrity_defs has_key_iff list_all_iff)

lemma integrity_createTask: "integrity d \<Longrightarrow> integrity (snd (createTask r ws k p d))"
  by (auto simp: createTask_def draw_def Let_def integrity_defs has_key_iff list_all_iff)

lemma integrity_createArtifact: "integrity d \<Longrightarrow> integrity (snd (createArtifact arg p d))"
  by (auto simp: createArtifact_def draw_def Let_def integrity_defs has_key_iff list_all_iff)

lemma integrity_createUser: "integrity d \<Longrightarrow> integrity (snd (createUser email hash role p d))"
  by (auto simp: createUser_def draw_def Let_def integrity_defs has_key_iff list_all_iff)

lemma integrity_createWorkspace: "integrity d \<Longrightarrow> integrity (snd (createWorkspace own name plan p d))"
  by (auto simp: createWorkspace_def draw_def Let_def integrity_defs has_key_iff list_all_iff
      split: option.splits)

lemma integrity_initiateDataset: "integrity d \<Longrightarrow> integrity (snd (initiateDataset ws own name ff p d))"
  by (auto simp: initiateDataset_def draw_def Let_def integrity_defs has_key_iff list_all_iff
      split: option.splits)

lemma integrity_createJob: "integrity d \<Longrightarrow> integrity (snd (createJob arg p d))"
  by (auto simp: createJob_def draw_def Let_def split: option.splits
      intro: integrity_insert_job)

lemma integrity_createOutboxEvent: "integrity d \<Longrightarrow> integrity (snd (createOutboxEvent ty i pl p d))"
  by (auto simp: createOutboxEvent_def draw_def Let_def split: option.splits
      intro: integrity_insert_event)

lemma integrity_commit_jobs:
  "integrity d \<Longrightarrow> commit_jobs js d = Inr e \<Longrightarrow> integrity e"
  by (induction js arbitrary: d) (auto split: option.splits dest: integrity_insert_job)

lemma integrity_commit_events:
  "integrity d \<Longrightarrow> commit_events es d = Inr e \<Longrightarrow> integrity e"
  by (induction es arbitrary: d) (auto split: option.splits dest: integrity_insert_event)

lemma integrity_commit_txn: "integrity d \<Longrightarrow> integrity (snd (commit_txn t p d))"
  by (auto simp: commit_txn_def split: sum.splits
      dest: integrity_commit_jobs intro: integrity_commit_events)

section \<open>Deletions\<close>

lemma has_key_del_where:
  "has_key key (del_where P rows) k \<longleftrightarrow> (\<exists>r. r \<in> set rows \<and> key r = k \<and> \<not> P r)"
  by (auto simp: has_key_iff)

lemma distinct_filter_del_where:
  assumes "distinct (map g (filter Q rows))"
  shows "distinct (map g (filter Q (del_where P rows)))"
proof -
  have "filter Q (del_where P rows) = filter (\<lambda>r. \<not> P r) (filter Q rows)"
    by (simp add: del_where_def conj_commute)
  then have "map g (filter Q (del_where P rows)) = map g (filter (\<lambda>r. \<not> P r) (filter Q rows))"
    by (rule arg_cong)
  with assms show ?thesis by (simp only: distinct_map_filter)
qed

lemma integrity_delete_datasets:
  assumes "integrity d"
  shows "integrity (snd (delete_datasets P p d))"
proof (cases "jobs_have_datasets (d\<lparr>datasets := del_where P (datasets d)\<rparr>)")
  case False
  then show ?thesis using assms by (simp add: delete_datasets_def Let_def)
next
  case True
  have "keys_distinct (d\<lparr>datasets := del_where P (datasets d)\<rparr>)"
    and "unique_columns (d\<lparr>datasets := del_where P (datasets d)\<rparr>)"
    using assms by (simp_all add: integrity_defs)
  moreover have "refs_ok (d\<lparr>datasets := del_where P (datasets d)\<rparr>)"
    using assms True
    by (simp add: integrity_def refs_ok_def jobs_have_datasets_def list_all_iff)
  ultimately show ?thesis
    using True by (simp add: delete_datasets_def integrity_def Let_def)
qed

text \<open>
  A row that keeps its reference after a deletion: the referenced row existed and was not deleted.
\<close>

lemma has_key_kept:
  assumes "has_key key rows k" and "\<And>r. r \<in> set rows \<Longrightarrow> key r = k \<Longrightarrow> \<not> P r"
  shows "has_key key (del_where P rows) k"
  using assms by (auto simp: has_key_iff has_key_del_where)

lemma list_all_del_whereI:
  assumes "list_all Q rows" and "\<And>r. Q r \<Longrightarrow> \<not> P r \<Longrightarrow> Q' r"
  shows "list_all Q' (del_where P rows)"
  using assms by (auto simp: list_all_iff)

lemma refs_cascade:
  assumes "refs_ok d" and "jobs_have_datasets (cascade_workspaces ws d)"
  shows "refs_ok (cascade_workspaces ws d)"
proof -
  define gone_jobs where "gone_jobs = map j_id (filter (\<lambda>j. j_workspace_id j \<in> set ws) (jobs d))"
  define gone_run :: "Run \<Rightarrow> bool" where "gone_run = (\<lambda>r. r_workspace_id r \<in> set ws \<or> r_job_id r \<in> set gone_jobs)"
  define gone_runs where "gone_runs = map r_id (filter gone_run (runs d))"
  define d' where "d' = cascade_workspaces ws d"
  have users': "users d' = users d"
    and ws': "workspaces d' = del_where (\<lambda>w. w_id w \<in> set ws) (workspaces d)"
    and xs': "datasets d' = del_where (\<lambda>x. d_workspace_id x \<in> set ws) (datasets d)"
    and js': "jobs d' = del_where (\<lambda>j. j_workspace_id j \<in> set ws) (jobs d)"
    and rs': "runs d' = del_where gone_run (runs d)"
    and ts': "tasks d' = del_where (\<lambda>t. t_workspace_id t \<in> set ws \<or> t_run_id t \<in> set gone_runs) (tasks d)"
    and as': "artifacts d' = del_where (\<lambda>a. a_workspace_id a \<in> set ws \<or> a_run_id a \<in> set gone_runs) (artifacts d)"
    by (simp_all add: d'_def cascade_workspaces_def gone_jobs_def gone_run_def gone_runs_def Let_def)
  have keep_ws: "has_key w_id (workspaces d) k \<Longrightarrow> k \<notin> set ws \<Longrightarrow> has_key w_id (workspaces d') k" for k
    by (auto simp: ws' intro: has_key_kept)
  have keep_job: "has_key j_id (jobs d) k \<Longrightarrow> k \<notin> set gone_jobs \<Longrightarrow> has_key j_id (jobs d') k" for k
    by (auto simp: js' gone_jobs_def intro: has_key_kept)
  have keep_run: "has_key r_id (runs d) k \<Longrightarrow> k \<notin> set gone_runs \<Longrightarrow> has_key r_id (runs d') k" for k
    by (auto simp: rs' gone_runs_def intro: has_key_kept)
  have "list_all (\<lambda>w. has_key u_id (users d') (w_owner_id w)) (workspaces d')"
    unfolding ws' users' using assms(1) unfolding refs_ok_def by (blast intro: list_all_del_where)
  moreover have "list_all (\<lambda>x. has_key w_id (workspaces d') (d_workspace_id x)
      \<and> has_key u_id (users d') (d_created_by x)) (datasets d')"
    unfolding xs' users' using assms(1) unfolding refs_ok_def
    by (auto elim!: list_all_del_whereI intro: keep_ws)
  moreover have "list_all (\<lambda>j. has_key w_id (workspaces d') (j_workspace_id j)
      \<and> has_key u_id (users d') (j_created_by j)) (jobs d')"
    unfolding js' users' using assms(1) unfolding refs_ok_def
    by (auto elim!: list_all_del_whereI intro: keep_ws)
  moreover have "list_all (\<lambda>r. has_key j_id (jobs d') (r_job_id r)
      \<and> has_key w_id (workspaces d') (r_workspace_id r)) (runs d')"
    unfolding rs' using assms(1) unfolding refs_ok_def
    by (auto elim!: list_all_del_whereI intro: keep_ws keep_job simp: gone_run_def)
  moreover have "list_all (\<lambda>t. has_key r_id (runs d') (t_run_id t)
      \<and> has_key w_id (workspaces d') (t_workspace_id t)) (tasks d')"
    unfolding ts' using assms(1) unfolding refs_ok_def
    by (auto elim!: list_all_del_whereI intro: keep_ws keep_run)
  moreover have "list_all (\<lambda>a. has_key r_id (runs d') (a_run_id a)
      \<and> has_key w_id (workspaces d') (a_workspace_id a)) (artifacts d')"
    unfolding as' using assms(1) unfolding refs_ok_def
    by (auto elim!: list_all_del_whereI intro: keep_ws keep_run)
  moreover have "list_all (\<lambda>j. has_key d_id (datasets d') (j_dataset_id j)) (jobs d')"
    using assms(2) by (simp add: jobs_have_datasets_def d'_def)
  ultimately have "refs_ok d'"
    by (simp add: refs_ok_def list_all_iff)
  then show ?thesis by (simp add: d'_def)
qed

lemma integrity_cascade:
  assumes "integrity d" and "jobs_have_datasets (cascade_workspaces ws d)"
  shows "integrity (cascade_workspaces ws d)"
proof -
  have "keys_distinct (cascade_workspaces ws d)"
    using assms(1) by (simp add: integrity_def keys_distinct_def cascade_workspaces_def Let_def)
  moreover have "unique_columns (cascade_workspaces ws d)"
    using assms(1) by (simp add: integrity_def unique_columns_def cascade_workspaces_def Let_def
        distinct_filter_del_where)
  ultimately show ?thesis
    using assms by (simp add: integrity_def refs_cascade)
qed

section \<open>Every statement\<close>

lemma integrity_stmt: "integrity d \<Longrightarrow> integrity (exec_stmt s p d)"
proof (cases s)
  case CleanupDeadTasks
  then show "integrity d \<Longrightarrow> ?thesis"
    by (auto simp: cleanupDeadTasks_def integrity_defs list_all_del_where)
next
  case CleanupDeliveredOutboxEvents
  then show "integrity d \<Longrightarrow> ?thesis"
    by (auto simp: cleanupDeliveredOutboxEvents_def integrity_defs)
next
  case (LeaseTask own)
  then show "integrity d \<Longrightarrow> ?thesis"
    by (auto simp: leaseTask_def case_prod_unfold Let_def split: list.splits
        intro!: integrity_returning)
next
  case (UpdateWorkspace i name plan own)
  then show "integrity d \<Longrightarrow> ?thesis"
    by (auto simp: updateWorkspace_def case_prod_unfold Let_def split: option.splits
        intro!: integrity_returning)
next
  case (DeleteWorkspace i own)
  then show "integrity d \<Longrightarrow> ?thesis"
    by (auto simp: deleteWorkspace_def Let_def intro: integrity_cascade)
qed (auto simp: update_query_defs case_prod_unfold Let_def draw_def
      cleanupStaleDatasetsInitiated_def deleteDataset_def
      intro!: integrity_returning integrity_delete_datasets integrity_commit_txn
        integrity_createRun integrity_createTask integrity_createArtifact integrity_createUser
        integrity_createWorkspace integrity_initiateDataset integrity_createJob
        integrity_createOutboxEvent)

interpretation integrity_inv: stmt_invariant G "\<lambda>_. True" integrity for G
  by unfold_locales (rule integrity_stmt)

lemma db_steps_weaken: "db_steps G A d e \<Longrightarrow> (\<And>s. A s \<Longrightarrow> B s) \<Longrightarrow> db_steps G B d e"
  by (induction rule: db_steps.induct) (auto intro: db_steps.intros)

text \<open>
  Whatever statements the services run, in whatever order and interleaving and at whatever
  times, the database keeps its integrity: ids, e-mail addresses and idempotency keys stay unique,
  and every task, run, job, dataset, artifact and workspace refers to rows that exist.
\<close>
lemma db_steps_integrity: "db_steps G A d e \<Longrightarrow> integrity d \<Longrightarrow> integrity e"
  by (rule integrity_inv.history_keeps [OF db_steps_weaken]) auto

end
