(* ===== verification/Task_History.thy ===== *)
theory Task_History imports Db_Integrity begin

text \<open>
  What holds of tasks and runs over whole histories of the database: a leased task is nobody
  else's until it is put back, and the progress counters of a run add up. Both are invariants of
  single statements, lifted by the locale of histories.
\<close>

section \<open>Leases\<close>

text \<open>The statements that put task \<open>i\<close> back into the queue.\<close>

fun requeues :: "uuid \<Rightarrow> stmt \<Rightarrow> bool" where
  "requeues i (RetryTask j msg) = (j = i)"
| "requeues i (UpdateTaskState j st) = (j = i \<and> st = TaskStatePENDING)"
| "requeues i s = False"

text \<open>
  Task \<open>i\<close> is not waiting in the queue, and its id will not be drawn again.
\<close>

definition parked :: "(nat \<Rightarrow> uuid) \<Rightarrow> uuid \<Rightarrow> db \<Rightarrow> bool" where
  "parked G i d \<longleftrightarrow>
     (\<forall>k \<ge> drawn d. G k \<noteq> i) \<and> list_all (\<lambda>t. t_id t = i \<longrightarrow> t_state t \<noteq> TaskStatePENDING) (tasks d)"

lemma commit_jobs_rows: "commit_jobs js d = Inr e \<Longrightarrow> e = d\<lparr>jobs := jobs d @ js\<rparr>"
  by (induction js arbitrary: d) (fastforce split: option.splits)+

lemma commit_events_rows: "commit_events es d = Inr e \<Longrightarrow> e = d\<lparr>outbox := outbox d @ es\<rparr>"
  by (induction es arbitrary: d) (fastforce split: option.splits)+

lemma commit_txn_rows:
  "snd (commit_txn t p d) = d
   \<or> snd (commit_txn t p d) = d\<lparr>jobs := jobs d @ tx_jobs t, outbox := outbox d @ tx_outbox t\<rparr>"
  by (auto simp: commit_txn_def dest!: commit_jobs_rows commit_events_rows split: sum.splits)

lemma commit_txn_frame [simp]:
  "tasks (snd (commit_txn t p d)) = tasks d" "runs (snd (commit_txn t p d)) = runs d"
  "drawn (snd (commit_txn t p d)) = drawn d"
  using commit_txn_rows [of t p d] by auto

lemmas exec_defs =
  update_query_defs case_prod_unfold Let_def draw_def
  cleanupDeadTasks_def cleanupDeliveredOutboxEvents_def cleanupStaleDatasetsInitiated_def
  delete_datasets_def deleteDataset_def deleteWorkspace_def cascade_workspaces_def
  createRun_def createTask_def createArtifact_def createUser_def createWorkspace_def
  initiateDataset_def createJob_def createOutboxEvent_def leaseTask_def updateWorkspace_def

lemma drawn_mono: "drawn d \<le> drawn (exec_stmt s p d)"
  by (cases s) (simp_all add: exec_defs split: option.splits list.splits)

lemma list_all_returning:
  assumes "list_all Q rows" and "\<And>r. Q r \<Longrightarrow> P r \<Longrightarrow> Q (f r)"
  shows "list_all Q (snd (update_returning P f ok rows))"
proof -
  have "list_all Q (upd_where P f rows)"
    using assms by (induction rows) auto
  then show ?thesis
    using assms(1) by (simp add: update_returning_def Let_def)
qed

lemma parked_stmt:
  assumes "\<not> requeues i s" and "parked G i d"
  shows "parked G i (exec_stmt s \<lparr>now = t, gen = G\<rparr> d)"
proof -
  let ?p = "\<lparr>now = t, gen = G\<rparr>"
  let ?Q = "\<lambda>r. t_id r = i \<longrightarrow> t_state r \<noteq> TaskStatePENDING"
  have old: "list_all ?Q (tasks d)" and new: "\<forall>k \<ge> drawn d. G k \<noteq> i"
    using assms(2) by (simp_all add: parked_def)
  have "list_all ?Q (tasks (exec_stmt s ?p d))"
  proof (cases s)
    case (LeaseTask own)
    then show ?thesis
      using old by (auto simp: leaseTask_def case_prod_unfold Let_def split: list.splits
          intro!: list_all_returning)
  qed (use assms(1) old new in \<open>auto simp: exec_defs intro!: list_all_returning list_all_del_where
      split: option.splits\<close>)
  moreover have "\<forall>k \<ge> drawn (exec_stmt s ?p d). G k \<noteq> i"
    using new drawn_mono order_trans by blast
  ultimately show ?thesis by (simp add: parked_def)
qed

interpretation parking: stmt_invariant G "\<lambda>s. \<not> requeues i s" "parked G i" for G i
  by unfold_locales (rule parked_stmt)

text \<open>
  C6: a task that a worker has leased is leased to nobody else, at any later time and whatever else
  the services do in between, until a statement puts it back into the queue. (The lease's expiry is
  not such a statement.)
\<close>
theorem lease_is_exclusive:
  assumes "integrity d"
    and "leaseTask own1 \<lparr>now = t1, gen = G\<rparr> d = (Inr task1, d1)"
    and "\<forall>k \<ge> drawn d1. G k \<noteq> t_id task1"
    and "db_steps G (\<lambda>s. \<not> requeues (t_id task1) s) d1 d2"
    and "leaseTask own2 \<lparr>now = t2, gen = G\<rparr> d2 = (Inr task2, d3)"
  shows "t_id task2 \<noteq> t_id task1"
proof -
  have dist: "distinct (map t_id (tasks d))"
    using assms(1) by (simp add: integrity_defs)
  have "list_all (\<lambda>r. t_id r = t_id task1 \<longrightarrow> t_state r \<noteq> TaskStatePENDING) (tasks d1)"
    using assms(2) by (cases rule: leaseTask_cases [OF dist, of own1 "\<lparr>now = t1, gen = G\<rparr>"])
      (auto simp: list_all_iff set_upd_where)
  then have "parked G (t_id task1) d1"
    using assms(3) by (simp add: parked_def)
  then have "parked G (t_id task1) d2"
    by (rule parking.history_keeps [OF assms(4)])
  have "distinct (map t_id (tasks d2))"
  proof -
    have "integrity d1"
      using integrity_stmt [OF assms(1), of "LeaseTask own1" "\<lparr>now = t1, gen = G\<rparr>"] assms(2) by simp
    then show ?thesis
      using db_steps_integrity [OF assms(4)] by (simp add: integrity_defs)
  qed
  then show ?thesis
    using assms(5) \<open>parked G (t_id task1) d2\<close>
    by (cases rule: leaseTask_cases [of d2 own2 "\<lparr>now = t2, gen = G\<rparr>"])
      (auto simp: parked_def list_all_iff leasable_def)
qed

theorem lease_is_exclusive_witness:
  "fst (leaseTask (Some ''w3'') sample_pg (snd (leaseTask (Some ''w2'') sample_pg sample_db)))
    \<noteq> Inr (lease_row sample_pg (Some ''w3'') (sample_task 8 2 1))"
proof
  let ?t = "lease_row sample_pg (Some ''w2'') (sample_task 8 2 1)"
  let ?u = "lease_row sample_pg (Some ''w3'') (sample_task 8 2 1)"
  let ?d1 = "snd (leaseTask (Some ''w2'') sample_pg sample_db)"
  assume "fst (leaseTask (Some ''w3'') sample_pg ?d1) = Inr ?u"
  then have second: "leaseTask (Some ''w3'') \<lparr>now = 10, gen = gen sample_pg\<rparr> ?d1
      = (Inr ?u, snd (leaseTask (Some ''w3'') sample_pg ?d1))"
    by (simp add: sample_pg_eta prod_eq_iff)
  have first: "leaseTask (Some ''w2'') \<lparr>now = 10, gen = gen sample_pg\<rparr> sample_db = (Inr ?t, ?d1)"
    by (simp add: sample_pg_eta prod_eq_iff sample_leaseTask)
  have "gen sample_pg k \<noteq> t_id ?t" for k
    using sample_gen_unat [of k] by (auto simp: sample_task_def split: if_splits)
  then have fresh: "\<forall>k \<ge> drawn ?d1. gen sample_pg k \<noteq> t_id ?t" by blast
  from lease_is_exclusive [OF sample_integrity first fresh db_steps_refl second]
  show False by simp
qed

section \<open>Progress counters\<close>

text \<open>The statements that set the total or the pending counter of run \<open>i\<close>.\<close>

fun resets_progress :: "uuid \<Rightarrow> stmt \<Rightarrow> bool" where
  "resets_progress i (UpdateRunTasksTotal j n) = (j = i)"
| "resets_progress i (InitRunProgress j) = (j = i)"
| "resets_progress i s = False"

definition counted :: "Run \<Rightarrow> bool" where
  "counted r \<longleftrightarrow>
     r_tasks_pending r + r_tasks_running r + r_tasks_done r + r_tasks_failed r = r_tasks_total r"

definition progress_adds_up :: "uuid \<Rightarrow> db \<Rightarrow> bool" where
  "progress_adds_up i d \<longleftrightarrow> list_all (\<lambda>r. r_id r = i \<longrightarrow> counted r) (runs d)"

lemma counted_rows [simp]:
  "counted (failed_row r) = counted r" "counted (started_row p r) = counted r"
  "counted (succeeded_row r) = counted r"
  by (auto simp: counted_def failed_row_def started_row_def succeeded_row_def)

lemma progress_stmt:
  assumes "\<not> resets_progress i s" and "progress_adds_up i d"
  shows "progress_adds_up i (exec_stmt s p d)"
proof -
  let ?Q = "\<lambda>r. r_id r = i \<longrightarrow> counted r"
  have old: "list_all ?Q (runs d)"
    using assms(2) by (simp add: progress_adds_up_def)
  have "list_all ?Q (runs (exec_stmt s p d))"
  proof (cases s)
    case (LeaseTask own)
    then show ?thesis
      using old by (simp add: leaseTask_def case_prod_unfold Let_def split: list.splits)
  qed (use assms(1) old in \<open>auto simp: exec_defs intro!: list_all_returning list_all_del_where
      simp: counted_def failed_row_def started_row_def succeeded_row_def split: option.splits\<close>)
  then show ?thesis by (simp add: progress_adds_up_def)
qed

interpretation progress: stmt_invariant G "\<lambda>s. \<not> resets_progress i s" "progress_adds_up i" for G i
  by unfold_locales (rule progress_stmt)



text \<open>
  C32: a retry puts a task back into the queue but not back into the pending counter: after
  \<open>k\<close> rounds of starting and retrying one task, \<open>k\<close> tasks have moved from
  pending to running for good, so that the pending counter falls below zero once \<open>k\<close>
  exceeds it.
\<close>
theorem retries_drain_pending_counter:
  assumes "keys_distinct d" and "r \<in> set (runs d)" and "r_id r = i"
    and "counters_in_range r" and "- 2147483648 + int k \<le> r_tasks_pending r"
    and "r_tasks_running r + int k < 2147483648"
  shows "\<exists>r'. r' \<in> set (runs (exec_stmts (concat (replicate k [TaskStarted i, RetryTask t msg])) p d))
    \<and> r_id r' = i \<and> r_tasks_pending r' = r_tasks_pending r - int k
    \<and> r_tasks_running r' = r_tasks_running r + int k"
  using assms
proof (induction k arbitrary: d r)
  case 0
  then show ?case by auto
next
  case (Suc k)
  let ?r = "started_row p r"
  let ?e = "snd (retryTask t msg p (snd (taskStarted i p d)))"
  have "filter (\<lambda>q. r_id q = i) (runs d) = [r]"
    using Suc.prems by (auto simp: keys_distinct_def filter_key_unique)
  moreover have ok: "counters_in_range ?r"
    using Suc.prems by (auto simp: counters_in_range_def started_row_def int4_def)
  ultimately have started: "runs (snd (taskStarted i p d)) = upd_where (\<lambda>q. r_id q = i) (started_row p) (runs d)"
    by (simp add: taskStarted_def update_returning_def)
  have "runs ?e = upd_where (\<lambda>q. r_id q = i) (started_row p) (runs d)"
    using started by (simp add: retryTask_def case_prod_unfold Let_def)
  then have "?r \<in> set (runs ?e)"
    using Suc.prems by (auto simp: set_upd_where)
  moreover have "keys_distinct ?e"
    using Suc.prems(1)
    by (auto simp: keys_distinct_def taskStarted_def retryTask_def case_prod_unfold
        update_returning_def Let_def table_simps)
  ultimately have "\<exists>r'. r' \<in> set (runs (exec_stmts (concat (replicate k [TaskStarted i, RetryTask t msg])) p ?e))
    \<and> r_id r' = i \<and> r_tasks_pending r' = r_tasks_pending ?r - int k
    \<and> r_tasks_running r' = r_tasks_running ?r + int k"
    using Suc.prems ok by (intro Suc.IH) (auto simp: started_row_def)
  then show ?case by (auto simp: started_row_def algebra_simps)
qed

theorem retries_drain_pending_counter_witness:
  "\<exists>r'. r' \<in> set (runs (exec_stmts (concat (replicate 3 [TaskStarted 5, RetryTask 6 None])) sample_pg sample_db))
    \<and> r_id r' = 5 \<and> r_tasks_pending r' = - 1 \<and> r_tasks_running r' = 4"
  using retries_drain_pending_counter [of sample_db sample_run 5 3 6 None sample_pg] sample_integrity
  by (simp add: integrity_def sample_db_def sample_run_def counters_in_range_def int4_def)

end
