(* ===== verification/World.thy ===== *)
theory World imports Task_History begin

text \<open>
  The world a handler runs in: the database, the clock, Kafka, Redis, the Kubernetes API and the
  metrics. Every call that leaves the process first lets the rest of the world act: time passes,
  other processes run statements and commands of their own, and the call may fail before the server
  has seen it or after it took effect. What the rest of the world does is the list of
  \<open>slots\<close> of the initial state, one per call; when the list is used up, nothing else
  happens. A theorem about all lists of slots is a theorem about all interleavings at the
  granularity of calls, and about all faults.
\<close>

section \<open>The state\<close>

record message =
  m_topic :: string
  m_key :: string
  m_value :: raw_message
  m_headers :: "(string \<times> string) list"

text \<open>
  \<open>Refused e\<close>: the call failed and had no effect. \<open>Lost e\<close>: it took effect
  and the caller still gets an error, as when the connection breaks before the reply.
\<close>

datatype fate = Served | Refused go_error | Lost go_error

datatype redis_cmd = Incr string | Decr string

record slot =
  elapsed :: nat
  others :: "stmt list"
  others_redis :: "redis_cmd list"
  others_sent :: "message list"
  fate :: fate

text \<open>
  What the cluster holds: the namespaces, the network policies, the quotas and the jobs by name,
  and the \<open>replicas\<close> field of the worker deployment, when there is one.
\<close>

record cluster =
  namespaces :: "string list"
  policies :: "string list"
  quotas :: "string list"
  worker_jobs :: "(string \<times> int) list"
  deployment :: "int option option"

record world =
  data :: db
  clock :: timestamp
  uuids :: "nat \<Rightarrow> uuid"
  slots :: "slot list"
  topics :: "message list"
  redis :: "string \<Rightarrow> int option"
  kube :: cluster
  metric :: "string \<Rightarrow> int"

section \<open>Redis\<close>

definition int8 :: "int \<Rightarrow> bool" where
  "int8 x \<longleftrightarrow> - 9223372036854775808 \<le> x \<and> x < 9223372036854775808"

definition redis_add :: "string \<Rightarrow> int \<Rightarrow> (string \<Rightarrow> int option) \<Rightarrow> (go_error + int) \<times> (string \<Rightarrow> int option)" where
  "redis_add k x m =
     (let n = (case m k of None \<Rightarrow> 0 | Some v \<Rightarrow> v) + x
      in if int8 n then (Inr n, m(k \<mapsto> n))
         else (Inl (ErrorString ''ERR increment or decrement would overflow''), m))"

primrec redis_exec :: "redis_cmd \<Rightarrow> (string \<Rightarrow> int option) \<Rightarrow> (string \<Rightarrow> int option)" where
  "redis_exec (Incr k) m = snd (redis_add k 1 m)"
| "redis_exec (Decr k) m = snd (redis_add k (- 1) m)"

section \<open>Calls\<close>

definition context_of :: "world \<Rightarrow> pg" where
  "context_of w = \<lparr>now = clock w, gen = uuids w\<rparr>"

definition interfere :: "slot \<Rightarrow> world \<Rightarrow> world" where
  "interfere s w =
     (let w1 = w\<lparr>clock := clock w + int (elapsed s)\<rparr>
      in w1\<lparr>data := exec_stmts (others s) (context_of w1) (data w),
            redis := fold redis_exec (others_redis s) (redis w),
            topics := topics w @ others_sent s\<rparr>)"

definition arrive :: "(world, fate) state" where
  "arrive = State (\<lambda>w. case slots w of
     [] \<Rightarrow> (Served, w)
   | s # ss \<Rightarrow> (fate s, interfere s (w\<lparr>slots := ss\<rparr>)))"

definition call :: "(world \<Rightarrow> (go_error + 'a) \<times> world) \<Rightarrow> (world, go_error + 'a) state" where
  "call f = State_Monad.bind arrive
     (\<lambda>ft. case ft of
        Served \<Rightarrow> State f
      | Refused e \<Rightarrow> State_Monad.return (Inl e)
      | Lost e \<Rightarrow> State (\<lambda>w. (Inl e, snd (f w))))"

text \<open>One statement on the pool, or on a transaction.\<close>

definition dbcall :: "'a query \<Rightarrow> (world, go_error + 'a) state" where
  "dbcall q = call (\<lambda>w. let (r, d) = q (context_of w) (data w) in (r, w\<lparr>data := d\<rparr>))"

definition begin_call :: "(world, go_error + txn) state" where
  "begin_call = call (\<lambda>w. (Inr (begin_txn (clock w)), w))"

definition txcall :: "'a query \<Rightarrow> txn \<Rightarrow> (world, go_error + 'a \<times> txn) state" where
  "txcall q t =
     call (\<lambda>w. let (r, t', d) = txn_query q t (context_of w) (data w)
               in (map_sum id (\<lambda>x. (x, t')) r, w\<lparr>data := d\<rparr>))"

definition redis_get :: "string \<Rightarrow> (world, go_error + int option) state" where
  "redis_get k = call (\<lambda>w. (Inr (redis w k), w))"

definition redis_addcall :: "string \<Rightarrow> int \<Rightarrow> (world, go_error + unit) state" where
  "redis_addcall k x =
     call (\<lambda>w. let (r, m) = redis_add k x (redis w) in (map_sum id (\<lambda>_. ()) r, w\<lparr>redis := m\<rparr>))"

definition write_message :: "message \<Rightarrow> (world, go_error + unit) state" where
  "write_message m = call (\<lambda>w. (Inr (), w\<lparr>topics := topics w @ [m]\<rparr>))"

definition kube_call :: "(cluster \<Rightarrow> (go_error + 'a) \<times> cluster) \<Rightarrow> (world, go_error + 'a) state" where
  "kube_call f = call (\<lambda>w. let (r, c) = f (kube w) in (r, w\<lparr>kube := c\<rparr>))"

text \<open>Counters and gauges.\<close>

definition Add :: "string \<Rightarrow> int \<Rightarrow> (world, unit) state" where
  "Add m n = modify (\<lambda>w. w\<lparr>metric := (metric w)(m := metric w m + n)\<rparr>)"

definition Inc :: "string \<Rightarrow> (world, unit) state" where
  "Inc m = Add m 1"

definition SetGauge :: "string \<Rightarrow> int \<Rightarrow> (world, unit) state" where
  "SetGauge m n = modify (\<lambda>w. w\<lparr>metric := (metric w)(m := n)\<rparr>)"

section \<open>Running calls when nothing interferes\<close>

lemma exec_stmts_context [simp]: "context_of (w\<lparr>slots := ss\<rparr>) = context_of w"
  by (simp add: context_of_def)

lemma context_simps [simp]: "now (context_of w) = clock w" "gen (context_of w) = uuids w"
  by (simp_all add: context_of_def)

lemma context_of_updates [simp]:
  "context_of (w\<lparr>data := d\<rparr>) = context_of w"
  "context_of (w\<lparr>topics := t\<rparr>) = context_of w"
  "context_of (w\<lparr>redis := m\<rparr>) = context_of w"
  "context_of (w\<lparr>kube := c\<rparr>) = context_of w"
  "context_of (w\<lparr>metric := x\<rparr>) = context_of w"
  by (simp_all add: context_of_def)

lemma run_call_quiet [run_simps]: "slots w = [] \<Longrightarrow> run_state (call f) w = f w"
  by (simp add: call_def arrive_def)

text \<open>A call that returns a value was served.\<close>

lemma call_result: "run_state (call f) w = (Inr a, w') \<Longrightarrow> \<exists>v. f v = (Inr a, w')"
  by (auto simp: call_def split: prod.splits fate.splits)

lemma run_dbcall_quiet [run_simps]:
  "slots w = [] \<Longrightarrow> run_state (dbcall q) w =
     (fst (q (context_of w) (data w)), w\<lparr>data := snd (q (context_of w) (data w))\<rparr>)"
  by (simp add: dbcall_def run_call_quiet case_prod_unfold Let_def)

lemma run_Add [run_simps]:
  "run_state (Add m n) w = ((), w\<lparr>metric := (metric w)(m := metric w m + n)\<rparr>)"
  by (simp add: Add_def)

lemma run_Inc [run_simps]:
  "run_state (Inc m) w = ((), w\<lparr>metric := (metric w)(m := metric w m + 1)\<rparr>)"
  by (simp add: Inc_def run_Add)

lemma run_SetGauge [run_simps]:
  "run_state (SetGauge m n) w = ((), w\<lparr>metric := (metric w)(m := n)\<rparr>)"
  by (simp add: SetGauge_def)

text \<open>
  A wait of the process itself: the clock moves on by its length, and shutting the process down
  cuts it short, which is a wait whose slot says that it failed.
\<close>

definition wait :: "int \<Rightarrow> (world, bool) state" where
  "wait t = State_Monad.bind arrive
     (\<lambda>ft. case ft of
        Served \<Rightarrow> State (\<lambda>w. (True, w\<lparr>clock := clock w + t\<rparr>))
      | _ \<Rightarrow> State_Monad.return False)"

lemma run_wait_quiet [run_simps]:
  "slots w = [] \<Longrightarrow> run_state (wait t) w = (True, w\<lparr>clock := clock w + t\<rparr>)"
  by (simp add: wait_def arrive_def)

section \<open>Slots are used up in order\<close>

definition uses_slots :: "world \<Rightarrow> world \<Rightarrow> bool" where
  "uses_slots w w' \<longleftrightarrow> suffix (slots w') (slots w)"

interpretation use: kept_relation uses_slots
  by unfold_locales (auto simp: uses_slots_def)

lemma uses_slots_quiet: "uses_slots w w' \<Longrightarrow> slots w = [] \<Longrightarrow> slots w' = []"
  by (simp add: uses_slots_def)

lemma uses_slots_frame: "slots w' = slots w \<Longrightarrow> uses_slots w w'"
  by (simp add: uses_slots_def)

lemma uses_arrive: "state_io_rel uses_slots arrive"
proof (rule state_io_relI)
  fix x w w'
  assume "run_state arrive w = (x, w')"
  then show "uses_slots w w'"
    by (cases "slots w") (auto simp: arrive_def uses_slots_def interfere_def Let_def suffix_ConsI)
qed

lemma uses_call:
  assumes "\<And>w. slots (snd (f w)) = slots w"
  shows "state_io_rel uses_slots (call f)"
proof -
  have "state_io_rel uses_slots
      (case ft of Served \<Rightarrow> State f | Refused e \<Rightarrow> State_Monad.return (Inl e)
       | Lost e \<Rightarrow> State (\<lambda>w. (Inl e, snd (f w))))" for ft
    using assms
    by (cases ft) (auto intro!: state_io_relI use.kept_return simp: uses_slots_def; metis snd_conv suffix_order.refl)+
  then show ?thesis
    unfolding call_def by (intro use.kept_bind uses_arrive)
qed

lemma uses_wait: "state_io_rel uses_slots (wait t)"
proof -
  have "state_io_rel uses_slots
      (case ft of Served \<Rightarrow> State (\<lambda>w. (True, w\<lparr>clock := clock w + t\<rparr>))
       | _ \<Rightarrow> State_Monad.return False)" for ft
    by (cases ft) (auto intro!: state_io_relI use.kept_return simp: uses_slots_def)
  then show ?thesis
    unfolding wait_def by (intro use.kept_bind uses_arrive)
qed

lemma uses_calls:
  "state_io_rel uses_slots (dbcall q)" "state_io_rel uses_slots begin_call"
  "state_io_rel uses_slots (txcall q' t)" "state_io_rel uses_slots (redis_get k)"
  "state_io_rel uses_slots (redis_addcall k x)" "state_io_rel uses_slots (write_message m)"
  "state_io_rel uses_slots (kube_call f)"
  unfolding dbcall_def begin_call_def txcall_def redis_get_def redis_addcall_def
    write_message_def kube_call_def
  by (rule uses_call, simp add: case_prod_unfold Let_def)+

lemma uses_metrics:
  "state_io_rel uses_slots (Add m n)" "state_io_rel uses_slots (Inc m)"
  "state_io_rel uses_slots (SetGauge m n)"
  unfolding Inc_def Add_def SetGauge_def
  by (rule use.kept_modify, simp add: uses_slots_def)+

lemmas uses_intros = use.kept_intros uses_calls uses_metrics uses_wait

section \<open>What the database goes through\<close>

text \<open>
  \<open>follows A\<close>: if the other processes only run statements that \<open>A\<close> allows,
  the database went from one state to the other by such statements. Every handler follows the
  statements it is built from, whatever the slots do.
\<close>

definition others_within :: "(stmt \<Rightarrow> bool) \<Rightarrow> world \<Rightarrow> bool" where
  "others_within A w \<longleftrightarrow> list_all (\<lambda>s. list_all A (others s)) (slots w)"

definition follows :: "(stmt \<Rightarrow> bool) \<Rightarrow> world \<Rightarrow> world \<Rightarrow> bool" where
  "follows A w w' \<longleftrightarrow>
     uuids w' = uuids w \<and>
     (others_within A w \<longrightarrow>
        others_within A w' \<and> db_steps (uuids w) A (data w) (data w'))"

lemma follows_refl: "follows A w w"
  by (simp add: follows_def db_steps_refl)

lemma follows_trans: "follows A w w' \<Longrightarrow> follows A w' w'' \<Longrightarrow> follows A w w''"
  by (auto simp: follows_def intro: db_steps_trans)

interpretation follow: kept_relation "follows A" for A
  by unfold_locales (fact follows_refl, fact follows_trans)

lemma follows_frame:
  "uuids w' = uuids w \<Longrightarrow> slots w' = slots w \<Longrightarrow> data w' = data w \<Longrightarrow> follows A w w'"
  by (simp add: follows_def others_within_def db_steps_refl)

lemma follows_arrive: "state_io_rel (follows A) arrive"
proof (rule state_io_relI)
  fix x w w'
  assume run: "run_state arrive w = (x, w')"
  show "follows A w w'"
  proof (cases "slots w")
    case Nil
    with run show ?thesis by (simp add: arrive_def follows_refl)
  next
    case (Cons s ss)
    define w1 where "w1 = w\<lparr>slots := ss, clock := clock w + int (elapsed s)\<rparr>"
    have w': "data w' = exec_stmts (others s) (context_of w1) (data w)"
      "slots w' = ss" "uuids w' = uuids w"
      using run Cons by (auto simp: arrive_def interfere_def w1_def Let_def)
    have "db_steps (uuids w) A (data w) (data w')" if "list_all A (others s)"
      using db_steps_run [OF that, of "context_of w1" "data w"] by (simp add: w' w1_def)
    then show ?thesis
      using Cons by (simp add: follows_def others_within_def w')
  qed
qed

lemma follows_call:
  assumes "\<And>w. follows A w (snd (f w))"
  shows "state_io_rel (follows A) (call f)"
proof -
  have "state_io_rel (follows A)
      (case ft of Served \<Rightarrow> State f | Refused e \<Rightarrow> State_Monad.return (Inl e)
       | Lost e \<Rightarrow> State (\<lambda>w. (Inl e, snd (f w))))" for ft
    using assms by (cases ft) (auto intro!: state_io_relI follow.kept_return simp: follows_refl; metis snd_conv)+
  then show ?thesis
    unfolding call_def by (intro follow.kept_bind follows_arrive)
qed

text \<open>A query is made of allowed statements when its effect is that of a list of them.\<close>

definition within :: "(stmt \<Rightarrow> bool) \<Rightarrow> 'a query \<Rightarrow> bool" where
  "within A q \<longleftrightarrow> (\<forall>p d. \<exists>ss. list_all A ss \<and> snd (q p d) = exec_stmts ss p d)"

lemma withinI: "list_all A ss \<Longrightarrow> (\<And>p d. snd (q p d) = exec_stmts ss p d) \<Longrightarrow> within A q"
  by (auto simp: within_def)

lemma follows_dbcall:
  assumes "within A q"
  shows "state_io_rel (follows A) (dbcall q)"
  unfolding dbcall_def
proof (rule follows_call)
  fix w :: world
  obtain ss where ss: "list_all A ss"
    "snd (q (context_of w) (data w)) = exec_stmts ss (context_of w) (data w)"
    using assms by (auto simp: within_def)
  have "db_steps (uuids w) A (data w) (snd (q (context_of w) (data w)))"
    using db_steps_run [OF ss(1), of "context_of w" "data w"] by (simp add: ss(2))
  then show "follows A w (snd (let (r, d) = q (context_of w) (data w) in (r, w\<lparr>data := d\<rparr>)))"
    by (simp add: case_prod_unfold Let_def follows_def others_within_def)
qed

lemma exec_draws: "exec_stmts (replicate k Draw) p d = d\<lparr>drawn := drawn d + k\<rparr>"
  by (induction k arbitrary: d) (simp_all add: draw_def)

lemma follows_txcall:
  assumes "A Draw" and "\<And>p d. drawn (snd (q p d)) = drawn d + k"
  shows "state_io_rel (follows A) (txcall q t)"
  unfolding txcall_def
proof (rule follows_call)
  fix w :: world
  have "list_all A (replicate k Draw)"
    using assms(1) by (simp add: list_all_iff)
  then have "db_steps (uuids w) A (data w) (data w\<lparr>drawn := drawn (data w) + k\<rparr>)"
    using db_steps_run [of A "replicate k Draw" "context_of w" "data w"] by (simp add: exec_draws)
  then show "follows A w (snd (let (r, t', d) = txn_query q t (context_of w) (data w)
      in (map_sum id (\<lambda>x. (x, t')) r, w\<lparr>data := d\<rparr>)))"
    using assms(2)
    by (simp add: txn_query_def txn_view_def case_prod_unfold Let_def follows_def others_within_def)
qed

lemma follows_begin_call: "state_io_rel (follows A) begin_call"
  unfolding begin_call_def by (rule follows_call) (simp add: follows_refl)

lemma follows_redis_get: "state_io_rel (follows A) (redis_get k)"
  unfolding redis_get_def by (rule follows_call) (simp add: follows_refl)

lemma follows_redis_addcall: "state_io_rel (follows A) (redis_addcall k x)"
  unfolding redis_addcall_def by (rule follows_call) (simp add: case_prod_unfold Let_def follows_frame)

lemma follows_write_message: "state_io_rel (follows A) (write_message m)"
  unfolding write_message_def by (rule follows_call) (simp add: follows_frame)

lemma follows_kube_call: "state_io_rel (follows A) (kube_call f)"
  unfolding kube_call_def by (rule follows_call) (simp add: case_prod_unfold Let_def follows_frame)

lemma follows_wait: "state_io_rel (follows A) (wait t)"
proof -
  have "state_io_rel (follows A)
      (case ft of Served \<Rightarrow> State (\<lambda>w. (True, w\<lparr>clock := clock w + t\<rparr>))
       | _ \<Rightarrow> State_Monad.return False)" for ft
    by (cases ft) (auto intro!: state_io_relI follow.kept_return simp: follows_frame follows_refl)
  then show ?thesis
    unfolding wait_def by (intro follow.kept_bind follows_arrive)
qed

lemma follows_Add: "state_io_rel (follows A) (Add m n)"
  unfolding Add_def by (rule follow.kept_modify) (simp add: follows_frame)

lemma follows_Inc: "state_io_rel (follows A) (Inc m)"
  unfolding Inc_def by (rule follows_Add)

lemma follows_SetGauge: "state_io_rel (follows A) (SetGauge m n)"
  unfolding SetGauge_def by (rule follow.kept_modify) (simp add: follows_frame)

lemmas follows_intros =
  follow.kept_intros follows_begin_call follows_redis_get follows_redis_addcall
  follows_write_message follows_kube_call follows_Add follows_Inc follows_SetGauge
  follows_wait
  follows_dbcall follows_txcall

text \<open>What one statement is made of.\<close>

named_theorems within_intros "queries and the statements they are made of"

lemma within_read: "(\<And>p d. snd (q p d) = d) \<Longrightarrow> within A q"
  by (rule withinI [of A "[]"]) simp_all

lemma list_all_single: "P x \<Longrightarrow> list_all P [x]"
  by simp

lemma within_writes [within_intros]:
  "A CleanupDeadTasks \<Longrightarrow> within A cleanupDeadTasks"
  "A CleanupDeliveredOutboxEvents \<Longrightarrow> within A cleanupDeliveredOutboxEvents"
  "A CleanupStaleDatasetsInitiated \<Longrightarrow> within A cleanupStaleDatasetsInitiated"
  "A (CompleteJob i sj) \<Longrightarrow> within A (completeJob i sj)"
  "A (CompleteRun i sr) \<Longrightarrow> within A (completeRun i sr)"
  "A (CreateArtifact arg) \<Longrightarrow> within A (createArtifact arg)"
  "A (CreateRun j ws) \<Longrightarrow> within A (createRun j ws)"
  "A (CreateTask r ws k) \<Longrightarrow> within A (createTask r ws k)"
  "A (CreateUser email hash role) \<Longrightarrow> within A (createUser email hash role)"
  "A (CreateWorkspace own name plan) \<Longrightarrow> within A (createWorkspace own name plan)"
  "A (DeleteDataset i ws) \<Longrightarrow> within A (deleteDataset i ws)"
  "A (DeleteWorkspace i own) \<Longrightarrow> within A (deleteWorkspace i own)"
  "A (FailTaskWithError i msg) \<Longrightarrow> within A (failTaskWithError i msg)"
  "A (HeartbeatTask i lo) \<Longrightarrow> within A (heartbeatTask i lo)"
  "A (InitRunProgress i) \<Longrightarrow> within A (initRunProgress i)"
  "A (InitiateDataset ws creator name ff) \<Longrightarrow> within A (initiateDataset ws creator name ff)"
  "A (LeaseTask lo) \<Longrightarrow> within A (leaseTask lo)"
  "A (MarkOutboxDelivered i) \<Longrightarrow> within A (markOutboxDelivered i)"
  "A (MarkOutboxFailed i) \<Longrightarrow> within A (markOutboxFailed i)"
  "A (RetryTask i msg) \<Longrightarrow> within A (retryTask i msg)"
  "A (TaskFailed i) \<Longrightarrow> within A (taskFailed i)"
  "A (TaskStarted i) \<Longrightarrow> within A (taskStarted i)"
  "A (TaskSucceeded i) \<Longrightarrow> within A (taskSucceeded i)"
  "A (UpdateDatasetStoragePath i path sz) \<Longrightarrow> within A (updateDatasetStoragePath i path sz)"
  "A (UpdateJobState i sj) \<Longrightarrow> within A (updateJobState i sj)"
  "A (UpdateRunState i sr) \<Longrightarrow> within A (updateRunState i sr)"
  "A (UpdateRunTasksTotal i n) \<Longrightarrow> within A (updateRunTasksTotal i n)"
  "A (UpdateTaskState i sk) \<Longrightarrow> within A (updateTaskState i sk)"
  "A (UpdateWorkspace i name plan own) \<Longrightarrow> within A (updateWorkspace i name plan own)"
  "A (CommitTxn t) \<Longrightarrow> within A (commit_txn t)"
  by (rule withinI, erule list_all_single, simp)+

lemma reads_keep [simp]:
  "snd (getPendingTaskCount p d) = d"
  "snd (getRunTaskCount run_id p d) = d"
  "snd (getRunningTaskCount p d) = d"
  "snd (listTasksByRun run_id p d) = d"
  "snd (getRunByID i workspace_id p d) = d"
  "snd (getRunProgress i p d) = d"
  "snd (getRunState i p d) = d"
  "snd (listRunsByJob job_id p d) = d"
  "snd (getJobByID i workspace_id p d) = d"
  "snd (getJobByRunID run_id p d) = d"
  "snd (listJobsByWorkspace workspace_id p d) = d"
  "snd (getPendingOutboxEvents p d) = d"
  "snd (getUserByEmail email p d) = d"
  "snd (getUserByID i p d) = d"
  "snd (getWorkspaceByID i p d) = d"
  "snd (getWorkspacesByOwner owner_id p d) = d"
  "snd (getDatasetByID i workspace_id p d) = d"
  "snd (getDatasetByJobID job_id p d) = d"
  "snd (listDatasetsByWorkspace workspace_id p d) = d"
  "snd (getArtifact i p d) = d"
  "snd (listArtifactsByJob job_id p d) = d"
  "snd (listArtifactsByRun run_id p d) = d"
  by (simp_all add: getPendingTaskCount_def
      getRunTaskCount_def
      getRunningTaskCount_def
      listTasksByRun_def
      getRunByID_def
      getRunProgress_def
      getRunState_def
      listRunsByJob_def
      getJobByID_def
      getJobByRunID_def
      listJobsByWorkspace_def
      getPendingOutboxEvents_def
      getUserByEmail_def
      getUserByID_def
      getWorkspaceByID_def
      getWorkspacesByOwner_def
      getDatasetByID_def
      getDatasetByJobID_def
      listDatasetsByWorkspace_def
      getArtifact_def
      listArtifactsByJob_def
      listArtifactsByRun_def)

lemma within_reads [within_intros]:
  "within A getPendingTaskCount"
  "within A (getRunTaskCount run_id)"
  "within A getRunningTaskCount"
  "within A (listTasksByRun run_id)"
  "within A (getRunByID i workspace_id)"
  "within A (getRunProgress i)"
  "within A (getRunState i)"
  "within A (listRunsByJob job_id)"
  "within A (getJobByID i workspace_id)"
  "within A (getJobByRunID run_id)"
  "within A (listJobsByWorkspace workspace_id)"
  "within A getPendingOutboxEvents"
  "within A (getUserByEmail email)"
  "within A (getUserByID i)"
  "within A (getWorkspaceByID i)"
  "within A (getWorkspacesByOwner owner_id)"
  "within A (getDatasetByID i workspace_id)"
  "within A (getDatasetByJobID job_id)"
  "within A (listDatasetsByWorkspace workspace_id)"
  "within A (getArtifact i)"
  "within A (listArtifactsByJob job_id)"
  "within A (listArtifactsByRun run_id)"
  by (rule within_read, simp)+

end
