(* ===== verification/Go_Libs.thy ===== *)
theory Go_Libs imports World begin

text \<open>
  The third-party packages the services call, as arguments of the model, with what the services
  rely on: \<open>github.com/google/uuid\<close> here. A concrete text form of identifiers shows that
  the assumption can hold.
\<close>

section \<open>Identifiers as text\<close>

text \<open>\<open>uuid.Parse\<close> and \<open>uuid.UUID.String\<close>.\<close>

record uuid_lib =
  uuid_Parse :: "string \<Rightarrow> go_error + uuid"
  uuid_String :: "uuid \<Rightarrow> string"

text \<open>Parsing the text of an identifier gives it back, and the text has 36 characters.\<close>

definition uuid_ok :: "uuid_lib \<Rightarrow> bool" where
  "uuid_ok U \<longleftrightarrow>
     (\<forall>i. uuid_Parse U (uuid_String U i) = Inr i \<and> length (uuid_String U i) = 36)"

lemma uuid_okD [simp]:
  "uuid_ok U \<Longrightarrow> uuid_Parse U (uuid_String U i) = Inr i"
  "uuid_ok U \<Longrightarrow> length (uuid_String U i) = 36"
  by (simp_all add: uuid_ok_def)

lemma uuid_String_inj: "uuid_ok U \<Longrightarrow> uuid_String U i = uuid_String U j \<longleftrightarrow> i = j"
  by (metis sum.inject(2) uuid_okD(1))

section \<open>A concrete text form\<close>

primrec hex_digits :: "nat \<Rightarrow> nat \<Rightarrow> string" where
  "hex_digits 0 n = []"
| "hex_digits (Suc k) n = hex_digits k (n div 16) @ [hex_digit (n mod 16)]"

definition hex_value_of :: "char \<Rightarrow> nat" where
  "hex_value_of c = (let n = of_char c :: nat in if n < 58 then n - 48 else n - 87)"

definition hex_value :: "string \<Rightarrow> nat" where
  "hex_value s = foldl (\<lambda>a c. 16 * a + hex_value_of c) 0 s"

definition dashed :: "string \<Rightarrow> string" where
  "dashed h = take 8 h @ ''-'' @ take 4 (drop 8 h) @ ''-'' @ take 4 (drop 12 h) @ ''-''
     @ take 4 (drop 16 h) @ ''-'' @ drop 20 h"

definition uuid_text :: "uuid \<Rightarrow> string" where
  "uuid_text i = dashed (hex_digits 32 (unat i))"

text \<open>\<open>uuid.Parse\<close> reads the digits with the dashes and, among others, without.\<close>

definition uuid_read :: "string \<Rightarrow> go_error + uuid" where
  "uuid_read s =
     (let h = filter (\<lambda>c. c \<noteq> CHR ''-'') s
      in if length h = 32 \<and> (s = dashed h \<or> s = h) then Inr (word_of_nat (hex_value h))
         else Inl (ErrorString ''invalid UUID format''))"

definition sample_uuids :: uuid_lib where
  "sample_uuids = \<lparr>uuid_Parse = uuid_read, uuid_String = uuid_text\<rparr>"

lemma length_hex_digits [simp]: "length (hex_digits k n) = k"
  by (induction k arbitrary: n) simp_all

lemma hex_value_of_digit: "n < 16 \<Longrightarrow> hex_value_of (hex_digit n) = n"
  by (simp add: hex_value_of_def hex_digit_def Let_def)

lemma hex_digit_not_dash: "n < 16 \<Longrightarrow> hex_digit n \<noteq> CHR ''-''"
proof
  assume n: "n < 16" and "hex_digit n = CHR ''-''"
  then have "of_char (hex_digit n) = (of_char (CHR ''-'') :: nat)" by simp
  with n show False by (simp add: hex_digit_def split: if_splits)
qed

lemma hex_value_digits: "hex_value (hex_digits k n) = n mod 16 ^ k"
proof (induction k arbitrary: n)
  case (Suc k)
  have "hex_value (hex_digits (Suc k) n) = 16 * ((n div 16) mod 16 ^ k) + n mod 16"
    using Suc by (simp add: hex_value_def hex_value_of_digit)
  then show ?case by (simp add: mod_mult2_eq)
qed (simp add: hex_value_def)

lemma hex_digits_not_dash: "c \<in> set (hex_digits k n) \<Longrightarrow> c \<noteq> CHR ''-''"
proof (induction k arbitrary: n)
  case (Suc k)
  then show ?case using hex_digit_not_dash [of "n mod 16"] by auto
qed simp

lemma uuid_text_digits: "filter (\<lambda>c. c \<noteq> CHR ''-'') (uuid_text i) = hex_digits 32 (unat i)"
proof -
  define h where "h = hex_digits 32 (unat i)"
  have keep: "filter (\<lambda>c. c \<noteq> CHR ''-'') s = s" if "set s \<subseteq> set h" for s
    using that hex_digits_not_dash [of _ 32 "unat i"] by (auto simp: h_def intro!: filter_True)
  have sub: "set (take a (drop b h)) \<subseteq> set h" for a b
    by (meson in_set_dropD in_set_takeD subsetI)
  have "filter (\<lambda>c. c \<noteq> CHR ''-'') (uuid_text i)
      = take 8 h @ take 4 (drop 8 h) @ take 4 (drop 12 h) @ take 4 (drop 16 h) @ drop 20 h"
    using keep [OF sub] keep [of "take 8 h"] keep [of "drop 20 h"]
    by (simp add: uuid_text_def dashed_def h_def [symmetric] set_take_subset set_drop_subset)
  also have "\<dots> = h"
  proof -
    have "drop a h = take 4 (drop a h) @ drop (a + 4) h" for a
      using append_take_drop_id [of 4 "drop a h"] by (simp add: add.commute)
    from this [of 8] this [of 12] this [of 16] append_take_drop_id [of 8 h]
    show ?thesis by simp
  qed
  finally show ?thesis by (simp add: h_def)
qed

lemma uuid_text_not_plain: "uuid_text i \<noteq> hex_digits k n"
proof
  assume "uuid_text i = hex_digits k n"
  moreover have "CHR ''-'' \<in> set (uuid_text i)"
    by (simp add: uuid_text_def dashed_def)
  ultimately show False
    using hex_digits_not_dash by metis
qed

lemma uuid_read_plain: "uuid_read (hex_digits 32 (unat i)) = Inr i"
proof -
  have "filter (\<lambda>c. c \<noteq> CHR ''-'') (hex_digits 32 (unat i)) = hex_digits 32 (unat i)"
    by (intro filter_True) (auto dest: hex_digits_not_dash)
  moreover have "unat i < 16 ^ 32"
    using unsigned_less [of i] by (simp flip: unat_eq_nat_uint)
  ultimately show ?thesis
    by (simp add: uuid_read_def hex_value_digits)
qed

lemma sample_uuids_ok [simp]: "uuid_ok sample_uuids"
proof -
  have "uuid_read (uuid_text i) = Inr i" for i :: uuid
  proof -
    have "unat i < 16 ^ 32"
      using unsigned_less [of i] by (simp flip: unat_eq_nat_uint)
    then show ?thesis
      by (simp add: uuid_read_def uuid_text_digits hex_value_digits) (simp add: uuid_text_def hex_value_digits)
  qed
  then show ?thesis
    by (simp add: uuid_ok_def sample_uuids_def) (simp add: uuid_text_def dashed_def)
qed

lemma sample_parse [simp]: "uuid_Parse sample_uuids (uuid_text i) = Inr i"
  using uuid_okD(1) [OF sample_uuids_ok, of i] by (simp add: sample_uuids_def)

end
