(* ===== verification/Rate_Limit.thy ===== *)
theory Rate_Limit imports Go_Libs begin

text \<open>
  \<open>internal/ratelimit/ratelimit.go\<close>: the number of running jobs of a workspace, counted
  in Redis under one key per workspace, and the limit on it.
\<close>

section \<open>Operations\<close>

definition rate_key :: "string \<Rightarrow> string" where
  "rate_key workspaceID = ''rate_limit:jobs:running:'' @ workspaceID"

definition AllowJobSubmission :: "int \<Rightarrow> string \<Rightarrow> (world, go_error + bool) state" where
  "AllowJobSubmission maxRunningJobs workspaceID =
     checked (redis_get (rate_key workspaceID)) (WrapError ''failed to get rate limit counter'')
       (\<lambda>reply.
          let count = (case reply of None \<Rightarrow> 0 | Some n \<Rightarrow> n)
          in State_Monad.return (Inr (\<not> count \<ge> maxRunningJobs)))"

definition IncrementRunningJobs :: "string \<Rightarrow> (world, go_error + unit) state" where
  "IncrementRunningJobs workspaceID = redis_addcall (rate_key workspaceID) 1"

definition DecrementRunningJobs :: "string \<Rightarrow> (world, go_error + unit) state" where
  "DecrementRunningJobs workspaceID = redis_addcall (rate_key workspaceID) (- 1)"

section \<open>What they keep\<close>

lemma rate_key_inj [simp]: "rate_key a = rate_key b \<longleftrightarrow> a = b"
  by (simp add: rate_key_def)

lemma follows_rate:
  "state_io_rel (follows A) (AllowJobSubmission n ws)"
  "state_io_rel (follows A) (IncrementRunningJobs ws)"
  "state_io_rel (follows A) (DecrementRunningJobs ws)"
  unfolding AllowJobSubmission_def IncrementRunningJobs_def DecrementRunningJobs_def
  by (intro follows_intros)+

lemma uses_rate:
  "state_io_rel uses_slots (AllowJobSubmission n ws)"
  "state_io_rel uses_slots (IncrementRunningJobs ws)"
  "state_io_rel uses_slots (DecrementRunningJobs ws)"
  unfolding AllowJobSubmission_def IncrementRunningJobs_def DecrementRunningJobs_def
  by (intro uses_intros)+

text \<open>The number of running jobs the limiter knows of.\<close>

definition running_jobs :: "world \<Rightarrow> string \<Rightarrow> int" where
  "running_jobs w ws = (case redis w (rate_key ws) of None \<Rightarrow> 0 | Some n \<Rightarrow> n)"

lemma run_AllowJobSubmission [run_simps]:
  "slots w = [] \<Longrightarrow> run_state (AllowJobSubmission n ws) w = (Inr (running_jobs w ws < n), w)"
  by (simp add: AllowJobSubmission_def redis_get_def run_simps running_jobs_def not_le)

lemma run_redis_addcall:
  "slots w = [] \<Longrightarrow> int8 (running_jobs w ws + x) \<Longrightarrow>
   run_state (redis_addcall (rate_key ws) x) w =
     (Inr (), w\<lparr>redis := (redis w)(rate_key ws \<mapsto> running_jobs w ws + x)\<rparr>)"
  by (simp add: redis_addcall_def run_call_quiet redis_add_def running_jobs_def Let_def)

lemma run_IncrementRunningJobs [run_simps]:
  "slots w = [] \<Longrightarrow> int8 (running_jobs w ws + 1) \<Longrightarrow> run_state (IncrementRunningJobs ws) w =
     (Inr (), w\<lparr>redis := (redis w)(rate_key ws \<mapsto> running_jobs w ws + 1)\<rparr>)"
  by (simp add: IncrementRunningJobs_def run_redis_addcall)

lemma run_DecrementRunningJobs [run_simps]:
  "slots w = [] \<Longrightarrow> int8 (running_jobs w ws - 1) \<Longrightarrow> run_state (DecrementRunningJobs ws) w =
     (Inr (), w\<lparr>redis := (redis w)(rate_key ws \<mapsto> running_jobs w ws - 1)\<rparr>)"
  using run_redis_addcall [of w ws "- 1"] by (simp add: DecrementRunningJobs_def)

end
