(* ===== verification/Kafka_Bus.thy ===== *)
theory Kafka_Bus imports Rate_Limit begin

text \<open>
  \<open>internal/kafka\<close>: the producer, the dispatcher that moves outbox events to Kafka, and
  the consumer loop with its three attempts and its dead-letter topic. A handler of messages is an
  argument of the consumer; the locale states what the consumer relies on.
\<close>

section \<open>Producer\<close>

text \<open>
  \<open>json.Marshal\<close> of a document gives its encoding, and refuses a
  \<open>json.RawMessage\<close> that holds none.
\<close>

definition Publish ::
  "string \<Rightarrow> string \<Rightarrow> raw_message \<Rightarrow> (string \<times> string) list \<Rightarrow> (world, go_error + unit) state" where
  "Publish topic key payload headers =
     (case payload of
        Inl _ \<Rightarrow> State_Monad.return (Inl (WrapError ''failed to marshal payload'' syntax_error))
      | Inr doc \<Rightarrow> write_message
          \<lparr>m_topic = topic, m_key = key, m_value = Inr doc, m_headers = headers\<rparr>)"

section \<open>Dispatcher\<close>

definition trace_headers :: "json \<Rightarrow> (string \<times> string) list" where
  "trace_headers payload =
     (case Unmarshal_map (Inr payload) of
        Inl _ \<Rightarrow> []
      | Inr raw \<Rightarrow>
          (case map_get raw ''traceparent'' of
             Some tp \<Rightarrow> (if tp \<noteq> [] then [(''traceparent'', tp)] else [])
           | None \<Rightarrow> []))"

definition dispatch_event :: "uuid_lib \<Rightarrow> Outbox \<Rightarrow> (world, unit) state" where
  "dispatch_event U event =
     State_Monad.bind
       (Publish (o_event_type event) (uuid_String U (o_aggregate_id event))
          (Inr (o_payload event)) (trace_headers (o_payload event)))
       (\<lambda>r. case r of
          Inl err \<Rightarrow>
            State_Monad.bind (dbcall (markOutboxFailed (o_id event))) (\<lambda>_. State_Monad.return ())
        | Inr _ \<Rightarrow>
            State_Monad.bind (dbcall (markOutboxDelivered (o_id event)))
              (\<lambda>_. State_Monad.return ()))"

definition dispatch :: "uuid_lib \<Rightarrow> (world, go_error + unit) state" where
  "dispatch U =
     checked (dbcall getPendingOutboxEvents) id
       (\<lambda>events. State_Monad.bind (for_each (dispatch_event U) events)
          (\<lambda>_. State_Monad.return (Inr ())))"

text \<open>
  The dispatcher's loop: a round every two seconds until shutdown; the error of a round is logged.
\<close>

primrec dispatcher_loop :: "uuid_lib \<Rightarrow> nat \<Rightarrow> (world, unit) state" where
  "dispatcher_loop U 0 = State_Monad.return ()"
| "dispatcher_loop U (Suc ticks) =
     State_Monad.bind (wait (seconds 2)) (\<lambda>ticked.
     if \<not> ticked then State_Monad.return ()
     else State_Monad.bind (dispatch U) (\<lambda>_. dispatcher_loop U ticks))"

section \<open>Consumer\<close>

text \<open>What a consumer is made of: its reader's settings and the topic of its dead letters.\<close>

record consumer =
  reader_Brokers :: "string list"
  reader_Topic :: string
  reader_GroupID :: string
  producer_Addr :: string
  dlq_topic :: string

definition NewConsumer :: "string \<Rightarrow> string \<Rightarrow> string \<Rightarrow> consumer" where
  "NewConsumer brokers topic groupID =
     \<lparr>reader_Brokers = [brokers], reader_Topic = topic, reader_GroupID = groupID,
      producer_Addr = brokers, dlq_topic = topic @ ''.deadletter''\<rparr>"

type_synonym handler = "string option \<Rightarrow> raw_message \<Rightarrow> (world, go_error + unit) state"

definition maxRetries :: nat where
  "maxRetries = 3"

text \<open>The trace context of a message: its first \<open>traceparent\<close> header.\<close>

definition message_trace :: "message \<Rightarrow> string option" where
  "message_trace msg = map_option snd (find (\<lambda>h. fst h = ''traceparent'') (m_headers msg))"

text \<open>
  The attempts from number \<open>attempt\<close> on: \<open>None\<close> when shutdown cut a wait
  short, otherwise the value of \<open>lastErr\<close> after the loop.
\<close>

function attempts :: "handler \<Rightarrow> message \<Rightarrow> nat \<Rightarrow> (world, go_error option option) state" where
  "attempts handle msg attempt =
     State_Monad.bind (handle (message_trace msg) (m_value msg))
       (\<lambda>r. case r of
          Inr _ \<Rightarrow> State_Monad.return (Some None)
        | Inl err \<Rightarrow>
            (if attempt < maxRetries
             then State_Monad.bind (wait (seconds (int attempt)))
                    (\<lambda>elapsed. if elapsed then attempts handle msg (attempt + 1)
                               else State_Monad.return None)
             else State_Monad.return (Some (Some err))))"
  by pat_completeness auto
termination
  by (relation "measure (\<lambda>(_, _, attempt). maxRetries - attempt)") auto

definition dead_letter :: "string \<Rightarrow> message \<Rightarrow> go_error \<Rightarrow> message" where
  "dead_letter dlqTopic msg err =
     \<lparr>m_topic = dlqTopic, m_key = m_key msg,
      m_value = Inr (Marshal_map [(''original_payload'', raw_text (m_value msg)),
        (''error'', error_text err), (''topic'', m_topic msg)]),
      m_headers = []\<rparr>"

text \<open>One turn of the consumer's loop for a message: whether the loop goes on.\<close>

definition consume_message :: "handler \<Rightarrow> string \<Rightarrow> message \<Rightarrow> (world, bool) state" where
  "consume_message handle dlqTopic msg =
     State_Monad.bind (attempts handle msg 1)
       (\<lambda>result. case result of
          None \<Rightarrow> State_Monad.return False
        | Some None \<Rightarrow> State_Monad.return True
        | Some (Some lastErr) \<Rightarrow>
            State_Monad.bind
              (Publish dlqTopic (m_key msg) (m_value (dead_letter dlqTopic msg lastErr)) [])
              (\<lambda>_. State_Monad.return True))"

text \<open>
  The loop over what the reader returns until the process shuts down: an error of the reader is
  logged and skipped.
\<close>

primrec Consume :: "handler \<Rightarrow> string \<Rightarrow> (go_error + message) list \<Rightarrow> (world, unit) state" where
  "Consume handle topic [] = State_Monad.return ()"
| "Consume handle topic (read # reads) =
     (case read of
        Inl err \<Rightarrow> Consume handle topic reads
      | Inr msg \<Rightarrow>
          State_Monad.bind (consume_message handle (topic @ ''.deadletter'') msg)
            (\<lambda>continue. if continue then Consume handle topic reads else State_Monad.return ()))"

declare attempts.simps [simp del]

section \<open>What the steps keep\<close>

lemma follows_Publish: "state_io_rel (follows A) (Publish topic key payload headers)"
  unfolding Publish_def by (intro follows_intros)

lemma uses_Publish: "state_io_rel uses_slots (Publish topic key payload headers)"
  unfolding Publish_def by (intro uses_intros)

lemma follows_dispatch:
  "(\<And>i. A (MarkOutboxDelivered i)) \<Longrightarrow> (\<And>i. A (MarkOutboxFailed i)) \<Longrightarrow>
   state_io_rel (follows A) (dispatch U)"
  unfolding dispatch_def dispatch_event_def
  by (intro follows_intros follows_Publish within_intros; simp)

lemma uses_dispatch: "state_io_rel uses_slots (dispatch U)"
  unfolding dispatch_def dispatch_event_def by (intro uses_intros uses_Publish)

lemma run_Publish [run_simps]:
  "slots w = [] \<Longrightarrow> run_state (Publish topic key (Inr doc) hs) w =
     (Inr (), w\<lparr>topics := topics w @ [\<lparr>m_topic = topic, m_key = key, m_value = Inr doc, m_headers = hs\<rparr>]\<rparr>)"
  by (simp add: Publish_def write_message_def run_call_quiet)

text \<open>One attempt at a message.\<close>

definition run_attempt :: "handler \<Rightarrow> message \<Rightarrow> world \<Rightarrow> (go_error + unit) \<times> world" where
  "run_attempt handle msg w = run_state (handle (message_trace msg) (m_value msg)) w"

text \<open>
  A relation that waiting, writing a message and a handler keep is kept by the consumer's loop around
  the handler, whatever its messages and failures are.
\<close>

locale bus_relation = kept_relation R for R :: "world \<Rightarrow> world \<Rightarrow> bool" +
  fixes handle :: handler
  assumes handle_kept: "state_io_rel R (handle tp payload)"
    and wait_kept: "state_io_rel R (wait t)"
    and write_kept: "state_io_rel R (write_message m)"
begin

lemma attempts_kept: "state_io_rel R (attempts handle msg k)"
proof (induction "maxRetries - k" arbitrary: k rule: less_induct)
  case less
  then have next_attempt: "k < maxRetries \<Longrightarrow> state_io_rel R (attempts handle msg (k + 1))"
    by simp
  show ?case
    by (subst attempts.simps) (intro kept_intros handle_kept wait_kept next_attempt)
qed

lemma consume_kept: "state_io_rel R (consume_message handle dlq msg)"
  unfolding consume_message_def Publish_def by (intro kept_intros attempts_kept write_kept)

lemma Consume_kept: "state_io_rel R (Consume handle topic reads)"
proof (induction reads)
  case (Cons read reads)
  then show ?case by (simp, intro kept_intros consume_kept)
qed (simp add: kept_return)

end

text \<open>
  What the consumer relies on: a handler uses the slots in their order, so that one that meets no
  interference leaves none behind; and, in the extension, its database work stays within
  \<open>A\<close>. Both then hold for the whole loop.
\<close>

locale quiet_handler =
  fixes handle :: handler
  assumes handle_uses: "state_io_rel uses_slots (handle tp payload)"

sublocale quiet_handler \<subseteq> slots_used: bus_relation uses_slots handle
  by unfold_locales (fact handle_uses uses_wait uses_calls)+

context quiet_handler begin

lemmas Consume_uses = slots_used.Consume_kept

lemma attempt_quiet: "slots w = [] \<Longrightarrow> slots (snd (run_attempt handle msg w)) = []"
  using uses_slots_quiet state_io_relD [OF handle_uses]
  unfolding run_attempt_def by (metis prod.collapse)

lemma attempts_quiet:
  assumes "slots w = []"
  shows "run_state (attempts handle msg k) w =
    (case run_attempt handle msg w of
       (Inr _, w') \<Rightarrow> (Some None, w')
     | (Inl e, w') \<Rightarrow>
         if k < maxRetries
         then run_state (attempts handle msg (k + 1)) (w'\<lparr>clock := clock w' + seconds (int k)\<rparr>)
         else (Some (Some e), w'))"
  using attempt_quiet [OF assms, of msg]
  by (subst attempts.simps)
    (auto simp: run_attempt_def run_wait_quiet split: prod.splits sum.splits)

text \<open>The three attempts of a message, one after the other.\<close>

lemma consume_quiet:
  assumes "slots w = []"
  shows "run_state (consume_message handle dlq msg) w =
    (let (r1, w1) = run_attempt handle msg w;
         (r2, w2) = run_attempt handle msg (w1\<lparr>clock := clock w1 + seconds 1\<rparr>);
         (r3, w3) = run_attempt handle msg (w2\<lparr>clock := clock w2 + seconds 2\<rparr>)
     in (True,
         case r1 of Inr _ \<Rightarrow> w1 | Inl _ \<Rightarrow>
         (case r2 of Inr _ \<Rightarrow> w2 | Inl _ \<Rightarrow>
         (case r3 of Inr _ \<Rightarrow> w3 | Inl e \<Rightarrow> w3\<lparr>topics := topics w3 @ [dead_letter dlq msg e]\<rparr>))))"
proof -
  obtain r1 w1 where a1: "run_attempt handle msg w = (r1, w1)" by fastforce
  then have q1: "slots (w1\<lparr>clock := clock w1 + seconds 1\<rparr>) = []"
    using attempt_quiet [OF assms, of msg] by simp
  obtain r2 w2 where a2: "run_attempt handle msg (w1\<lparr>clock := clock w1 + seconds 1\<rparr>) = (r2, w2)" by fastforce
  then have q2: "slots (w2\<lparr>clock := clock w2 + seconds 2\<rparr>) = []"
    using attempt_quiet [OF q1, of msg] by simp
  obtain r3 w3 where a3: "run_attempt handle msg (w2\<lparr>clock := clock w2 + seconds 2\<rparr>) = (r3, w3)" by fastforce
  then have q3: "slots w3 = []"
    using attempt_quiet [OF q2, of msg] by simp
  show ?thesis
    by (cases r1; cases r2; cases r3)
      (simp_all add: consume_message_def attempts_quiet assms q1 q2 q3 a1 a2 a3 maxRetries_def
        Let_def dead_letter_def run_Publish)
qed

end

locale message_handler = quiet_handler +
  fixes A :: "stmt \<Rightarrow> bool"
  assumes handle_follows: "state_io_rel (follows A) (handle tp payload)"

sublocale message_handler \<subseteq> followed: bus_relation "follows A" handle
  by unfold_locales (intro handle_follows follows_intros)+

context message_handler begin

lemmas Consume_follows = followed.Consume_kept

end

end
