(* ===== verification/Job_Service.thy ===== *)
theory Job_Service imports Kafka_Bus begin

text \<open>
  \<open>internal/service/job_service.go\<close> with the download links of
  \<open>internal/storage/minio.go\<close>: submitting a job inside the transaction that also
  writes its outbox event, cancelling it, and reading its state, progress and artifacts.
\<close>

section \<open>Object storage\<close>

text \<open>The presigning calls of the MinIO client, by bucket, object and validity.\<close>

record minio =
  bucketName :: string
  PresignedPutObject :: "string \<Rightarrow> string \<Rightarrow> int \<Rightarrow> go_error + string"
  PresignedGetObject :: "string \<Rightarrow> string \<Rightarrow> int \<Rightarrow> go_error + string"

definition GenerateUploadURL :: "minio \<Rightarrow> string \<Rightarrow> go_error + string" where
  "GenerateUploadURL m objectKey =
     (case PresignedPutObject m (bucketName m) objectKey (seconds (15 * 60)) of
        Inl err \<Rightarrow> Inl (WrapError ''failed to generate upload url'' err)
      | Inr url \<Rightarrow> Inr url)"

definition GenerateDownloadURL :: "minio \<Rightarrow> string \<Rightarrow> go_error + string" where
  "GenerateDownloadURL m objectKey =
     (case PresignedGetObject m (bucketName m) objectKey (seconds (15 * 60)) of
        Inl err \<Rightarrow> Inl (WrapError ''failed to generate download url'' err)
      | Inr url \<Rightarrow> Inr url)"

section \<open>Operations\<close>

text \<open>\<open>x, err := uuid.Parse(s); if err != nil { return ... }\<close>.\<close>

definition parsed ::
  "uuid_lib \<Rightarrow> string \<Rightarrow> string \<Rightarrow> (uuid \<Rightarrow> (world, go_error + 'a) state) \<Rightarrow> (world, go_error + 'a) state" where
  "parsed U text msg k =
     (case uuid_Parse U text of
        Inl err \<Rightarrow> State_Monad.return (Inl (WrapError msg err))
      | Inr i \<Rightarrow> k i)"

definition rate_limit_exceeded :: go_error where
  "rate_limit_exceeded =
     ErrorString ''rate limit exceeded: max 10 concurrent jobs per workspace''"

text \<open>The payload of the outbox event; \<open>traceparent\<close> is empty without a trace.\<close>

definition submitted_payload :: "uuid_lib \<Rightarrow> uuid \<Rightarrow> string \<Rightarrow> string \<Rightarrow> json" where
  "submitted_payload U job_id workspaceID traceparent =
     Marshal_map [(''job_id'', uuid_String U job_id), (''workspace_id'', workspaceID),
       (''traceparent'', traceparent)]"

definition CreateJob_params ::
  "uuid \<Rightarrow> uuid \<Rightarrow> uuid \<Rightarrow> string \<Rightarrow> json option \<Rightarrow> json option \<Rightarrow> int \<Rightarrow> string \<Rightarrow> CreateJobParams" where
  "CreateJob_params workspace_id created_by dataset_id entrypoint parameters compute max_retries key =
     \<lparr>cj_WorkspaceID = workspace_id, cj_CreatedBy = created_by, cj_DatasetID = dataset_id,
      cj_Entrypoint = entrypoint, cj_Parameters = parameters, cj_Compute = compute,
      cj_MaxRetries = max_retries, cj_IdempotencyKey = (if key \<noteq> [] then Some key else None)\<rparr>"

text \<open>The transaction of a submission and the increment after its commit.\<close>

definition submit_job ::
  "uuid_lib \<Rightarrow> string \<Rightarrow> string \<Rightarrow> CreateJobParams \<Rightarrow> (world, go_error + Job) state" where
  "submit_job U traceparent workspaceID params =
     checked begin_call (WrapError ''failed to begin transaction'') (\<lambda>tx.
     checked (txcall (createJob params) tx) (WrapError ''failed to create job'') (\<lambda>(job, tx1).
     checked (txcall (createOutboxEvent ''job.submitted'' (j_id job)
                (submitted_payload U (j_id job) workspaceID traceparent)) tx1)
       (WrapError ''failed to create outbox event'') (\<lambda>(event, tx2).
     checked (dbcall (commit_txn tx2)) (WrapError ''failed to commit transaction'') (\<lambda>_.
     checked (IncrementRunningJobs workspaceID) (WrapError ''failed to increment rate limit'')
       (\<lambda>_. State_Monad.return (Inr job))))))"

definition CreateJob ::
  "uuid_lib \<Rightarrow> int \<Rightarrow> string \<Rightarrow> string \<Rightarrow> string \<Rightarrow> string \<Rightarrow> string \<Rightarrow> json option \<Rightarrow> json option
    \<Rightarrow> int \<Rightarrow> string \<Rightarrow> (world, go_error + Job) state" where
  "CreateJob U maxRunningJobs traceparent workspaceID createdBy datasetID entrypoint parameters
      compute max_retries idempotencyKey =
     checked (AllowJobSubmission maxRunningJobs workspaceID) (WrapError ''rate limit check failed'')
       (\<lambda>allowed.
     if \<not> allowed then State_Monad.return (Inl rate_limit_exceeded) else
     parsed U workspaceID ''invalid workspace id'' (\<lambda>workspaceUUID.
     parsed U createdBy ''invalid user id'' (\<lambda>createdByUUID.
     parsed U datasetID ''invalid dataset id'' (\<lambda>datasetUUID.
     submit_job U traceparent workspaceID
       (CreateJob_params workspaceUUID createdByUUID datasetUUID entrypoint parameters compute
          max_retries idempotencyKey)))))"

definition GetJob :: "uuid_lib \<Rightarrow> string \<Rightarrow> string \<Rightarrow> (world, go_error + Job) state" where
  "GetJob U jobID workspaceID =
     parsed U jobID ''invalid job id'' (\<lambda>jobUUID.
     parsed U workspaceID ''invalid workspace id'' (\<lambda>workspaceUUID.
     dbcall (getJobByID jobUUID workspaceUUID)))"

definition ListJobs :: "uuid_lib \<Rightarrow> string \<Rightarrow> (world, go_error + Job list) state" where
  "ListJobs U workspaceID =
     parsed U workspaceID ''invalid workspace id'' (\<lambda>workspaceUUID.
     dbcall (listJobsByWorkspace workspaceUUID))"

text \<open>
  A run that cannot be cancelled is logged and skipped. When listing the runs fails, the Go
  function returns the cancelled job beside the error; its only caller drops it.
\<close>

definition CancelJob :: "uuid_lib \<Rightarrow> string \<Rightarrow> (world, go_error + Job) state" where
  "CancelJob U jobID =
     parsed U jobID ''invalid job id'' (\<lambda>jobUUID.
     checked (dbcall (updateJobState jobUUID JobStateCANCELLED))
       (WrapError ''failed to cancel job'') (\<lambda>job.
     checked (dbcall (listRunsByJob jobUUID)) (WrapError ''failed to list runs'') (\<lambda>rs.
     State_Monad.bind
       (for_each (\<lambda>run. State_Monad.bind
            (dbcall (updateRunState (r_id run) RunStateCANCELLED))
            (\<lambda>_. State_Monad.return ())) rs)
       (\<lambda>_. State_Monad.return (Inr job)))))"

text \<open>Wrapping the nil error of an empty list prints it as shown.\<close>

definition no_runs :: go_error where
  "no_runs = ErrorString ''no runs found for job: %!w(<nil>)''"

definition GetJobProgress :: "uuid_lib \<Rightarrow> string \<Rightarrow> string \<Rightarrow> (world, go_error + GetRunProgressRow) state" where
  "GetJobProgress U jobID workspaceID =
     parsed U jobID ''invalid job id'' (\<lambda>jobUUID.
     parsed U workspaceID ''invalid workspace id'' (\<lambda>workspaceUUID.
     checked (dbcall (getJobByID jobUUID workspaceUUID)) (WrapError ''job not found'') (\<lambda>job.
     checked (dbcall (listRunsByJob (j_id job))) (WrapError ''no runs found for job'') (\<lambda>rs.
     case rs of
       [] \<Rightarrow> State_Monad.return (Inl no_runs)
     | run # _ \<Rightarrow> dbcall (getRunProgress (r_id run))))))"

text \<open>
  \<open>uuid.MustParse\<close> panics on a text it cannot parse: \<open>None\<close>.
\<close>

definition GetJobArtifacts ::
  "uuid_lib \<Rightarrow> string \<Rightarrow> string \<Rightarrow> (world, (go_error + Artifact list) option) state" where
  "GetJobArtifacts U jobID workspaceID =
     (case uuid_Parse U jobID of
        Inl err \<Rightarrow> State_Monad.return (Some (Inl (WrapError ''invalid job id'' err)))
      | Inr jobUUID \<Rightarrow>
          (case uuid_Parse U workspaceID of
             Inl err \<Rightarrow> State_Monad.return None
           | Inr workspaceUUID \<Rightarrow>
               State_Monad.bind
                 (checked (dbcall (getJobByID jobUUID workspaceUUID)) (WrapError ''job not found'')
                    (\<lambda>_. dbcall (listArtifactsByJob jobUUID)))
                 (\<lambda>r. State_Monad.return (Some r))))"

definition GetArtifactDownloadURL :: "uuid_lib \<Rightarrow> minio \<Rightarrow> string \<Rightarrow> (world, go_error + string) state" where
  "GetArtifactDownloadURL U m artifactID =
     parsed U artifactID ''invalid artifact id'' (\<lambda>artifactUUID.
     checked (dbcall (getArtifact artifactUUID)) (WrapError ''artifact not found'') (\<lambda>artifact.
     State_Monad.return (GenerateDownloadURL m (a_storage_path artifact))))"

section \<open>What they keep\<close>

lemma follows_parsed:
  "(\<And>i. state_io_rel (follows A) (k i)) \<Longrightarrow> state_io_rel (follows A) (parsed U s msg k)"
  unfolding parsed_def by (intro follows_intros)

lemma uses_parsed:
  "(\<And>i. state_io_rel uses_slots (k i)) \<Longrightarrow> state_io_rel uses_slots (parsed U s msg k)"
  unfolding parsed_def by (intro uses_intros)

lemma parsed_Inr [simp]: "uuid_Parse U s = Inr i \<Longrightarrow> parsed U s msg k = k i"
  by (simp add: parsed_def)

lemma parsed_String [simp]: "uuid_ok U \<Longrightarrow> parsed U (uuid_String U i) msg k = k i"
  by simp

lemma drawn_createJob [simp]: "drawn (snd (createJob arg p d)) = drawn d + 1"
  by (simp add: createJob_def draw_def Let_def split: option.splits prod.splits)

lemma drawn_createOutboxEvent [simp]: "drawn (snd (createOutboxEvent ty i pl p d)) = drawn d + 1"
  by (simp add: createOutboxEvent_def draw_def Let_def split: option.splits)

text \<open>What a transaction of a submission holds at each of its steps.\<close>

definition submits :: "txn \<Rightarrow> bool" where
  "submits t \<longleftrightarrow>
     list_all (\<lambda>j. j_state j = JobStateSUBMITTED) (tx_jobs t)
     \<and> list_all (\<lambda>e. o_status e = OutboxStatusPENDING) (tx_outbox t)"

lemma begin_submits: "run_state begin_call w = (Inr t, w') \<Longrightarrow> submits t"
  by (auto simp: begin_call_def submits_def begin_txn_def dest!: call_result)

lemma txcall_submits:
  assumes "run_state (txcall q t) w = (Inr xt, w')" and "submits t"
    and "\<And>p d. jobs (snd (q p d)) = jobs d \<or> (\<exists>j. jobs (snd (q p d)) = jobs d @ [j] \<and> j_state j = JobStateSUBMITTED)"
    and "\<And>p d. outbox (snd (q p d)) = outbox d \<or> (\<exists>e. outbox (snd (q p d)) = outbox d @ [e] \<and> o_status e = OutboxStatusPENDING)"
  shows "submits (snd xt)"
proof -
  obtain v where v: "map_sum id (\<lambda>x. (x, fst (snd (txn_query q t (context_of v) (data v)))))
      (fst (txn_query q t (context_of v) (data v))) = Inr xt"
    using call_result [OF assms(1) [unfolded txcall_def]] by (auto simp: case_prod_unfold Let_def)
  then have "snd xt = fst (snd (txn_query q t (context_of v) (data v)))"
    by (cases "fst (txn_query q t (context_of v) (data v))") auto
  then show ?thesis
    using assms(2) assms(3,4) [of "context_of v\<lparr>now := tx_start t\<rparr>" "txn_view t (data v)"]
    by (auto simp: submits_def txn_query_def txn_view_def case_prod_unfold Let_def)
qed

lemma createJob_submits_rows:
  "jobs (snd (createJob arg p d)) = jobs d \<or> (\<exists>j. jobs (snd (createJob arg p d)) = jobs d @ [j] \<and> j_state j = JobStateSUBMITTED)"
  "outbox (snd (createJob arg p d)) = outbox d"
  by (auto simp: createJob_def draw_def Let_def new_job_def split: option.splits)

lemma createOutboxEvent_submits_rows:
  "jobs (snd (createOutboxEvent ty i pl p d)) = jobs d"
  "outbox (snd (createOutboxEvent ty i pl p d)) = outbox d
   \<or> (\<exists>e. outbox (snd (createOutboxEvent ty i pl p d)) = outbox d @ [e] \<and> o_status e = OutboxStatusPENDING)"
  by (auto simp: createOutboxEvent_def draw_def Let_def split: option.splits)

lemma createJob_keeps_submits:
  "run_state (txcall (createJob arg) t) w = (Inr xt, w') \<Longrightarrow> submits t \<Longrightarrow> submits (snd xt)"
  by (erule txcall_submits) (simp_all only: createJob_submits_rows simp_thms)

lemma createOutboxEvent_keeps_submits:
  "run_state (txcall (createOutboxEvent ty i pl) t) w = (Inr xt, w') \<Longrightarrow> submits t \<Longrightarrow> submits (snd xt)"
  by (erule txcall_submits) (simp_all only: createOutboxEvent_submits_rows simp_thms)

lemma follows_submit_job:
  assumes "A Draw" and "\<And>t. submits t \<Longrightarrow> A (CommitTxn t)"
  shows "state_io_rel (follows A) (submit_job U tp ws arg)"
proof -
  have event: "state_io_rel (follows A) (txcall (createOutboxEvent ty i pl) t)" for ty i pl t
    by (rule follows_txcall [where k = 1]) (simp_all add: assms(1))
  have job: "state_io_rel (follows A) (txcall (createJob arg) t)" for t
    by (rule follows_txcall [where k = 1]) (simp_all add: assms(1))
  show ?thesis
    unfolding submit_job_def case_prod_unfold
  proof (intro follow.kept_checked_post [where Q = submits] follows_begin_call)
    fix t
    assume t: "submits t"
    show "state_io_rel (follows A)
      (checked (txcall (createJob arg) t) (WrapError ''failed to create job'')
        (\<lambda>x. checked (txcall (createOutboxEvent ''job.submitted'' (j_id (fst x)) (submitted_payload U (j_id (fst x)) ws tp)) (snd x))
          (WrapError ''failed to create outbox event'') (\<lambda>y.
           checked (dbcall (commit_txn (snd y))) (WrapError ''failed to commit transaction'') (\<lambda>_.
           checked (IncrementRunningJobs ws) (WrapError ''failed to increment rate limit'')
             (\<lambda>_. State_Monad.return (Inr (fst x)))))))"
      by (intro follow.kept_checked_post [where Q = "\<lambda>x. submits (snd x)"] job event follow.kept_checked
          follows_rate follow.kept_return follows_dbcall within_intros assms)
        (blast intro: t createJob_keeps_submits createOutboxEvent_keeps_submits)+
  qed (rule begin_submits)
qed

lemma follows_CreateJob:
  assumes "A Draw" and "\<And>t. submits t \<Longrightarrow> A (CommitTxn t)"
  shows "state_io_rel (follows A) (CreateJob U n tp ws by ds entry ps c r key)"
  unfolding CreateJob_def
  by (intro follows_intros follows_parsed follows_rate follows_submit_job assms)

text \<open>The statements that the gateway runs.\<close>

fun gateway_stmt :: "stmt \<Rightarrow> bool" where
  "gateway_stmt (CreateUser email hash role) = (role = UserRoleViewer)"
| "gateway_stmt (CreateWorkspace own name plan) = True"
| "gateway_stmt (UpdateWorkspace i name plan own) = True"
| "gateway_stmt (DeleteWorkspace i own) = True"
| "gateway_stmt (InitiateDataset ws creator name ff) = True"
| "gateway_stmt (UpdateDatasetStoragePath i path sz) = True"
| "gateway_stmt (DeleteDataset i ws) = True"
| "gateway_stmt (UpdateJobState i st) = (st = JobStateCANCELLED)"
| "gateway_stmt (UpdateRunState i st) = (st = RunStateCANCELLED)"
| "gateway_stmt Draw = True"
| "gateway_stmt (CommitTxn t) = submits t"
| "gateway_stmt _ = False"

lemma follows_CancelJob:
  assumes "\<And>i. A (UpdateJobState i JobStateCANCELLED)" and "\<And>i. A (UpdateRunState i RunStateCANCELLED)"
  shows "state_io_rel (follows A) (CancelJob U i)"
  unfolding CancelJob_def
  by (intro follows_intros follows_parsed within_intros assms; simp)

end
