(* ===== verification/Account_Services.thy ===== *)
theory Account_Services imports Job_Service begin

text \<open>
  \<open>internal/service/user_service.go\<close>, \<open>workspace_service.go\<close> and
  \<open>dataset_service.go\<close>: registration and login, workspaces under their owners, and
  datasets with their upload links. The password hash and the token signature are arguments of the
  model.
\<close>

section \<open>Passwords and tokens\<close>

text \<open>
  \<open>bcrypt\<close> and \<open>jwt\<close>. Hashing draws a salt; comparing returns an error
  or nothing. The claims of a token are a JSON object. Parsing gives the claims and whether the
  token is valid at the current time.
\<close>

record auth_lib =
  GenerateFromPassword :: "nat \<Rightarrow> string \<Rightarrow> go_error + string"
  CompareHashAndPassword :: "string \<Rightarrow> string \<Rightarrow> go_error option"
  SignedString :: "(string \<times> json) list \<Rightarrow> string \<Rightarrow> go_error + string"
  jwt_Parse :: "timestamp \<Rightarrow> string \<Rightarrow> string \<Rightarrow> go_error + ((string \<times> json) list \<times> bool)"

section \<open>Users\<close>

definition Register :: "auth_lib \<Rightarrow> nat \<Rightarrow> string \<Rightarrow> string \<Rightarrow> (world, go_error + User) state" where
  "Register L salt email password =
     (case GenerateFromPassword L salt password of
        Inl err \<Rightarrow> State_Monad.return (Inl (WrapError ''failed to hash password'' err))
      | Inr hashed \<Rightarrow>
          checked (dbcall (createUser email hashed UserRoleViewer))
            (WrapError ''failed to create user'') (\<lambda>user. State_Monad.return (Inr user)))"

definition invalid_credentials :: go_error where
  "invalid_credentials = ErrorString ''invalid credentials''"

text \<open>The claims of a login token: \<open>exp\<close> is in seconds.\<close>

definition login_claims :: "uuid_lib \<Rightarrow> User \<Rightarrow> timestamp \<Rightarrow> (string \<times> json) list" where
  "login_claims U user t =
     [(''user_id'', JString (uuid_String U (u_id user))),
      (''role'', JString (UserRole_label (u_role user))),
      (''exp'', JNumber (Itoa ((t + hours 24) div seconds 1)))]"

definition Login ::
  "auth_lib \<Rightarrow> uuid_lib \<Rightarrow> string \<Rightarrow> string \<Rightarrow> string \<Rightarrow> (world, go_error + string) state" where
  "Login L U email password jwtSecret =
     checked (dbcall (getUserByEmail email)) (\<lambda>_. invalid_credentials) (\<lambda>user.
     case CompareHashAndPassword L (u_password_hash user) password of
       Some err \<Rightarrow> State_Monad.return (Inl invalid_credentials)
     | None \<Rightarrow>
         State_Monad.bind (gets clock) (\<lambda>t.
         State_Monad.return
           (case SignedString L (login_claims U user t) jwtSecret of
              Inl err \<Rightarrow> Inl (WrapError ''failed to sign token'' err)
            | Inr tok \<Rightarrow> Inr tok)))"

section \<open>Workspaces\<close>

definition CreateWorkspace_svc ::
  "uuid_lib \<Rightarrow> string \<Rightarrow> string \<Rightarrow> string \<Rightarrow> (world, go_error + Workspace) state" where
  "CreateWorkspace_svc U name ownerID plan =
     parsed U ownerID ''invalid owner id'' (\<lambda>ownerUUID.
     dbcall (createWorkspace ownerUUID name plan))"

definition GetWorkspacesByOwner_svc :: "uuid_lib \<Rightarrow> string \<Rightarrow> (world, go_error + Workspace list) state" where
  "GetWorkspacesByOwner_svc U ownerID =
     parsed U ownerID ''invalid owner id'' (\<lambda>ownerUUID.
     dbcall (getWorkspacesByOwner ownerUUID))"

definition GetWorkspaceByID_svc :: "uuid_lib \<Rightarrow> string \<Rightarrow> (world, go_error + Workspace) state" where
  "GetWorkspaceByID_svc U workspaceID =
     parsed U workspaceID ''invalid workspace id'' (\<lambda>workspaceUUID.
     dbcall (getWorkspaceByID workspaceUUID))"

definition DeleteWorkspace_svc :: "uuid_lib \<Rightarrow> string \<Rightarrow> string \<Rightarrow> (world, go_error + unit) state" where
  "DeleteWorkspace_svc U workspaceID ownerID =
     parsed U workspaceID ''invalid workspace id'' (\<lambda>workspaceUUID.
     parsed U ownerID ''invalid owner id'' (\<lambda>ownerUUID.
     dbcall (deleteWorkspace workspaceUUID ownerUUID)))"

definition UpdateWorkspace_svc ::
  "uuid_lib \<Rightarrow> string \<Rightarrow> string \<Rightarrow> string option \<Rightarrow> string option
    \<Rightarrow> (world, go_error + Workspace) state" where
  "UpdateWorkspace_svc U workspaceID ownerID name plan =
     parsed U workspaceID ''invalid workspace id'' (\<lambda>workspaceUUID.
     parsed U ownerID ''invalid owner id'' (\<lambda>ownerUUID.
     checked (dbcall (getWorkspaceByID workspaceUUID)) (WrapError ''workspace not found'')
       (\<lambda>existing.
          let updatedName = (case name of None \<Rightarrow> w_name existing | Some n \<Rightarrow> n);
              updatedPlan = (case plan of None \<Rightarrow> WorkspacePlan_label (w_plan existing) | Some p \<Rightarrow> p)
          in dbcall (updateWorkspace workspaceUUID updatedName updatedPlan ownerUUID))))"

section \<open>Datasets\<close>

definition InitiateUpload ::
  "uuid_lib \<Rightarrow> minio \<Rightarrow> string \<Rightarrow> string \<Rightarrow> string \<Rightarrow> string \<Rightarrow> (world, go_error + Dataset \<times> string) state" where
  "InitiateUpload U m workspaceID createdBy name fileFormat =
     parsed U workspaceID ''invalid workspace id'' (\<lambda>workspaceUUID.
     parsed U createdBy ''invalid user id'' (\<lambda>createdByUUID.
     checked (dbcall (initiateDataset workspaceUUID createdByUUID name fileFormat))
       (WrapError ''failed to create dataset'') (\<lambda>dataset.
     let objectKey = workspaceID @ ''/'' @ uuid_String U (d_id dataset) @ ''/'' @ name @ ''.'' @ fileFormat
     in checked (State_Monad.return (GenerateUploadURL m objectKey))
          (WrapError ''failed to generate upload url'')
          (\<lambda>uploadURL. State_Monad.return (Inr (dataset, uploadURL))))))"

definition CompleteUpload ::
  "uuid_lib \<Rightarrow> string \<Rightarrow> string \<Rightarrow> int \<Rightarrow> (world, go_error + Dataset) state" where
  "CompleteUpload U datasetID storagePath sizeBytes =
     parsed U datasetID ''invalid dataset id'' (\<lambda>datasetUUID.
     checked (dbcall (updateDatasetStoragePath datasetUUID (Some storagePath) (Some sizeBytes)))
       (WrapError ''failed to complete upload'') (\<lambda>dataset. State_Monad.return (Inr dataset)))"

definition GetDataset :: "uuid_lib \<Rightarrow> string \<Rightarrow> string \<Rightarrow> (world, go_error + Dataset) state" where
  "GetDataset U datasetID workspaceID =
     parsed U datasetID ''invalid dataset id'' (\<lambda>datasetUUID.
     parsed U workspaceID ''invalid workspace id'' (\<lambda>workspaceUUID.
     dbcall (getDatasetByID datasetUUID workspaceUUID)))"

definition ListDatasets :: "uuid_lib \<Rightarrow> string \<Rightarrow> (world, go_error + Dataset list) state" where
  "ListDatasets U workspaceID =
     parsed U workspaceID ''invalid workspace id'' (\<lambda>workspaceUUID.
     dbcall (listDatasetsByWorkspace workspaceUUID))"

definition DeleteDataset_svc :: "uuid_lib \<Rightarrow> string \<Rightarrow> string \<Rightarrow> (world, go_error + unit) state" where
  "DeleteDataset_svc U datasetID workspaceID =
     parsed U datasetID ''invalid dataset id'' (\<lambda>datasetUUID.
     parsed U workspaceID ''invalid workspace id'' (\<lambda>workspaceUUID.
     dbcall (deleteDataset datasetUUID workspaceUUID)))"

section \<open>What they keep\<close>

lemma follows_accounts:
  assumes "\<And>s. gateway_stmt s \<Longrightarrow> A s"
  shows "state_io_rel (follows A) (Register L salt email password)"
    and "state_io_rel (follows A) (Login L U email password secret)"
    and "state_io_rel (follows A) (CreateWorkspace_svc U name own plan)"
    and "state_io_rel (follows A) (DeleteWorkspace_svc U i own)"
    and "state_io_rel (follows A) (UpdateWorkspace_svc U i own name' plan')"
    and "state_io_rel (follows A) (InitiateUpload U m i own name ff)"
    and "state_io_rel (follows A) (CompleteUpload U i path sz)"
    and "state_io_rel (follows A) (DeleteDataset_svc U i own)"
  unfolding Register_def Login_def CreateWorkspace_svc_def DeleteWorkspace_svc_def
    UpdateWorkspace_svc_def InitiateUpload_def CompleteUpload_def DeleteDataset_svc_def
  by (intro follows_intros follows_parsed within_intros assms; simp)+

end
