(* ===== verification/Scheduler.thy ===== *)
theory Scheduler imports Account_Services begin

text \<open>
  \<open>services/scheduler/cmd/scheduler.go\<close> and the calls of
  \<open>internal/k8s/controller.go\<close>: a submitted job gets one run with three tasks, and a
  Kubernetes job to work on them.
\<close>

section \<open>The Kubernetes controller\<close>

text \<open>
  The API server: a read of an object that is not there and a creation of one that is are errors.
  Names of workspaces and runs are the first eight characters of their ids; the callers pass texts
  of parsed ids, which are longer.
\<close>

definition not_found :: go_error where
  "not_found = ErrorString ''not found''"

definition already_exists :: go_error where
  "already_exists = ErrorString ''already exists''"

definition isAlreadyExists :: "go_error \<Rightarrow> bool" where
  "isAlreadyExists err = contains (error_text err) ''already exists''"

definition workspace_namespace :: "string \<Rightarrow> string" where
  "workspace_namespace workspaceID = ''workspace-'' @ take 8 workspaceID"

definition worker_job_name :: "string \<Rightarrow> string" where
  "worker_job_name runID = ''worker-'' @ take 8 runID"

definition CreateWorkerJob :: "string \<Rightarrow> int \<Rightarrow> (world, go_error + unit) state" where
  "CreateWorkerJob runID numWorkers =
     checked (kube_call (\<lambda>c.
         if worker_job_name runID \<in> set (map fst (worker_jobs c)) then (Inl already_exists, c)
         else (Inr (), c\<lparr>worker_jobs := worker_jobs c @ [(worker_job_name runID, numWorkers)]\<rparr>)))
       (WrapError ''failed to create k8s job'') (\<lambda>_. State_Monad.return (Inr ()))"

definition DeleteWorkerJob :: "string \<Rightarrow> (world, go_error + unit) state" where
  "DeleteWorkerJob runID =
     checked (kube_call (\<lambda>c.
         if worker_job_name runID \<in> set (map fst (worker_jobs c))
         then (Inr (), c\<lparr>worker_jobs := filter (\<lambda>j. fst j \<noteq> worker_job_name runID) (worker_jobs c)\<rparr>)
         else (Inl not_found, c)))
       (WrapError ''failed to delete k8s job'') (\<lambda>_. State_Monad.return (Inr ()))"

definition tolerate_existing ::
  "string \<Rightarrow> (world, go_error + unit) state \<Rightarrow> (world, go_error + unit) state" where
  "tolerate_existing msg m =
     State_Monad.bind m (\<lambda>r. case r of
        Inl err \<Rightarrow> State_Monad.return (if isAlreadyExists err then Inr () else Inl (WrapError msg err))
      | Inr _ \<Rightarrow> State_Monad.return (Inr ()))"

definition ApplyNetworkPolicy :: "string \<Rightarrow> (world, go_error + unit) state" where
  "ApplyNetworkPolicy workspaceID =
     tolerate_existing ''failed to apply network policy'' (kube_call (\<lambda>c.
         if workspace_namespace workspaceID \<in> set (policies c) then (Inl already_exists, c)
         else (Inr (), c\<lparr>policies := policies c @ [workspace_namespace workspaceID]\<rparr>)))"

definition ApplyResourceQuota :: "string \<Rightarrow> (world, go_error + unit) state" where
  "ApplyResourceQuota workspaceID =
     tolerate_existing ''failed to apply resource quota'' (kube_call (\<lambda>c.
         if workspace_namespace workspaceID \<in> set (quotas c) then (Inl already_exists, c)
         else (Inr (), c\<lparr>quotas := quotas c @ [workspace_namespace workspaceID]\<rparr>)))"

definition EnsureNamespace :: "string \<Rightarrow> (world, go_error + unit) state" where
  "EnsureNamespace workspaceID =
     State_Monad.bind (kube_call (\<lambda>c.
         if workspace_namespace workspaceID \<in> set (namespaces c) then (Inr (), c)
         else (Inl not_found, c)))
       (\<lambda>got. case got of
          Inr _ \<Rightarrow> State_Monad.return (Inr ())
        | Inl _ \<Rightarrow>
            checked (kube_call (\<lambda>c.
                if workspace_namespace workspaceID \<in> set (namespaces c) then (Inl already_exists, c)
                else (Inr (), c\<lparr>namespaces := namespaces c @ [workspace_namespace workspaceID]\<rparr>)))
              (WrapError ''failed to create namespace'') (\<lambda>_.
            State_Monad.bind (ApplyNetworkPolicy workspaceID) (\<lambda>_.
            State_Monad.bind (ApplyResourceQuota workspaceID) (\<lambda>_.
            State_Monad.return (Inr ())))))"

definition GetWorkerReplicas :: "(world, go_error + int) state" where
  "GetWorkerReplicas =
     checked (kube_call (\<lambda>c. (case deployment c of None \<Rightarrow> Inl not_found | Some r \<Rightarrow> Inr r, c)))
       (WrapError ''failed to get worker deployment'') (\<lambda>r.
     State_Monad.return (Inr (case r of None \<Rightarrow> 1 | Some n \<Rightarrow> n)))"

definition SetWorkerReplicas :: "int \<Rightarrow> (world, go_error + unit) state" where
  "SetWorkerReplicas n =
     checked (kube_call (\<lambda>c. (case deployment c of None \<Rightarrow> Inl not_found | Some r \<Rightarrow> Inr r, c)))
       (WrapError ''failed to get worker deployment'') (\<lambda>_.
     checked (kube_call (\<lambda>c. case deployment c of
            None \<Rightarrow> (Inl not_found, c)
          | Some _ \<Rightarrow> (Inr (), c\<lparr>deployment := Some (Some n)\<rparr>)))
       (WrapError ''failed to update worker replicas'') (\<lambda>_.
     State_Monad.return (Inr ())))"

section \<open>The handler of submitted jobs\<close>

record JobSubmittedEvent =
  ev_JobID :: string
  ev_WorkspaceID :: string

definition parse_event :: "raw_message \<Rightarrow> go_error + JobSubmittedEvent" where
  "parse_event payload =
     (case Unmarshal_fields payload of
        Inl err \<Rightarrow> Inl err
      | Inr kvs \<Rightarrow>
          (case (decode_string_field ''job_id'' kvs, decode_string_field ''workspace_id'' kvs) of
             (Inr j, Inr ws) \<Rightarrow> Inr \<lparr>ev_JobID = j, ev_WorkspaceID = ws\<rparr>
           | _ \<Rightarrow> Inl type_error))"

definition numPartitions :: int where
  "numPartitions = 3"

definition create_tasks :: "uuid \<Rightarrow> uuid \<Rightarrow> (world, go_error + unit) state" where
  "create_tasks run_id workspace_id =
     for_checked (\<lambda>i. checked (dbcall (createTask run_id workspace_id i))
         (WrapError (''failed to create task '' @ Itoa i)) (\<lambda>_. State_Monad.return (Inr ())))
       [0..numPartitions - 1]"

definition start_workers :: "uuid_lib \<Rightarrow> string \<Rightarrow> uuid \<Rightarrow> (world, unit) state" where
  "start_workers U workspaceID run_id =
     State_Monad.bind (EnsureNamespace workspaceID) (\<lambda>_.
     State_Monad.bind (CreateWorkerJob (uuid_String U run_id) numPartitions) (\<lambda>_.
     State_Monad.return ()))"

definition HandleJobSubmitted :: "uuid_lib \<Rightarrow> bool \<Rightarrow> handler" where
  "HandleJobSubmitted U has_k8s traceparent payload =
     checked (State_Monad.return (parse_event payload)) (WrapError ''failed to parse event'') (\<lambda>event.
     parsed U (ev_JobID event) ''invalid job id'' (\<lambda>jobUUID.
     parsed U (ev_WorkspaceID event) ''invalid workspace id'' (\<lambda>workspaceUUID.
     checked (dbcall (updateJobState jobUUID JobStateQUEUED))
       (WrapError ''failed to update job state'') (\<lambda>job.
     checked (dbcall (createRun jobUUID workspaceUUID)) (WrapError ''failed to create run'') (\<lambda>run.
     State_Monad.bind (Inc ''runs_created_total'') (\<lambda>_.
     checked (create_tasks (r_id run) workspaceUUID) id (\<lambda>_.
     State_Monad.bind (Add ''tasks_created_total'' numPartitions) (\<lambda>_.
     checked (dbcall (updateRunTasksTotal (r_id run) numPartitions))
       (WrapError ''failed to set tasks total'') (\<lambda>_.
     checked (dbcall (initRunProgress (r_id run))) (WrapError ''failed to init run progress'') (\<lambda>_.
     State_Monad.bind
       (if has_k8s then start_workers U (ev_WorkspaceID event) (r_id run)
        else State_Monad.return ())
       (\<lambda>_. State_Monad.return (Inr ()))))))))))))"

section \<open>The gateway's handler of completed jobs\<close>

definition HandleJobCompleted :: handler where
  "HandleJobCompleted traceparent payload =
     checked (State_Monad.return (parse_event payload)) id (\<lambda>event.
     DecrementRunningJobs (ev_WorkspaceID event))"

section \<open>What they keep\<close>

lemma follows_kube:
  "state_io_rel (follows A) (CreateWorkerJob r n)" "state_io_rel (follows A) (DeleteWorkerJob r)"
  "state_io_rel (follows A) (EnsureNamespace ws)" "state_io_rel (follows A) GetWorkerReplicas"
  "state_io_rel (follows A) (SetWorkerReplicas n)"
  unfolding CreateWorkerJob_def DeleteWorkerJob_def EnsureNamespace_def ApplyNetworkPolicy_def
    ApplyResourceQuota_def tolerate_existing_def GetWorkerReplicas_def SetWorkerReplicas_def
  by (intro follows_intros)+

lemma uses_kube:
  "state_io_rel uses_slots (CreateWorkerJob r n)" "state_io_rel uses_slots (DeleteWorkerJob r)"
  "state_io_rel uses_slots (EnsureNamespace ws)" "state_io_rel uses_slots GetWorkerReplicas"
  "state_io_rel uses_slots (SetWorkerReplicas n)"
  unfolding CreateWorkerJob_def DeleteWorkerJob_def EnsureNamespace_def ApplyNetworkPolicy_def
    ApplyResourceQuota_def tolerate_existing_def GetWorkerReplicas_def SetWorkerReplicas_def
  by (intro uses_intros)+

text \<open>The statements the scheduler runs.\<close>

fun scheduler_stmt :: "stmt \<Rightarrow> bool" where
  "scheduler_stmt (UpdateJobState i st) = (st = JobStateQUEUED)"
| "scheduler_stmt (CreateRun j ws) = True"
| "scheduler_stmt (CreateTask r ws k) = (0 \<le> k \<and> k < 3)"
| "scheduler_stmt (UpdateRunTasksTotal i n) = (n = 3)"
| "scheduler_stmt (InitRunProgress i) = True"
| "scheduler_stmt _ = False"

lemma follows_create_tasks:
  assumes "\<And>s. scheduler_stmt s \<Longrightarrow> A s"
  shows "state_io_rel (follows A) (create_tasks r ws)"
  unfolding create_tasks_def
  by (intro follows_intros within_intros assms; auto simp: numPartitions_def)

lemma follows_HandleJobSubmitted:
  assumes "\<And>s. scheduler_stmt s \<Longrightarrow> A s"
  shows "state_io_rel (follows A) (HandleJobSubmitted U has_k8s tp payload)"
  unfolding HandleJobSubmitted_def start_workers_def
  by (intro follows_intros follows_parsed follows_kube follows_create_tasks within_intros assms; simp add: numPartitions_def)

lemma uses_HandleJobSubmitted:
  "state_io_rel uses_slots (HandleJobSubmitted U has_k8s tp payload)"
  unfolding HandleJobSubmitted_def start_workers_def create_tasks_def
  by (intro uses_intros uses_parsed uses_kube)

lemma uses_HandleJobCompleted: "state_io_rel uses_slots (HandleJobCompleted tp payload)"
  unfolding HandleJobCompleted_def by (intro uses_intros uses_rate)

lemma follows_HandleJobCompleted: "state_io_rel (follows A) (HandleJobCompleted tp payload)"
  unfolding HandleJobCompleted_def by (intro follows_intros follows_rate)

interpretation scheduler_handler: message_handler "HandleJobSubmitted U has_k8s" scheduler_stmt
  for U has_k8s
  by unfold_locales (simp_all add: follows_HandleJobSubmitted uses_HandleJobSubmitted)

interpretation completed_handler: message_handler HandleJobCompleted "\<lambda>_. False"
  by unfold_locales (simp_all add: follows_HandleJobCompleted uses_HandleJobCompleted)

end
