(* ===== verification/Worker.thy ===== *)
theory Worker imports Scheduler begin

text \<open>
  \<open>services/worker/cmd/worker.go\<close>: leasing a task, running the Python task runner on
  it, recording the outcome, retrying, and completing the run. The circuit breaker around the lease
  (\<open>github.com/sony/gobreaker\<close>) and the Python process are arguments of the model.
\<close>

section \<open>What the worker is given\<close>

text \<open>
  \<open>dbBreaker\<close> is \<open>Execute\<close> of the breaker on the closure that leases a
  task; \<open>task_runner\<close> is the output of the Python process by its environment and the
  time it was started.
\<close>

record worker_env =
  workerID :: string
  dbBreaker :: "(world, go_error + Task option) state \<Rightarrow> (world, go_error + Task option) state"
  task_runner :: "(string \<times> string) list \<Rightarrow> timestamp \<Rightarrow> go_error + string"
  base_env :: "(string \<times> string) list"
  minioEndpoint :: string
  minioAccessKey :: string
  minioSecretKey :: string
  minioBucket :: string

text \<open>
  The documented behaviour of a breaker: it runs the request and returns its result, or returns an
  error at once without running it.
\<close>

definition breaker_ok :: "worker_env \<Rightarrow> bool" where
  "breaker_ok W \<longleftrightarrow>
     (\<forall>f w. run_state (dbBreaker W f) w = run_state f w
           \<or> (\<exists>e. run_state (dbBreaker W f) w = (Inl e, w)))"

section \<open>Running a task\<close>

text \<open>
  \<open>fmt.Sscanf(s, "%d", &n)\<close> into an \<open>int64\<close>: blanks, a sign, digits; the rest
  of the text is left unread. \<open>None\<close> when it stores nothing.
\<close>

definition is_blank :: "char \<Rightarrow> bool" where
  "is_blank c \<longleftrightarrow> is_space c \<and> of_char c \<noteq> (10 :: nat)"

definition is_digit :: "char \<Rightarrow> bool" where
  "is_digit c \<longleftrightarrow> (48 :: nat) \<le> of_char c \<and> of_char c \<le> (57 :: nat)"

definition digits_value :: "string \<Rightarrow> int" where
  "digits_value ds = foldl (\<lambda>a c. 10 * a + (of_char c - 48)) 0 ds"

definition Sscanf_int64 :: "string \<Rightarrow> int option" where
  "Sscanf_int64 s =
     (let s1 = dropWhile is_blank s;
          neg = (case s1 of c # _ \<Rightarrow> c = CHR ''-'' | [] \<Rightarrow> False);
          s2 = (case s1 of c # r \<Rightarrow> if c = CHR ''-'' \<or> c = CHR ''+'' then r else s1 | [] \<Rightarrow> []);
          ds = takeWhile is_digit s2;
          n = (if neg then - digits_value ds else digits_value ds)
      in if ds \<noteq> [] \<and> int8 n then Some n else None)"

text \<open>The output line of the runner: a path, and after a colon a size, which is 0 if unreadable.\<close>

definition parse_output :: "string \<Rightarrow> string \<times> int" where
  "parse_output output =
     (case SplitN2 (TrimSpace output) CHR '':'' of
        [path, sz] \<Rightarrow> (path, (case Sscanf_int64 sz of Some n \<Rightarrow> n | None \<Rightarrow> 0))
      | path # _ \<Rightarrow> (path, 0)
      | [] \<Rightarrow> ([], 0))"

definition task_environment ::
  "uuid_lib \<Rightarrow> worker_env \<Rightarrow> Task \<Rightarrow> Job \<Rightarrow> Dataset \<Rightarrow> int \<Rightarrow> (string \<times> string) list" where
  "task_environment U W task job dataset totalTasks =
     base_env W @
     [(''TASK_ID'', uuid_String U (t_id task)),
      (''RUN_ID'', uuid_String U (t_run_id task)),
      (''DATASET_STORAGE_PATH'', (case d_storage_path dataset of None \<Rightarrow> [] | Some p \<Rightarrow> p)),
      (''PARTITION_INDEX'', Itoa (t_partition_index task)),
      (''TOTAL_PARTITIONS'', Itoa totalTasks),
      (''JOB_ENTRYPOINT'', j_entrypoint job),
      (''JOB_PARAMETERS'', render (j_parameters job)),
      (''MINIO_ENDPOINT'', minioEndpoint W),
      (''MINIO_ACCESS_KEY'', minioAccessKey W),
      (''MINIO_SECRET_KEY'', minioSecretKey W),
      (''MINIO_BUCKET'', minioBucket W)]"

definition task_artifact :: "Task \<Rightarrow> string \<times> int \<Rightarrow> CreateArtifactParams" where
  "task_artifact task out =
     \<lparr>ca_RunID = t_run_id task, ca_WorkspaceID = t_workspace_id task,
      ca_Name = ''partition-'' @ Itoa (t_partition_index task) @ ''.csv'',
      ca_StoragePath = fst out, ca_ContentType = ''text/csv'', ca_SizeBytes = snd out\<rparr>"

definition run_python :: "worker_env \<Rightarrow> (string \<times> string) list \<Rightarrow> (world, go_error + string) state" where
  "run_python W env = call (\<lambda>w. (task_runner W env (clock w), w))"

definition process_task :: "uuid_lib \<Rightarrow> worker_env \<Rightarrow> Task \<Rightarrow> (world, go_error + unit) state" where
  "process_task U W task =
     checked (dbcall (getJobByRunID (t_run_id task))) (WrapError ''failed to get job'') (\<lambda>job.
     checked (dbcall (getDatasetByJobID (j_id job))) (WrapError ''failed to get dataset'') (\<lambda>dataset.
     checked (dbcall (getRunTaskCount (t_run_id task))) (WrapError ''failed to get task count'')
       (\<lambda>totalTasks.
     checked (run_python W (task_environment U W task job dataset totalTasks))
       (WrapError ''task runner failed'') (\<lambda>output.
     State_Monad.bind (dbcall (createArtifact (task_artifact task (parse_output output))))
       (\<lambda>_. State_Monad.return (Inr ()))))))"

section \<open>Completing a run\<close>

definition completed_payload :: "uuid_lib \<Rightarrow> Job \<Rightarrow> json" where
  "completed_payload U job =
     Marshal_map [(''job_id'', uuid_String U (j_id job)),
       (''workspace_id'', uuid_String U (j_workspace_id job))]"

definition all_done :: "GetRunProgressRow \<Rightarrow> bool" where
  "all_done progress \<longleftrightarrow>
     wrap32 (pr_tasks_done progress + pr_tasks_failed progress) = pr_tasks_total progress"

definition checkAndCompleteRun :: "uuid_lib \<Rightarrow> Task \<Rightarrow> (world, go_error + unit) state" where
  "checkAndCompleteRun U task =
     checked (dbcall (getRunProgress (t_run_id task))) (WrapError ''failed to get run progress'')
       (\<lambda>progress.
     if \<not> all_done progress then State_Monad.return (Inr ()) else
     let newRunState = (if pr_tasks_failed progress > 0 then RunStateFAILED else RunStateSUCCEEDED);
         newJobState = (if pr_tasks_failed progress > 0 then JobStateFAILED else JobStateSUCCEEDED)
     in checked (dbcall (completeRun (t_run_id task) newRunState))
          (WrapError ''failed to complete run'') (\<lambda>_.
        checked (dbcall (getJobByRunID (t_run_id task))) (WrapError ''failed to get job'') (\<lambda>job.
        checked (dbcall (completeJob (j_id job) newJobState))
          (WrapError ''failed to complete job'') (\<lambda>_.
        State_Monad.bind
          (Publish ''job.completed'' (uuid_String U (j_id job)) (Inr (completed_payload U job)) [])
          (\<lambda>_. State_Monad.return (Inr ()))))))"

section \<open>One poll\<close>

text \<open>
  The closure the breaker executes: no row is not a failure. The text of the error decides.
\<close>

definition lease_closure :: "worker_env \<Rightarrow> (world, go_error + Task option) state" where
  "lease_closure W =
     State_Monad.bind (dbcall (leaseTask (Some (workerID W))))
       (\<lambda>r. State_Monad.return (case r of
          Inl err \<Rightarrow> (if contains (error_text err) ''no rows'' then Inr None else Inl err)
        | Inr t \<Rightarrow> Inr (Some t)))"

definition mark_dead :: "Task \<Rightarrow> (world, go_error + unit) state" where
  "mark_dead task =
     State_Monad.bind (dbcall (updateTaskState (t_id task) TaskStateDEAD)) (\<lambda>_.
     State_Monad.bind (Inc ''tasks_processed_total:dead'') (\<lambda>_.
     State_Monad.return (Inr ())))"

definition handle_failure :: "Task \<Rightarrow> go_error \<Rightarrow> (world, go_error + unit) state" where
  "handle_failure task err =
     State_Monad.bind (dbcall (getJobByRunID (t_run_id task))) (\<lambda>job_result.
     let canRetry = (case job_result of
           Inl _ \<Rightarrow> False
         | Inr job \<Rightarrow> t_retry_count task < j_max_retries job \<and> IsTransient err)
     in if canRetry then
          State_Monad.bind (dbcall (retryTask (t_id task) (Some (error_text err))))
            (\<lambda>_. State_Monad.return (Inr ()))
        else
          State_Monad.bind (dbcall (failTaskWithError (t_id task) (Some (error_text err)))) (\<lambda>_.
          State_Monad.bind (dbcall (taskFailed (t_run_id task))) (\<lambda>_.
          State_Monad.bind (Inc ''tasks_processed_total:failed'') (\<lambda>_.
          State_Monad.return (Inl err)))))"

definition handle_success :: "uuid_lib \<Rightarrow> Task \<Rightarrow> (world, go_error + unit) state" where
  "handle_success U task =
     checked (dbcall (getRunState (t_run_id task))) id (\<lambda>state.
     if state = RunStateCANCELLED then mark_dead task
     else
       checked (dbcall (updateTaskState (t_id task) TaskStateSUCCEEDED)) id (\<lambda>_.
       State_Monad.bind (dbcall (taskSucceeded (t_run_id task))) (\<lambda>_.
       State_Monad.bind (checkAndCompleteRun U task) (\<lambda>_.
       State_Monad.bind (Inc ''tasks_processed_total:succeeded'') (\<lambda>_.
       State_Monad.return (Inr ()))))))"

definition handle_leased :: "uuid_lib \<Rightarrow> worker_env \<Rightarrow> Task \<Rightarrow> (world, go_error + unit) state" where
  "handle_leased U W task =
     checked (dbcall (getRunState (t_run_id task))) id (\<lambda>state.
     if state = RunStateCANCELLED then mark_dead task
     else
       State_Monad.bind (dbcall (taskStarted (t_run_id task))) (\<lambda>_.
       State_Monad.bind (process_task U W task) (\<lambda>result.
       case result of
         Inl err \<Rightarrow> handle_failure task err
       | Inr _ \<Rightarrow> handle_success U task)))"

text \<open>
  The heartbeats of the goroutine that runs beside a task are statements of the slots. A task
  whose run id is the zero value counts as none.
\<close>

definition pollAndProcess :: "uuid_lib \<Rightarrow> worker_env \<Rightarrow> (world, go_error + unit) state" where
  "pollAndProcess U W =
     State_Monad.bind (dbBreaker W (lease_closure W)) (\<lambda>leased.
     case leased of
       Inl _ \<Rightarrow> State_Monad.return (Inr ())
     | Inr None \<Rightarrow> State_Monad.return (Inr ())
     | Inr (Some task) \<Rightarrow>
         (if t_run_id task = uuid_nil then State_Monad.return (Inr ())
          else handle_leased U W task))"

text \<open>
  The heartbeat loop: as many ticks as fire before the task ends, one statement each; the first
  failure ends the loop.
\<close>

primrec heartbeat_ticks :: "worker_env \<Rightarrow> uuid \<Rightarrow> nat \<Rightarrow> (world, unit) state" where
  "heartbeat_ticks W taskUUID 0 = State_Monad.return ()"
| "heartbeat_ticks W taskUUID (Suc ticks) =
     State_Monad.bind (wait (seconds 10)) (\<lambda>fired.
     if \<not> fired then State_Monad.return ()
     else State_Monad.bind (dbcall (heartbeatTask taskUUID (Some (workerID W)))) (\<lambda>r.
       case r of
         Inl err \<Rightarrow> State_Monad.return ()
       | Inr _ \<Rightarrow> heartbeat_ticks W taskUUID ticks))"

definition heartbeat :: "uuid_lib \<Rightarrow> worker_env \<Rightarrow> string \<Rightarrow> nat \<Rightarrow> (world, unit) state" where
  "heartbeat U W taskID ticks =
     (case uuid_Parse U taskID of
        Inl err \<Rightarrow> State_Monad.return ()
      | Inr taskUUID \<Rightarrow> heartbeat_ticks W taskUUID ticks)"

text \<open>The worker's loop: as many polls as there are before shutdown, two seconds apart.\<close>

primrec worker_loop :: "uuid_lib \<Rightarrow> worker_env \<Rightarrow> nat \<Rightarrow> (world, unit) state" where
  "worker_loop U W 0 = State_Monad.return ()"
| "worker_loop U W (Suc polls) =
     State_Monad.bind (pollAndProcess U W) (\<lambda>_.
     State_Monad.bind (modify (\<lambda>w. w\<lparr>clock := clock w + seconds 2\<rparr>)) (\<lambda>_.
     worker_loop U W polls))"

section \<open>What the worker keeps\<close>

fun worker_stmt :: "worker_env \<Rightarrow> stmt \<Rightarrow> bool" where
  "worker_stmt W (LeaseTask own) = (own = Some (workerID W))"
| "worker_stmt W (HeartbeatTask i own) = (own = Some (workerID W))"
| "worker_stmt W (UpdateTaskState i st) = (st = TaskStateDEAD \<or> st = TaskStateSUCCEEDED)"
| "worker_stmt W (TaskStarted i) = True"
| "worker_stmt W (TaskSucceeded i) = True"
| "worker_stmt W (TaskFailed i) = True"
| "worker_stmt W (RetryTask i msg) = True"
| "worker_stmt W (FailTaskWithError i msg) = True"
| "worker_stmt W (CreateArtifact arg) = True"
| "worker_stmt W (CompleteRun i st) = (st = RunStateSUCCEEDED \<or> st = RunStateFAILED)"
| "worker_stmt W (CompleteJob i st) = (st = JobStateSUCCEEDED \<or> st = JobStateFAILED)"
| "worker_stmt W _ = False"

lemma follows_breaker:
  assumes "breaker_ok W" and "state_io_rel (follows A) f"
  shows "state_io_rel (follows A) (dbBreaker W f)"
proof (rule state_io_relI)
  fix r w w'
  assume "run_state (dbBreaker W f) w = (r, w')"
  moreover have "run_state (dbBreaker W f) w = run_state f w
      \<or> (\<exists>e. run_state (dbBreaker W f) w = (Inl e, w))"
    using assms(1) by (simp add: breaker_ok_def)
  ultimately show "follows A w w'"
    using assms(2) by (metis follows_refl prod.inject state_io_relD)
qed

lemma follows_run_python: "state_io_rel (follows A) (run_python W env)"
  unfolding run_python_def by (rule follows_call) (simp add: follows_refl)

lemma follows_process_task:
  "(\<And>arg. A (CreateArtifact arg)) \<Longrightarrow> state_io_rel (follows A) (process_task U W task)"
  unfolding process_task_def
  by (intro follows_intros follows_run_python within_intros; simp)

lemma follows_checkAndCompleteRun:
  assumes "\<And>i st. st \<in> {RunStateSUCCEEDED, RunStateFAILED} \<Longrightarrow> A (CompleteRun i st)"
    and "\<And>i st. st \<in> {JobStateSUCCEEDED, JobStateFAILED} \<Longrightarrow> A (CompleteJob i st)"
  shows "state_io_rel (follows A) (checkAndCompleteRun U task)"
  unfolding checkAndCompleteRun_def
  by (intro follows_intros follows_Publish within_intros assms; simp)

lemma follows_handle_leased:
  assumes "\<And>s. worker_stmt W s \<Longrightarrow> A s"
  shows "state_io_rel (follows A) (handle_leased U W task)"
  unfolding handle_leased_def handle_success_def handle_failure_def mark_dead_def
  by (intro follows_intros follows_process_task follows_checkAndCompleteRun within_intros assms;
      auto)

lemma follows_pollAndProcess:
  assumes "breaker_ok W" and "\<And>s. worker_stmt W s \<Longrightarrow> A s"
  shows "state_io_rel (follows A) (pollAndProcess U W)"
  unfolding pollAndProcess_def lease_closure_def
  by (intro follows_intros follows_breaker follows_handle_leased within_intros assms; simp)

lemma follows_worker_loop:
  assumes "breaker_ok W" and "\<And>s. worker_stmt W s \<Longrightarrow> A s"
  shows "state_io_rel (follows A) (worker_loop U W n)"
proof (induction n)
  case (Suc n)
  have "state_io_rel (follows A) (modify (\<lambda>w. w\<lparr>clock := clock w + seconds 2\<rparr>))"
    by (rule follow.kept_modify) (simp add: follows_frame)
  with Suc assms show ?case
    by (auto intro!: follow.kept_bind follows_pollAndProcess)
qed (simp add: follow.kept_return)

lemma follows_heartbeat:
  assumes "\<And>s. worker_stmt W s \<Longrightarrow> A s"
  shows "state_io_rel (follows A) (heartbeat U W i ticks)"
proof -
  have "state_io_rel (follows A) (heartbeat_ticks W j ticks)" for j
    by (induction ticks)
      (simp_all, (intro follows_intros within_intros assms; simp)+)
  then show ?thesis
    unfolding heartbeat_def by (intro follows_intros)
qed

end
