(* ===== verification/Autoscaler.thy ===== *)
theory Autoscaler imports Scheduler begin

text \<open>
  \<open>services/autoscaler/cmd/autoscaler.go\<close> and \<open>services/cleanup/cmd/main.go\<close>:
  the two controllers that run on a timer. The autoscaler moves the number of worker replicas by
  one at a time, between bounds, with a cool-down after each change; the cleanup deletes stale rows.
\<close>

section \<open>The autoscaler\<close>

record AutoscalerConfig =
  MinWorkers :: int
  MaxWorkers :: int
  ScaleUpThreshold :: int
  ScaleDownThreshold :: int
  CooldownSeconds :: int
  PollIntervalSeconds :: int

definition default_config :: AutoscalerConfig where
  "default_config = \<lparr>MinWorkers = 1, MaxWorkers = 10, ScaleUpThreshold = 3,
     ScaleDownThreshold = 0, CooldownSeconds = 30, PollIntervalSeconds = 10\<rparr>"

text \<open>
  \<open>lastScaleAt\<close> starts as the zero time (\<open>None\<close>), and the time since then
  saturates at 292 years, which is longer than any cool-down.
\<close>

definition in_cooldown :: "AutoscalerConfig \<Rightarrow> timestamp option \<Rightarrow> timestamp \<Rightarrow> bool" where
  "in_cooldown cfg lastScaleAt t =
     (case lastScaleAt of
        None \<Rightarrow> False
      | Some t0 \<Rightarrow> t - t0 < seconds (CooldownSeconds cfg))"

datatype decision = ScaleUp int | ScaleDown int | Keep

definition decide :: "AutoscalerConfig \<Rightarrow> int \<Rightarrow> int \<Rightarrow> int \<Rightarrow> decision" where
  "decide cfg pendingCount runningCount currentReplicas =
     (if pendingCount > ScaleUpThreshold cfg \<and> currentReplicas < MaxWorkers cfg
      then ScaleUp (wrap32 (currentReplicas + 1))
      else if pendingCount \<le> ScaleDownThreshold cfg \<and> runningCount = 0
              \<and> currentReplicas > MinWorkers cfg
      then ScaleDown (wrap32 (currentReplicas - 1))
      else Keep)"

definition scale_to ::
  "int \<Rightarrow> timestamp option \<Rightarrow> (world, (go_error + unit) \<times> timestamp option) state" where
  "scale_to newReplicas lastScaleAt =
     State_Monad.bind (SetWorkerReplicas newReplicas) (\<lambda>r.
     case r of
       Inl err \<Rightarrow> State_Monad.return (Inl err, lastScaleAt)
     | Inr _ \<Rightarrow>
         State_Monad.bind (SetGauge ''worker_replicas_current'' newReplicas) (\<lambda>_.
         State_Monad.bind (gets clock) (\<lambda>t.
         State_Monad.return (Inr (), Some t))))"

text \<open>
  What the log advises when there is no cluster to ask: it looks at the waiting tasks alone, not at
  the running ones and not at the bounds.
\<close>

definition logScalingDecision :: "AutoscalerConfig \<Rightarrow> int \<Rightarrow> string option" where
  "logScalingDecision cfg pendingCount =
     (if pendingCount > ScaleUpThreshold cfg then Some ''autoscaler would scale UP''
      else if pendingCount \<le> ScaleDownThreshold cfg then Some ''autoscaler would scale DOWN''
      else None)"

lemma advice_matches_decision:
  assumes "MinWorkers cfg < r" and "r < MaxWorkers cfg"
  shows "logScalingDecision cfg p =
    (case decide cfg p 0 r of
       ScaleUp n \<Rightarrow> Some ''autoscaler would scale UP''
     | ScaleDown n \<Rightarrow> Some ''autoscaler would scale DOWN''
     | Keep \<Rightarrow> None)"
  using assms by (simp add: logScalingDecision_def decide_def)

text \<open>One tick: its result and the new value of \<open>lastScaleAt\<close>.\<close>

definition evaluate ::
  "AutoscalerConfig \<Rightarrow> bool \<Rightarrow> timestamp option \<Rightarrow> (world, (go_error + unit) \<times> timestamp option) state" where
  "evaluate cfg has_k8s lastScaleAt =
     State_Monad.bind (dbcall getPendingTaskCount) (\<lambda>pending.
     case pending of Inl err \<Rightarrow> State_Monad.return (Inl err, lastScaleAt) | Inr pendingCount \<Rightarrow>
     State_Monad.bind (dbcall getRunningTaskCount) (\<lambda>running.
     case running of Inl err \<Rightarrow> State_Monad.return (Inl err, lastScaleAt) | Inr runningCount \<Rightarrow>
     State_Monad.bind (SetGauge ''pending_tasks_current'' pendingCount) (\<lambda>_.
     State_Monad.bind (SetGauge ''running_tasks_current'' runningCount) (\<lambda>_.
     State_Monad.bind (gets clock) (\<lambda>t.
     if in_cooldown cfg lastScaleAt t \<or> \<not> has_k8s
     then State_Monad.return (Inr (), lastScaleAt) else
     State_Monad.bind GetWorkerReplicas (\<lambda>replicas.
     case replicas of Inl err \<Rightarrow> State_Monad.return (Inr (), lastScaleAt) | Inr currentReplicas \<Rightarrow>
     State_Monad.bind (SetGauge ''worker_replicas_current'' currentReplicas) (\<lambda>_.
     case decide cfg pendingCount runningCount currentReplicas of
       ScaleUp n \<Rightarrow> scale_to n lastScaleAt
     | ScaleDown n \<Rightarrow> scale_to n lastScaleAt
     | Keep \<Rightarrow> State_Monad.return (Inr (), lastScaleAt))))))))"

text \<open>The ticks of the loop until shutdown; an error of one is logged.\<close>

primrec autoscaler_loop ::
  "AutoscalerConfig \<Rightarrow> bool \<Rightarrow> nat \<Rightarrow> timestamp option \<Rightarrow> (world, timestamp option) state" where
  "autoscaler_loop cfg has_k8s 0 lastScaleAt = State_Monad.return lastScaleAt"
| "autoscaler_loop cfg has_k8s (Suc n) lastScaleAt =
     State_Monad.bind (wait (seconds (PollIntervalSeconds cfg))) (\<lambda>ticked.
     if \<not> ticked then State_Monad.return lastScaleAt
     else State_Monad.bind (evaluate cfg has_k8s lastScaleAt) (\<lambda>r.
            autoscaler_loop cfg has_k8s n (snd r)))"

lemma follows_evaluate: "state_io_rel (follows A) (evaluate cfg has_k8s since)"
proof -
  have "state_io_rel (follows A)
      (case decide cfg p r c of ScaleUp n \<Rightarrow> scale_to n since | ScaleDown n \<Rightarrow> scale_to n since
       | Keep \<Rightarrow> State_Monad.return (Inr (), since))" for p r c
    by (cases "decide cfg p r c") (simp_all add: scale_to_def, (intro follows_intros follows_kube)+)
  then show ?thesis
    unfolding evaluate_def by (intro follows_intros follows_kube within_intros)
qed

lemma uses_evaluate: "state_io_rel uses_slots (evaluate cfg has_k8s since)"
proof -
  have "state_io_rel uses_slots
      (case decide cfg p r c of ScaleUp n \<Rightarrow> scale_to n since | ScaleDown n \<Rightarrow> scale_to n since
       | Keep \<Rightarrow> State_Monad.return (Inr (), since))" for p r c
    by (cases "decide cfg p r c") (simp_all add: scale_to_def, (intro uses_intros uses_kube)+)
  then show ?thesis
    unfolding evaluate_def by (intro uses_intros uses_kube)
qed

section \<open>The cleanup\<close>

definition runCleanup :: "(world, unit) state" where
  "runCleanup =
     State_Monad.bind (dbcall cleanupStaleDatasetsInitiated) (\<lambda>_.
     State_Monad.bind (dbcall cleanupDeadTasks) (\<lambda>_.
     State_Monad.bind (dbcall cleanupDeliveredOutboxEvents) (\<lambda>_.
     State_Monad.return ())))"

text \<open>One round at the start, and one an hour until shutdown.\<close>

primrec cleanup_ticks :: "nat \<Rightarrow> (world, unit) state" where
  "cleanup_ticks 0 = State_Monad.return ()"
| "cleanup_ticks (Suc ticks) =
     State_Monad.bind (wait (hours 1)) (\<lambda>ticked.
     if \<not> ticked then State_Monad.return ()
     else State_Monad.bind runCleanup (\<lambda>_. cleanup_ticks ticks))"

definition cleanup_loop :: "nat \<Rightarrow> (world, unit) state" where
  "cleanup_loop ticks = State_Monad.bind runCleanup (\<lambda>_. cleanup_ticks ticks)"

lemma follows_runCleanup:
  assumes "A CleanupStaleDatasetsInitiated" "A CleanupDeadTasks" "A CleanupDeliveredOutboxEvents"
  shows "state_io_rel (follows A) runCleanup"
  unfolding runCleanup_def by (intro follows_intros within_intros assms)

end
