(* ===== verification/Http_Api.thy ===== *)
theory Http_Api imports Worker Autoscaler begin

text \<open>
  The API gateway: \<open>internal/middleware/auth.go\<close>, the handlers of
  \<open>services/api-gateway/handlers\<close> and \<open>routes.go\<close>, and
  \<open>internal/config/config.go\<close>. What gin makes of a request body
  (\<open>ShouldBindJSON\<close> with its validators) is an argument of the handlers: the bound
  fields, or the error.
\<close>

section \<open>Responses\<close>

datatype body =
  ErrorBody string
| MessageBody string
| UserBody uuid string UserRole
| TokenBody string
| MeBody string string
| WorkspaceBody Workspace
| WorkspacesBody "Workspace list"
| DatasetBody Dataset
| DatasetsBody "Dataset list"
| UploadBody Dataset string
| JobBody Job
| JobsBody "Job list"
| ProgressBody string GetRunProgressRow
| ArtifactsBody "Artifact list"
| DownloadBody string
| NoBody

type_synonym response = "nat \<times> body"

definition reply :: "nat \<Rightarrow> body \<Rightarrow> (world, response) state" where
  "reply status b = State_Monad.return (status, b)"

text \<open>
  \<open>x, err := call(); if err != nil { c.JSON(status, {"error": ...}); return }\<close>: the
  error's own text or a fixed one.
\<close>

definition or_error ::
  "nat \<Rightarrow> (go_error \<Rightarrow> string) \<Rightarrow> (world, go_error + 'a) state \<Rightarrow> ('a \<Rightarrow> (world, response) state)
    \<Rightarrow> (world, response) state" where
  "or_error status text m k =
     State_Monad.bind m (\<lambda>r. case r of
        Inl err \<Rightarrow> reply status (ErrorBody (text err))
      | Inr x \<Rightarrow> k x)"

definition bound ::
  "go_error + 'a \<Rightarrow> ('a \<Rightarrow> (world, response) state) \<Rightarrow> (world, response) state" where
  "bound req k =
     (case req of Inl err \<Rightarrow> reply 400 (ErrorBody (error_text err)) | Inr x \<Rightarrow> k x)"

text \<open>The query parameter that most job routes insist on.\<close>

definition need_workspace :: "string \<Rightarrow> (world, response) state \<Rightarrow> (world, response) state" where
  "need_workspace workspaceID k =
     (if workspaceID = [] then reply 400 (ErrorBody ''workspace_id is required'') else k)"

section \<open>The authentication middleware\<close>

text \<open>
  \<open>c.GetString\<close> of a value that is not a string is the empty string.
\<close>

definition claim_string :: "(string \<times> json) list \<Rightarrow> string \<Rightarrow> string" where
  "claim_string claims k = (case map_of claims k of Some (JString s) \<Rightarrow> s | _ \<Rightarrow> [])"

definition AuthMiddleware ::
  "auth_lib \<Rightarrow> string \<Rightarrow> string \<Rightarrow> (string \<Rightarrow> string \<Rightarrow> (world, response) state) \<Rightarrow> (world, response) state" where
  "AuthMiddleware L jwtSecret authHeader handler =
     (if authHeader = [] then reply 401 (ErrorBody ''missing authorization header'')
      else case SplitN2 authHeader CHR '' '' of
        [scheme, token] \<Rightarrow>
          (if scheme \<noteq> ''Bearer'' then reply 401 (ErrorBody ''invalid authorization header'')
           else State_Monad.bind (gets clock) (\<lambda>t.
             case jwt_Parse L t token jwtSecret of
               Inl err \<Rightarrow> reply 401 (ErrorBody ''invalid token'')
             | Inr (claims, valid) \<Rightarrow>
                 (if \<not> valid then reply 401 (ErrorBody ''invalid token'')
                  else handler (claim_string claims ''user_id'') (claim_string claims ''role''))))
      | _ \<Rightarrow> reply 401 (ErrorBody ''invalid authorization header''))"

section \<open>Handlers\<close>

record gateway =
  gw_uuid :: uuid_lib
  gw_auth :: auth_lib
  gw_minio :: minio
  gw_secret :: string
  gw_maxRunningJobs :: int

subsection \<open>Users\<close>

definition UserHandler_Register ::
  "gateway \<Rightarrow> nat \<Rightarrow> go_error + (string \<times> string) \<Rightarrow> (world, response) state" where
  "UserHandler_Register g salt req =
     bound req (\<lambda>(email, password).
     or_error 500 error_text (Register (gw_auth g) salt email password) (\<lambda>user.
     reply 201 (UserBody (u_id user) (u_email user) (u_role user))))"

definition UserHandler_Login ::
  "gateway \<Rightarrow> go_error + (string \<times> string) \<Rightarrow> (world, response) state" where
  "UserHandler_Login g req =
     bound req (\<lambda>(email, password).
     or_error 401 error_text (Login (gw_auth g) (gw_uuid g) email password (gw_secret g)) (\<lambda>token.
     reply 200 (TokenBody token)))"

definition UserHandler_Me :: "string \<Rightarrow> string \<Rightarrow> (world, response) state" where
  "UserHandler_Me userID role = reply 200 (MeBody userID role)"

subsection \<open>Workspaces\<close>

definition WorkspaceHandler_Create ::
  "gateway \<Rightarrow> string \<Rightarrow> go_error + (string \<times> string) \<Rightarrow> (world, response) state" where
  "WorkspaceHandler_Create g ownerID req =
     bound req (\<lambda>(name, plan).
     or_error 500 error_text (CreateWorkspace_svc (gw_uuid g) name ownerID plan) (\<lambda>ws.
     reply 201 (WorkspaceBody ws)))"

definition WorkspaceHandler_GetByID :: "gateway \<Rightarrow> string \<Rightarrow> (world, response) state" where
  "WorkspaceHandler_GetByID g workspaceID =
     or_error 404 (\<lambda>_. ''workspace not found'') (GetWorkspaceByID_svc (gw_uuid g) workspaceID)
       (\<lambda>ws. reply 200 (WorkspaceBody ws))"

definition WorkspaceHandler_ListMyWorkspaces :: "gateway \<Rightarrow> string \<Rightarrow> (world, response) state" where
  "WorkspaceHandler_ListMyWorkspaces g ownerID =
     or_error 500 error_text (GetWorkspacesByOwner_svc (gw_uuid g) ownerID)
       (\<lambda>wss. reply 200 (WorkspacesBody wss))"

definition WorkspaceHandler_Update ::
  "gateway \<Rightarrow> string \<Rightarrow> string \<Rightarrow> go_error + (string option \<times> string option) \<Rightarrow> (world, response) state" where
  "WorkspaceHandler_Update g workspaceID ownerID req =
     bound req (\<lambda>(name, plan).
     or_error 500 error_text (UpdateWorkspace_svc (gw_uuid g) workspaceID ownerID name plan) (\<lambda>ws.
     reply 200 (WorkspaceBody ws)))"

definition WorkspaceHandler_Delete :: "gateway \<Rightarrow> string \<Rightarrow> string \<Rightarrow> (world, response) state" where
  "WorkspaceHandler_Delete g workspaceID ownerID =
     or_error 500 error_text (DeleteWorkspace_svc (gw_uuid g) workspaceID ownerID) (\<lambda>_.
     reply 200 (MessageBody ''workspace deleted''))"

subsection \<open>Datasets\<close>

definition DatasetHandler_Initiate ::
  "gateway \<Rightarrow> string \<Rightarrow> go_error + (string \<times> string \<times> string) \<Rightarrow> (world, response) state" where
  "DatasetHandler_Initiate g userID req =
     bound req (\<lambda>(name, fileFormat, workspaceID).
     or_error 500 error_text
       (InitiateUpload (gw_uuid g) (gw_minio g) workspaceID userID name fileFormat)
       (\<lambda>(dataset, uploadURL). reply 201 (UploadBody dataset uploadURL)))"

definition DatasetHandler_Complete ::
  "gateway \<Rightarrow> string \<Rightarrow> go_error + (string \<times> int) \<Rightarrow> (world, response) state" where
  "DatasetHandler_Complete g datasetID req =
     bound req (\<lambda>(storagePath, sizeBytes).
     or_error 500 error_text (CompleteUpload (gw_uuid g) datasetID storagePath sizeBytes) (\<lambda>dataset.
     reply 200 (DatasetBody dataset)))"

definition DatasetHandler_GetByID :: "gateway \<Rightarrow> string \<Rightarrow> string \<Rightarrow> (world, response) state" where
  "DatasetHandler_GetByID g datasetID workspaceID =
     or_error 404 (\<lambda>_. ''dataset not found'') (GetDataset (gw_uuid g) datasetID workspaceID)
       (\<lambda>dataset. reply 200 (DatasetBody dataset))"

definition DatasetHandler_List :: "gateway \<Rightarrow> string \<Rightarrow> (world, response) state" where
  "DatasetHandler_List g workspaceID =
     or_error 500 error_text (ListDatasets (gw_uuid g) workspaceID)
       (\<lambda>xs. reply 200 (DatasetsBody xs))"

definition DatasetHandler_Delete :: "gateway \<Rightarrow> string \<Rightarrow> string \<Rightarrow> (world, response) state" where
  "DatasetHandler_Delete g datasetID workspaceID =
     or_error 500 error_text (DeleteDataset_svc (gw_uuid g) datasetID workspaceID) (\<lambda>_.
     reply 200 (MessageBody ''dataset deleted''))"

subsection \<open>Jobs\<close>

record JobRequest =
  jr_WorkspaceID :: string
  jr_DatasetID :: string
  jr_Entrypoint :: string
  jr_Parameters :: "json option"
  jr_Compute :: "json option"
  jr_MaxRetries :: int
  jr_IdempotencyKey :: string

definition JobHandler_Create ::
  "gateway \<Rightarrow> string \<Rightarrow> string \<Rightarrow> go_error + JobRequest \<Rightarrow> (world, response) state" where
  "JobHandler_Create g traceparent userID req =
     bound req (\<lambda>r.
     or_error 500 error_text
       (CreateJob (gw_uuid g) (gw_maxRunningJobs g) traceparent (jr_WorkspaceID r) userID
          (jr_DatasetID r) (jr_Entrypoint r) (jr_Parameters r) (jr_Compute r) (jr_MaxRetries r)
          (jr_IdempotencyKey r))
       (\<lambda>job. State_Monad.bind (Inc ''jobs_submitted_total'') (\<lambda>_. reply 201 (JobBody job))))"

definition JobHandler_Get :: "gateway \<Rightarrow> string \<Rightarrow> string \<Rightarrow> (world, response) state" where
  "JobHandler_Get g jobID workspaceID =
     need_workspace workspaceID
       (or_error 404 (\<lambda>_. ''job not found'') (GetJob (gw_uuid g) jobID workspaceID)
          (\<lambda>job. reply 200 (JobBody job)))"

definition JobHandler_List :: "gateway \<Rightarrow> string \<Rightarrow> (world, response) state" where
  "JobHandler_List g workspaceID =
     need_workspace workspaceID
       (or_error 500 error_text (ListJobs (gw_uuid g) workspaceID)
          (\<lambda>js. reply 200 (JobsBody js)))"

definition JobHandler_Cancel :: "gateway \<Rightarrow> string \<Rightarrow> (world, response) state" where
  "JobHandler_Cancel g jobID =
     or_error 500 error_text (CancelJob (gw_uuid g) jobID)
       (\<lambda>job. State_Monad.bind (Inc ''jobs_cancelled_total'') (\<lambda>_. reply 200 (JobBody job)))"

definition JobHandler_GetProgress :: "gateway \<Rightarrow> string \<Rightarrow> string \<Rightarrow> (world, response) state" where
  "JobHandler_GetProgress g jobID workspaceID =
     need_workspace workspaceID
       (or_error 404 error_text (GetJobProgress (gw_uuid g) jobID workspaceID)
          (\<lambda>progress. reply 200 (ProgressBody jobID progress)))"

text \<open>A panic is turned into status 500 by gin's recovery.\<close>

definition JobHandler_GetArtifacts :: "gateway \<Rightarrow> string \<Rightarrow> string \<Rightarrow> (world, response) state" where
  "JobHandler_GetArtifacts g jobID workspaceID =
     need_workspace workspaceID
       (State_Monad.bind (GetJobArtifacts (gw_uuid g) jobID workspaceID) (\<lambda>r.
          case r of
            None \<Rightarrow> reply 500 NoBody
          | Some (Inl err) \<Rightarrow> reply 404 (ErrorBody (error_text err))
          | Some (Inr as) \<Rightarrow> reply 200 (ArtifactsBody as)))"

definition JobHandler_DownloadArtifact :: "gateway \<Rightarrow> string \<Rightarrow> (world, response) state" where
  "JobHandler_DownloadArtifact g artifactID =
     or_error 404 error_text (GetArtifactDownloadURL (gw_uuid g) (gw_minio g) artifactID)
       (\<lambda>url. reply 200 (DownloadBody url))"

section \<open>Routes\<close>

text \<open>
  The routes below \<open>/api/v1\<close>, with their path and query parameters and their bound
  bodies.
\<close>

datatype request =
  PostRegister "go_error + (string \<times> string)"
| PostLogin "go_error + (string \<times> string)"
| GetMe
| PostWorkspaces "go_error + (string \<times> string)"
| GetWorkspaces
| GetWorkspace string
| PatchWorkspace string "go_error + (string option \<times> string option)"
| DeleteWorkspaceReq string
| PostDatasetsInitiate "go_error + (string \<times> string \<times> string)"
| PostDatasetComplete string "go_error + (string \<times> int)"
| GetDatasetReq string string
| GetDatasets string
| DeleteDatasetReq string string
| PostJobs "go_error + JobRequest"
| GetJobs string
| GetJobReq string string
| PostJobCancel string
| GetJobProgressReq string string
| GetJobArtifactsReq string string
| GetArtifactDownload string string

primrec open_route :: "request \<Rightarrow> bool" where
  "open_route (PostRegister b) = True"
| "open_route (PostLogin b) = True"
| "open_route GetMe = False"
| "open_route (PostWorkspaces b) = False"
| "open_route GetWorkspaces = False"
| "open_route (GetWorkspace i) = False"
| "open_route (PatchWorkspace i b) = False"
| "open_route (DeleteWorkspaceReq i) = False"
| "open_route (PostDatasetsInitiate b) = False"
| "open_route (PostDatasetComplete i b) = False"
| "open_route (GetDatasetReq i ws) = False"
| "open_route (GetDatasets ws) = False"
| "open_route (DeleteDatasetReq i ws) = False"
| "open_route (PostJobs b) = False"
| "open_route (GetJobs ws) = False"
| "open_route (GetJobReq i ws) = False"
| "open_route (PostJobCancel i) = False"
| "open_route (GetJobProgressReq i ws) = False"
| "open_route (GetJobArtifactsReq i ws) = False"
| "open_route (GetArtifactDownload i a) = False"

primrec route :: "gateway \<Rightarrow> nat \<Rightarrow> string \<Rightarrow> string \<Rightarrow> string \<Rightarrow> request \<Rightarrow> (world, response) state" where
  "route g salt tp user role (PostRegister b) = UserHandler_Register g salt b"
| "route g salt tp user role (PostLogin b) = UserHandler_Login g b"
| "route g salt tp user role GetMe = UserHandler_Me user role"
| "route g salt tp user role (PostWorkspaces b) = WorkspaceHandler_Create g user b"
| "route g salt tp user role GetWorkspaces = WorkspaceHandler_ListMyWorkspaces g user"
| "route g salt tp user role (GetWorkspace i) = WorkspaceHandler_GetByID g i"
| "route g salt tp user role (PatchWorkspace i b) = WorkspaceHandler_Update g i user b"
| "route g salt tp user role (DeleteWorkspaceReq i) = WorkspaceHandler_Delete g i user"
| "route g salt tp user role (PostDatasetsInitiate b) = DatasetHandler_Initiate g user b"
| "route g salt tp user role (PostDatasetComplete i b) = DatasetHandler_Complete g i b"
| "route g salt tp user role (GetDatasetReq i ws) = DatasetHandler_GetByID g i ws"
| "route g salt tp user role (GetDatasets ws) = DatasetHandler_List g ws"
| "route g salt tp user role (DeleteDatasetReq i ws) = DatasetHandler_Delete g i ws"
| "route g salt tp user role (PostJobs b) = JobHandler_Create g tp user b"
| "route g salt tp user role (GetJobs ws) = JobHandler_List g ws"
| "route g salt tp user role (GetJobReq i ws) = JobHandler_Get g i ws"
| "route g salt tp user role (PostJobCancel i) = JobHandler_Cancel g i"
| "route g salt tp user role (GetJobProgressReq i ws) = JobHandler_GetProgress g i ws"
| "route g salt tp user role (GetJobArtifactsReq i ws) = JobHandler_GetArtifacts g i ws"
| "route g salt tp user role (GetArtifactDownload i a) = JobHandler_DownloadArtifact g a"

definition serve :: "gateway \<Rightarrow> nat \<Rightarrow> string \<Rightarrow> string \<Rightarrow> request \<Rightarrow> (world, response) state" where
  "serve g salt traceparent authHeader req =
     (if open_route req then route g salt traceparent [] [] req
      else AuthMiddleware (gw_auth g) (gw_secret g) authHeader
             (\<lambda>user role. route g salt traceparent user role req))"

section \<open>Configuration\<close>

text \<open>\<open>strconv.Atoi\<close>: an optional sign and decimal digits, within 64 bits.\<close>

definition Atoi :: "string \<Rightarrow> int option" where
  "Atoi s =
     (let neg = (case s of c # _ \<Rightarrow> c = CHR ''-'' | [] \<Rightarrow> False);
          ds = (case s of c # r \<Rightarrow> if c = CHR ''-'' \<or> c = CHR ''+'' then r else s | [] \<Rightarrow> []);
          n = (if neg then - digits_value ds else digits_value ds)
      in if ds \<noteq> [] \<and> list_all is_digit ds \<and> int8 n then Some n else None)"

record Config =
  DBUrl :: string
  RedisURL :: string
  KafkaBrokers :: string
  MinioEndpoint :: string
  MinioAccessKey :: string
  MinioSecretKey :: string
  MinioBucket :: string
  APIPort :: string
  JWTSecret :: string
  Env :: string
  TaskTimeoutSeconds :: int
  PythonPath :: string
  TaskRunnerPath :: string

text \<open>\<open>getenv\<close> is the environment after the \<open>.env\<close> file was read into it.\<close>

definition Load :: "(string \<Rightarrow> string) \<Rightarrow> Config" where
  "Load getenv =
     (let v = getenv ''TASK_TIMEOUT_SECONDS'';
          taskTimeout = (if v \<noteq> [] then (case Atoi v of Some n \<Rightarrow> n | None \<Rightarrow> 3600) else 3600)
      in \<lparr>DBUrl = getenv ''DB_URL'', RedisURL = getenv ''REDIS_URL'',
          KafkaBrokers = getenv ''KAFKA_BROKERS'', MinioEndpoint = getenv ''MINIO_ENDPOINT'',
          MinioAccessKey = getenv ''MINIO_ACCESS_KEY'', MinioSecretKey = getenv ''MINIO_SECRET_KEY'',
          MinioBucket = getenv ''MINIO_BUCKET'', APIPort = getenv ''API_PORT'',
          JWTSecret = getenv ''JWT_SECRET'', Env = getenv ''ENV'',
          TaskTimeoutSeconds = taskTimeout, PythonPath = getenv ''PYTHON_PATH'',
          TaskRunnerPath = getenv ''TASK_RUNNER_PATH''\<rparr>)"

section \<open>What a request keeps\<close>

lemma follows_or_error:
  "state_io_rel (follows A) m \<Longrightarrow> (\<And>x. state_io_rel (follows A) (k x)) \<Longrightarrow>
   state_io_rel (follows A) (or_error status text m k)"
  unfolding or_error_def reply_def by (intro follows_intros)

lemma follows_bound: "(\<And>x. state_io_rel (follows A) (k x)) \<Longrightarrow> state_io_rel (follows A) (bound req k)"
  unfolding bound_def reply_def by (intro follows_intros)

lemma follows_need: "state_io_rel (follows A) k \<Longrightarrow> state_io_rel (follows A) (need_workspace ws k)"
  unfolding need_workspace_def reply_def by (intro follows_intros)

lemma follows_route:
  assumes "\<And>s. gateway_stmt s \<Longrightarrow> A s"
  shows "state_io_rel (follows A) (route g salt tp user role req)"
proof -
  note reads = GetJob_def ListJobs_def GetJobProgress_def GetJobArtifacts_def
    GetArtifactDownloadURL_def GetWorkspacesByOwner_svc_def GetWorkspaceByID_svc_def
    GetDataset_def ListDatasets_def
  note handlers = UserHandler_Register_def UserHandler_Login_def UserHandler_Me_def
    WorkspaceHandler_Create_def WorkspaceHandler_GetByID_def WorkspaceHandler_ListMyWorkspaces_def
    WorkspaceHandler_Update_def WorkspaceHandler_Delete_def DatasetHandler_Initiate_def
    DatasetHandler_Complete_def DatasetHandler_GetByID_def DatasetHandler_List_def
    DatasetHandler_Delete_def JobHandler_Create_def JobHandler_Get_def JobHandler_List_def
    JobHandler_Cancel_def JobHandler_GetProgress_def JobHandler_GetArtifacts_def
    JobHandler_DownloadArtifact_def
  show ?thesis
    by (cases req; simp only: route.simps handlers reads reply_def case_prod_unfold;
        intro follows_intros follows_bound follows_or_error follows_need follows_parsed
          follows_accounts follows_CreateJob follows_CancelJob within_intros assms; simp)
qed

lemma follows_serve:
  assumes "\<And>s. gateway_stmt s \<Longrightarrow> A s"
  shows "state_io_rel (follows A) (serve g salt tp h req)"
  unfolding serve_def AuthMiddleware_def reply_def case_prod_unfold
  by (intro follows_intros follows_route assms)

end
