(* ===== verification/Calm.thy ===== *)
theory Calm imports Http_Api begin

text \<open>
  Runs in which no other process interferes but any call may fail, before or after it took effect:
  \<open>calm\<close> worlds. Most calls of a handler leave the tables alone
  (\<open>frame\<close>), so a statement about a handler under all faults is a statement about the
  few calls that do not.
\<close>

section \<open>Calm worlds\<close>

definition calm_slot :: "slot \<Rightarrow> bool" where
  "calm_slot s \<longleftrightarrow> others s = [] \<and> others_redis s = [] \<and> others_sent s = []"

definition calm :: "world \<Rightarrow> bool" where
  "calm w \<longleftrightarrow> list_all calm_slot (slots w)"

lemma calm_quiet: "slots w = [] \<Longrightarrow> calm w"
  by (simp add: calm_def)

lemma calm_updates [simp]:
  "calm (w\<lparr>data := d\<rparr>) = calm w" "calm (w\<lparr>clock := c\<rparr>) = calm w"
  "calm (w\<lparr>topics := t\<rparr>) = calm w" "calm (w\<lparr>redis := m\<rparr>) = calm w"
  "calm (w\<lparr>kube := k\<rparr>) = calm w" "calm (w\<lparr>metric := x\<rparr>) = calm w"
  by (simp_all add: calm_def)

text \<open>What a calm call can do: time passes, and the call is served, refused or lost.\<close>

lemma calm_arrive:
  assumes "calm w" and "run_state arrive w = (ft, w1)"
  obtains c ss where "w1 = w\<lparr>slots := ss, clock := c\<rparr>" "calm w1" "clock w \<le> c"
proof (cases "slots w")
  case Nil
  then show thesis
    using assms that [where c = "clock w" and ss = "slots w"] by (simp add: arrive_def)
next
  case (Cons s ss)
  then have "w1 = w\<lparr>slots := ss, clock := clock w + int (elapsed s)\<rparr>"
    using assms by (simp add: arrive_def interfere_def calm_def calm_slot_def)
  then show thesis
    using assms Cons that [where c = "clock w + int (elapsed s)" and ss = ss] by (simp add: calm_def)
qed

lemma calm_call:
  assumes "calm w" and "run_state (call f) w = (r, w')"
  obtains (served) c ss where "calm (w\<lparr>slots := ss, clock := c\<rparr>)" "f (w\<lparr>slots := ss, clock := c\<rparr>) = (r, w')"
  | (refused) e c ss where "r = Inl e" "calm w'" "w' = w\<lparr>slots := ss, clock := c\<rparr>"
  | (lost) e c ss where "calm (w\<lparr>slots := ss, clock := c\<rparr>)" "r = Inl e" "w' = snd (f (w\<lparr>slots := ss, clock := c\<rparr>))"
proof -
  obtain ft w1 where ft: "run_state arrive w = (ft, w1)" by fastforce
  obtain c ss where w1: "w1 = w\<lparr>slots := ss, clock := c\<rparr>" "calm w1"
    using calm_arrive [OF assms(1) ft] by metis
  show thesis
  proof (cases ft)
    case Served
    then show thesis using assms(2) ft w1 served by (simp add: call_def)
  next
    case (Refused e)
    then have "r = Inl e" "w' = w1" using assms(2) ft by (simp_all add: call_def)
    then show thesis using w1 refused by blast
  next
    case (Lost e)
    then have "r = Inl e" "w' = snd (f w1)" using assms(2) ft by (simp_all add: call_def)
    then show thesis using w1 lost by blast
  qed
qed

lemma calm_dbcall:
  assumes "calm w" and "run_state (dbcall q) w = (r, w')"
  obtains (served) p where "gen p = uuids w" "q p (data w) = (r, data w')" "calm w'"
      "topics w' = topics w" "uuids w' = uuids w"
  | (refused) e where "r = Inl e" "data w' = data w" "calm w'" "topics w' = topics w" "uuids w' = uuids w"
  | (lost) e p where "gen p = uuids w" "r = Inl e" "data w' = snd (q p (data w))" "calm w'"
      "topics w' = topics w" "uuids w' = uuids w"
  using assms(1) assms(2)[unfolded dbcall_def]
proof (cases rule: calm_call)
  case (served c ss)
  then show thesis
    using that(1) [of "context_of (w\<lparr>slots := ss, clock := c\<rparr>)"]
    by (auto simp: case_prod_unfold Let_def prod_eq_iff)
next
  case (refused e c ss)
  then show thesis using that(2) by simp
next
  case (lost e c ss)
  then show thesis
    using that(3) [of "context_of (w\<lparr>slots := ss, clock := c\<rparr>)" e]
    by (auto simp: case_prod_unfold Let_def)
qed

text \<open>A property of the database that the statement may or may not bring about.\<close>

lemma calm_dbcall_effect:
  assumes "calm w" and "run_state (dbcall q) w = (r, w')"
    and "\<And>p. Q (snd (q p (data w)))" and "Q (data w)"
  shows "calm w' \<and> topics w' = topics w \<and> Q (data w')"
  using assms(1,2)
proof (cases rule: calm_dbcall)
  case (served p)
  then show ?thesis using assms(3) [of p] by simp
next
  case (lost e p)
  then show ?thesis using assms(3) [of p] by simp
qed (use assms(4) in simp)

lemma calm_txcall:
  assumes "calm w" and "run_state (txcall q t) w = (Inr (x, t'), w')"
  obtains p where "gen p = uuids w" "txn_query q t p (data w) = (Inr x, t', data w')" "calm w'"
  using assms(1) assms(2)[unfolded txcall_def]
proof (cases rule: calm_call)
  case (served c ss)
  then show thesis
    using that [of "context_of (w\<lparr>slots := ss, clock := c\<rparr>)"]
    by (cases "fst (txn_query q t (context_of (w\<lparr>slots := ss, clock := c\<rparr>)) (data w))")
      (auto simp: case_prod_unfold Let_def prod_eq_iff)
qed simp_all

section \<open>Calls that leave the tables alone\<close>

definition same_tables :: "db \<Rightarrow> db \<Rightarrow> bool" where
  "same_tables d d' \<longleftrightarrow> d' = d\<lparr>drawn := drawn d'\<rparr>"

lemma same_tables_refl [simp]: "same_tables d d"
  by (simp add: same_tables_def)

lemma same_tables_trans: "same_tables d d' \<Longrightarrow> same_tables d' d'' \<Longrightarrow> same_tables d d''"
  unfolding same_tables_def
  by (metis db.surjective db.update_convs(9) db.select_convs)

lemma same_tablesD:
  assumes "same_tables d d'"
  shows "users d' = users d" "workspaces d' = workspaces d" "datasets d' = datasets d"
    "jobs d' = jobs d" "runs d' = runs d" "tasks d' = tasks d" "artifacts d' = artifacts d"
    "outbox d' = outbox d"
proof -
  have "d' = d\<lparr>drawn := drawn d'\<rparr>"
    using assms by (simp add: same_tables_def)
  then obtain n where "d' = d\<lparr>drawn := n\<rparr>" by blast
  then show "users d' = users d" "workspaces d' = workspaces d" "datasets d' = datasets d"
    "jobs d' = jobs d" "runs d' = runs d" "tasks d' = tasks d" "artifacts d' = artifacts d"
    "outbox d' = outbox d" by simp_all
qed

definition frame :: "world \<Rightarrow> world \<Rightarrow> bool" where
  "frame w w' \<longleftrightarrow> (calm w \<longrightarrow> calm w' \<and> same_tables (data w) (data w'))"

interpretation frames: kept_relation frame
  by unfold_locales (auto simp: frame_def intro: same_tables_trans)

lemma frame_call:
  assumes "\<And>w. calm w \<Longrightarrow> calm (snd (f w)) \<and> same_tables (data w) (data (snd (f w)))"
  shows "state_io_rel frame (call f)"
proof (rule state_io_relI)
  fix r w w'
  assume run: "run_state (call f) w = (r, w')"
  show "frame w w'"
    unfolding frame_def
  proof
    assume "calm w"
    then show "calm w' \<and> same_tables (data w) (data w')"
      using run
    proof (cases rule: calm_call)
      case (served c ss)
      then show ?thesis using assms [of "w\<lparr>slots := ss, clock := c\<rparr>"] by simp
    next
      case (lost e c ss)
      then show ?thesis using assms [of "w\<lparr>slots := ss, clock := c\<rparr>"] by simp
    qed simp
  qed
qed

lemma frame_calls:
  "state_io_rel frame begin_call" "state_io_rel frame (txcall q t)" "state_io_rel frame (redis_get k)"
  "state_io_rel frame (redis_addcall k x)" "state_io_rel frame (write_message m)"
  "state_io_rel frame (kube_call f)"
  unfolding begin_call_def txcall_def redis_get_def redis_addcall_def write_message_def kube_call_def
  by (rule frame_call, simp add: case_prod_unfold Let_def txn_query_def same_tables_def)+

lemma frame_dbcall:
  assumes "\<And>p d. same_tables d (snd (q p d))"
  shows "state_io_rel frame (dbcall q)"
  unfolding dbcall_def by (rule frame_call) (simp add: case_prod_unfold Let_def assms)

lemma frame_metrics:
  "state_io_rel frame (Add m n)" "state_io_rel frame (Inc m)" "state_io_rel frame (SetGauge m n)"
  unfolding Inc_def Add_def SetGauge_def by (rule frames.kept_modify, simp add: frame_def)+

lemmas frame_intros = frames.kept_intros frame_calls frame_metrics frame_dbcall

lemma frameD: "state_io_rel frame m \<Longrightarrow> run_state m w = (r, w') \<Longrightarrow> calm w \<Longrightarrow>
    calm w' \<and> same_tables (data w) (data w')"
  by (auto simp: frame_def dest: state_io_relD)

lemma checked_cases:
  assumes "run_state (checked m wrap k) w = (r, w')"
  obtains (error) e where "run_state m w = (Inl e, w')" "r = Inl (wrap e)"
  | (ok) x w1 where "run_state m w = (Inr x, w1)" "run_state (k x) w1 = (r, w')"
  using assms by (auto simp: run_checked split: prod.splits sum.splits)

section \<open>A sample world\<close>

definition sample_world :: world where
  "sample_world = \<lparr>data = sample_db, clock = 10, uuids = gen sample_pg, slots = [], topics = [],
     redis = (\<lambda>_. None),
     kube = \<lparr>namespaces = [], policies = [], quotas = [], worker_jobs = [],
             deployment = Some (Some 2)\<rparr>,
     metric = (\<lambda>_. 0)\<rparr>"

definition slot_with :: "fate \<Rightarrow> slot" where
  "slot_with ft = \<lparr>elapsed = 1, others = [], others_redis = [], others_sent = [], fate = ft\<rparr>"

lemma calm_slot_with [simp]: "calm_slot (slot_with ft)"
  by (simp add: calm_slot_def slot_with_def)

lemma sample_world_simps [simp]:
  "data sample_world = sample_db" "clock sample_world = 10" "uuids sample_world = gen sample_pg"
  "slots sample_world = []" "topics sample_world = []" "redis sample_world = (\<lambda>_. None)"
  "deployment (kube sample_world) = Some (Some 2)"
  by (simp_all add: sample_world_def)

lemma sample_context [simp]: "context_of sample_world = sample_pg"
  by (simp add: context_of_def sample_pg_eta)

end
