(* ===== verification/Submission.thy ===== *)
theory Submission imports Calm begin

text \<open>
  Submitting a job: the job and its outbox event are written together or not at all, whichever
  call fails; the rate limit holds submissions back; a submission goes through when its references
  exist.
\<close>

section \<open>All or nothing\<close>

text \<open>What one submission may leave behind, from its result and the two databases.\<close>

definition submission_outcome ::
  "uuid_lib \<Rightarrow> string \<Rightarrow> string \<Rightarrow> db \<Rightarrow> go_error + Job \<Rightarrow> db \<Rightarrow> bool" where
  "submission_outcome U ws tp d r d' \<longleftrightarrow>
     (same_tables d d' \<and> (\<exists>e. r = Inl e))
     \<or> (\<exists>job event n. d' = d\<lparr>jobs := jobs d @ [job], outbox := outbox d @ [event], drawn := n\<rparr>
          \<and> j_state job = JobStateSUBMITTED
          \<and> o_event_type event = ''job.submitted'' \<and> o_aggregate_id event = j_id job
          \<and> o_payload event = submitted_payload U (j_id job) ws tp
          \<and> o_status event = OutboxStatusPENDING
          \<and> (r = Inr job \<or> (\<exists>e. r = Inl e)))"

lemma outcome_error: "same_tables d d' \<Longrightarrow> submission_outcome U ws tp d (Inl e) d'"
  by (simp add: submission_outcome_def)

lemma outcome_after_frame:
  assumes "same_tables d d1" and "submission_outcome U ws tp d1 r d'"
  shows "submission_outcome U ws tp d r d'"
proof -
  obtain n where d1: "d1 = d\<lparr>drawn := n\<rparr>"
    using assms(1) by (auto simp: same_tables_def)
  show ?thesis
    using assms(2) same_tables_trans [OF assms(1)]
    unfolding submission_outcome_def d1 by fastforce
qed

lemma outcome_before_frame:
  assumes "submission_outcome U ws tp d r d1" and "same_tables d1 d'" and "r' = r \<or> (\<exists>e. r' = Inl e)"
    and "\<And>e. r = Inl e \<Longrightarrow> \<exists>e'. r' = Inl e'"
  shows "submission_outcome U ws tp d r' d'"
proof -
  obtain n where d': "d' = d1\<lparr>drawn := n\<rparr>"
    using assms(2) by (auto simp: same_tables_def)
  from assms(1) show ?thesis
    unfolding submission_outcome_def
  proof (elim disjE exE conjE, goal_cases)
    case (1 e)
    then have "same_tables d d'" using same_tables_trans assms(2) by blast
    moreover obtain e' where "r' = Inl e'" using 1(2) assms(4) by blast
    ultimately show ?case by blast
  next
    case (2 job event m)
    then show ?case
      using assms(3) by (intro disjI2 exI [of _ job] exI [of _ event]) (auto simp: d')
  next
    case (3 job event m e)
    then obtain e' where "r' = Inl e'" using assms(4) by blast
    with 3 show ?case
      by (intro disjI2 exI [of _ job] exI [of _ event]) (auto simp: d')
  qed
qed

text \<open>A step that leaves the tables alone, before the rest of a submission.\<close>

lemma outcome_checked:
  assumes "run_state (checked m wrap k) w = (r, w')" and "state_io_rel frame m" and "calm w"
    and "\<And>x w1. run_state m w = (Inr x, w1) \<Longrightarrow> calm w1 \<Longrightarrow> run_state (k x) w1 = (r, w') \<Longrightarrow>
           submission_outcome U ws tp (data w1) r (data w')"
  shows "submission_outcome U ws tp (data w) r (data w')"
  using assms(1)
proof (cases rule: checked_cases)
  case (error e)
  then show ?thesis
    using frameD [OF assms(2) _ assms(3)] by (metis outcome_error)
next
  case (ok x w1)
  then show ?thesis
    using frameD [OF assms(2) ok(1) assms(3)] assms(4) [OF ok(1)] outcome_after_frame by blast
qed

lemma outcome_parsed:
  assumes "run_state (parsed U s msg k) w = (r, w')"
    and "\<And>i. uuid_Parse U s = Inr i \<Longrightarrow> run_state (k i) w = (r, w') \<Longrightarrow>
           submission_outcome U ws tp (data w) r (data w')"
  shows "submission_outcome U ws tp (data w) r (data w')"
  using assms by (cases "uuid_Parse U s") (auto simp: parsed_def outcome_error)

section \<open>The transaction\<close>

lemma txn_createJob:
  assumes "txn_query (createJob arg) (begin_txn t) p d = (Inr job, tx, d')"
  shows "tx = \<lparr>tx_start = t, tx_jobs = [job], tx_outbox = []\<rparr> \<and> j_state job = JobStateSUBMITTED"
  using assms
  by (auto simp: txn_query_def createJob_def draw_def begin_txn_def txn_view_def new_job_def
      case_prod_unfold Let_def split: option.splits prod.splits)

lemma txn_createOutboxEvent:
  assumes "txn_query (createOutboxEvent ty i pl) \<lparr>tx_start = t, tx_jobs = js, tx_outbox = []\<rparr> p d
      = (Inr event, tx, d')"
  shows "tx = \<lparr>tx_start = t, tx_jobs = js, tx_outbox = [event]\<rparr> \<and> o_event_type event = ty
    \<and> o_aggregate_id event = i \<and> o_payload event = pl \<and> o_status event = OutboxStatusPENDING"
  using assms
  by (auto simp: txn_query_def createOutboxEvent_def draw_def txn_view_def
      case_prod_unfold Let_def split: option.splits)

lemma begin_call_txn:
  "calm w \<Longrightarrow> run_state begin_call w = (Inr tx, w') \<Longrightarrow> \<exists>t. tx = begin_txn t"
  unfolding begin_call_def by (erule (1) calm_call) auto

lemma frame_rate:
  "state_io_rel frame (AllowJobSubmission n ws)" "state_io_rel frame (IncrementRunningJobs ws)"
  "state_io_rel frame (DecrementRunningJobs ws)"
  unfolding AllowJobSubmission_def IncrementRunningJobs_def DecrementRunningJobs_def
  by (intro frame_intros)+

lemma commit_txn_Inr:
  "commit_txn t p d = (Inr (), d') \<Longrightarrow>
   d' = d\<lparr>jobs := jobs d @ tx_jobs t, outbox := outbox d @ tx_outbox t\<rparr>"
  by (auto simp: commit_txn_def dest!: commit_jobs_rows commit_events_rows split: sum.splits)

text \<open>The commit and what follows it.\<close>

lemma outcome_commit:
  assumes "calm w"
    and "run_state (checked (dbcall (commit_txn \<lparr>tx_start = t, tx_jobs = [job], tx_outbox = [event]\<rparr>)) wrap
           (\<lambda>_. checked (IncrementRunningJobs key) wrap' (\<lambda>_. State_Monad.return (Inr job)))) w = (r, w')"
    and "j_state job = JobStateSUBMITTED" and "o_event_type event = ''job.submitted''"
    and "o_aggregate_id event = j_id job" and "o_payload event = submitted_payload U (j_id job) ws tp"
    and "o_status event = OutboxStatusPENDING"
  shows "submission_outcome U ws tp (data w) r (data w')"
proof -
  let ?tx = "\<lparr>tx_start = t, tx_jobs = [job], tx_outbox = [event]\<rparr>"
  let ?d = "(data w)\<lparr>jobs := jobs (data w) @ [job], outbox := outbox (data w) @ [event]\<rparr>"
  have written: "submission_outcome U ws tp (data w) res ?d" if "res = Inr job \<or> (\<exists>e. res = Inl e)" for res
    using assms(3-7) that unfolding submission_outcome_def
    by (intro disjI2 exI [of _ job] exI [of _ event] exI [of _ "drawn (data w)"]) auto
  show ?thesis
    using assms(2)
  proof (cases rule: checked_cases)
    case (error e)
    note step = error(1)
    from assms(1) step show ?thesis
    proof (cases rule: calm_dbcall)
      case (served p)
      then show ?thesis
        using commit_txn_rows [of ?tx p "data w"] written [of r] error
        by (auto simp: commit_txn_def outcome_error split: sum.splits)
    next
      case (refused e)
      then show ?thesis using error by (simp add: outcome_error)
    next
      case (lost e p)
      then show ?thesis
        using commit_txn_rows [of ?tx p "data w"] written [of r] error by (auto simp: outcome_error)
    qed
  next
    case (ok x w1)
    from assms(1) ok(1) have w1: "data w1 = ?d" "calm w1"
      by (cases rule: calm_dbcall; use commit_txn_Inr [of ?tx] in force)+
    have "same_tables (data w1) (data w')"
      using ok(2) frameD [OF frame_rate(2) _ w1(2)]
      by (cases rule: checked_cases) auto
    moreover have "r = Inr job \<or> (\<exists>e. r = Inl e)"
      using ok(2) by (cases rule: checked_cases) auto
    ultimately show ?thesis
      using outcome_before_frame [OF written] w1(1) by (metis sum.distinct(1))
  qed
qed

lemma outcome_submit_job:
  assumes "calm w" and "run_state (submit_job U tp ws params) w = (r, w')"
  shows "submission_outcome U ws tp (data w) r (data w')"
  using assms(2)[unfolded submit_job_def]
proof (rule outcome_checked [OF _ frame_calls(1) assms(1)], goal_cases)
  case (1 tx w2)
  then obtain t where tx: "tx = begin_txn t" using begin_call_txn assms(1) by blast
  from 1(3) show ?case
  proof (rule outcome_checked [OF _ frame_calls(2) 1(2)], goal_cases)
    case (1 jt w3)
    obtain job tx1 where jt: "jt = (job, tx1)" by fastforce
    with 1(1) \<open>calm w2\<close> have tx1: "tx1 = \<lparr>tx_start = t, tx_jobs = [job], tx_outbox = []\<rparr>"
      "j_state job = JobStateSUBMITTED"
      unfolding tx by (metis calm_txcall txn_createJob)+
    from 1(3) show ?case
      unfolding jt prod.case
    proof (rule outcome_checked [OF _ frame_calls(2) 1(2)], goal_cases)
      case (1 et w4)
      obtain event tx2 where et: "et = (event, tx2)" by fastforce
      obtain p where "txn_query (createOutboxEvent ''job.submitted'' (j_id job)
          (submitted_payload U (j_id job) ws tp)) tx1 p (data w3) = (Inr event, tx2, data w4)"
        using 1(1) \<open>calm w3\<close> unfolding et by (metis calm_txcall)
      note event = txn_createOutboxEvent [OF this[unfolded tx1(1)]]
      show ?case
        using 1(2,3) event tx1(2) unfolding et prod.case
        by (intro outcome_commit [where job = job and event = event]) auto
    qed
  qed
qed



section \<open>A submission that goes through\<close>

definition submitted_event :: "uuid_lib \<Rightarrow> string \<Rightarrow> string \<Rightarrow> uuid \<Rightarrow> uuid \<Rightarrow> timestamp \<Rightarrow> Outbox" where
  "submitted_event U ws tp i job_id t =
     \<lparr>o_id = i, o_event_type = ''job.submitted'', o_aggregate_id = job_id,
      o_payload = submitted_payload U job_id ws tp, o_status = OutboxStatusPENDING,
      o_attempts = 0, o_created_at = t, o_published_at = None\<rparr>"

lemma run_begin_call [run_simps]:
  "slots w = [] \<Longrightarrow> run_state begin_call w = (Inr (begin_txn (clock w)), w)"
  by (simp add: begin_call_def run_call_quiet)

lemma check_frames [simp]:
  "check_job j (d\<lparr>drawn := n\<rparr>) = check_job j d"
  "check_event e (d\<lparr>jobs := js, drawn := n\<rparr>) = check_event e d"
  "check_event e (d\<lparr>drawn := n, jobs := js\<rparr>) = check_event e d"
  "check_event e (d\<lparr>drawn := n\<rparr>) = check_event e d"
  by (auto simp: check_job_def check_event_def)

lemma run_submit_job:
  assumes "slots w = []" and "cj_Parameters arg = Some ps" and "cj_Compute arg = Some c"
    and "job = new_job arg (uuids w (drawn (data w))) (clock w) ps c"
    and "check_job job (data w) = None"
    and "event = submitted_event U ws tp (uuids w (Suc (drawn (data w)))) (j_id job) (clock w)"
    and "check_event event (data w) = None"
    and "int8 (running_jobs w ws + 1)"
  shows "run_state (submit_job U tp ws arg) w =
    (Inr job, w\<lparr>data := (data w)\<lparr>jobs := jobs (data w) @ [job], outbox := outbox (data w) @ [event],
                      drawn := Suc (Suc (drawn (data w)))\<rparr>,
                redis := (redis w)(rate_key ws \<mapsto> running_jobs w ws + 1)\<rparr>)"
proof -
  have jobs1: "run_state (txcall (createJob arg) (begin_txn (clock w))) w =
    (Inr (job, \<lparr>tx_start = clock w, tx_jobs = [job], tx_outbox = []\<rparr>),
     w\<lparr>data := (data w)\<lparr>drawn := Suc (drawn (data w))\<rparr>\<rparr>)"
    using assms(1-5)
    by (simp add: txcall_def run_call_quiet txn_query_def txn_view_def begin_txn_def createJob_def
        draw_def context_of_def Let_def)
  have "j_id job = uuids w (drawn (data w))"
    by (simp add: assms(4) new_job_def)
  then have events1: "run_state (txcall (createOutboxEvent ''job.submitted'' (j_id job)
        (submitted_payload U (j_id job) ws tp)) \<lparr>tx_start = clock w, tx_jobs = [job], tx_outbox = []\<rparr>)
      (w\<lparr>data := (data w)\<lparr>drawn := Suc (drawn (data w))\<rparr>\<rparr>) =
    (Inr (event, \<lparr>tx_start = clock w, tx_jobs = [job], tx_outbox = [event]\<rparr>),
     w\<lparr>data := (data w)\<lparr>drawn := Suc (Suc (drawn (data w)))\<rparr>\<rparr>)"
    using assms(1,6,7)
    by (simp add: txcall_def run_call_quiet txn_query_def txn_view_def createOutboxEvent_def
        draw_def context_of_def Let_def submitted_event_def)
  have commit: "commit_txn \<lparr>tx_start = clock w, tx_jobs = [job], tx_outbox = [event]\<rparr> p
        ((data w)\<lparr>drawn := n\<rparr>) =
      (Inr (), (data w)\<lparr>jobs := jobs (data w) @ [job], outbox := outbox (data w) @ [event], drawn := n\<rparr>)" for p n
    using assms(5,7) by (simp add: commit_txn_def)
  show ?thesis
    using assms(1,8)
    by (simp add: submit_job_def run_checked run_begin_call jobs1 events1 run_dbcall_quiet commit
        run_IncrementRunningJobs running_jobs_def)
qed

text \<open>
  A submission under the limit, with parsable ids, references that exist and a fresh
  idempotency key, returns the submitted job; the job and its pending outbox event are added and
  the workspace's counter of running jobs goes up by one, and nothing else changes.
\<close>
lemma run_CreateJob:
  assumes "slots w = []" and "running_jobs w ws < n" and "int8 (running_jobs w ws + 1)"
    and "uuid_Parse U ws = Inr wsid" and "uuid_Parse U by = Inr byid" and "uuid_Parse U ds = Inr dsid"
    and "job = new_job (CreateJob_params wsid byid dsid entry (Some ps) (Some c) mr key)
                 (uuids w (drawn (data w))) (clock w) ps c"
    and "check_job job (data w) = None"
    and "event = submitted_event U ws tp (uuids w (drawn (data w) + 1)) (j_id job) (clock w)"
    and "check_event event (data w) = None"
  shows "run_state (CreateJob U n tp ws by ds entry (Some ps) (Some c) mr key) w =
    (Inr job, w\<lparr>data := (data w)\<lparr>jobs := jobs (data w) @ [job], outbox := outbox (data w) @ [event],
                      drawn := drawn (data w) + 2\<rparr>,
                redis := (redis w)(rate_key ws \<mapsto> running_jobs w ws + 1)\<rparr>)"
proof -
  let ?arg = "CreateJob_params wsid byid dsid entry (Some ps) (Some c) mr key"
  have "run_state (submit_job U tp ws ?arg) w = (Inr job,
      w\<lparr>data := (data w)\<lparr>jobs := jobs (data w) @ [job], outbox := outbox (data w) @ [event],
            drawn := drawn (data w) + 2\<rparr>,
        redis := (redis w)(rate_key ws \<mapsto> running_jobs w ws + 1)\<rparr>)"
    using run_submit_job [where w = w and arg = ?arg and ps = ps and c = c and job = job
        and event = event and U = U and tp = tp and ws = ws] assms
    by (simp add: CreateJob_params_def)
  then show ?thesis
    using assms(1,2,4-6) by (simp add: CreateJob_def run_checked run_AllowJobSubmission)
qed

lemma sample_fresh [simp]: "gen sample_pg 0 = 100" "gen sample_pg (Suc 0) = 101"
  by (simp_all add: sample_gen)

lemma sample_drawn [simp]: "drawn sample_db = 0"
  by (simp add: sample_db_def)

lemma sample_running [simp]: "running_jobs sample_world ws = 0"
  by (simp add: running_jobs_def)

text \<open>
  At the limit a submission is refused, with the error that says so, before any id is parsed
  and before the database is asked; the world stays as it was.
\<close>
theorem createJob_denied_at_limit:
  assumes "slots w = []" and "n \<le> running_jobs w ws"
  shows "run_state (CreateJob U n tp ws by ds entry ps c mr key) w = (Inl rate_limit_exceeded, w)"
  using assms by (simp add: CreateJob_def run_checked run_AllowJobSubmission not_less)

theorem createJob_denied_at_limit_witness:
  "run_state (CreateJob sample_uuids 10 [] (uuid_text 2) (uuid_text 1) (uuid_text 3) ''transform'' None None 2 [])
     (sample_world\<lparr>redis := [rate_key (uuid_text 2) \<mapsto> 10]\<rparr>)
   = (Inl rate_limit_exceeded, sample_world\<lparr>redis := [rate_key (uuid_text 2) \<mapsto> 10]\<rparr>)"
  by (rule createJob_denied_at_limit) (simp_all add: running_jobs_def)

text \<open>
  C29: repeating a submission under the same idempotency key does not return the job of the first
  one: it is an error, which the gateway answers with status 500, and no second job is written.
\<close>
theorem duplicate_key_is_an_error:
  assumes "slots w = []" and "running_jobs w (jr_WorkspaceID req) < gw_maxRunningJobs g"
    and "uuid_Parse (gw_uuid g) (jr_WorkspaceID req) = Inr wsid"
    and "uuid_Parse (gw_uuid g) user = Inr byid"
    and "uuid_Parse (gw_uuid g) (jr_DatasetID req) = Inr dsid"
    and "jr_Parameters req = Some ps" and "jr_Compute req = Some c"
    and "old \<in> set (jobs (data w))" and "j_idempotency_key old = Some (jr_IdempotencyKey req)"
    and "jr_IdempotencyKey req \<noteq> []"
  shows "run_state (JobHandler_Create g tp user (Inr req)) w =
    ((500, ErrorBody (error_text (WrapError ''failed to create job'' unique_violation))),
     w\<lparr>data := (data w)\<lparr>drawn := drawn (data w) + 1\<rparr>\<rparr>)"
proof -
  have "check_job (new_job (CreateJob_params wsid byid dsid (jr_Entrypoint req) (Some ps) (Some c)
      (jr_MaxRetries req) (jr_IdempotencyKey req)) i t ps c) (data w) = Some unique_violation" for i t
    using assms(8-10) by (force simp: check_job_def new_job_def CreateJob_params_def)
  then have "run_state (txcall (createJob (CreateJob_params wsid byid dsid (jr_Entrypoint req)
        (Some ps) (Some c) (jr_MaxRetries req) (jr_IdempotencyKey req))) (begin_txn (clock w))) w =
      (Inl unique_violation, w\<lparr>data := (data w)\<lparr>drawn := drawn (data w) + 1\<rparr>\<rparr>)"
    using assms(1)
    by (simp add: txcall_def run_call_quiet txn_query_def txn_view_def begin_txn_def createJob_def
        draw_def context_of_def Let_def) (simp add: CreateJob_params_def)
  then show ?thesis
    using assms(1-7)
    by (simp add: JobHandler_Create_def bound_def or_error_def reply_def CreateJob_def submit_job_def
        run_checked run_AllowJobSubmission run_begin_call)
qed

definition sample_gateway :: gateway where
  "sample_gateway = \<lparr>gw_uuid = sample_uuids,
     gw_auth = \<lparr>GenerateFromPassword = (\<lambda>salt p. Inr (Itoa (int salt) @ '':'' @ p)),
                CompareHashAndPassword = (\<lambda>h p. case SplitN2 h CHR '':'' of
                   [s, q] \<Rightarrow> if q = p then None else Some (ErrorString ''mismatch'')
                 | _ \<Rightarrow> Some (ErrorString ''bad hash'')),
                SignedString = (\<lambda>claims secret. Inr ''token''),
                jwt_Parse = (\<lambda>t token secret.
                   if token = ''token'' then Inr ([(''user_id'', JString (uuid_text 1))], True)
                   else Inl (ErrorString ''bad token''))\<rparr>,
     gw_minio = \<lparr>bucketName = ''data'', PresignedPutObject = (\<lambda>b k t. Inr (b @ ''/'' @ k)),
                 PresignedGetObject = (\<lambda>b k t. Inr (b @ ''/'' @ k))\<rparr>,
     gw_secret = ''s'', gw_maxRunningJobs = 10\<rparr>"

theorem duplicate_key_is_an_error_witness:
  "fst (fst (run_state (JobHandler_Create sample_gateway ''tp'' (uuid_text 1)
      (Inr \<lparr>jr_WorkspaceID = uuid_text 2, jr_DatasetID = uuid_text 3, jr_Entrypoint = ''transform'',
            jr_Parameters = Some (JObject []), jr_Compute = Some (JObject []), jr_MaxRetries = 2,
            jr_IdempotencyKey = ''k1''\<rparr>)) sample_world)) = 500"
  by (subst duplicate_key_is_an_error [where wsid = 2 and byid = 1 and dsid = 3 and old = sample_job
        and ps = "JObject []" and c = "JObject []"])
    (simp_all add: sample_gateway_def sample_db_def sample_job_def)

end
