(* ===== verification/Delivery.thy ===== *)
theory Delivery imports Submission begin

text \<open>
  Moving events: what one round of the dispatcher does, with and without faults, and how often the
  consumer tries a message before it gives it to the dead-letter topic.
\<close>

section \<open>The dispatcher without faults\<close>

definition event_message :: "uuid_lib \<Rightarrow> Outbox \<Rightarrow> message" where
  "event_message U e =
     \<lparr>m_topic = o_event_type e, m_key = uuid_String U (o_aggregate_id e),
      m_value = Inr (o_payload e), m_headers = trace_headers (o_payload e)\<rparr>"

definition delivered :: "timestamp \<Rightarrow> Outbox \<Rightarrow> Outbox" where
  "delivered t e = e\<lparr>o_status := OutboxStatusDELIVERED, o_published_at := Some t\<rparr>"

definition failed :: "Outbox \<Rightarrow> Outbox" where
  "failed e = e\<lparr>o_status := OutboxStatusFAILED, o_attempts := o_attempts e + 1\<rparr>"

lemma delivered_simps [simp]:
  "o_id (delivered t e) = o_id e" "o_status (delivered t e) = OutboxStatusDELIVERED"
  "delivered t (delivered t e) = delivered t e"
  "o_id (failed e) = o_id e" "o_status (failed e) = OutboxStatusFAILED"
  by (simp_all add: delivered_def failed_def)

lemma mark_delivered:
  "snd (markOutboxDelivered i p d) = d\<lparr>outbox := upd_where (\<lambda>e. o_id e = i) (delivered (now p)) (outbox d)\<rparr>"
  by (simp add: markOutboxDelivered_def update_returning_any delivered_def [abs_def])

lemma mark_failed:
  "snd (markOutboxFailed i p d) = d
   \<or> snd (markOutboxFailed i p d) = d\<lparr>outbox := upd_where (\<lambda>e. o_id e = i) failed (outbox d)\<rparr>"
  by (simp add: markOutboxFailed_def update_returning_def failed_def [abs_def] Let_def)

lemma run_dispatch_event:
  "slots w = [] \<Longrightarrow> run_state (dispatch_event U e) w =
    ((), w\<lparr>topics := topics w @ [event_message U e],
           data := (data w)\<lparr>outbox := upd_where (\<lambda>q. o_id q = o_id e) (delivered (clock w)) (outbox (data w))\<rparr>\<rparr>)"
  by (simp add: dispatch_event_def run_Publish run_dbcall_quiet mark_delivered event_message_def)

lemma upd_where_twice:
  assumes "\<And>r. key (f r) = key r" and "\<And>r. f (f r) = f r"
  shows "upd_where (\<lambda>r. key r \<in> S) f (upd_where (\<lambda>r. key r = k) f rows)
    = upd_where (\<lambda>r. key r = k \<or> key r \<in> S) f rows"
  using assms by (induction rows) auto

lemma run_dispatch_events:
  assumes "slots w = []"
  shows "run_state (for_each (dispatch_event U) es) w =
    ((), w\<lparr>topics := topics w @ map (event_message U) es,
           data := (data w)\<lparr>outbox := upd_where (\<lambda>q. o_id q \<in> set (map o_id es)) (delivered (clock w)) (outbox (data w))\<rparr>\<rparr>)"
  using assms
proof (induction es arbitrary: w)
  case Nil
  then show ?case by (simp add: upd_where_def)
next
  case (Cons e es)
  let ?w = "w\<lparr>topics := topics w @ [event_message U e],
      data := (data w)\<lparr>outbox := upd_where (\<lambda>q. o_id q = o_id e) (delivered (clock w)) (outbox (data w))\<rparr>\<rparr>"
  have "slots ?w = []" using Cons.prems by simp
  from Cons.IH [OF this] show ?case
    using Cons.prems
    by (simp add: run_dispatch_event upd_where_twice)
qed

text \<open>
  When nothing fails, a round of the dispatcher sends exactly the events of its batch, in the
  batch's order, each to the topic of its type with the aggregate's id as key, its payload and its
  trace context, marks those events delivered, and changes nothing else.
\<close>
lemma run_dispatch:
  assumes "slots w = []" and "fst (getPendingOutboxEvents (context_of w) (data w)) = Inr es"
  shows "run_state (dispatch U) w =
    (Inr (), w\<lparr>topics := topics w @ map (event_message U) es,
               data := (data w)\<lparr>outbox := upd_where (\<lambda>q. o_id q \<in> set (map o_id es))
                                  (delivered (clock w)) (outbox (data w))\<rparr>\<rparr>)"
proof -
  have "run_state (dbcall getPendingOutboxEvents) w = (Inr es, w)"
    using assms by (simp add: run_dbcall_quiet)
  then show ?thesis
    using run_dispatch_events [OF assms(1)] by (simp add: dispatch_def run_checked)
qed

section \<open>The dispatcher under faults\<close>

text \<open>
  What may become of an event in a round: it stays, or it was pending and is now failed, or it was
  pending, is now delivered and its message is on the bus.
\<close>

definition dispatched :: "uuid_lib \<Rightarrow> message list \<Rightarrow> Outbox \<Rightarrow> Outbox \<Rightarrow> bool" where
  "dispatched U ts e e' \<longleftrightarrow>
     e' = e
     \<or> (o_status e = OutboxStatusPENDING \<and> o_id e' = o_id e
        \<and> (o_status e' = OutboxStatusFAILED
           \<or> (o_status e' = OutboxStatusDELIVERED \<and> event_message U e \<in> set ts)))"

lemma dispatched_mono: "dispatched U ts e e' \<Longrightarrow> set ts \<subseteq> set ts' \<Longrightarrow> dispatched U ts' e e'"
  by (auto simp: dispatched_def)

lemma dispatched_id: "dispatched U ts e e' \<Longrightarrow> o_id e' = o_id e"
  by (auto simp: dispatched_def)

lemma list_all2_upd_where:
  assumes "list_all2 R xs ys" and "\<And>x y. x \<in> set xs \<Longrightarrow> R x y \<Longrightarrow> R' x (if P y then f y else y)"
  shows "list_all2 R' xs (upd_where P f ys)"
  using assms by (induction xs ys rule: list_all2_induct) auto

text \<open>One event: what the two calls may have done.\<close>

lemma dispatch_event_calm:
  assumes "calm w" and "run_state (dispatch_event U e) w = ((), w')"
  obtains (sent) "calm w'" "topics w' = topics w @ [event_message U e]"
      "outbox (data w') = outbox (data w)
       \<or> (\<exists>t. outbox (data w') = upd_where (\<lambda>q. o_id q = o_id e) (delivered t) (outbox (data w)))"
  | (unsent) "calm w'" "topics w' = topics w \<or> topics w' = topics w @ [event_message U e]"
      "outbox (data w') = outbox (data w)
       \<or> outbox (data w') = upd_where (\<lambda>q. o_id q = o_id e) failed (outbox (data w))"
proof -
  let ?m = "event_message U e"
  obtain r w1 where pub: "run_state (write_message ?m) w = (r, w1)" by fastforce
  have w1: "calm w1" "data w1 = data w" "(\<exists>x. r = Inr x) \<Longrightarrow> topics w1 = topics w @ [?m]"
    "topics w1 = topics w \<or> topics w1 = topics w @ [?m]"
    using assms(1) pub unfolding write_message_def by (cases rule: calm_call; force)+
  show thesis
  proof (cases r)
    case (Inr x)
    obtain r2 where "run_state (dbcall (markOutboxDelivered (o_id e))) w1 = (r2, w')"
      using assms(2) pub Inr
      by (auto simp: dispatch_event_def Publish_def event_message_def split: prod.splits)
    from calm_dbcall_effect [OF w1(1) this, of "\<lambda>d. outbox d = outbox (data w1)
       \<or> (\<exists>t. outbox d = upd_where (\<lambda>q. o_id q = o_id e) (delivered t) (outbox (data w1)))"]
    show thesis
      using w1(2,3) Inr by (intro sent) (auto simp: mark_delivered)
  next
    case (Inl err)
    obtain r2 where "run_state (dbcall (markOutboxFailed (o_id e))) w1 = (r2, w')"
      using assms(2) pub Inl
      by (auto simp: dispatch_event_def Publish_def event_message_def split: prod.splits)
    have "outbox (snd (markOutboxFailed (o_id e) p (data w1))) = outbox (data w1)
       \<or> outbox (snd (markOutboxFailed (o_id e) p (data w1)))
         = upd_where (\<lambda>q. o_id q = o_id e) failed (outbox (data w1))" for p
      using mark_failed [of "o_id e" p "data w1"] by auto
    from calm_dbcall_effect [OF w1(1) \<open>run_state (dbcall (markOutboxFailed (o_id e))) w1 = (r2, w')\<close>,
        of "\<lambda>d. outbox d = outbox (data w1)
       \<or> outbox d = upd_where (\<lambda>q. o_id q = o_id e) failed (outbox (data w1))", OF this]
    show thesis
      using w1(2,4) by (intro unsent) auto
  qed
qed

lemma dispatch_events_calm:
  assumes "calm w" and "run_state (for_each (dispatch_event U) es) w = ((), w')"
    and "distinct (map o_id olds)" and "set es \<subseteq> {e \<in> set olds. o_status e = OutboxStatusPENDING}"
    and "list_all2 (dispatched U (topics w)) olds (outbox (data w))"
  shows "list_all2 (dispatched U (topics w')) olds (outbox (data w'))"
  using assms(1,2,4,5)
proof (induction es arbitrary: w)
  case (Cons e es)
  obtain w1 where w1: "run_state (dispatch_event U e) w = ((), w1)"
    "run_state (for_each (dispatch_event U) es) w1 = ((), w')"
    using Cons.prems(2) by (auto split: prod.splits)
  have e: "e \<in> set olds" "o_status e = OutboxStatusPENDING" using Cons.prems(3) by auto
  have old: "list_all2 (dispatched U ts) olds (outbox (data w))" if "set (topics w) \<subseteq> set ts" for ts
    using list_all2_mono [OF Cons.prems(4)] that by (blast intro: dispatched_mono)
  have only: "x = e" if "x \<in> set olds" "dispatched U ts x y" "o_id y = o_id e" for x y ts
    using that e(1) assms(3) by (metis dispatched_id unique_row)
  have "calm w1 \<and> list_all2 (dispatched U (topics w1)) olds (outbox (data w1))"
    using Cons.prems(1) w1(1)
  proof (cases rule: dispatch_event_calm)
    case sent
    have "dispatched U (topics w1) x (if o_id y = o_id e then delivered t y else y)"
      if "x \<in> set olds" "dispatched U (topics w1) x y" for x y t
      using only [OF that] that sent(2) e by (auto simp: dispatched_def)
    then have "list_all2 (dispatched U (topics w1)) olds
        (upd_where (\<lambda>q. o_id q = o_id e) (delivered t) (outbox (data w)))" for t
      using sent(2) by (intro list_all2_upd_where [OF old [of "topics w1"]]) auto
    moreover have "list_all2 (dispatched U (topics w1)) olds (outbox (data w))"
      using sent(2) by (intro old) auto
    ultimately show ?thesis using sent(1,3) by auto
  next
    case unsent
    have "dispatched U (topics w1) x (if o_id y = o_id e then failed y else y)"
      if "x \<in> set olds" "dispatched U (topics w1) x y" for x y
      using only [OF that] that e by (auto simp: dispatched_def)
    then have "list_all2 (dispatched U (topics w1)) olds
        (upd_where (\<lambda>q. o_id q = o_id e) failed (outbox (data w)))"
      using unsent(2) by (intro list_all2_upd_where [OF old [of "topics w1"]]) auto
    moreover have "list_all2 (dispatched U (topics w1)) olds (outbox (data w))"
      using unsent(2) by (intro old) auto
    ultimately show ?thesis using unsent(1,3) by auto
  qed
  then show ?case
    using Cons.IH [OF _ w1(2)] Cons.prems(3) by simp
qed simp

text \<open>
  C4: no event is lost between the outbox and the bus. Whichever call of a round fails, an event
  is marked delivered only when its message is on the bus; every other event stays as it was, or
  was pending and is marked failed.
\<close>
theorem delivered_means_published:
  assumes "calm w" and "distinct (map o_id (outbox (data w)))"
    and "run_state (dispatch U) w = (r, w')"
  shows "list_all2 (dispatched U (topics w')) (outbox (data w)) (outbox (data w'))"
  using assms(3)[unfolded dispatch_def]
proof (cases rule: checked_cases)
  case (error e)
  note step = error(1)
  have "outbox (data w') = outbox (data w)"
    using assms(1) step by (cases rule: calm_dbcall) (auto simp: getPendingOutboxEvents_def)
  then show ?thesis by (simp add: dispatched_def list.rel_refl_strong)
next
  case (ok es w1)
  note step = ok(1)
  have w1: "calm w1" "outbox (data w1) = outbox (data w)"
    "es = take 10 (order_asc o_created_at (filter (\<lambda>e. o_status e = OutboxStatusPENDING) (outbox (data w))))"
    using assms(1) step
    by (cases rule: calm_dbcall; force simp: getPendingOutboxEvents_def)+
  have "run_state (for_each (dispatch_event U) es) w1 = ((), w')"
    using ok(2) by (auto split: prod.splits)
  moreover have "set es \<subseteq> {e \<in> set (outbox (data w)). o_status e = OutboxStatusPENDING}"
    unfolding w1(3) using set_take_subset [of 10] by fastforce
  moreover have "list_all2 (dispatched U (topics w1)) (outbox (data w)) (outbox (data w1))"
    unfolding w1(2) by (rule list.rel_refl_strong) (simp add: dispatched_def)
  ultimately show ?thesis
    using dispatch_events_calm [OF w1(1) _ assms(2)] by blast
qed

theorem delivered_means_published_witness:
  "let w = sample_world\<lparr>slots := [slot_with Served, slot_with (Refused (ErrorString ''no broker''))]\<rparr>;
       w' = snd (run_state (dispatch sample_uuids) w)
   in list_all2 (dispatched sample_uuids (topics w')) [sample_event] (outbox (data w'))"
proof -
  let ?w = "sample_world\<lparr>slots := [slot_with Served, slot_with (Refused (ErrorString ''no broker''))]\<rparr>"
  have "calm ?w" and "distinct (map o_id (outbox (data ?w)))"
    by (simp_all add: calm_def sample_db_def)
  from delivered_means_published [OF this prod.collapse [symmetric]] show ?thesis
    by (simp add: Let_def sample_db_def)
qed

section \<open>The consumer\<close>

text \<open>
  C19: a message is tried at most three times, one second and then two seconds apart, and no
  further once an attempt succeeds; if and only if all three fail, one message with the original
  payload, the last error and the topic goes to the dead-letter topic. Then the loop goes on.
\<close>
theorem consumer_tries_three_times:
  assumes "\<And>tp payload. state_io_rel uses_slots (handle tp payload)" and "slots w = []"
  shows "run_state (consume_message handle dlq msg) w =
    (let (r1, w1) = run_attempt handle msg w;
         (r2, w2) = run_attempt handle msg (w1\<lparr>clock := clock w1 + seconds 1\<rparr>);
         (r3, w3) = run_attempt handle msg (w2\<lparr>clock := clock w2 + seconds 2\<rparr>)
     in (True,
         case r1 of Inr _ \<Rightarrow> w1 | Inl _ \<Rightarrow>
         (case r2 of Inr _ \<Rightarrow> w2 | Inl _ \<Rightarrow>
         (case r3 of Inr _ \<Rightarrow> w3 | Inl e \<Rightarrow> w3\<lparr>topics := topics w3 @ [dead_letter dlq msg e]\<rparr>))))"
  by (rule quiet_handler.consume_quiet [OF quiet_handler.intro]) (rule assms)+

theorem consumer_tries_three_times_witness:
  "snd (run_state (consume_message (HandleJobSubmitted sample_uuids False) ''job.submitted.deadletter''
      \<lparr>m_topic = ''job.submitted'', m_key = ''k'', m_value = Inl ''x'', m_headers = []\<rparr>) sample_world)
   = sample_world\<lparr>clock := 3000010, topics := [dead_letter ''job.submitted.deadletter''
      \<lparr>m_topic = ''job.submitted'', m_key = ''k'', m_value = Inl ''x'', m_headers = []\<rparr>
      (WrapError ''failed to parse event'' syntax_error)]\<rparr>"
  by (subst consumer_tries_three_times [OF uses_HandleJobSubmitted])
    (simp_all add: run_attempt_def HandleJobSubmitted_def parse_event_def seconds_def)

end
