(* ===== verification/Scheduling.thy ===== *)
theory Scheduling imports Delivery begin

text \<open>
  What the scheduler makes of a submitted job, what happens when the same message reaches it
  twice, the way of an event from its submission to the scheduler, what cancelling does, and the
  return of the rate limit when a job is done.
\<close>

section \<open>Handlers that leave the database alone\<close>

definition keeps_data :: "world \<Rightarrow> world \<Rightarrow> bool" where
  "keeps_data w w' \<longleftrightarrow>
     (slots w = [] \<longrightarrow> slots w' = [] \<and> data w' = data w \<and> topics w' = topics w
        \<and> clock w' = clock w \<and> uuids w' = uuids w \<and> redis w' = redis w)"

interpretation data_kept: kept_relation keeps_data
  by unfold_locales (auto simp: keeps_data_def)

lemma keeps_kube_call: "state_io_rel keeps_data (kube_call f)"
  by (rule state_io_relI)
    (auto simp: keeps_data_def kube_call_def run_call_quiet case_prod_unfold Let_def)

lemma keeps_start_workers: "state_io_rel keeps_data (start_workers U ws r)"
  unfolding start_workers_def EnsureNamespace_def CreateWorkerJob_def ApplyNetworkPolicy_def
    ApplyResourceQuota_def tolerate_existing_def
  by (intro data_kept.kept_intros keeps_kube_call)

section \<open>The plan of a job\<close>

definition planned_run :: "uuid \<Rightarrow> uuid \<Rightarrow> uuid \<Rightarrow> timestamp \<Rightarrow> Run" where
  "planned_run i job_id workspace_id t =
     \<lparr>r_id = i, r_job_id = job_id, r_workspace_id = workspace_id, r_state = RunStateSUBMITTED,
      r_attempt_number = 1, r_tasks_total = 3, r_tasks_done = 0, r_error_message = None,
      r_created_at = t, r_started_at = None, r_finished_at = None, r_tasks_pending = 3,
      r_tasks_running = 0, r_tasks_failed = 0\<rparr>"

definition planned_task :: "uuid \<Rightarrow> uuid \<Rightarrow> uuid \<Rightarrow> int \<Rightarrow> timestamp \<Rightarrow> Task" where
  "planned_task i run_id workspace_id k t =
     \<lparr>t_id = i, t_run_id = run_id, t_workspace_id = workspace_id, t_state = TaskStatePENDING,
      t_partition_index = k, t_lease_owner = None, t_lease_expires_at = None, t_retry_count = 0,
      t_checkpoint_path = None, t_error_message = None, t_created_at = t, t_started_at = None,
      t_finished_at = None\<rparr>"

definition queued :: "uuid \<Rightarrow> Job list \<Rightarrow> Job list" where
  "queued i js = upd_where (\<lambda>j. j_id j = i) (\<lambda>j. j\<lparr>j_state := JobStateQUEUED\<rparr>) js"

text \<open>The database after the plan: one run, and its tasks with the next drawn ids.\<close>

definition planned :: "(nat \<Rightarrow> uuid) \<Rightarrow> uuid \<Rightarrow> uuid \<Rightarrow> timestamp \<Rightarrow> db \<Rightarrow> db" where
  "planned G job_id workspace_id t d =
     (let n = drawn d; r = G n
      in d\<lparr>jobs := queued job_id (jobs d),
           runs := runs d @ [planned_run r job_id workspace_id t],
           tasks := tasks d @ [planned_task (G (n + 1)) r workspace_id 0 t,
                               planned_task (G (n + 2)) r workspace_id 1 t,
                               planned_task (G (n + 3)) r workspace_id 2 t],
           drawn := n + 4\<rparr>)"

text \<open>The ids that the plan will draw are new.\<close>

definition fresh_plan :: "(nat \<Rightarrow> uuid) \<Rightarrow> db \<Rightarrow> bool" where
  "fresh_plan G d \<longleftrightarrow>
     (let n = drawn d
      in \<not> has_key r_id (runs d) (G n)
         \<and> distinct [G (n + 1), G (n + 2), G (n + 3)]
         \<and> list_all (\<lambda>i. \<not> has_key t_id (tasks d) i) [G (n + 1), G (n + 2), G (n + 3)])"

lemma run_createTask:
  assumes "\<not> has_key t_id (tasks d) (gen p (drawn d))" and "has_key r_id (runs d) r"
    and "has_key w_id (workspaces d) ws"
  shows "createTask r ws k p d =
    (Inr (planned_task (gen p (drawn d)) r ws k (now p)),
     d\<lparr>drawn := Suc (drawn d), tasks := tasks d @ [planned_task (gen p (drawn d)) r ws k (now p)]\<rparr>)"
  using assms by (simp add: createTask_def draw_def planned_task_def Let_def)

lemma three_partitions: "[0..numPartitions - 1] = [0, 1, 2]"
  by (simp add: numPartitions_def upto.simps)

lemma run_create_tasks:
  assumes "slots w = []" and "has_key r_id (runs (data w)) r" and "has_key w_id (workspaces (data w)) ws"
    and "n = drawn (data w)" and "distinct [uuids w n, uuids w (n + 1), uuids w (n + 2)]"
    and "list_all (\<lambda>i. \<not> has_key t_id (tasks (data w)) i) [uuids w n, uuids w (n + 1), uuids w (n + 2)]"
  shows "run_state (create_tasks r ws) w =
    (Inr (), w\<lparr>data := (data w)\<lparr>drawn := n + 3, tasks := tasks (data w) @
        [planned_task (uuids w n) r ws 0 (clock w), planned_task (uuids w (n + 1)) r ws 1 (clock w),
         planned_task (uuids w (n + 2)) r ws 2 (clock w)]\<rparr>\<rparr>)"
proof -
  have ids: "t_id (planned_task i r ws k t) = i" for i k t
    by (simp add: planned_task_def)
  show ?thesis
    using assms unfolding create_tasks_def three_partitions
    by (simp add: run_checked run_dbcall_quiet run_createTask ids eval_nat_numeral)
qed

lemma upd_where_snoc:
  assumes "\<not> has_key key rows (key r)"
  shows "upd_where (\<lambda>q. key q = key r) f (rows @ [r]) = rows @ [f r]"
proof -
  have "upd_where (\<lambda>q. key q = key r) f rows = rows"
    using assms by (intro upd_where_none) (metis has_key_iff image_eqI)
  then show ?thesis by simp
qed

lemma filter_last_key: "\<not> has_key key rows k \<Longrightarrow> filter (\<lambda>q. key q = k) rows = []"
  by (auto simp: has_key_iff filter_empty_conv)

lemma run_totals:
  assumes "runs d = rows @ [r]" and "\<not> has_key r_id rows (r_id r)"
  shows "updateRunTasksTotal (r_id r) n p d =
      (Inr (r\<lparr>r_tasks_total := n\<rparr>), d\<lparr>runs := rows @ [r\<lparr>r_tasks_total := n\<rparr>]\<rparr>)"
    and "initRunProgress (r_id r) p d =
      (Inr (r\<lparr>r_tasks_pending := r_tasks_total r\<rparr>),
       d\<lparr>runs := rows @ [r\<lparr>r_tasks_pending := r_tasks_total r\<rparr>]\<rparr>)"
  using assms filter_last_key [OF assms(2)] upd_where_snoc [OF assms(2)]
  by (simp_all add: updateRunTasksTotal_def initRunProgress_def update_returning_any)

text \<open>
  For a job and a workspace that exist, the scheduler queues the job and plans exactly one
  run for it, submitted, with a total of three and three pending, and exactly three pending tasks
  of that run with the partition indices 0, 1 and 2; the rest of the tables stays as it was, with
  or without a Kubernetes cluster.
\<close>
lemma scheduler_plans:
  assumes "slots w = []" and "parse_event payload = Inr ev"
    and "uuid_Parse U (ev_JobID ev) = Inr jid" and "uuid_Parse U (ev_WorkspaceID ev) = Inr wsid"
    and "has_key j_id (jobs (data w)) jid" and "has_key w_id (workspaces (data w)) wsid"
    and "fresh_plan (uuids w) (data w)"
  shows "fst (run_state (HandleJobSubmitted U has_k8s tp payload) w) = Inr ()
    \<and> data (snd (run_state (HandleJobSubmitted U has_k8s tp payload) w))
        = planned (uuids w) jid wsid (clock w) (data w)"
proof -
  define d r where "d = data w" and "r = uuids w (drawn d)"
  define row where "row = (planned_run r jid wsid (clock w))\<lparr>r_tasks_total := 0, r_tasks_pending := 0\<rparr>"
  define ts where "ts = [planned_task (uuids w (Suc (drawn d))) r wsid 0 (clock w),
      planned_task (uuids w (Suc (Suc (drawn d)))) r wsid 1 (clock w),
      planned_task (uuids w (drawn d + 3)) r wsid 2 (clock w)]"
  define d1 where "d1 = d\<lparr>jobs := queued jid (jobs d)\<rparr>"
  define d2 where "d2 = d1\<lparr>drawn := Suc (drawn d), runs := runs d @ [row]\<rparr>"
  define d3 where "d3 = d2\<lparr>drawn := drawn d + 4, tasks := tasks d @ ts\<rparr>"
  define d4 where "d4 = d3\<lparr>runs := runs d @ [row\<lparr>r_tasks_total := 3\<rparr>]\<rparr>"
  note defs = d1_def d2_def d3_def d4_def
  have row: "r_id row = r" by (simp add: row_def planned_run_def)
  have new: "\<not> has_key r_id (runs d) r"
    using assms(7) by (simp add: fresh_plan_def Let_def d_def r_def)
  have "filter (\<lambda>j. j_id j = jid) (jobs d) \<noteq> []"
    using assms(5) by (auto simp: has_key_iff filter_empty_conv d_def)
  then have "\<exists>j. updateJobState jid JobStateQUEUED (context_of w) d = (Inr j, d1)"
    by (cases "filter (\<lambda>j. j_id j = jid) (jobs d)")
      (auto simp: updateJobState_def update_returning_any queued_def d1_def)
  then obtain j where j: "updateJobState jid JobStateQUEUED (context_of w) d = (Inr j, d1)"
    by blast
  have run1: "createRun jid wsid (context_of w) d1 = (Inr row, d2)"
    using new assms(5,6)
    by (simp add: createRun_def draw_def Let_def defs queued_def row_def planned_run_def d_def r_def)
  have tasks1: "run_state (create_tasks r wsid) (w\<lparr>data := d2, metric := m\<rparr>)
      = (Inr (), w\<lparr>data := d3, metric := m\<rparr>)" for m
    using assms(1,6,7) row
    by (subst run_create_tasks [where n = "Suc (drawn d)"])
      (simp_all add: fresh_plan_def Let_def eval_nat_numeral defs ts_def d_def)
  have total: "updateRunTasksTotal r 3 p d3 = (Inr (row\<lparr>r_tasks_total := 3\<rparr>), d4)" for p
    using run_totals(1) [of d3 "runs d" row 3 p] new row by (simp add: defs)
  have init: "\<exists>x. initRunProgress r p d4 = (Inr x, planned (uuids w) jid wsid (clock w) d)" for p
  proof -
    have "d4\<lparr>runs := runs d @ [planned_run r jid wsid (clock w)]\<rparr>
        = planned (uuids w) jid wsid (clock w) d"
      by (rule db.equality) (simp_all add: planned_def Let_def defs ts_def r_def)
    then show ?thesis
      using run_totals(2) [of d4 "runs d" "row\<lparr>r_tasks_total := 3\<rparr>" p] new row
      by (simp add: d4_def) (simp add: row_def planned_run_def)
  qed
  have k8s: "data (snd (run_state (start_workers U x i) w')) = data w'" if "slots w' = []" for x i w'
    using state_io_relD [OF keeps_start_workers prod.collapse [symmetric]] that
    by (simp add: keeps_data_def)
  obtain x where x: "initRunProgress r (context_of w) d4 = (Inr x, planned (uuids w) jid wsid (clock w) d)"
    using init by blast
  show ?thesis
    using assms(1-4) k8s row
    by (simp add: HandleJobSubmitted_def run_checked run_dbcall_quiet d_def [symmetric] j run1 run_Inc
        run_Add tasks1 numPartitions_def total x case_prod_unfold)
qed

lemmas scheduler_plans_data = scheduler_plans [THEN conjunct2]

lemma sample_fresh_plan: "fresh_plan (gen sample_pg) sample_db"
proof -
  have "gen sample_pg (Suc (Suc 0)) = 102" "gen sample_pg 2 = 102" "gen sample_pg 3 = 103"
    by (simp_all add: sample_gen)
  then show ?thesis
    by (simp add: fresh_plan_def Let_def sample_db_def sample_rows)
qed

definition sample_submitted :: raw_message where
  "sample_submitted = Inr (submitted_payload sample_uuids 4 (uuid_text 2) [])"

lemma parse_submitted_payload [simp]:
  "parse_event (Inr (submitted_payload U i ws tp)) = Inr \<lparr>ev_JobID = uuid_String U i, ev_WorkspaceID = ws\<rparr>"
  unfolding parse_event_def submitted_payload_def Unmarshal_fields_Marshal_map sum.case
    decode_string_field_strings
  by (simp add: fold_eq_def lower_def)

lemma sample_String [simp]: "uuid_String sample_uuids i = uuid_text i"
  by (simp add: sample_uuids_def)

text \<open>
  C30: the handler does not recognise a message it has already handled. Handling the same message
  twice plans a second run with three more tasks for the same job.
\<close>
theorem redelivery_plans_second_run:
  assumes "slots w = []" and "parse_event payload = Inr ev"
    and "uuid_Parse U (ev_JobID ev) = Inr jid" and "uuid_Parse U (ev_WorkspaceID ev) = Inr wsid"
    and "has_key j_id (jobs (data w)) jid" and "has_key w_id (workspaces (data w)) wsid"
    and "fresh_plan (uuids w) (data w)"
    and "fresh_plan (uuids w) (planned (uuids w) jid wsid (clock w) (data w))"
    and "w1 = snd (run_state (HandleJobSubmitted U has_k8s tp payload) w)"
  shows "\<exists>t. data (snd (run_state (HandleJobSubmitted U has_k8s tp payload) w1))
    = planned (uuids w) jid wsid t (planned (uuids w) jid wsid (clock w) (data w))"
proof -
  have d1: "data w1 = planned (uuids w) jid wsid (clock w) (data w)"
    using scheduler_plans_data [OF assms(1-7)] assms(9) by simp
  moreover have "slots w1 = []"
    using state_io_relD [OF uses_HandleJobSubmitted prod.collapse [symmetric]] assms(1)
    unfolding assms(9) by (rule uses_slots_quiet)
  moreover have "uuids w1 = uuids w"
    using state_io_relD [OF follows_HandleJobSubmitted [of "\<lambda>_. True"] prod.collapse [symmetric]]
    unfolding assms(9) follows_def by blast
  moreover have "has_key j_id (jobs (data w1)) jid" "has_key w_id (workspaces (data w1)) wsid"
    using assms(5,6) by (simp_all add: d1 planned_def Let_def queued_def)
  ultimately show ?thesis
    using scheduler_plans_data [of w1 payload ev U jid wsid has_k8s tp] assms(2-4,8) by auto
qed

lemma sample_fresh_plan2:
  "fresh_plan (gen sample_pg) (planned (gen sample_pg) 4 2 10 sample_db)"
proof -
  have "gen sample_pg (Suc (Suc 0)) = 102" "gen sample_pg 2 = 102" "gen sample_pg 3 = 103"
    "gen sample_pg 4 = 104"
    "gen sample_pg 5 = 105" "gen sample_pg 6 = 106" "gen sample_pg 7 = 107"
    by (simp_all add: sample_gen)
  then show ?thesis
    by (simp add: fresh_plan_def planned_def Let_def planned_run_def planned_task_def)
      (simp add: sample_db_def sample_rows)
qed

theorem redelivery_plans_second_run_witness:
  "length (runs (data (snd (run_state (HandleJobSubmitted sample_uuids False None sample_submitted)
     (snd (run_state (HandleJobSubmitted sample_uuids False None sample_submitted) sample_world)))))) = 3"
proof -
  obtain t where "data (snd (run_state (HandleJobSubmitted sample_uuids False None sample_submitted)
     (snd (run_state (HandleJobSubmitted sample_uuids False None sample_submitted) sample_world))))
    = planned (gen sample_pg) 4 2 t (planned (gen sample_pg) 4 2 10 sample_db)"
    using redelivery_plans_second_run [where w = sample_world and payload = sample_submitted
        and U = sample_uuids and jid = 4 and wsid = 2 and has_k8s = False and tp = None
        and ev = "\<lparr>ev_JobID = uuid_text 4, ev_WorkspaceID = uuid_text 2\<rparr>", OF _ _ _ _ _ _ _ _ refl]
      sample_fresh_plan sample_fresh_plan2
    by (simp add: sample_submitted_def) (auto simp: sample_db_def sample_rows)
  then show ?thesis
    by (simp add: planned_def Let_def) (simp add: sample_db_def)
qed

section \<open>From the submission to the scheduler\<close>

text \<open>
  What the submission writes into the outbox is what the scheduler reads from the bus: the
  dispatched message decodes to the job's id and the workspace, and carries the trace context of
  the request, which is absent when there was none.
\<close>
theorem event_reaches_scheduler_intact:
  "parse_event (m_value (event_message U (submitted_event U ws tp i job_id t)))
     = Inr \<lparr>ev_JobID = uuid_String U job_id, ev_WorkspaceID = ws\<rparr>
   \<and> message_trace (event_message U (submitted_event U ws tp i job_id t))
     = (if tp = [] then None else Some tp)
   \<and> m_topic (event_message U (submitted_event U ws tp i job_id t)) = ''job.submitted''
   \<and> m_key (event_message U (submitted_event U ws tp i job_id t)) = uuid_String U job_id"
proof -
  have "trace_headers (submitted_payload U job_id ws tp) = (if tp = [] then [] else [(''traceparent'', tp)])"
    unfolding trace_headers_def submitted_payload_def Unmarshal_map_Marshal_map
    by (simp add: map_get_def)
  then show ?thesis
    by (simp add: event_message_def submitted_event_def message_trace_def)
qed

section \<open>Cancelling\<close>

definition cancelled_runs :: "uuid \<Rightarrow> Run list \<Rightarrow> Run list" where
  "cancelled_runs i rs = upd_where (\<lambda>r. r_job_id r = i) (\<lambda>r. r\<lparr>r_state := RunStateCANCELLED\<rparr>) rs"

lemma run_cancel_runs:
  assumes "slots w = []"
  shows "run_state (for_each (\<lambda>run. State_Monad.bind
            (dbcall (updateRunState (r_id run) RunStateCANCELLED)) (\<lambda>_. State_Monad.return ())) rs) w =
    ((), w\<lparr>data := (data w)\<lparr>runs := upd_where (\<lambda>q. r_id q \<in> set (map r_id rs))
        (\<lambda>r. r\<lparr>r_state := RunStateCANCELLED\<rparr>) (runs (data w))\<rparr>\<rparr>)"
  using assms
proof (induction rs arbitrary: w)
  case Nil
  then show ?case by (simp add: upd_where_def)
next
  case (Cons r rs)
  have one: "snd (updateRunState (r_id r) RunStateCANCELLED p d) =
      d\<lparr>runs := upd_where (\<lambda>q. r_id q = r_id r) (\<lambda>r. r\<lparr>r_state := RunStateCANCELLED\<rparr>) (runs d)\<rparr>" for p d
    by (simp add: updateRunState_def update_returning_any)
  show ?case
    using Cons.prems by (simp add: run_dbcall_quiet one Cons.IH upd_where_twice)
qed

text \<open>
  C27: cancelling a job marks the job and every run of it cancelled, whatever state they were in,
  a finished one included, and changes nothing else: no task, no event, and not the counter of
  running jobs.
\<close>
theorem cancel_marks_job_and_runs:
  assumes "slots w = []" and "uuid_Parse U i = Inr jid" and "has_key j_id (jobs (data w)) jid"
    and "distinct (map r_id (runs (data w)))"
  shows "\<exists>j. run_state (CancelJob U i) w =
    (Inr j, w\<lparr>data := (data w)\<lparr>
       jobs := upd_where (\<lambda>j. j_id j = jid) (\<lambda>j. j\<lparr>j_state := JobStateCANCELLED\<rparr>) (jobs (data w)),
       runs := cancelled_runs jid (runs (data w))\<rparr>\<rparr>)
    \<and> j_id j = jid \<and> j_state j = JobStateCANCELLED"
proof -
  let ?d1 = "(data w)\<lparr>jobs := upd_where (\<lambda>j. j_id j = jid) (\<lambda>j. j\<lparr>j_state := JobStateCANCELLED\<rparr>) (jobs (data w))\<rparr>"
  obtain j js where "filter (\<lambda>j. j_id j = jid) (jobs (data w)) = j # js"
    using assms(3) by (cases "filter (\<lambda>j. j_id j = jid) (jobs (data w))")
      (auto simp: has_key_iff filter_empty_conv)
  moreover from this have "j_id j = jid"
    by (metis (mono_tags, lifting) filter_eq_ConsD)
  ultimately have upd: "updateJobState jid JobStateCANCELLED p (data w)
      = (Inr (j\<lparr>j_state := JobStateCANCELLED\<rparr>), ?d1)" and j: "j_id j = jid" for p
    by (simp_all add: updateJobState_def update_returning_any)
  have "upd_where (\<lambda>q. r_id q \<in> r_id ` {r \<in> set (runs (data w)). r_job_id r = jid}) f (runs (data w))
      = upd_where (\<lambda>r. r_job_id r = jid) f (runs (data w))" for f
    using assms(4) by (auto simp: upd_where_def dest: unique_row)
  then have "run_state (CancelJob U i) w =
    (Inr (j\<lparr>j_state := JobStateCANCELLED\<rparr>), w\<lparr>data := ?d1\<lparr>runs := cancelled_runs jid (runs (data w))\<rparr>\<rparr>)"
    using assms(1,2)
    by (simp add: CancelJob_def run_checked run_dbcall_quiet upd run_cancel_runs listRunsByJob_def
        cancelled_runs_def)
  then show ?thesis using j by auto
qed

theorem cancel_marks_job_and_runs_witness:
  "map r_state (runs (data (snd (run_state (CancelJob sample_uuids (uuid_text 4)) sample_world))))
     = [RunStateCANCELLED]"
proof -
  obtain j where "run_state (CancelJob sample_uuids (uuid_text 4)) sample_world =
    (Inr j, sample_world\<lparr>data := sample_db\<lparr>
       jobs := upd_where (\<lambda>j. j_id j = 4) (\<lambda>j. j\<lparr>j_state := JobStateCANCELLED\<rparr>) (jobs sample_db),
       runs := cancelled_runs 4 (runs sample_db)\<rparr>\<rparr>)"
    using cancel_marks_job_and_runs [where w = sample_world and U = sample_uuids and jid = 4
        and i = "uuid_text 4"]
    by (auto simp: sample_db_def sample_job_def)
  then show ?thesis
    by (simp add: cancelled_runs_def) (simp add: sample_db_def sample_run_def)
qed

section \<open>Giving the rate limit back\<close>

text \<open>
  A completed job gives back the place it took: after a submission that went through, the
  event of its completion brings the counter of running jobs back to where it was, provided the
  submission named the workspace by the text that the platform itself writes.
\<close>
theorem completion_returns_rate_limit:
  assumes "slots w = []" and "int8 (running_jobs w ws + 1)" and "int8 (running_jobs w ws)"
    and "ws = uuid_String U (j_workspace_id job)"
    and "w1 = snd (run_state (IncrementRunningJobs ws) w)"
  shows "fst (run_state (HandleJobCompleted tp (Inr (completed_payload U job))) w1) = Inr ()
    \<and> running_jobs (snd (run_state (HandleJobCompleted tp (Inr (completed_payload U job))) w1)) ws
        = running_jobs w ws"
proof -
  have "parse_event (Inr (completed_payload U job))
      = Inr \<lparr>ev_JobID = uuid_String U (j_id job), ev_WorkspaceID = ws\<rparr>"
    unfolding parse_event_def completed_payload_def Unmarshal_fields_Marshal_map sum.case
      decode_string_field_strings assms(4)
    by (simp add: fold_eq_def lower_def)
  moreover have "slots w1 = []" "running_jobs w1 ws = running_jobs w ws + 1"
    using assms(1,2,5) by (simp_all add: run_IncrementRunningJobs running_jobs_def)
  moreover from this have "running_jobs (snd (run_state (DecrementRunningJobs ws) w1)) ws = running_jobs w ws"
    using assms(3) by (simp add: run_DecrementRunningJobs) (simp add: running_jobs_def)
  ultimately show ?thesis
    using assms(3) by (simp add: HandleJobCompleted_def run_DecrementRunningJobs)
qed

theorem completion_returns_rate_limit_witness:
  "running_jobs (snd (run_state (HandleJobCompleted None (Inr (completed_payload sample_uuids sample_job)))
     (snd (run_state (IncrementRunningJobs (uuid_text 2)) sample_world)))) (uuid_text 2) = 0"
proof -
  have "uuid_text 2 = uuid_String sample_uuids (j_workspace_id sample_job)"
    by (simp add: sample_job_def)
  from completion_returns_rate_limit [OF _ _ _ this refl, of sample_world None]
  show ?thesis by (simp add: int8_def)
qed

text \<open>
  C33: the limit counts texts, not workspaces: a workspace that is at its limit under one spelling
  of its id accepts a submission under another spelling that parses to the same id.
\<close>
theorem limit_ignores_other_spelling:
  assumes "slots w = []" and "uuid_Parse U ws = Inr wsid" and "uuid_Parse U ws' = Inr wsid"
    and "n \<le> running_jobs w ws" and "running_jobs w ws' < n" and "int8 (running_jobs w ws' + 1)"
    and "uuid_Parse U creator = Inr byid" and "uuid_Parse U ds = Inr dsid"
    and "job = new_job (CreateJob_params wsid byid dsid entry (Some ps) (Some c) mr key)
                 (uuids w (drawn (data w))) (clock w) ps c"
    and "check_job job (data w) = None"
    and "\<not> has_key o_id (outbox (data w)) (uuids w (Suc (drawn (data w))))"
  shows "fst (run_state (CreateJob U n tp ws creator ds entry (Some ps) (Some c) mr key) w)
      = Inl rate_limit_exceeded
    \<and> fst (run_state (CreateJob U n tp ws' creator ds entry (Some ps) (Some c) mr key) w) = Inr job"
proof
  show "fst (run_state (CreateJob U n tp ws creator ds entry (Some ps) (Some c) mr key) w)
      = Inl rate_limit_exceeded"
    using assms(1,4) by (simp add: CreateJob_def run_checked run_AllowJobSubmission)
  let ?arg = "CreateJob_params wsid byid dsid entry (Some ps) (Some c) mr key"
  have "fst (run_state (submit_job U tp ws' ?arg) w) = Inr job"
    using run_submit_job [where w = w and arg = ?arg and ps = ps and c = c and job = job
        and event = "submitted_event U ws' tp (uuids w (Suc (drawn (data w)))) (j_id job) (clock w)"
        and U = U and tp = tp and ws = ws'] assms
    by (simp add: CreateJob_params_def check_event_def submitted_event_def)
  then show "fst (run_state (CreateJob U n tp ws' creator ds entry (Some ps) (Some c) mr key) w) = Inr job"
    using assms by (simp add: CreateJob_def run_checked run_AllowJobSubmission)
qed

theorem limit_ignores_other_spelling_witness:
  "let w = sample_world\<lparr>redis := [rate_key (uuid_text 2) \<mapsto> 10]\<rparr>;
       ws = hex_digits 32 2
   in isl (fst (run_state (CreateJob sample_uuids 10 ''tp'' (uuid_text 2) (uuid_text 1) (uuid_text 3)  ''e''
               (Some (JObject [])) (Some (JObject [])) 2 ''k2'') w))
      \<and> \<not> isl (fst (run_state (CreateJob sample_uuids 10 ''tp'' ws (uuid_text 1) (uuid_text 3)  ''e''
               (Some (JObject [])) (Some (JObject [])) 2 ''k2'') w))"
proof -
  let ?w = "sample_world\<lparr>redis := [rate_key (uuid_text 2) \<mapsto> 10]\<rparr>"
  let ?ws = "hex_digits 32 2"
  let ?job = "new_job (CreateJob_params 2 1 3 ''e'' (Some (JObject [])) (Some (JObject [])) 2 ''k2'')
      100 10 (JObject []) (JObject [])"
  have parse: "uuid_Parse sample_uuids ?ws = Inr 2"
    using uuid_read_plain [of 2] by (simp add: sample_uuids_def)
  have other: "?ws \<noteq> uuid_text 2"
    using uuid_text_not_plain by metis
  have "check_job ?job sample_db = None"
    by (simp add: check_job_def new_job_def CreateJob_params_def sample_db_def sample_rows)
  with other parse show ?thesis
    using limit_ignores_other_spelling [where w = ?w and U = sample_uuids and ws = "uuid_text 2"
        and ws' = ?ws and wsid = 2 and byid = 1 and dsid = 3 and n = 10 and creator = "uuid_text 1"
        and ds = "uuid_text 3" and entry = "''e''" and mr = 2 and key = "''k2''" and job = ?job
        and ps = "JObject []" and c = "JObject []" and tp = "''tp''"]
    by (simp add: Let_def running_jobs_def int8_def) (simp add: sample_db_def sample_event_def)
qed

end
