(* ===== verification/Worker_Polls.thy ===== *)
theory Worker_Polls imports Scheduling begin

text \<open>
  What one poll of a worker does to the tables, branch by branch: a task of a cancelled run, a task
  whose runner fails, a task whose runner succeeds, and the completion of the run; and what the
  polls of a worker make of a task that always fails.
\<close>

section \<open>What a task needs from the tables\<close>

text \<open>
  The reads that process a task look at the jobs, the datasets and the identities of the runs,
  which no statement of a worker before the completion changes.
\<close>

definition same_plan :: "db \<Rightarrow> db \<Rightarrow> bool" where
  "same_plan d d' \<longleftrightarrow> jobs d' = jobs d \<and> datasets d' = datasets d
     \<and> map (\<lambda>r. (r_id r, r_job_id r, r_state r)) (runs d')
       = map (\<lambda>r. (r_id r, r_job_id r, r_state r)) (runs d)"

lemma same_plan_refl [simp]: "same_plan d d"
  by (simp add: same_plan_def)

lemma same_plan_trans: "same_plan d d' \<Longrightarrow> same_plan d' d'' \<Longrightarrow> same_plan d d''"
  by (simp add: same_plan_def)

fun worker_step :: "stmt \<Rightarrow> bool" where
  "worker_step (LeaseTask own) = True"
| "worker_step (TaskStarted i) = True"
| "worker_step (TaskSucceeded i) = True"
| "worker_step (TaskFailed i) = True"
| "worker_step (RetryTask i msg) = True"
| "worker_step (FailTaskWithError i msg) = True"
| "worker_step (UpdateTaskState i st) = True"
| "worker_step (CreateArtifact arg) = True"
| "worker_step s = False"

lemma same_plan_counters:
  assumes "\<And>r. r_id (f r) = r_id r \<and> r_job_id (f r) = r_job_id r \<and> r_state (f r) = r_state r"
  shows "map (\<lambda>r. (r_id r, r_job_id r, r_state r)) (snd (update_returning P f ok rows))
    = map (\<lambda>r. (r_id r, r_job_id r, r_state r)) rows"
  using assms update_returning_rows [of P f ok rows] by (auto simp: map_upd_where)

lemma same_plan_stmt: "worker_step s \<Longrightarrow> same_plan d (exec_stmt s p d)"
proof (cases s)
  case (LeaseTask own)
  then show ?thesis
    by (simp add: leaseTask_def same_plan_def case_prod_unfold Let_def split: list.splits)
qed (simp_all add: same_plan_def exec_defs same_plan_counters)

lemma same_plan_stmts: "list_all worker_step ss \<Longrightarrow> same_plan d (exec_stmts ss p d)"
proof (induction ss arbitrary: d)
  case (Cons s ss)
  then show ?case
    using same_plan_stmt [of s d p] same_plan_trans by fastforce
qed simp

lemma same_plan_runs:
  assumes "same_plan d d'" and "\<And>r. g r = h (r_state r)"
  shows "map g (filter (\<lambda>r. Q (r_id r) (r_job_id r)) (runs d'))
    = map g (filter (\<lambda>r. Q (r_id r) (r_job_id r)) (runs d))"
proof -
  have *: "map g (filter (\<lambda>r. Q (r_id r) (r_job_id r)) rs) =
      map (\<lambda>(i, j, s). h s) (filter (\<lambda>(i, j, s). Q i j) (map (\<lambda>r. (r_id r, r_job_id r, r_state r)) rs))" for rs
    by (induction rs) (simp_all add: assms(2))
  show ?thesis
    using assms(1) unfolding * same_plan_def by simp
qed

lemma same_plan_reads:
  assumes "same_plan d d'"
  shows "fst (getRunState i p' d') = fst (getRunState i p d)"
    and "fst (getJobByRunID i p' d') = fst (getJobByRunID i p d)"
    and "fst (getDatasetByJobID k p' d') = fst (getDatasetByJobID k p d)"
proof -
  show "fst (getRunState i p' d') = fst (getRunState i p d)"
    using same_plan_runs [OF assms, of r_state "\<lambda>s. s" "\<lambda>a b. a = i"] by (simp add: getRunState_def)
  have "map (\<lambda>_. j) (filter (\<lambda>r. r_job_id r = j_id j \<and> r_id r = i) (runs d'))
      = map (\<lambda>_. j) (filter (\<lambda>r. r_job_id r = j_id j \<and> r_id r = i) (runs d))" for j :: Job
    using same_plan_runs [OF assms, of "\<lambda>_. j" "\<lambda>_. j" "\<lambda>a b. b = j_id j \<and> a = i"] by simp
  then show "fst (getJobByRunID i p' d') = fst (getJobByRunID i p d)"
    using assms by (simp add: getJobByRunID_def same_plan_def)
  show "fst (getDatasetByJobID k p' d') = fst (getDatasetByJobID k p d)"
    using assms by (simp add: getDatasetByJobID_def same_plan_def)
qed

lemma integrity_stmts: "integrity d \<Longrightarrow> integrity (exec_stmts ss p d)"
  by (induction ss arbitrary: d) (simp_all add: integrity_stmt)

section \<open>One poll\<close>

definition breaker_closed :: "worker_env \<Rightarrow> bool" where
  "breaker_closed W \<longleftrightarrow> (\<forall>f w. run_state (dbBreaker W f) w = run_state f w)"

abbreviation owner_of :: "worker_env \<Rightarrow> string option" where
  "owner_of W \<equiv> Some (workerID W)"

text \<open>A poll that leases \<open>task\<close> for a run that is not cancelled.\<close>

definition leases :: "worker_env \<Rightarrow> world \<Rightarrow> Task \<Rightarrow> bool" where
  "leases W w task \<longleftrightarrow>
     slots w = [] \<and> breaker_closed W \<and> t_run_id task \<noteq> uuid_nil
     \<and> fst (leaseTask (owner_of W) (context_of w) (data w)) = Inr task"

lemma upd_where_const:
  "key c = k \<Longrightarrow> upd_where (\<lambda>r. key r = k) f (upd_where (\<lambda>r. key r = k) (\<lambda>_. c) rows)
     = upd_where (\<lambda>r. key r = k) (\<lambda>_. f c) rows"
  by (induction rows) auto

lemma filter_upd_const:
  "key c = k \<Longrightarrow> filter (\<lambda>r. key r = k) (upd_where (\<lambda>r. key r = k) (\<lambda>_. c) rows)
     = map (\<lambda>_. c) (filter (\<lambda>r. key r = k) rows)"
  by (induction rows) auto

text \<open>The row of the leased task, replaced.\<close>

definition put_task :: "Task \<Rightarrow> db \<Rightarrow> db" where
  "put_task t d = d\<lparr>tasks := upd_where (\<lambda>q. t_id q = t_id t) (\<lambda>_. t) (tasks d)\<rparr>"

lemma put_task_simps [simp]:
  "jobs (put_task t d) = jobs d" "runs (put_task t d) = runs d" "datasets (put_task t d) = datasets d"
  "outbox (put_task t d) = outbox d" "artifacts (put_task t d) = artifacts d"
  "workspaces (put_task t d) = workspaces d" "users (put_task t d) = users d"
  "drawn (put_task t d) = drawn d"
  by (simp_all add: put_task_def)

lemma lease_puts_task:
  assumes "leases W w task" and "integrity (data w)"
  shows "leaseTask (owner_of W) (context_of w) (data w) = (Inr task, put_task task (data w))"
    and "filter (\<lambda>q. t_id q = t_id task) (tasks (put_task task (data w))) = [task]"
    and "length (filter (\<lambda>q. t_run_id q = i) (tasks (put_task task (data w))))
      = length (filter (\<lambda>q. t_run_id q = i) (tasks (data w)))"
proof -
  have ids: "distinct (map t_id (tasks (data w)))"
    using assms(2) by (simp add: integrity_defs)
  obtain c where c: "c \<in> set (tasks (data w))" "task = lease_row (context_of w) (owner_of W) c"
    "leaseTask (owner_of W) (context_of w) (data w) = (Inr task, (data w)\<lparr>tasks :=
       upd_where (\<lambda>t. t_id t = t_id c) (lease_row (context_of w) (owner_of W)) (tasks (data w))\<rparr>)"
  proof (cases rule: leaseTask_cases [OF ids, of "owner_of W" "context_of w"])
    case 1
    then show ?thesis using assms(1) by (simp add: leases_def)
  next
    case (2 c)
    then show ?thesis using assms(1) that [of c] by (simp add: leases_def)
  qed
  have same: "upd_where (\<lambda>t. t_id t = t_id c) (lease_row (context_of w) (owner_of W)) (tasks (data w))
      = upd_where (\<lambda>t. t_id t = t_id c) (\<lambda>_. task) (tasks (data w))"
    using unique_row [OF ids _ c(1)] by (auto simp: upd_where_def c(2))
  then show "leaseTask (owner_of W) (context_of w) (data w) = (Inr task, put_task task (data w))"
    using c by (simp add: put_task_def)
  show "filter (\<lambda>q. t_id q = t_id task) (tasks (put_task task (data w))) = [task]"
    using filter_key_unique [OF ids c(1)] by (simp add: put_task_def filter_upd_const c(2))
  show "length (filter (\<lambda>q. t_run_id q = i) (tasks (put_task task (data w))))
      = length (filter (\<lambda>q. t_run_id q = i) (tasks (data w)))"
    using same c(2) filter_upd_where_key [of "\<lambda>q. t_run_id q = i" "lease_row (context_of w) (owner_of W)"]
    by (simp add: put_task_def) (metis length_upd_where lease_row_simps(2))
qed

text \<open>The statements of a worker on the leased row and beside it.\<close>

lemma update_put_task:
  "snd (updateTaskState (t_id t) st p (put_task t d)) = put_task (t\<lparr>t_state := st\<rparr>) d"
  "snd (failTaskWithError (t_id t) msg p (put_task t d))
    = put_task (t\<lparr>t_state := TaskStateFAILED, t_error_message := msg, t_finished_at := Some (now p)\<rparr>) d"
  by (simp_all add: updateTaskState_def failTaskWithError_def update_returning_any put_task_def
      upd_where_const)

lemma retry_put_task:
  "int4 (t_retry_count t + 1) \<Longrightarrow> snd (retryTask (t_id t) msg p (put_task t d)) = put_task (retry_row msg t) d"
  by (simp add: retryTask_def update_returning_def put_task_def upd_where_const filter_upd_const
      list_all_iff case_prod_unfold Let_def)

lemma counters_put_task:
  "snd (taskStarted i p (put_task t d)) = put_task t (snd (taskStarted i p d))"
  "snd (taskFailed i p (put_task t d)) = put_task t (snd (taskFailed i p d))"
  "snd (taskSucceeded i p (put_task t d)) = put_task t (snd (taskSucceeded i p d))"
  by (simp_all add: taskStarted_def taskFailed_def taskSucceeded_def put_task_def case_prod_unfold
      Let_def)

lemma same_plan_put_task [simp]: "same_plan d (put_task t d)"
  by (simp add: same_plan_def)

lemma run_poll:
  assumes "leases W w task" and "integrity (data w)"
  shows "run_state (pollAndProcess U W) w
    = run_state (handle_leased U W task) (w\<lparr>data := put_task task (data w)\<rparr>)"
  using assms
  by (simp add: leases_def [of W w] pollAndProcess_def lease_closure_def breaker_closed_def run_dbcall_quiet
      lease_puts_task [OF assms])

lemma run_poll_cancelled:
  assumes "leases W w task" and "integrity (data w)"
    and "fst (getRunState (t_run_id task) (context_of w) (data w)) = Inr RunStateCANCELLED"
  shows "run_state (pollAndProcess U W) w =
    (Inr (), w\<lparr>data := put_task (task\<lparr>t_state := TaskStateDEAD\<rparr>) (data w),
               metric := (metric w)(''tasks_processed_total:dead'' :=
                  metric w ''tasks_processed_total:dead'' + 1)\<rparr>)"
proof -
  have "fst (getRunState (t_run_id task) (context_of w) (put_task task (data w))) = Inr RunStateCANCELLED"
    using same_plan_reads(1) [OF same_plan_put_task] assms(3) by metis
  then show ?thesis
    using assms(1)
    by (simp add: run_poll [OF assms(1,2)] handle_leased_def mark_dead_def run_checked
        run_dbcall_quiet leases_def run_Inc update_put_task)
qed

text \<open>
  C28: a worker that leases a task of a cancelled run does not run it: the row of the task becomes
  the leased row with the state dead, no other row and no other table changes, and nothing is
  published.
\<close>
theorem cancelled_run_kills_task:
  assumes "leases W w task" and "integrity (data w)"
    and "fst (getRunState (t_run_id task) (context_of w) (data w)) = Inr RunStateCANCELLED"
  shows "run_state (pollAndProcess U W) w =
    (Inr (), w\<lparr>data := put_task (task\<lparr>t_state := TaskStateDEAD\<rparr>) (data w),
               metric := (metric w)(''tasks_processed_total:dead'' :=
                  metric w ''tasks_processed_total:dead'' + 1)\<rparr>)"
  by (rule run_poll_cancelled [OF assms])

text \<open>A worker whose breaker is closed, with a given runner.\<close>

definition sample_worker :: "(timestamp \<Rightarrow> go_error + string) \<Rightarrow> worker_env" where
  "sample_worker runner = \<lparr>workerID = ''w2'', dbBreaker = (\<lambda>f. f), task_runner = (\<lambda>env. runner),
     base_env = [], minioEndpoint = ''minio:9000'', minioAccessKey = ''key'',
     minioSecretKey = ''secret'', minioBucket = ''datasets''\<rparr>"

definition sample_taken :: Task where
  "sample_taken = lease_row sample_pg (Some ''w2'') (sample_task 8 2 1)"

lemma sample_worker_simps [simp]:
  "workerID (sample_worker g) = ''w2''" "task_runner (sample_worker g) env = g"
  "breaker_closed (sample_worker g)"
  by (simp_all add: sample_worker_def breaker_closed_def)

lemma sample_taken_simps [simp]:
  "t_id sample_taken = 8" "t_run_id sample_taken = 5" "t_retry_count sample_taken = 0"
  by (simp_all add: sample_taken_def sample_task_def)

lemma sample_leases:
  assumes "slots w = []" and "context_of w = sample_pg" and "tasks (data w) = tasks sample_db"
  shows "leases (sample_worker g) w sample_taken"
proof -
  have "fst (leaseTask own1 p d) = fst (leaseTask own1 p d')" if "tasks d = tasks d'" for own1 p d d'
    using that by (simp add: leaseTask_def case_prod_unfold Let_def split: list.splits)
  from this [OF assms(3)] show ?thesis
    using assms(1,2) sample_leaseTask by (simp add: leases_def sample_taken_def [symmetric])
qed

theorem cancelled_run_kills_task_witness:
  "map t_state (tasks (data (snd (run_state (pollAndProcess sample_uuids (sample_worker (\<lambda>_. Inr []))) 
     (sample_world\<lparr>data := sample_db\<lparr>runs := [sample_run\<lparr>r_state := RunStateCANCELLED\<rparr>]\<rparr>\<rparr>)))))
   = [TaskStateLEASED, TaskStatePENDING, TaskStateDEAD]"
proof -
  let ?d = "sample_db\<lparr>runs := [sample_run\<lparr>r_state := RunStateCANCELLED\<rparr>]\<rparr>"
  have "integrity ?d"
    by (simp add: integrity_defs sample_db_def sample_rows)
  moreover have "fst (getRunState 5 sample_pg ?d) = Inr RunStateCANCELLED"
    by (simp add: getRunState_def sample_run_def)
  moreover have "leases (sample_worker g) (sample_world\<lparr>data := ?d\<rparr>) sample_taken" for g
    by (rule sample_leases) simp_all
  ultimately have "data (snd (run_state (pollAndProcess sample_uuids (sample_worker (\<lambda>_. Inr [])))
      (sample_world\<lparr>data := ?d\<rparr>))) = put_task (sample_taken\<lparr>t_state := TaskStateDEAD\<rparr>) ?d"
    using cancelled_run_kills_task [of "sample_worker (\<lambda>_. Inr [])" "sample_world\<lparr>data := ?d\<rparr>"
        sample_taken sample_uuids] by simp
  then show ?thesis
    by (simp add: put_task_def) (simp add: sample_db_def sample_rows)
qed

section \<open>A task that runs\<close>

text \<open>
  What the runner is started with, and that the run of the task is alive: the job of the run and
  the dataset of the job exist in an intact database.
\<close>

definition started_on :: "world \<Rightarrow> Task \<Rightarrow> Job \<Rightarrow> Dataset \<Rightarrow> bool" where
  "started_on w task job x \<longleftrightarrow>
     (\<exists>st. fst (getRunState (t_run_id task) (context_of w) (data w)) = Inr st \<and> st \<noteq> RunStateCANCELLED)
     \<and> fst (getJobByRunID (t_run_id task) (context_of w) (data w)) = Inr job
     \<and> fst (getDatasetByJobID (j_id job) (context_of w) (data w)) = Inr x"

definition runner_env :: "uuid_lib \<Rightarrow> worker_env \<Rightarrow> world \<Rightarrow> Task \<Rightarrow> Job \<Rightarrow> Dataset \<Rightarrow> (string \<times> string) list" where
  "runner_env U W w task job x = task_environment U W task job x
     (int (length (filter (\<lambda>t. t_run_id t = t_run_id task) (tasks (data w)))))"

definition begun :: "world \<Rightarrow> Task \<Rightarrow> db" where
  "begun w task = snd (taskStarted (t_run_id task) (context_of w) (data w))"

lemma same_plan_begun: "same_plan (data w) (put_task task (begun w task))"
  using same_plan_stmt [of "TaskStarted (t_run_id task)" "data w" "context_of w"]
  by (auto simp: begun_def same_plan_def)

lemma begun_tasks [simp]: "tasks (begun w task) = tasks (data w)"
  by (simp add: begun_def taskStarted_def case_prod_unfold Let_def)

text \<open>The poll up to the end of the runner.\<close>

lemma run_poll_started:
  assumes "leases W w task" and "integrity (data w)" and "started_on w task job x"
    and "w1 = w\<lparr>data := put_task task (begun w task)\<rparr>"
  shows "run_state (pollAndProcess U W) w = run_state (case task_runner W (runner_env U W w task job x) (clock w) of
      Inl e \<Rightarrow> handle_failure task (WrapError ''task runner failed'' e)
    | Inr out \<Rightarrow> State_Monad.bind (dbcall (createArtifact (task_artifact task (parse_output out))))
        (\<lambda>_. handle_success U task)) w1"
proof -
  let ?p = "context_of w"
  have q: "slots w1 = []" "context_of w1 = ?p" "clock w1 = clock w"
    "data w1 = put_task task (begun w task)" "w1\<lparr>data := data w1\<rparr> = w1"
    using assms(1,4) by (simp_all add: leases_def)
  have plan: "same_plan (data w) (data w1)"
    using same_plan_begun by (simp add: q)
  obtain st where st: "fst (getRunState (t_run_id task) ?p (put_task task (data w))) = Inr st"
    "st \<noteq> RunStateCANCELLED"
    using assms(3) same_plan_reads(1) [OF same_plan_put_task] by (auto simp: started_on_def) metis
  have reads: "fst (getJobByRunID (t_run_id task) ?p (data w1)) = Inr job"
    "fst (getDatasetByJobID (j_id job) ?p (data w1)) = Inr x"
    using same_plan_reads(2,3) [OF plan] assms(3) by (simp_all add: started_on_def) metis+
  have count: "fst (getRunTaskCount (t_run_id task) ?p (data w1))
      = Inr (int (length (filter (\<lambda>t. t_run_id t = t_run_id task) (tasks (data w)))))"
    using lease_puts_task(3) [OF assms(1,2)] by (simp add: getRunTaskCount_def q put_task_def)
  have process: "run_state (process_task U W task) w1 =
      (case task_runner W (runner_env U W w task job x) (clock w) of
         Inl e \<Rightarrow> (Inl (WrapError ''task runner failed'' e), w1)
       | Inr out \<Rightarrow> (Inr (), snd (run_state (dbcall (createArtifact (task_artifact task (parse_output out)))) w1)))"
    using q(1) reads count
    by (simp add: process_task_def run_checked run_dbcall_quiet q(2,3,5) runner_env_def run_python_def
        run_call_quiet split: sum.splits)
  show ?thesis
    using assms(1) st process
    by (simp add: run_poll [OF assms(1,2)] handle_leased_def run_checked run_dbcall_quiet leases_def
        counters_put_task begun_def [symmetric] assms(4) [symmetric] q split: sum.splits)
qed

lemma run_poll_failed:
  assumes "leases W w task" and "integrity (data w)" and "started_on w task job x"
    and "task_runner W (runner_env U W w task job x) (clock w) = Inl e"
    and "err = WrapError ''task runner failed'' e" and "int4 (t_retry_count task)"
    and "int4 (j_max_retries job)"
  shows "run_state (pollAndProcess U W) w =
    (if t_retry_count task < j_max_retries job \<and> IsTransient e
     then (Inr (), w\<lparr>data := put_task (retry_row (Some (error_text err)) task) (begun w task)\<rparr>)
     else (Inl err, w\<lparr>data := put_task (task\<lparr>t_state := TaskStateFAILED,
               t_error_message := Some (error_text err), t_finished_at := Some (clock w)\<rparr>)
               (snd (taskFailed (t_run_id task) (context_of w) (begun w task))),
             metric := (metric w)(''tasks_processed_total:failed'' :=
               metric w ''tasks_processed_total:failed'' + 1)\<rparr>))"
proof -
  define w1 where "w1 = w\<lparr>data := put_task task (begun w task)\<rparr>"
  have q: "slots w1 = []" "context_of w1 = context_of w" "data w1 = put_task task (begun w task)"
    "clock w1 = clock w" "metric w1 = metric w" "w1\<lparr>data := data w1\<rparr> = w1"
    using assms(1) by (simp_all add: leases_def w1_def)
  have job: "fst (getJobByRunID (t_run_id task) (context_of w) (data w1)) = Inr job"
    using same_plan_reads(2) [OF same_plan_begun] assms(3) by (simp add: q started_on_def) metis
  have poll: "run_state (pollAndProcess U W) w = run_state (handle_failure task err) w1"
    using run_poll_started [OF assms(1-3) w1_def, of U] assms(4,5) by simp
  have retry: "snd (retryTask (t_id task) m p (data w1)) = put_task (retry_row m task) (begun w task)"
    if "t_retry_count task < j_max_retries job" for m p
    using that assms(6,7) by (simp add: q retry_put_task int4_def)
  have fail: "snd (taskFailed i p (snd (failTaskWithError (t_id task) m p (data w1))))
      = put_task (task\<lparr>t_state := TaskStateFAILED, t_error_message := m,
          t_finished_at := Some (now p)\<rparr>) (snd (taskFailed i p (begun w task)))" for i m p
    by (simp add: q update_put_task counters_put_task)
  show ?thesis
    using q(1) job retry fail assms(5)
    by (simp add: poll handle_failure_def run_dbcall_quiet q(2,4-6) run_Inc) (simp add: w1_def)
qed

text \<open>
  C12: when the runner fails, the worker puts the task back into the queue exactly when the error
  is transient and the task has retries left: then the row of the task is pending again, without a
  lease, with one more retry and the error's text, and the poll reports no error. Otherwise the
  task is failed with that text and a finishing time, the run counts one more failed task, and the
  poll reports the error. The run, the job and the topics stay as they were but for the counters.
\<close>
theorem failed_attempt_retries_or_fails:
  assumes "leases W w task" and "integrity (data w)" and "started_on w task job x"
    and "task_runner W (runner_env U W w task job x) (clock w) = Inl e"
    and "err = WrapError ''task runner failed'' e" and "int4 (t_retry_count task)"
    and "int4 (j_max_retries job)"
  shows "run_state (pollAndProcess U W) w =
    (if t_retry_count task < j_max_retries job \<and> IsTransient e
     then (Inr (), w\<lparr>data := put_task (retry_row (Some (error_text err)) task) (begun w task)\<rparr>)
     else (Inl err, w\<lparr>data := put_task (task\<lparr>t_state := TaskStateFAILED,
               t_error_message := Some (error_text err), t_finished_at := Some (clock w)\<rparr>)
               (snd (taskFailed (t_run_id task) (context_of w) (begun w task))),
             metric := (metric w)(''tasks_processed_total:failed'' :=
               metric w ''tasks_processed_total:failed'' + 1)\<rparr>))"
  by (rule run_poll_failed [OF assms])

lemma sample_started: "started_on sample_world sample_taken sample_job sample_dataset"
  by (simp add: started_on_def getRunState_def getJobByRunID_def getDatasetByJobID_def)
    (simp add: sample_db_def sample_rows)

theorem failed_attempt_retries_or_fails_witness:
  "map t_retry_count (tasks (data (snd (run_state (pollAndProcess sample_uuids
     (sample_worker (\<lambda>_. Inl (ErrorString ''exit status 1'')))) sample_world)))) = [0, 0, 1]"
proof -
  let ?W = "sample_worker (\<lambda>_. Inl (ErrorString ''exit status 1''))"
  have "leases ?W sample_world sample_taken"
    by (rule sample_leases) simp_all
  then have "run_state (pollAndProcess sample_uuids ?W) sample_world = (Inr (), sample_world\<lparr>data :=
      put_task (retry_row (Some ''task runner failed: exit status 1'') sample_taken) (begun sample_world sample_taken)\<rparr>)"
    using failed_attempt_retries_or_fails [of ?W sample_world sample_taken sample_job sample_dataset
        sample_uuids "ErrorString ''exit status 1''", OF _ _ sample_started _ refl]
    by (simp add: int4_def sample_job_def)
  then show ?thesis
    by (simp add: put_task_def) (simp add: sample_db_def sample_leased_def sample_task_def)
qed

section \<open>Completing the run\<close>

definition finished_runs :: "uuid \<Rightarrow> RunState \<Rightarrow> timestamp \<Rightarrow> Run list \<Rightarrow> Run list" where
  "finished_runs i st t rs = upd_where (\<lambda>r. r_id r = i)
     (\<lambda>r. r\<lparr>r_state := st, r_finished_at := Some t\<rparr>) rs"

definition finished_jobs :: "uuid \<Rightarrow> JobState \<Rightarrow> timestamp \<Rightarrow> Job list \<Rightarrow> Job list" where
  "finished_jobs i st t js = upd_where (\<lambda>j. j_id j = i)
     (\<lambda>j. j\<lparr>j_state := st, j_finished_at := Some t\<rparr>) js"

definition completed_message :: "uuid_lib \<Rightarrow> Job \<Rightarrow> message" where
  "completed_message U job = \<lparr>m_topic = ''job.completed'', m_key = uuid_String U (j_id job),
     m_value = Inr (completed_payload U job), m_headers = []\<rparr>"

text \<open>The world after the check, given the run as it stands.\<close>

definition completed :: "uuid_lib \<Rightarrow> Run \<Rightarrow> Job \<Rightarrow> world \<Rightarrow> world" where
  "completed U r job w =
     (if r_tasks_done r + r_tasks_failed r = r_tasks_total r
      then w\<lparr>data := (data w)\<lparr>
               jobs := finished_jobs (j_id job) (if 0 < r_tasks_failed r then JobStateFAILED else JobStateSUCCEEDED)
                         (clock w) (jobs (data w)),
               runs := finished_runs (r_id r) (if 0 < r_tasks_failed r then RunStateFAILED else RunStateSUCCEEDED)
                         (clock w) (runs (data w))\<rparr>,
             topics := topics w @ [completed_message U job]\<rparr>
      else w)"

lemma completeRun_row:
  assumes "r \<in> set (runs d)" and "r_id r = i"
  shows "\<exists>q. completeRun i st p d = (Inr q, d\<lparr>runs := finished_runs i st (now p) (runs d)\<rparr>)"
  using assms by (cases "filter (\<lambda>q. r_id q = i) (runs d)")
    (auto simp: completeRun_def update_returning_any finished_runs_def filter_empty_conv)

lemma completeJob_row:
  assumes "j \<in> set (jobs d)" and "j_id j = i"
  shows "\<exists>q. completeJob i st p d = (Inr q, d\<lparr>jobs := finished_jobs i st (now p) (jobs d)\<rparr>)"
  using assms by (cases "filter (\<lambda>q. j_id q = i) (jobs d)")
    (auto simp: completeJob_def update_returning_any finished_jobs_def filter_empty_conv)

lemma getJobByRunID_in: "fst (getJobByRunID i p d) = Inr j \<Longrightarrow> j \<in> set (jobs d)"
proof -
  assume "fst (getJobByRunID i p d) = Inr j"
  then obtain rest where "concat (map (\<lambda>j. map (\<lambda>_. j)
      (filter (\<lambda>r. r_job_id r = j_id j \<and> r_id r = i) (runs d))) (jobs d)) = j # rest" (is "?rows = _")
    by (auto simp: getJobByRunID_def one_Inr)
  then have "j \<in> set ?rows" by simp
  then show ?thesis by auto
qed

lemma run_completion:
  assumes "slots w = []" and "integrity (data w)" and "r \<in> set (runs (data w))"
    and "r_id r = t_run_id task" and "int4 (r_tasks_done r + r_tasks_failed r)"
    and "fst (getJobByRunID (t_run_id task) (context_of w) (data w)) = Inr job"
  shows "run_state (checkAndCompleteRun U task) w = (Inr (), completed U r job w)"
proof -
  let ?i = "t_run_id task"
  have "distinct (map r_id (runs (data w)))"
    using assms(2) by (simp add: integrity_defs)
  then have row: "filter (\<lambda>q. r_id q = ?i) (runs (data w)) = [r]"
    using filter_key_unique assms(3,4) by metis
  have finished: "all_done (progress_row r) \<longleftrightarrow> r_tasks_done r + r_tasks_failed r = r_tasks_total r"
    using assms(5) by (simp add: all_done_def progress_row_def)
  have job: "fst (getJobByRunID ?i p (data w\<lparr>runs := finished_runs ?i st t (runs (data w))\<rparr>)) = Inr job"
    for p st t
  proof -
    have "map (\<lambda>_. j) (filter (\<lambda>q. r_job_id q = j_id j \<and> r_id q = ?i) (finished_runs ?i st t (runs (data w))))
        = map (\<lambda>_. j) (filter (\<lambda>q. r_job_id q = j_id j \<and> r_id q = ?i) (runs (data w)))" for j :: Job
      unfolding finished_runs_def by (subst filter_upd_where_key) (simp_all add: map_upd_where)
    then show ?thesis
      using assms(6) by (simp add: getJobByRunID_def)
  qed
  define rs js where "rs = (if 0 < r_tasks_failed r then RunStateFAILED else RunStateSUCCEEDED)"
    and "js = (if 0 < r_tasks_failed r then JobStateFAILED else JobStateSUCCEEDED)"
  obtain q where q: "completeRun ?i rs (context_of w) (data w)
      = (Inr q, (data w)\<lparr>runs := finished_runs ?i rs (clock w) (runs (data w))\<rparr>)"
    using completeRun_row [OF assms(3,4), of rs "context_of w"] by auto
  obtain q' where q': "completeJob (j_id job) js (context_of w)
        ((data w)\<lparr>runs := finished_runs ?i rs (clock w) (runs (data w))\<rparr>)
      = (Inr q', (data w)\<lparr>jobs := finished_jobs (j_id job) js (clock w) (jobs (data w)),
           runs := finished_runs ?i rs (clock w) (runs (data w))\<rparr>)"
    using completeJob_row [of job "(data w)\<lparr>runs := finished_runs ?i rs (clock w) (runs (data w))\<rparr>" "j_id job" js
        "context_of w"] getJobByRunID_in [OF assms(6)] by auto
  have failed: "pr_tasks_failed (progress_row r) = r_tasks_failed r"
    by (simp add: progress_row_def)
  show ?thesis
    using assms(1) row job
    by (simp add: checkAndCompleteRun_def run_checked run_dbcall_quiet getRunProgress_def finished
        failed Let_def rs_def [symmetric] js_def [symmetric] q q' run_Publish completed_def
        completed_message_def assms(4))
qed

text \<open>
  C14: the check after a task finishes the run exactly when its done and failed tasks make up its
  total. Then the run and the job become failed if any task failed and succeeded otherwise, both
  get their finishing time, and one message announces the job on the topic of completed jobs;
  otherwise nothing happens.
\<close>
theorem run_completes_when_all_tasks_ended:
  assumes "slots w = []" and "integrity (data w)" and "r \<in> set (runs (data w))"
    and "r_id r = t_run_id task" and "int4 (r_tasks_done r + r_tasks_failed r)"
    and "fst (getJobByRunID (t_run_id task) (context_of w) (data w)) = Inr job"
  shows "run_state (checkAndCompleteRun U task) w = (Inr (),
    if r_tasks_done r + r_tasks_failed r = r_tasks_total r
    then w\<lparr>data := (data w)\<lparr>
             jobs := map (\<lambda>j. if j_id j = j_id job
               then j\<lparr>j_state := (if 0 < r_tasks_failed r then JobStateFAILED else JobStateSUCCEEDED),
                      j_finished_at := Some (clock w)\<rparr> else j) (jobs (data w)),
             runs := map (\<lambda>q. if r_id q = r_id r
               then q\<lparr>r_state := (if 0 < r_tasks_failed r then RunStateFAILED else RunStateSUCCEEDED),
                      r_finished_at := Some (clock w)\<rparr> else q) (runs (data w))\<rparr>,
           topics := topics w @ [\<lparr>m_topic = ''job.completed'', m_key = uuid_String U (j_id job),
             m_value = Inr (completed_payload U job), m_headers = []\<rparr>]\<rparr>
    else w)"
  using run_completion [OF assms, of U]
  by (simp add: completed_def completed_message_def finished_runs_def finished_jobs_def upd_where_def)

theorem run_completes_when_all_tasks_ended_witness:
  "let w = snd (run_state (checkAndCompleteRun sample_uuids sample_taken)
     (sample_world\<lparr>data := sample_db\<lparr>runs := [sample_run\<lparr>r_tasks_done := 2, r_tasks_failed := 1\<rparr>]\<rparr>\<rparr>))
   in map r_state (runs (data w)) = [RunStateFAILED] \<and> map j_state (jobs (data w)) = [JobStateFAILED]
      \<and> map m_topic (topics w) = [''job.completed'']"
proof -
  let ?r = "sample_run\<lparr>r_tasks_done := 2, r_tasks_failed := 1\<rparr>"
  let ?d = "sample_db\<lparr>runs := [?r]\<rparr>"
  have "integrity ?d"
    by (simp add: integrity_defs sample_db_def sample_rows)
  moreover have "fst (getJobByRunID 5 sample_pg ?d) = Inr sample_job"
    by (simp add: getJobByRunID_def) (simp add: sample_db_def sample_rows)
  ultimately show ?thesis
    using run_completes_when_all_tasks_ended [of "sample_world\<lparr>data := ?d\<rparr>" ?r sample_taken
        sample_job sample_uuids]
    by (simp add: Let_def int4_def sample_run_def) (simp add: sample_db_def)
qed

section \<open>A runner that succeeds\<close>

lemma artifact_put_task:
  "snd (createArtifact arg p (put_task t d)) = put_task t (snd (createArtifact arg p d))"
  by (simp add: createArtifact_def put_task_def draw_def Let_def)

lemma createArtifact_tasks [simp]:
  "tasks (snd (createArtifact arg p d)) = tasks d" "runs (snd (createArtifact arg p d)) = runs d"
  by (simp_all add: createArtifact_def draw_def Let_def)

lemma updateTaskState_row:
  assumes "filter (\<lambda>q. t_id q = t_id t) (tasks d) = [t]"
  shows "fst (updateTaskState (t_id t) st p d) = Inr (t\<lparr>t_state := st\<rparr>)"
  by (simp add: updateTaskState_def update_returning_any assms)

text \<open>The tables after a successful task, before the check of the run.\<close>

definition succeeded :: "world \<Rightarrow> Task \<Rightarrow> string \<Rightarrow> db" where
  "succeeded w task out = put_task (task\<lparr>t_state := TaskStateSUCCEEDED\<rparr>)
     (snd (taskSucceeded (t_run_id task) (context_of w)
        (snd (createArtifact (task_artifact task (parse_output out)) (context_of w) (begun w task)))))"

lemma run_poll_succeeded:
  assumes "leases W w task" and "integrity (data w)" and "started_on w task job x"
    and "task_runner W (runner_env U W w task job x) (clock w) = Inr out"
    and "r \<in> set (runs (succeeded w task out))" and "r_id r = t_run_id task"
    and "int4 (r_tasks_done r + r_tasks_failed r)"
  shows "run_state (pollAndProcess U W) w =
    (Inr (), (completed U r job (w\<lparr>data := succeeded w task out\<rparr>))
       \<lparr>metric := (metric w)(''tasks_processed_total:succeeded'' :=
            metric w ''tasks_processed_total:succeeded'' + 1)\<rparr>)"
proof -
  let ?p = "context_of w" and ?i = "t_run_id task"
  let ?arg = "task_artifact task (parse_output out)"
  let ?ss = "[LeaseTask (owner_of W), TaskStarted ?i, CreateArtifact ?arg,
    UpdateTaskState (t_id task) TaskStateSUCCEEDED, TaskSucceeded ?i]"
  define w1 where "w1 = w\<lparr>data := put_task task (begun w task)\<rparr>"
  define d2 where "d2 = snd (createArtifact ?arg ?p (begun w task))"
  define d3 where "d3 = succeeded w task out"
  have lease: "exec_stmts [LeaseTask (owner_of W), TaskStarted ?i, CreateArtifact ?arg] ?p (data w) = put_task task d2"
    using lease_puts_task(1) [OF assms(1,2)]
    by (simp add: counters_put_task artifact_put_task d2_def begun_def)
  have all: "exec_stmts ?ss ?p (data w) = d3"
    using lease by (simp add: update_put_task counters_put_task d3_def succeeded_def d2_def)
  have plan: "same_plan (data w) (put_task task d2)" "same_plan (data w) d3"
    using same_plan_stmts [of "[LeaseTask (owner_of W), TaskStarted ?i, CreateArtifact ?arg]" "data w" ?p]
      same_plan_stmts [of ?ss "data w" ?p] unfolding lease all by simp_all
  obtain st where st: "fst (getRunState ?i ?p (put_task task d2)) = Inr st" "st \<noteq> RunStateCANCELLED"
    using assms(3) same_plan_reads(1) [OF plan(1)] by (auto simp: started_on_def) metis
  have row: "fst (updateTaskState (t_id task) TaskStateSUCCEEDED ?p (put_task task d2))
      = Inr (task\<lparr>t_state := TaskStateSUCCEEDED\<rparr>)"
    using lease_puts_task(2) [OF assms(1,2)]
    by (intro updateTaskState_row) (simp add: put_task_def d2_def)
  have "integrity d3"
    using integrity_stmts [OF assms(2), of ?ss ?p] unfolding all .
  moreover have "fst (getJobByRunID ?i ?p d3) = Inr job"
    using same_plan_reads(2) [OF plan(2)] assms(3) by (simp add: started_on_def) metis
  ultimately have check: "run_state (checkAndCompleteRun U task) (w\<lparr>data := d3\<rparr>)
      = (Inr (), completed U r job (w\<lparr>data := d3\<rparr>))"
    using assms(1,5-7) by (intro run_completion) (simp_all add: leases_def d3_def)
  have upd: "snd (updateTaskState (t_id task) TaskStateSUCCEEDED ?p (put_task task d2))
      = put_task (task\<lparr>t_state := TaskStateSUCCEEDED\<rparr>) d2"
    by (rule update_put_task)
  have suc: "snd (taskSucceeded ?i ?p (put_task (task\<lparr>t_state := TaskStateSUCCEEDED\<rparr>) d2)) = d3"
    by (simp add: counters_put_task d3_def succeeded_def d2_def)
  have metric: "metric (completed U r job (w\<lparr>data := d3\<rparr>)) = metric w"
    by (simp add: completed_def)
  have "slots w = []" using assms(1) by (simp add: leases_def)
  then show ?thesis
    using run_poll_started [OF assms(1-3) w1_def, of U] assms(4) st row check
    by (simp add: w1_def run_dbcall_quiet artifact_put_task d2_def [symmetric] handle_success_def
        run_checked upd suc run_Inc metric d3_def [symmetric])
qed

text \<open>
  C13: when the runner succeeds, the poll registers one artifact with the path and the size that the
  runner printed, marks the task succeeded, moves it from running to done in the counters of the
  run, and then checks the run with the counters as they are after that; the poll reports no error.
\<close>
theorem successful_attempt_completes_task:
  assumes "leases W w task" and "integrity (data w)" and "started_on w task job x"
    and "task_runner W (runner_env U W w task job x) (clock w) = Inr out"
    and "r \<in> set (runs (succeeded w task out))" and "r_id r = t_run_id task"
    and "int4 (r_tasks_done r + r_tasks_failed r)"
  shows "run_state (pollAndProcess U W) w =
    (Inr (), (completed U r job (w\<lparr>data := succeeded w task out\<rparr>))
       \<lparr>metric := (metric w)(''tasks_processed_total:succeeded'' :=
            metric w ''tasks_processed_total:succeeded'' + 1)\<rparr>)"
  by (rule run_poll_succeeded [OF assms])

theorem successful_attempt_completes_task_witness:
  "let w = snd (run_state (pollAndProcess sample_uuids (sample_worker (\<lambda>_. Inr ''2/out.csv:17''))) sample_world)
   in map t_state (tasks (data w)) = [TaskStateLEASED, TaskStatePENDING, TaskStateSUCCEEDED]
      \<and> map r_tasks_done (runs (data w)) = [1] \<and> map r_state (runs (data w)) = [RunStateSUBMITTED]"
proof -
  let ?W = "sample_worker (\<lambda>_. Inr ''2/out.csv:17'')"
  let ?r = "sample_run\<lparr>r_tasks_pending := 1, r_tasks_done := 1\<rparr>"
  let ?e = "succeeded sample_world sample_taken ''2/out.csv:17''"
  have leases: "leases ?W sample_world sample_taken"
    by (rule sample_leases) simp_all
  have runs: "runs ?e = [?r]"
    by (simp add: succeeded_def begun_def taskStarted_def taskSucceeded_def createArtifact_def draw_def
        Let_def case_prod_unfold update_returning_def counters_in_range_def int4_def started_row_def
        succeeded_row_def sample_db_def sample_run_def)
  have tasks: "map t_state (tasks ?e) = [TaskStateLEASED, TaskStatePENDING, TaskStateSUCCEEDED]"
    by (simp add: succeeded_def put_task_def taskSucceeded_def case_prod_unfold Let_def)
      (simp add: sample_db_def sample_leased_def sample_task_def)
  show ?thesis
    using successful_attempt_completes_task [OF leases sample_integrity [folded sample_world_simps(1)]
        sample_started, of sample_uuids "''2/out.csv:17''" ?r] runs tasks
    by (simp add: Let_def int4_def completed_def) (simp add: sample_run_def)
qed

section \<open>Tasks that fail for good\<close>

lemma failing_counters:
  assumes "distinct (map r_id (runs d))" and "r \<in> set (runs d)" and "r_id r = i"
    and "counters_in_range (started_row p r)" and "counters_in_range (failed_row (started_row p r))"
  shows "failed_row (started_row p r) \<in> set (runs (snd (taskFailed i p (snd (taskStarted i p d)))))"
proof -
  have row: "filter (\<lambda>q. r_id q = i) (runs d) = [r]"
    using filter_key_unique [OF assms(1,2)] assms(3) by simp
  then have "runs (snd (taskStarted i p d)) = upd_where (\<lambda>q. r_id q = i) (started_row p) (runs d)"
    using assms(4) by (simp add: taskStarted_def update_returning_def)
  moreover have "filter (\<lambda>q. r_id q = i) (upd_where (\<lambda>q. r_id q = i) (started_row p) (runs d)) = [started_row p r]"
    using row by (simp add: filter_upd_where_all)
  ultimately have "runs (snd (taskFailed i p (snd (taskStarted i p d)))) =
      upd_where (\<lambda>q. r_id q = i) failed_row (upd_where (\<lambda>q. r_id q = i) (started_row p) (runs d))"
    using assms(5) by (simp add: taskFailed_def update_returning_def)
  then show ?thesis
    using assms(2,3) by (auto simp: set_upd_where intro!: imageI)
qed



text \<open>
  A database whose one task waits for a worker, and a runner that fails every time with a transient
  error.
\<close>

definition poisoned :: "worker_env \<Rightarrow> world \<Rightarrow> Task \<Rightarrow> Job \<Rightarrow> bool" where
  "poisoned W w t job \<longleftrightarrow>
     slots w = [] \<and> breaker_closed W \<and> integrity (data w) \<and> tasks (data w) = [t]
     \<and> t_state t = TaskStatePENDING \<and> t_lease_expires_at t = None \<and> t_run_id t \<noteq> uuid_nil
     \<and> (\<exists>x. started_on w t job x)
     \<and> (\<forall>env now. \<exists>e. task_runner W env now = Inl e \<and> IsTransient e)
     \<and> int4 (t_retry_count t) \<and> int4 (j_max_retries job)"

lemma poisoned_leases:
  assumes "poisoned W w t job"
  shows "leases W w (lease_row (context_of w) (owner_of W) t)"
proof -
  have "filter (leasable (context_of w)) (tasks (data w)) = [t]"
    using assms by (simp add: poisoned_def leasable_def)
  then show ?thesis
    using assms by (simp add: leases_def poisoned_def leaseTask_def update_returning_any)
qed

lemma started_on_same:
  assumes "started_on w t job x" and "same_plan (data w) (data w')" and "t_run_id t' = t_run_id t"
  shows "started_on w' t' job x"
  using assms(1) same_plan_reads [OF assms(2)] by (simp add: started_on_def assms(3)) metis

text \<open>One poll of such a database.\<close>

lemma poisoned_poll:
  assumes "poisoned W w t job" and "t_retry_count t < j_max_retries job"
    and "w' = snd (run_state (pollAndProcess U W) w)"
  shows "\<exists>t'. poisoned W w' t' job \<and> t_retry_count t' = t_retry_count t + 1 \<and> t_id t' = t_id t"
proof -
  define task where "task = lease_row (context_of w) (owner_of W) t"
  have leases: "leases W w task" and int: "integrity (data w)"
    using poisoned_leases assms(1) by (simp_all add: task_def poisoned_def)
  obtain x where "started_on w t job x"
    using assms(1) by (auto simp: poisoned_def)
  then have st: "started_on w task job x"
    using started_on_same same_plan_refl by (fastforce simp: task_def)
  obtain e where e: "task_runner W (runner_env U W w task job x) (clock w) = Inl e" "IsTransient e"
    using assms(1) by (auto simp: poisoned_def)
  have bounds: "int4 (t_retry_count task)" "int4 (j_max_retries job)"
    using assms(1) by (simp_all add: poisoned_def task_def)
  have more: "int4 (t_retry_count task + 1)"
    using bounds assms(2) by (simp add: int4_def task_def)
  define t' where "t' = retry_row (Some (error_text (WrapError ''task runner failed'' e))) task"
  have w': "w' = w\<lparr>data := put_task t' (begun w task)\<rparr>"
    using run_poll_failed [OF leases int st e(1) refl bounds] e(2) assms(2,3)
    by (simp add: t'_def task_def)
  have tasks: "tasks (data w') = [t']"
    using assms(1) by (simp add: w' put_task_def poisoned_def t'_def task_def)
  have plan: "same_plan (data w) (data w')"
    using same_plan_begun by (simp add: w' same_plan_def)
  have "integrity (data w')"
  proof -
    have "exec_stmts [LeaseTask (owner_of W), TaskStarted (t_run_id task),
        RetryTask (t_id task) (Some (error_text (WrapError ''task runner failed'' e)))] (context_of w) (data w) = data w'"
      using lease_puts_task(1) [OF leases int] more
      by (simp add: w' counters_put_task retry_put_task begun_def t'_def)
    then show ?thesis using integrity_stmts [OF int] by metis
  qed
  moreover have "started_on w' t' job x"
    using started_on_same [OF st plan, of t'] by (simp add: t'_def)
  ultimately have "poisoned W w' t' job"
    using assms(1,2) tasks bounds
    by (auto simp: poisoned_def w' t'_def task_def int4_def)
  then show ?thesis by (auto simp: t'_def task_def)
qed

lemma worker_loop_Suc:
  "run_state (worker_loop U W (Suc n)) w = run_state (worker_loop U W n)
     (let w' = snd (run_state (pollAndProcess U W) w) in w'\<lparr>clock := clock w' + seconds 2\<rparr>)"
  by (simp add: case_prod_unfold Let_def)

lemma poisoned_later:
  assumes "poisoned W w t job"
  shows "poisoned W (w\<lparr>clock := c\<rparr>) t job"
proof -
  have "fst (getRunState i p d) = fst (getRunState i q d)"
    "fst (getJobByRunID i p d) = fst (getJobByRunID i q d)"
    "fst (getDatasetByJobID i p d) = fst (getDatasetByJobID i q d)" for i p q d
    by (rule same_plan_reads [OF same_plan_refl])+
  then show ?thesis
    using assms unfolding poisoned_def started_on_def by simp metis
qed

lemma poisoned_polls:
  assumes "poisoned W w t job" and "t_retry_count t + int n \<le> j_max_retries job"
  shows "\<exists>t'. poisoned W (snd (run_state (worker_loop U W n) w)) t' job
    \<and> t_retry_count t' = t_retry_count t + int n \<and> t_id t' = t_id t"
  using assms
proof (induction n arbitrary: w t)
  case 0
  then show ?case by auto
next
  case (Suc n)
  define w' where "w' = snd (run_state (pollAndProcess U W) w)"
  obtain t1 where t1: "poisoned W w' t1 job" "t_retry_count t1 = t_retry_count t + 1" "t_id t1 = t_id t"
    using poisoned_poll [OF Suc.prems(1) _ w'_def] Suc.prems(2) by auto
  then have "poisoned W (w'\<lparr>clock := clock w' + seconds 2\<rparr>) t1 job"
    by (intro poisoned_later)
  from Suc.IH [OF this] t1 Suc.prems(2) show ?case
    by (auto simp: worker_loop_Suc w'_def [symmetric] Let_def simp del: worker_loop.simps)
qed

lemma worker_loop_snoc:
  "snd (run_state (worker_loop U W (Suc n)) w) =
     (let w' = snd (run_state (pollAndProcess U W) (snd (run_state (worker_loop U W n) w)))
      in w'\<lparr>clock := clock w' + seconds 2\<rparr>)"
proof (induction n arbitrary: w)
  case (Suc n)
  have "snd (run_state (worker_loop U W (Suc (Suc n))) w) = snd (run_state (worker_loop U W (Suc n))
      (let w' = snd (run_state (pollAndProcess U W) w) in w'\<lparr>clock := clock w' + seconds 2\<rparr>))"
    by (rule arg_cong [OF worker_loop_Suc])
  then show ?case
    unfolding Suc.IH worker_loop_Suc [of U W n w] .
qed (simp add: case_prod_unfold Let_def)

text \<open>The one task has failed for good, and no poll takes it up.\<close>

definition failed_with :: "worker_env \<Rightarrow> world \<Rightarrow> int \<Rightarrow> bool" where
  "failed_with W w n \<longleftrightarrow> slots w = [] \<and> breaker_closed W
     \<and> map (\<lambda>q. (t_state q, t_retry_count q)) (tasks (data w)) = [(TaskStateFAILED, n)]"

lemma poisoned_last:
  assumes "poisoned W w t job" and "t_retry_count t = j_max_retries job"
  shows "failed_with W (snd (run_state (pollAndProcess U W) w)\<lparr>clock := c\<rparr>) (t_retry_count t)"
proof -
  define task where "task = lease_row (context_of w) (owner_of W) t"
  have leases: "leases W w task" and int: "integrity (data w)"
    using poisoned_leases assms(1) by (simp_all add: task_def poisoned_def)
  obtain x where "started_on w t job x"
    using assms(1) by (auto simp: poisoned_def)
  then have st: "started_on w task job x"
    using started_on_same same_plan_refl by (fastforce simp: task_def)
  obtain e where e: "task_runner W (runner_env U W w task job x) (clock w) = Inl e"
    using assms(1) by (auto simp: poisoned_def)
  have bounds: "int4 (t_retry_count task)" "int4 (j_max_retries job)"
    using assms(1) by (simp_all add: poisoned_def task_def)
  have rows: "tasks (snd (taskFailed i p (begun w task))) = [t]" for i p
    using assms(1) by (simp add: poisoned_def taskFailed_def case_prod_unfold Let_def)
  show ?thesis
    using run_poll_failed [OF leases int st e refl bounds] assms rows
    by (simp add: failed_with_def poisoned_def put_task_def task_def)
qed

lemma failed_stays:
  assumes "failed_with W w n"
  shows "failed_with W (snd (run_state (pollAndProcess U W) w)\<lparr>clock := c\<rparr>) n"
proof -
  obtain t where t: "tasks (data w) = [t]" "t_state t = TaskStateFAILED"
    using assms by (auto simp: failed_with_def)
  then have "leaseTask (owner_of W) (context_of w) (data w) = (Inl ErrNoRows, data w)"
    by (intro leaseTask_none) (simp add: leasable_def)
  then show ?thesis
    using assms by (simp add: failed_with_def breaker_closed_def pollAndProcess_def lease_closure_def
        run_dbcall_quiet)
qed

text \<open>
  C15: retries are bounded. A task whose runner fails every time with a transient error waits in
  the queue with one more retry after each of the first polls, as many as the job allows, and is
  failed by the next one, which no poll leases again.
\<close>
theorem poison_task_fails_after_its_retries:
  assumes "poisoned W w t job" and "t_retry_count t = 0" and "j_max_retries job = int m"
  shows "map (\<lambda>q. (t_state q, t_retry_count q)) (tasks (data (snd (run_state (worker_loop U W n) w)))) =
    (if n \<le> m then [(TaskStatePENDING, int n)] else [(TaskStateFAILED, int m)])"
proof (cases "n \<le> m")
  case True
  then obtain t' where "poisoned W (snd (run_state (worker_loop U W n) w)) t' job" "t_retry_count t' = int n"
    using poisoned_polls [OF assms(1), of n U] assms(2,3) by auto
  then show ?thesis using True by (simp add: poisoned_def)
next
  case False
  have failed: "failed_with W (snd (run_state (worker_loop U W (Suc m + k)) w)) (int m)" for k
  proof (induction k)
    case 0
    obtain t' where t': "poisoned W (snd (run_state (worker_loop U W m) w)) t' job" "t_retry_count t' = int m"
      using poisoned_polls [OF assms(1), of m U] assms(2,3) by auto
    from poisoned_last [OF t'(1), where U = U] show ?case
      using t'(2) assms(3) by (simp add: worker_loop_snoc Let_def del: worker_loop.simps)
  next
    case (Suc k)
    from failed_stays [OF Suc, where U = U] show ?case
      using worker_loop_snoc [of U W "Suc m + k" w] by (simp add: Let_def del: worker_loop.simps)
  qed
  from failed [of "n - Suc m"] False show ?thesis
    by (simp add: failed_with_def)
qed

theorem poison_task_fails_after_its_retries_witness:
  "let w = sample_world\<lparr>data := sample_db\<lparr>tasks := [sample_task 8 2 1]\<rparr>\<rparr>;
       W = sample_worker (\<lambda>_. Inl (ErrorString ''exit status 1''));
       rows = \<lambda>n. map (\<lambda>q. (t_state q, t_retry_count q)) (tasks (data (snd (run_state (worker_loop sample_uuids W n) w))))
   in rows 2 = [(TaskStatePENDING, 2)] \<and> rows 3 = [(TaskStateFAILED, 2)] \<and> rows 9 = [(TaskStateFAILED, 2)]"
proof -
  let ?w = "sample_world\<lparr>data := sample_db\<lparr>tasks := [sample_task 8 2 1]\<rparr>\<rparr>"
  let ?W = "sample_worker (\<lambda>_. Inl (ErrorString ''exit status 1''))"
  have "integrity (data ?w)"
    by (simp add: integrity_defs sample_db_def sample_rows)
  moreover have "started_on ?w (sample_task 8 2 1) sample_job sample_dataset"
    by (rule started_on_same [OF sample_started]) (simp_all add: same_plan_def, simp add: sample_task_def)
  ultimately have "poisoned ?W ?w (sample_task 8 2 1) sample_job"
    by (auto simp: poisoned_def int4_def sample_job_def) (simp_all add: sample_task_def)
  from poison_task_fails_after_its_retries [OF this, of 2 sample_uuids]
  show ?thesis
    by (simp add: Let_def sample_task_def sample_job_def del: worker_loop.simps)
qed

section \<open>The output of the runner\<close>

lemma is_digit_char: "(n :: nat) < 10 \<Longrightarrow> is_digit (char_of (48 + n))"
  by (simp add: is_digit_def)

lemma digits_of_digits: "list_all is_digit (digits_of n)" and digits_of_nonempty: "digits_of n \<noteq> []"
proof (induction n rule: digits_of.induct)
  case (1 n)
  {
    case 1
    then show ?case
      using "1.IH"(1) is_digit_char [of n] is_digit_char [of "n mod 10"]
      by (subst digits_of.simps) simp
  next
    case 2
    then show ?case by (subst digits_of.simps) simp
  }
qed

lemma digits_value_snoc: "digits_value (ds @ [c]) = 10 * digits_value ds + (of_char c - 48)"
  by (simp add: digits_value_def)

lemma digits_value_digits_of: "digits_value (digits_of n) = int n"
proof (induction n rule: digits_of.induct)
  case (1 n)
  have "of_char (char_of (48 + k)) = (48 + int k :: int)" if "k < 10" for k :: nat
  proof -
    have "of_char (char_of (48 + k)) = (48 + k :: nat)" using that by simp
    then show ?thesis by (metis of_char_of of_nat_of_char of_nat_add of_nat_numeral)
  qed
  note this [of n] this [of "n mod 10"]
  moreover have "10 * int (n div 10) + int (n mod 10) = int n"
    by (metis mult_div_mod_eq of_nat_add of_nat_mult of_nat_numeral)
  ultimately show ?case
    using 1 by (subst digits_of.simps) (simp add: digits_value_snoc, simp add: digits_value_def)
qed

lemma digit_not_sign:
  assumes "is_digit c"
  shows "c \<noteq> CHR ''-''" "c \<noteq> CHR ''+''" "\<not> is_blank c" "\<not> is_space c"
  using assms by (auto simp: is_digit_def is_blank_def is_space_def)

lemma Sscanf_Itoa:
  assumes "int8 n"
  shows "Sscanf_int64 (Itoa n) = Some n"
proof -
  define ds where "ds = digits_of (nat \<bar>n\<bar>)"
  have ds: "list_all is_digit ds" "ds \<noteq> []" "digits_value ds = \<bar>n\<bar>"
    by (simp_all add: ds_def digits_of_digits digits_of_nonempty digits_value_digits_of)
  then obtain c r where c: "ds = c # r" "is_digit c" by (cases ds) auto
  have all: "takeWhile is_digit r = r"
    using ds(1) c(1) by (simp add: list_all_iff)
  have "Itoa n = (if n < 0 then CHR ''-'' # ds else ds)"
    by (simp add: Itoa_def ds_def)
  moreover have "\<not> is_blank (CHR ''-'')" by (simp add: is_blank_def is_space_def)
  ultimately show ?thesis
    using ds c digit_not_sign [OF c(2)] assms by (auto simp: Sscanf_int64_def Let_def all)
qed

lemma last_digits_of: "\<not> is_space (last (Itoa n))"
proof -
  have "last (Itoa n) = last (digits_of (nat \<bar>n\<bar>))"
    using digits_of_nonempty by (simp add: Itoa_def)
  then show ?thesis
    using digits_of_digits [of "nat \<bar>n\<bar>"] digits_of_nonempty [of "nat \<bar>n\<bar>"] digit_not_sign(4)
    by (simp add: list_all_iff)
qed

lemma TrimSpace_tail:
  assumes "s \<noteq> []" and "\<not> is_space (hd s)" and "\<not> is_space (last s)" and "list_all is_space t"
  shows "TrimSpace (s @ t) = s"
proof -
  have "dropWhile is_space (s @ t) = s @ t"
    using assms(1,2) by (cases s) simp_all
  moreover have "dropWhile is_space (rev t @ rev s) = rev s"
    using assms(1,3,4) by (subst dropWhile_append2)
      (auto simp: list_all_iff hd_rev dropWhile_eq_self_iff)
  ultimately show ?thesis by (simp add: TrimSpace_def)
qed

text \<open>
  C38: what the runner prints is what the worker registers: the path and the size of a line
  \<open>path:size\<close>, for any 64-bit size and any path without a colon that does not start with
  white space, with or without a line end.
\<close>
theorem runner_output_is_read_back:
  assumes "CHR '':'' \<notin> set path" and "path \<noteq> []" and "\<not> is_space (hd path)" and "int8 n"
    and "list_all is_space tail"
  shows "parse_output (path @ '':'' @ Itoa n @ tail) = (path, n)"
proof -
  have ne: "Itoa n \<noteq> []"
    using digits_of_nonempty by (simp add: Itoa_def)
  have "TrimSpace ((path @ '':'' @ Itoa n) @ tail) = path @ '':'' @ Itoa n"
    using assms(2,3,5) ne last_digits_of [of n] by (intro TrimSpace_tail) simp_all
  then show ?thesis
    using SplitN2_join [OF assms(1), of "Itoa n"] Sscanf_Itoa [OF assms(4)]
    by (simp add: parse_output_def)
qed

theorem runner_output_is_read_back_witness:
  "parse_output (''2/out.csv:17'' @ [CHR 0x0A]) = (''2/out.csv'', 17)"
proof -
  have "Itoa 17 = ''17''"
    by code_simp
  then show ?thesis
    using runner_output_is_read_back [of "''2/out.csv''" 17 "[CHR 0x0A]"]
    by (simp add: int8_def is_space_def)
qed

section \<open>Heartbeats\<close>

definition extended :: "worker_env \<Rightarrow> uuid \<Rightarrow> timestamp \<Rightarrow> Task list \<Rightarrow> Task list" where
  "extended W i t ts = upd_where (\<lambda>q. t_id q = i \<and> t_lease_owner q = owner_of W)
     (\<lambda>q. q\<lparr>t_lease_expires_at := Some (t + seconds 30)\<rparr>) ts"

lemma heartbeat_row:
  assumes "list_ex (\<lambda>q. t_id q = i \<and> t_lease_owner q = owner_of W) (tasks d)"
  shows "\<exists>q. heartbeatTask i (owner_of W) p d = (Inr q, d\<lparr>tasks := extended W i (now p) (tasks d)\<rparr>)"
  using assms by (cases "filter (\<lambda>q. t_id q = i \<and> t_lease_owner q = owner_of W) (tasks d)")
    (auto simp: heartbeatTask_def update_returning_any extended_def filter_empty_conv list_ex_iff)

lemma extended_twice: "extended W i t (extended W i s ts) = extended W i t ts"
  by (induction ts) (auto simp: extended_def)

lemma extended_owner:
  "list_ex (\<lambda>q. t_id q = i \<and> t_lease_owner q = owner_of W) (extended W i t ts)
    = list_ex (\<lambda>q. t_id q = i \<and> t_lease_owner q = owner_of W) ts"
  by (induction ts) (auto simp: extended_def)

lemma run_heartbeats:
  assumes "slots w = []"
  shows "run_state (heartbeat_ticks W i (Suc n)) w =
    (if list_ex (\<lambda>q. t_id q = i \<and> t_lease_owner q = owner_of W) (tasks (data w))
     then ((), w\<lparr>data := (data w)\<lparr>tasks := extended W i (clock w + int (Suc n) * seconds 10) (tasks (data w))\<rparr>,
                 clock := clock w + int (Suc n) * seconds 10\<rparr>)
     else ((), w\<lparr>clock := clock w + seconds 10\<rparr>))"
proof (cases "list_ex (\<lambda>q. t_id q = i \<and> t_lease_owner q = owner_of W) (tasks (data w))")
  case False
  then have none: "heartbeatTask i (owner_of W) p (data w) = (Inl ErrNoRows, data w)" for p
    by (simp add: heartbeatTask_def update_returning_any list_ex_iff filter_False upd_where_none)
  from False show ?thesis
    using assms by (simp add: run_wait_quiet run_dbcall_quiet none)
next
  case True
  with assms show ?thesis
  proof (induction n arbitrary: w)
    case 0
    define w1 where "w1 = w\<lparr>clock := clock w + seconds 10\<rparr>"
    obtain q where "heartbeatTask i (owner_of W) (context_of w1) (data w1)
        = (Inr q, (data w)\<lparr>tasks := extended W i (clock w + seconds 10) (tasks (data w))\<rparr>)"
      using heartbeat_row [of i W "data w" "context_of w1"] 0 by (auto simp: w1_def)
    with 0 show ?case
      by (simp add: run_wait_quiet w1_def [symmetric]) (simp add: run_dbcall_quiet w1_def)
  next
    case (Suc n)
    define w1 where "w1 = w\<lparr>clock := clock w + seconds 10\<rparr>"
    define w2 where "w2 = w1\<lparr>data := (data w)\<lparr>tasks := extended W i (clock w + seconds 10) (tasks (data w))\<rparr>\<rparr>"
    obtain q where "heartbeatTask i (owner_of W) (context_of w1) (data w1)
        = (Inr q, (data w)\<lparr>tasks := extended W i (clock w + seconds 10) (tasks (data w))\<rparr>)"
      using heartbeat_row [of i W "data w" "context_of w1"] Suc.prems by (auto simp: w1_def)
    moreover have q1: "slots w1 = []" using Suc.prems(1) by (simp add: w1_def)
    ultimately have step: "run_state (heartbeat_ticks W i (Suc (Suc n))) w = run_state (heartbeat_ticks W i (Suc n)) w2"
      using Suc.prems(1)
      by (subst heartbeat_ticks.simps)
        (simp add: run_wait_quiet w1_def [symmetric] run_dbcall_quiet q1 w2_def del: heartbeat_ticks.simps)
    have "slots w2 = []" "list_ex (\<lambda>q. t_id q = i \<and> t_lease_owner q = owner_of W) (tasks (data w2))"
      using Suc.prems by (simp_all add: w2_def w1_def extended_owner)
    from Suc.IH [OF this] this(2) Suc.prems(2) show ?case
      unfolding step by (simp add: w2_def w1_def extended_twice algebra_simps del: heartbeat_ticks.simps)
  qed
qed

text \<open>
  C39: heartbeats keep a lease alive. While the task is leased to the worker, its lease reaches 30
  seconds beyond the last tick, and ticks are ten seconds apart, so that it never runs out; a
  worker that is not the owner changes no row, and gives up after its first tick.
\<close>
theorem heartbeats_keep_own_lease:
  assumes "slots w = []"
  shows "run_state (heartbeat_ticks W i (Suc n)) w =
    (if list_ex (\<lambda>q. t_id q = i \<and> t_lease_owner q = owner_of W) (tasks (data w))
     then ((), w\<lparr>data := (data w)\<lparr>tasks := extended W i (clock w + int (Suc n) * seconds 10) (tasks (data w))\<rparr>,
                 clock := clock w + int (Suc n) * seconds 10\<rparr>)
     else ((), w\<lparr>clock := clock w + seconds 10\<rparr>))"
  by (rule run_heartbeats [OF assms])

theorem heartbeats_keep_own_lease_witness:
  "map t_lease_expires_at (tasks (data (snd (run_state (heartbeat_ticks
      ((sample_worker (\<lambda>_. Inr []))\<lparr>workerID := ''w1''\<rparr>) 6 3) sample_world)))) = [Some 60000010, None, None]
   \<and> clock (snd (run_state (heartbeat_ticks (sample_worker (\<lambda>_. Inr [])) 6 3) sample_world)) = 10000010"
  using heartbeats_keep_own_lease [of sample_world "(sample_worker (\<lambda>_. Inr []))\<lparr>workerID := ''w1''\<rparr>" 6 2]
    heartbeats_keep_own_lease [of sample_world "sample_worker (\<lambda>_. Inr [])" 6 2]
  by (simp add: extended_def sample_db_def sample_leased_def sample_task_def seconds_def
      eval_nat_numeral)

end
