(* ===== verification/Access.thy ===== *)
theory Access imports Worker_Polls begin

text \<open>
  Who may do what through the gateway: the token check in front of the protected routes, the way
  from registration over login to an authenticated request, reads that stay within the workspace
  they name, and the deletion of workspaces.
\<close>

section \<open>The token check\<close>

text \<open>The header carries a token that the library accepts at time \<open>t\<close>.\<close>

definition accepted :: "gateway \<Rightarrow> timestamp \<Rightarrow> string \<Rightarrow> (string \<times> json) list option" where
  "accepted g t header =
     (case SplitN2 header CHR '' '' of
        [scheme, token] \<Rightarrow>
          (if scheme = ''Bearer'' then
             (case jwt_Parse (gw_auth g) t token (gw_secret g) of
                Inr (claims, valid) \<Rightarrow> (if valid then Some claims else None)
              | Inl _ \<Rightarrow> None)
           else None)
      | _ \<Rightarrow> None)"

text \<open>
  C22: a protected route is only reached with a bearer token that the library accepts at the time
  of the request; without one the answer is status 401 and the request has no effect at all, on the
  tables, the topics, Redis or the cluster.
\<close>
theorem protected_routes_need_a_valid_token:
  assumes "\<not> open_route req" and "accepted g (clock w) header = None"
  shows "\<exists>msg. run_state (serve g salt tp header req) w = ((401, ErrorBody msg), w)"
proof (cases "header = []")
  case True
  then show ?thesis
    using assms(1) by (simp add: serve_def AuthMiddleware_def reply_def)
next
  case False
  have "SplitN2 header CHR '' '' = [header] \<or> (\<exists>a b. SplitN2 header CHR '' '' = [a, b])"
    by (simp add: SplitN2_def)
  then show ?thesis
    using assms False
    by (auto simp: serve_def AuthMiddleware_def reply_def accepted_def split: sum.splits prod.splits if_splits)
qed

theorem protected_routes_need_a_valid_token_witness:
  "\<exists>msg. run_state (serve sample_gateway 0 [] ''Bearer forged'' (PostJobCancel (uuid_text 4))) sample_world
     = ((401, ErrorBody msg), sample_world)"
proof (rule protected_routes_need_a_valid_token)
  have "SplitN2 ''Bearer forged'' CHR '' '' = [''Bearer'', ''forged'']"
    using SplitN2_join [of "CHR '' ''" "''Bearer''" "''forged''"] by simp
  then show "accepted sample_gateway (clock sample_world) ''Bearer forged'' = None"
    by (simp add: accepted_def sample_gateway_def)
qed simp

section \<open>From registration to an authenticated request\<close>

text \<open>
  What the services rely on. \<open>bcrypt\<close>: a hash matches the password it was made from, and
  no other of at most 72 bytes without a zero byte. \<open>jwt\<close>: a signed token gives its
  claims back until it expires, and is refused from then on.
\<close>

definition plain :: "string \<Rightarrow> bool" where
  "plain pw \<longleftrightarrow> length pw \<le> 72 \<and> CHR 0x00 \<notin> set pw"

definition bcrypt_ok :: "auth_lib \<Rightarrow> bool" where
  "bcrypt_ok L \<longleftrightarrow> (\<forall>salt pw pw' h. GenerateFromPassword L salt pw = Inr h \<and> plain pw \<and> plain pw' \<longrightarrow>
     (CompareHashAndPassword L h pw' = None \<longleftrightarrow> pw' = pw))"

definition jwt_ok :: "auth_lib \<Rightarrow> bool" where
  "jwt_ok L \<longleftrightarrow> (\<forall>claims secret tok t e. SignedString L claims secret = Inr tok
      \<and> map_of claims ''exp'' = Some (JNumber (Itoa e)) \<longrightarrow>
     (if t < seconds e then jwt_Parse L t tok secret = Inr (claims, True)
      else isl (jwt_Parse L t tok secret)))"

text \<open>
  A library that behaves like this: it hashes by tagging, and signs the tokens of one user that
  logs in at one time.
\<close>

definition sample_auth :: "User \<Rightarrow> timestamp \<Rightarrow> auth_lib" where
  "sample_auth user t0 =
     \<lparr>GenerateFromPassword = (\<lambda>salt pw. if length pw \<le> 72 then Inr (''$2a$'' @ pw)
        else Inl (ErrorString ''bcrypt: password length exceeds 72 bytes'')),
      CompareHashAndPassword = (\<lambda>h pw. if h = ''$2a$'' @ pw then None
        else Some (ErrorString ''crypto/bcrypt: hashedPassword is not the hash of the given password'')),
      SignedString = (\<lambda>claims secret. if claims = login_claims sample_uuids user t0 then Inr (''jwt.'' @ secret)
        else Inl (ErrorString ''key is invalid'')),
      jwt_Parse = (\<lambda>t token secret.
        if token = ''jwt.'' @ secret \<and> t < seconds ((t0 + hours 24) div seconds 1)
        then Inr (login_claims sample_uuids user t0, True)
        else Inl (ErrorString ''token is expired or its signature is invalid''))\<rparr>"

lemma Itoa_inj: "Itoa a = Itoa b \<Longrightarrow> a = b"
proof -
  assume eq: "Itoa a = Itoa b"
  have sign: "digits_of n \<noteq> CHR ''-'' # r" for n r
  proof
    assume "digits_of n = CHR ''-'' # r"
    then have "is_digit (CHR ''-'')"
      using digits_of_digits [of n] by simp
    then show False by (simp add: is_digit_def)
  qed
  have val: "m = n" if "digits_of m = digits_of n" for m n
    by (metis digits_value_digits_of of_nat_eq_iff that)
  show "a = b"
  proof (cases "a < 0")
    case True
    then show ?thesis
      using eq sign [of "nat b" "digits_of (nat (- a))"] val [of "nat (- a)" "nat (- b)"] by (cases "b < 0") (simp_all add: Itoa_def)
  next
    case False
    then show ?thesis
      using eq sign [of "nat a" "digits_of (nat (- b))"] val [of "nat a" "nat b"] by (cases "b < 0") (simp_all add: Itoa_def)
  qed
qed

lemma sample_auth_ok [simp]: "bcrypt_ok (sample_auth user t0)" "jwt_ok (sample_auth user t0)"
proof -
  show "bcrypt_ok (sample_auth user t0)"
    by (auto simp: bcrypt_ok_def sample_auth_def plain_def)
  show "jwt_ok (sample_auth user t0)"
    by (auto simp: jwt_ok_def sample_auth_def login_claims_def isl_def dest!: Itoa_inj split: if_splits)
qed

lemma run_Register:
  assumes "slots w = []" and "GenerateFromPassword L salt pw = Inr h"
    and "\<not> has_key u_id (users (data w)) (uuids w (drawn (data w)))"
    and "email \<notin> set (map u_email (users (data w)))"
  shows "run_state (Register L salt email pw) w =
    (Inr \<lparr>u_id = uuids w (drawn (data w)), u_email = email, u_password_hash = h,
          u_role = UserRoleViewer, u_created_at = clock w\<rparr>,
     w\<lparr>data := (data w)\<lparr>drawn := Suc (drawn (data w)), users := users (data w) @
         [\<lparr>u_id = uuids w (drawn (data w)), u_email = email, u_password_hash = h,
           u_role = UserRoleViewer, u_created_at = clock w\<rparr>]\<rparr>\<rparr>)"
  using assms by (simp add: Register_def run_checked run_dbcall_quiet createUser_def draw_def Let_def)

text \<open>
  C23: a registered user can log in, with the password of the registration and no other: the right
  one gives the signed token of that user with the role of a viewer, any other the same error as an
  unknown address.
\<close>
theorem registered_password_logs_in:
  assumes "slots w = []" and "bcrypt_ok L" and "GenerateFromPassword L salt pw = Inr h"
    and "plain pw" and "plain pw'"
    and "\<not> has_key u_id (users (data w)) (uuids w (drawn (data w)))"
    and "email \<notin> set (map u_email (users (data w)))"
    and "run_state (Register L salt email pw) w = (Inr user, w1)"
    and "SignedString L (login_claims U user (clock w1)) secret = Inr tok"
  shows "run_state (Login L U email pw' secret) w1 =
      ((if pw' = pw then Inr tok else Inl invalid_credentials), w1)
    \<and> u_email user = email \<and> u_role user = UserRoleViewer"
proof -
  have "filter (\<lambda>u. u_email u = email) (users (data w)) = []"
    using assms(7) by (auto simp: filter_empty_conv)
  moreover have "CompareHashAndPassword L h pw' = None \<longleftrightarrow> pw' = pw"
    using assms(2-5) by (auto simp: bcrypt_ok_def)
  moreover have user: "user = \<lparr>u_id = uuids w (drawn (data w)), u_email = email, u_password_hash = h,
      u_role = UserRoleViewer, u_created_at = clock w\<rparr>"
    and "users (data w1) = users (data w) @ [user]" "slots w1 = []"
    using run_Register [OF assms(1,3,6,7)] assms(1,8) by auto
  ultimately show ?thesis
    using assms(9)
    by (auto simp: Login_def run_checked run_dbcall_quiet getUserByEmail_def split: option.splits)
qed

theorem registered_password_logs_in_witness:
  "let user = \<lparr>u_id = 100, u_email = ''bob@example.org'', u_password_hash = ''$2a$secret'',
          u_role = UserRoleViewer, u_created_at = 10\<rparr>;
       L = sample_auth user 10;
       w1 = snd (run_state (Register L 0 ''bob@example.org'' ''secret'') sample_world)
   in fst (run_state (Login L sample_uuids ''bob@example.org'' ''secret'' ''k'') w1) = Inr ''jwt.k''
      \<and> fst (run_state (Login L sample_uuids ''bob@example.org'' ''Secret'' ''k'') w1) = Inl invalid_credentials"
proof -
  let ?user = "\<lparr>u_id = 100, u_email = ''bob@example.org'', u_password_hash = ''$2a$secret'',
          u_role = UserRoleViewer, u_created_at = 10\<rparr>"
  let ?L = "sample_auth ?user 10"
  have hash: "GenerateFromPassword ?L 0 ''secret'' = Inr ''$2a$secret''"
    by (simp add: sample_auth_def)
  have fresh: "\<not> has_key u_id (users (data sample_world)) (uuids sample_world (drawn (data sample_world)))"
    "''bob@example.org'' \<notin> set (map u_email (users (data sample_world)))"
    by (simp_all add: sample_db_def sample_user_def sample_gen)
  obtain w1 where w1: "run_state (Register ?L 0 ''bob@example.org'' ''secret'') sample_world = (Inr ?user, w1)"
    "clock w1 = 10"
    using run_Register [OF _ hash fresh] by (simp add: sample_db_def sample_gen)
  have signed: "SignedString ?L (login_claims sample_uuids ?user (clock w1)) ''k'' = Inr ''jwt.k''"
    by (simp add: sample_auth_def w1(2))
  note login = registered_password_logs_in [OF _ sample_auth_ok(1) hash _ _ fresh w1(1) signed]
  show ?thesis
    using login [of "''secret''"] login [of "''Secret''"] w1(1) by (simp add: Let_def plain_def)
qed



section \<open>Reads within a workspace\<close>

lemma dbcall_Inr:
  assumes "run_state (dbcall q) w = (Inr x, w')"
  obtains p d where "fst (q p d) = Inr x"
proof -
  obtain ft w1 where "run_state arrive w = (ft, w1)" by fastforce
  then have "fst (q (context_of w1) (data w1)) = Inr x"
    using assms by (auto simp: dbcall_def call_def case_prod_unfold Let_def split: fate.splits)
  then show thesis by (rule that)
qed

lemma or_error_ok:
  assumes "run_state (or_error status text m k) w = ((200, b), w')" and "status \<noteq> 200"
  obtains x w1 where "run_state m w = (Inr x, w1)" "run_state (k x) w1 = ((200, b), w')"
  using assms by (auto simp: or_error_def reply_def split: prod.splits sum.splits)

lemma parsed_ok:
  assumes "run_state (parsed U i msg k) w = (Inr x, w')"
  obtains u where "uuid_Parse U i = Inr u" "run_state (k u) w = (Inr x, w')"
  using assms by (auto simp: parsed_def split: sum.splits)

text \<open>The rows of a response belong to one workspace.\<close>

fun of_workspace :: "uuid \<Rightarrow> body \<Rightarrow> bool" where
  "of_workspace ws (JobBody j) = (j_workspace_id j = ws)"
| "of_workspace ws (JobsBody js) = list_all (\<lambda>j. j_workspace_id j = ws) js"
| "of_workspace ws (DatasetBody x) = (d_workspace_id x = ws)"
| "of_workspace ws (DatasetsBody xs) = list_all (\<lambda>x. d_workspace_id x = ws) xs"
| "of_workspace ws b = False"

text \<open>
  C25: a read that succeeds returns rows of the workspace that the request names and of no other,
  for jobs and datasets, alone and in lists, whatever other processes do in between and whichever
  calls fail.
\<close>
theorem reads_stay_in_the_named_workspace:
  assumes "req \<in> {GetJobReq i ws, GetJobs ws, GetDatasetReq i ws, GetDatasets ws}"
    and "run_state (serve g salt tp header req) w = ((200, b), w')"
  shows "\<exists>wsid. uuid_Parse (gw_uuid g) ws = Inr wsid \<and> of_workspace wsid b"
proof -
  obtain user role where r: "run_state (route g salt tp user role req) w = ((200, b), w')"
    using assms
    by (auto simp: serve_def AuthMiddleware_def reply_def split: if_splits list.splits sum.splits prod.splits)
  have job: "j_workspace_id j = u'" if "fst (getJobByID u u' p d) = Inr j" for u u' p d j
    using getJobByID_Inr [OF that] by simp
  have ds: "d_workspace_id x = u'" if "fst (getDatasetByID u u' p d) = Inr x" for u u' p d x
    using that by (auto simp: getDatasetByID_def one_Inr filter_eq_Cons_iff)
  have jobs: "list_all (\<lambda>j. j_workspace_id j = u') js" if "fst (listJobsByWorkspace u' p d) = Inr js" for u' p d js
    using that by (auto simp: listJobsByWorkspace_def list_all_iff)
  have dss: "list_all (\<lambda>x. d_workspace_id x = u') xs" if "fst (listDatasetsByWorkspace u' p d) = Inr xs" for u' p d xs
    using that by (auto simp: listDatasetsByWorkspace_def list_all_iff)
  from assms(1) consider "req = GetJobReq i ws" | "req = GetJobs ws" | "req = GetDatasetReq i ws"
    | "req = GetDatasets ws" by blast
  then show ?thesis
  proof cases
    case 1
    then show ?thesis
      using r by (auto simp: JobHandler_Get_def need_workspace_def reply_def GetJob_def
          elim!: or_error_ok parsed_ok dbcall_Inr dest!: job split: if_splits)
  next
    case 2
    then show ?thesis
      using r by (auto simp: JobHandler_List_def need_workspace_def reply_def ListJobs_def
          elim!: or_error_ok parsed_ok dbcall_Inr dest!: jobs split: if_splits)
  next
    case 3
    then show ?thesis
      using r by (auto simp: DatasetHandler_GetByID_def reply_def GetDataset_def
          elim!: or_error_ok parsed_ok dbcall_Inr dest!: ds)
  next
    case 4
    then show ?thesis
      using r by (auto simp: DatasetHandler_List_def reply_def ListDatasets_def
          elim!: or_error_ok parsed_ok dbcall_Inr dest!: dss)
  qed
qed

theorem reads_stay_in_the_named_workspace_witness:
  "\<exists>wsid. uuid_Parse sample_uuids (uuid_text 2) = Inr wsid \<and> of_workspace wsid (JobBody sample_job)"
proof -
  have split: "SplitN2 ''Bearer token'' CHR '' '' = [''Bearer'', ''token'']"
    using SplitN2_join [of "CHR '' ''" "''Bearer''" "''token''"] by simp
  have ne: "uuid_text 2 \<noteq> []"
    by (simp add: uuid_text_def dashed_def)
  have found: "getJobByID 4 2 sample_pg sample_db = (Inr sample_job, sample_db)"
    by (simp add: getJobByID_def sample_db_def) (simp add: sample_job_def)
  have "run_state (serve sample_gateway 0 [] ''Bearer token'' (GetJobReq (uuid_text 4) (uuid_text 2))) sample_world
      = ((200, JobBody sample_job), sample_world\<lparr>data := sample_db\<rparr>)"
    using ne by (simp add: serve_def AuthMiddleware_def split sample_gateway_def JobHandler_Get_def
        need_workspace_def or_error_def GetJob_def parsed_def run_dbcall_quiet found reply_def)
  from reads_stay_in_the_named_workspace [OF _ this, of "uuid_text 4" "uuid_text 2"]
  show ?thesis by (simp add: sample_gateway_def)
qed

text \<open>
  C26: only the owner deletes a workspace, but the answer does not tell: for anyone else, and for a
  workspace that does not exist, the request is answered with success and changes nothing. The
  owner's request removes the workspace with everything in it, unless a job of another workspace
  uses one of its datasets; then it fails and changes nothing.
\<close>
theorem only_the_owner_deletes_a_workspace:
  assumes "slots w = []" and "integrity (data w)"
    and "uuid_Parse (gw_uuid g) i = Inr wsid" and "uuid_Parse (gw_uuid g) user = Inr own"
    and "owns = list_ex (\<lambda>x. w_id x = wsid \<and> w_owner_id x = own) (workspaces (data w))"
    and "gone = cascade_workspaces [wsid] (data w)"
  shows "run_state (WorkspaceHandler_Delete g i user) w =
    (if \<not> owns then ((200, MessageBody ''workspace deleted''), w)
     else if jobs_have_datasets gone then ((200, MessageBody ''workspace deleted''), w\<lparr>data := gone\<rparr>)
     else ((500, ErrorBody (error_text fk_violation)), w))"
proof -
  let ?found = "filter (\<lambda>x. w_id x = wsid \<and> w_owner_id x = own) (workspaces (data w))"
  have ids: "distinct (map w_id (workspaces (data w)))"
    using assms(2) by (simp add: integrity_defs)
  have casc: "cascade_workspaces (map w_id ?found) (data w) = (if owns then gone else data w)"
  proof (cases owns)
    case True
    then obtain x where x: "x \<in> set ?found"
      using assms(5) by (auto simp: list_ex_iff)
    then have "set (map w_id ?found) = {wsid}" by auto
    then show ?thesis
      using True by (simp only: cascade_workspaces_def assms(6)) simp
  next
    case False
    then have "?found = []"
      using assms(5) by (auto simp: list_ex_iff filter_empty_conv)
    then show ?thesis
      using False by (simp add: cascade_workspaces_def del_where_def)
  qed
  have "jobs_have_datasets (data w)"
    using assms(2) by (simp add: jobs_have_datasets_def integrity_defs list_all_iff)
  then show ?thesis
    using assms(1,3,4) casc
    by (simp add: WorkspaceHandler_Delete_def or_error_def DeleteWorkspace_svc_def parsed_def
        run_dbcall_quiet deleteWorkspace_def Let_def reply_def)
qed

theorem only_the_owner_deletes_a_workspace_witness:
  "run_state (WorkspaceHandler_Delete sample_gateway (uuid_text 2) (uuid_text 77)) sample_world
     = ((200, MessageBody ''workspace deleted''), sample_world)
   \<and> workspaces (data (snd (run_state (WorkspaceHandler_Delete sample_gateway (uuid_text 2) (uuid_text 1)) sample_world))) = []"
proof -
  have p: "uuid_Parse (gw_uuid sample_gateway) (uuid_text j) = Inr j" for j
    by (simp add: sample_gateway_def)
  have int: "integrity (data sample_world)" by simp
  note del = only_the_owner_deletes_a_workspace [OF _ int p p refl refl]
  show ?thesis
    using del [of 2 77] del [of 2 1]
    by (simp add: sample_db_def sample_rows cascade_workspaces_def jobs_have_datasets_def del_where_def)
qed

end
