(* ===== verification/Controllers.thy ===== *)
theory Controllers imports Calm begin

text \<open>
  The controllers on a timer: the autoscaler's tick, the bounds of the replicas under every fault,
  and what one round of the cleanup deletes.
\<close>

section \<open>The autoscaler\<close>

definition pending_tasks :: "db \<Rightarrow> int" where
  "pending_tasks d = int (length (filter (\<lambda>t. t_state t = TaskStatePENDING) (tasks d)))"

definition leased_tasks :: "db \<Rightarrow> int" where
  "leased_tasks d = int (length (filter (\<lambda>t. t_state t = TaskStateLEASED) (tasks d)))"

lemma run_tick:
  assumes "slots w = []" and "deployment (kube w) = Some (Some r)" and "int4 (r + 1)" and "int4 (r - 1)"
    and "run_state (evaluate cfg True since) w = ((res, since'), w')"
  shows "slots w' = [] \<and> clock w' = clock w \<and> res = Inr () \<and> data w' = data w \<and>
    (deployment (kube w'), since') =
      (if in_cooldown cfg since (clock w) then (Some (Some r), since)
       else if ScaleUpThreshold cfg < pending_tasks (data w) \<and> r < MaxWorkers cfg
       then (Some (Some (r + 1)), Some (clock w))
       else if pending_tasks (data w) \<le> ScaleDownThreshold cfg \<and> leased_tasks (data w) = 0
               \<and> MinWorkers cfg < r
       then (Some (Some (r - 1)), Some (clock w))
       else (Some (Some r), since))"
proof -
  have get: "run_state GetWorkerReplicas v = (Inr r, v)" if "slots v = []" "kube v = kube w" for v
    using that assms(2)
    by (simp add: GetWorkerReplicas_def kube_call_def run_checked run_call_quiet Let_def)
  have set: "run_state (SetWorkerReplicas n) v = (Inr (), v\<lparr>kube := (kube v)\<lparr>deployment := Some (Some n)\<rparr>\<rparr>)"
    if "slots v = []" "kube v = kube w" for v n
    using that assms(2)
    by (simp add: SetWorkerReplicas_def kube_call_def run_checked run_call_quiet Let_def)
  show ?thesis
    using assms(1,3-5)
    by (auto simp: evaluate_def run_dbcall_quiet getPendingTaskCount_def getRunningTaskCount_def
        pending_tasks_def leased_tasks_def run_SetGauge get set assms(2) decide_def scale_to_def
        split: if_splits)
qed

text \<open>
  C20: one tick, when nothing fails. In the cool-down nothing changes. After it, more pending tasks
  than the upper threshold add one replica below the maximum; no running task and at most as many
  pending ones as the lower threshold take one away above the minimum; otherwise the replicas stay.
  A change starts a new cool-down, and the tables are only read.
\<close>
theorem tick_scales_by_load:
  assumes "slots w = []" and "deployment (kube w) = Some (Some r)" and "int4 (r + 1)" and "int4 (r - 1)"
    and "run_state (evaluate cfg True since) w = ((res, since'), w')"
  shows "res = Inr () \<and> data w' = data w \<and>
    (deployment (kube w'), since') =
      (if in_cooldown cfg since (clock w) then (Some (Some r), since)
       else if ScaleUpThreshold cfg < pending_tasks (data w) \<and> r < MaxWorkers cfg
       then (Some (Some (r + 1)), Some (clock w))
       else if pending_tasks (data w) \<le> ScaleDownThreshold cfg \<and> leased_tasks (data w) = 0
               \<and> MinWorkers cfg < r
       then (Some (Some (r - 1)), Some (clock w))
       else (Some (Some r), since))"
  using run_tick [OF assms] by blast

theorem tick_scales_by_load_witness:
  "deployment (kube (snd (run_state (evaluate (default_config\<lparr>ScaleUpThreshold := 1\<rparr>) True None) sample_world)))
     = Some (Some 3)
   \<and> deployment (kube (snd (run_state (evaluate (default_config\<lparr>ScaleUpThreshold := 1\<rparr>) True (Some 0)) sample_world)))
     = Some (Some 2)"
proof -
  let ?cfg = "default_config\<lparr>ScaleUpThreshold := 1\<rparr>"
  obtain res since w' where tick: "run_state (evaluate ?cfg True None) sample_world = ((res, since), w')"
    by (metis prod.collapse)
  obtain res2 since2 w2 where tick2: "run_state (evaluate ?cfg True (Some 0)) sample_world = ((res2, since2), w2)"
    by (metis prod.collapse)
  have "pending_tasks sample_db = 2"
    by (simp add: pending_tasks_def sample_db_def sample_leased_def sample_task_def)
  then show ?thesis
    using tick_scales_by_load [OF _ _ _ _ tick] tick_scales_by_load [OF _ _ _ _ tick2] tick tick2
    by (simp add: int4_def default_config_def in_cooldown_def seconds_def)
qed

text \<open>What a tick does to the replicas, whatever fails: a relation that every call keeps.\<close>

definition in_bounds :: "AutoscalerConfig \<Rightarrow> int \<Rightarrow> bool" where
  "in_bounds cfg n \<longleftrightarrow> MinWorkers cfg \<le> n \<and> n \<le> MaxWorkers cfg"

text \<open>A deployment without the field counts as one replica.\<close>

definition scaled :: "AutoscalerConfig \<Rightarrow> world \<Rightarrow> bool" where
  "scaled cfg w \<longleftrightarrow> (case deployment (kube w) of None \<Rightarrow> True
     | Some None \<Rightarrow> in_bounds cfg 1 | Some (Some n) \<Rightarrow> in_bounds cfg n)"

definition keeps_scale :: "AutoscalerConfig \<Rightarrow> world \<Rightarrow> world \<Rightarrow> bool" where
  "keeps_scale cfg w w' \<longleftrightarrow> (scaled cfg w \<longrightarrow> scaled cfg w')"

interpretation scale: kept_relation "keeps_scale cfg" for cfg
  by unfold_locales (auto simp: keeps_scale_def)

lemma arrive_kube: "run_state arrive w = (ft, w1) \<Longrightarrow> kube w1 = kube w"
  by (auto simp: arrive_def interfere_def Let_def split: list.splits)

lemma scale_call:
  assumes "\<And>w. keeps_scale cfg w (snd (f w))"
  shows "state_io_rel (keeps_scale cfg) (call f)"
proof -
  have "state_io_rel (keeps_scale cfg) arrive"
    by (rule state_io_relI) (auto dest: arrive_kube simp: keeps_scale_def scaled_def)
  moreover have "state_io_rel (keeps_scale cfg)
      (case ft of Served \<Rightarrow> State f | Refused e \<Rightarrow> State_Monad.return (Inl e)
       | Lost e \<Rightarrow> State (\<lambda>w. (Inl e, snd (f w))))" for ft
    using assms by (cases ft) (auto intro!: state_io_relI scale.kept_return; metis snd_conv)+
  ultimately show ?thesis
    unfolding call_def by (intro scale.kept_bind)
qed

lemma scale_calls:
  "state_io_rel (keeps_scale cfg) (dbcall q)" "state_io_rel (keeps_scale cfg) (SetGauge m k)"
  "state_io_rel (keeps_scale cfg) (kube_call (\<lambda>c. (h c, c)))"
  unfolding dbcall_def kube_call_def SetGauge_def
  by (rule scale_call scale.kept_modify, simp add: keeps_scale_def scaled_def case_prod_unfold Let_def)+

lemma scale_wait: "state_io_rel (keeps_scale cfg) (wait t)"
proof -
  have "state_io_rel (keeps_scale cfg) arrive"
    by (rule state_io_relI) (auto dest: arrive_kube simp: keeps_scale_def scaled_def)
  moreover have "state_io_rel (keeps_scale cfg)
      (case ft of Served \<Rightarrow> State (\<lambda>w. (True, w\<lparr>clock := clock w + t\<rparr>))
       | _ \<Rightarrow> State_Monad.return False)" for ft
    by (cases ft) (auto intro!: state_io_relI scale.kept_return simp: keeps_scale_def scaled_def)
  ultimately show ?thesis
    unfolding wait_def by (intro scale.kept_bind)
qed

lemma scale_set:
  assumes "in_bounds cfg n"
  shows "state_io_rel (keeps_scale cfg) (SetWorkerReplicas n)"
proof -
  have "state_io_rel (keeps_scale cfg) (kube_call (\<lambda>c. case deployment c of
      None \<Rightarrow> (Inl not_found, c) | Some _ \<Rightarrow> (Inr (), c\<lparr>deployment := Some (Some n)\<rparr>)))"
    unfolding kube_call_def using assms
    by (intro scale_call) (auto simp: keeps_scale_def scaled_def Let_def split: option.splits)
  then show ?thesis
    unfolding SetWorkerReplicas_def by (intro scale.kept_intros scale_calls)
qed

text \<open>The replicas that the autoscaler reads are those of the deployment.\<close>

lemma GetWorkerReplicas_reads:
  assumes "run_state GetWorkerReplicas w = (Inr n, w')" and "scaled cfg w"
  shows "in_bounds cfg n \<and> scaled cfg w'"
proof -
  let ?f = "\<lambda>c. (case deployment c of None \<Rightarrow> Inl not_found | Some r \<Rightarrow> Inr r, c)"
  obtain r where r: "run_state (kube_call ?f) w = (Inr r, w')" "n = (case r of None \<Rightarrow> 1 | Some n \<Rightarrow> n)"
    using assms(1) by (auto simp: GetWorkerReplicas_def run_checked split: prod.splits sum.splits)
  obtain ft w1 where ft: "run_state arrive w = (ft, w1)" by fastforce
  have "ft = Served" "w1 = w'" "deployment (kube w1) = Some r"
    using r(1) ft by (auto simp: kube_call_def call_def Let_def split: fate.splits option.splits)
  with arrive_kube [OF ft] assms(2) r(2) show ?thesis
    by (auto simp: scaled_def split: option.splits)
qed

lemma decide_in_bounds:
  assumes "in_bounds cfg c" and "int4 (MinWorkers cfg)" and "int4 (MaxWorkers cfg)"
  shows "decide cfg p q c = ScaleUp n \<Longrightarrow> in_bounds cfg n" and "decide cfg p q c = ScaleDown n \<Longrightarrow> in_bounds cfg n"
  using assms by (auto simp: decide_def in_bounds_def int4_def split: if_splits)

lemma scale_evaluate:
  assumes "int4 (MinWorkers cfg)" and "int4 (MaxWorkers cfg)"
  shows "state_io_rel (keeps_scale cfg) (evaluate cfg has_k8s since)"
proof -
  have to: "in_bounds cfg n \<Longrightarrow> state_io_rel (keeps_scale cfg) (scale_to n since)" for n
    unfolding scale_to_def by (intro scale.kept_intros scale_set scale_calls)
  have act: "state_io_rel (keeps_scale cfg)
      (case decide cfg p q c of ScaleUp n \<Rightarrow> scale_to n since | ScaleDown n \<Rightarrow> scale_to n since
       | Keep \<Rightarrow> State_Monad.return (Inr (), since))" if "in_bounds cfg c" for p q c
  proof (cases "decide cfg p q c")
    case (ScaleUp n)
    then show ?thesis using to decide_in_bounds(1) [OF that assms] by simp
  next
    case (ScaleDown n)
    then show ?thesis using to decide_in_bounds(2) [OF that assms] by simp
  qed (simp add: scale.kept_return)
  have get: "state_io_rel (keeps_scale cfg) (State_Monad.bind GetWorkerReplicas k)"
    if "\<And>c. in_bounds cfg c \<Longrightarrow> state_io_rel (keeps_scale cfg) (k (Inr c))"
      "\<And>e. state_io_rel (keeps_scale cfg) (k (Inl e))" for k :: "_ \<Rightarrow> (world, (go_error + unit) \<times> timestamp option) state"
  proof (rule state_io_relI)
    fix x w w'
    assume "run_state (State_Monad.bind GetWorkerReplicas k) w = (x, w')"
    then obtain r w1 where run: "run_state GetWorkerReplicas w = (r, w1)" "run_state (k r) w1 = (x, w')"
      by (auto split: prod.splits)
    have keep: "state_io_rel (keeps_scale cfg) GetWorkerReplicas"
      unfolding GetWorkerReplicas_def by (intro scale.kept_intros scale_calls)
    show "keeps_scale cfg w w'"
      unfolding keeps_scale_def
    proof
      assume sc: "scaled cfg w"
      show "scaled cfg w'"
      proof (cases r)
        case (Inl e)
        then show ?thesis
          using state_io_relD [OF that(2) run(2) [unfolded Inl]] state_io_relD [OF keep run(1)] sc
          by (simp add: keeps_scale_def)
      next
        case (Inr c)
        then show ?thesis
          using GetWorkerReplicas_reads [OF run(1) [unfolded Inr] sc]
            state_io_relD [OF that(1) run(2) [unfolded Inr]]
          by (simp add: keeps_scale_def)
      qed
    qed
  qed
  show ?thesis
    unfolding evaluate_def by (intro scale.kept_intros scale_calls get act; simp)
qed

text \<open>
  C17: however long the autoscaler runs, whichever of its calls fail or are lost, and whatever the
  other services do to the tables, replicas that start between the configured bounds stay there.
\<close>
theorem replicas_stay_between_bounds:
  assumes "deployment (kube w) = Some (Some r)" and "in_bounds cfg r"
    and "int4 (MinWorkers cfg)" and "int4 (MaxWorkers cfg)"
    and "deployment (kube (snd (run_state (autoscaler_loop cfg has_k8s n since) w))) = Some (Some r')"
  shows "MinWorkers cfg \<le> r' \<and> r' \<le> MaxWorkers cfg"
proof -
  have "state_io_rel (keeps_scale cfg) (autoscaler_loop cfg has_k8s n since)"
  proof (induction n arbitrary: since)
    case (Suc n)
    then show ?case
      by simp (intro scale.kept_intros scale_wait scale_evaluate [OF assms(3,4)])
  qed (simp add: scale.kept_return)
  then have "keeps_scale cfg w (snd (run_state (autoscaler_loop cfg has_k8s n since) w))"
    by (rule state_io_relD) (rule prod.collapse [symmetric])
  with assms(1,2,5) show ?thesis
    by (simp add: keeps_scale_def scaled_def) (simp add: in_bounds_def)
qed

theorem replicas_stay_between_bounds_witness:
  "case deployment (kube (snd (run_state (autoscaler_loop default_config True 5 None)
        (sample_world\<lparr>slots := [slot_with Served, slot_with (Refused ErrNoRows), slot_with (Lost ErrNoRows)]\<rparr>)))) of
     Some (Some r) \<Rightarrow> 1 \<le> r \<and> r \<le> 10 | _ \<Rightarrow> True"
  (is "case deployment (kube ?w') of Some (Some r) \<Rightarrow> _ r | _ \<Rightarrow> True")
proof (cases "\<exists>r'. deployment (kube ?w') = Some (Some r')")
  case True
  then obtain r' where r': "deployment (kube ?w') = Some (Some r')" by blast
  from replicas_stay_between_bounds [OF _ _ _ _ r', of 2] r' show ?thesis
    by (simp add: default_config_def in_bounds_def int4_def)
next
  case False
  then show ?thesis by (auto split: option.splits)
qed

section \<open>The cleanup\<close>

definition stale :: "timestamp \<Rightarrow> Dataset \<Rightarrow> bool" where
  "stale t x \<longleftrightarrow> d_state x = DatasetStateINITIATED \<and> d_created_at x < t - hours 24"

lemma jobs_have_datasets_del:
  assumes "integrity d"
  shows "jobs_have_datasets (d\<lparr>datasets := del_where P (datasets d)\<rparr>) \<longleftrightarrow>
    \<not> list_ex (\<lambda>x. P x \<and> has_key j_dataset_id (jobs d) (d_id x)) (datasets d)"
proof -
  have ids: "distinct (map d_id (datasets d))"
    and "\<forall>j \<in> set (jobs d). j_dataset_id j \<in> d_id ` set (datasets d)"
    using assms by (simp_all add: integrity_defs list_all_iff has_key_iff)
  then have refs: "j \<in> set (jobs d) \<Longrightarrow> \<exists>x \<in> set (datasets d). d_id x = j_dataset_id j" for j
    by (metis imageE)
  have "has_key d_id (del_where P (datasets d)) (j_dataset_id j) \<longleftrightarrow>
      \<not> list_ex (\<lambda>x. P x \<and> d_id x = j_dataset_id j) (datasets d)" if "j \<in> set (jobs d)" for j
    using refs [OF that] unique_row [OF ids] by (auto simp: has_key_iff list_ex_iff image_iff) metis+
  then show ?thesis
    by (auto simp: jobs_have_datasets_def list_all_iff list_ex_iff has_key_iff)
qed

text \<open>
  C21: one round of the cleanup deletes exactly the dead and failed tasks older than seven days,
  the events delivered more than a day ago, and the datasets whose upload was started more than a
  day ago and never completed. If a job refers to one of these datasets, none of them is deleted,
  and the rest of the round goes on.
\<close>
theorem cleanup_deletes_exactly_stale_rows:
  assumes "slots w = []" and "integrity (data w)"
  shows "run_state runCleanup w = ((), w\<lparr>data := (data w)\<lparr>
    datasets := (if list_ex (\<lambda>x. stale (clock w) x \<and> has_key j_dataset_id (jobs (data w)) (d_id x)) (datasets (data w))
                 then datasets (data w) else filter (\<lambda>x. \<not> stale (clock w) x) (datasets (data w))),
    tasks := filter (\<lambda>t. \<not> (t_state t \<in> {TaskStateDEAD, TaskStateFAILED} \<and> t_created_at t < clock w - days 7))
               (tasks (data w)),
    outbox := filter (\<lambda>e. \<not> (o_status e = OutboxStatusDELIVERED
                 \<and> (case o_published_at e of None \<Rightarrow> False | Some t \<Rightarrow> t < clock w - hours 24)))
               (outbox (data w))\<rparr>\<rparr>)"
proof -
  define D where "D = (if list_ex (\<lambda>x. stale (clock w) x \<and> has_key j_dataset_id (jobs (data w)) (d_id x)) (datasets (data w))
       then datasets (data w) else filter (\<lambda>x. \<not> stale (clock w) x) (datasets (data w)))"
  have "snd (cleanupStaleDatasetsInitiated (context_of w) (data w)) = (data w)\<lparr>datasets := D\<rparr>"
    unfolding D_def using jobs_have_datasets_del [OF assms(2), of "stale (clock w)"]
    by (simp add: cleanupStaleDatasetsInitiated_def delete_datasets_def Let_def del_where_def
        stale_def [abs_def])
  then show ?thesis
    unfolding D_def [symmetric] using assms(1)
    by (simp add: runCleanup_def run_dbcall_quiet cleanupDeadTasks_def
        cleanupDeliveredOutboxEvents_def del_where_def cong: option.case_cong)
qed

theorem cleanup_deletes_exactly_stale_rows_witness:
  "let x = sample_dataset\<lparr>d_id := 30, d_state := DatasetStateINITIATED\<rparr>;
       w = sample_world\<lparr>data := sample_db\<lparr>datasets := [sample_dataset, x],
             tasks := [(sample_task 8 2 1)\<lparr>t_state := TaskStateDEAD\<rparr>]\<rparr>, clock := days 8\<rparr>;
       d = data (snd (run_state runCleanup w))
   in datasets d = [sample_dataset] \<and> tasks d = []"
proof -
  let ?x = "sample_dataset\<lparr>d_id := 30, d_state := DatasetStateINITIATED\<rparr>"
  let ?w = "sample_world\<lparr>data := sample_db\<lparr>datasets := [sample_dataset, ?x],
             tasks := [(sample_task 8 2 1)\<lparr>t_state := TaskStateDEAD\<rparr>]\<rparr>, clock := days 8\<rparr>"
  have "integrity (data ?w)"
    by (simp add: integrity_defs sample_db_def sample_rows)
  then show ?thesis
    using cleanup_deletes_exactly_stale_rows [of ?w]
    by (simp add: Let_def stale_def days_def hours_def seconds_def) (simp add: sample_db_def sample_rows)
qed

end
