(* ===== verification/Drain.thy ===== *)
theory Drain imports Worker_Polls begin

text \<open>
  Progress. A worker that nothing disturbs and whose runner succeeds works its queue off: every
  poll ends one waiting task, so that after as many polls as tasks wait none does, and every run
  whose tasks have all ended is finished and announced.
\<close>

section \<open>Counting the tasks of a run\<close>

definition tasks_in :: "db \<Rightarrow> uuid \<Rightarrow> TaskState \<Rightarrow> int" where
  "tasks_in d i st = int (length (filter (\<lambda>t. t_run_id t = i \<and> t_state t = st) (tasks d)))"

definition waiting :: "db \<Rightarrow> nat" where
  "waiting d = length (filter (\<lambda>t. t_state t = TaskStatePENDING) (tasks d))"

text \<open>The counters of a run say how many of its tasks are in which state.\<close>

definition tallied_run :: "db \<Rightarrow> Run \<Rightarrow> bool" where
  "tallied_run d r \<longleftrightarrow>
     r_tasks_pending r = tasks_in d (r_id r) TaskStatePENDING
     \<and> r_tasks_running r = tasks_in d (r_id r) TaskStateLEASED
     \<and> r_tasks_done r = tasks_in d (r_id r) TaskStateSUCCEEDED
     \<and> r_tasks_failed r = tasks_in d (r_id r) TaskStateFAILED
     \<and> r_tasks_total r = int (length (filter (\<lambda>t. t_run_id t = r_id r) (tasks d)))"

definition tallied :: "db \<Rightarrow> bool" where
  "tallied d \<longleftrightarrow>
     list_all (\<lambda>r. r_state r \<noteq> RunStateCANCELLED \<longrightarrow> tallied_run d r) (runs d)
     \<and> length (tasks d) < 1000000000"

text \<open>Replacing the row of one task.\<close>

lemma count_put:
  assumes "distinct (map t_id ts)" and "c \<in> set ts" and "t_id c' = t_id c"
  shows "length (filter P (upd_where (\<lambda>q. t_id q = t_id c') (\<lambda>_. c') ts)) + (if P c then 1 else 0)
    = length (filter P ts) + (if P c' then 1 else 0)"
  using assms
proof (induction ts)
  case (Cons t ts)
  show ?case
  proof (cases "t_id t = t_id c")
    case True
    then have "t = c" using unique_row [OF Cons.prems(1), of t c] Cons.prems(2) by simp
    moreover have "upd_where (\<lambda>q. t_id q = t_id c') (\<lambda>_. c') ts = ts"
      using Cons.prems(1,3) True by (intro upd_where_none) (auto simp: image_iff)
    ultimately show ?thesis using Cons.prems(3) by simp
  next
    case False
    then have "c \<in> set ts" using Cons.prems(2) by auto
    then show ?thesis using Cons False by simp
  qed
qed simp

lemma tasks_in_put:
  assumes "distinct (map t_id (tasks d))" and "c \<in> set (tasks d)" and "t_id c' = t_id c"
    and "t_run_id c' = t_run_id c"
  shows "tasks_in (put_task c' d) i st = tasks_in d i st
      + (if t_run_id c = i \<and> t_state c' = st then 1 else 0)
      - (if t_run_id c = i \<and> t_state c = st then 1 else 0)"
    and "length (filter (\<lambda>t. t_run_id t = i) (tasks (put_task c' d)))
      = length (filter (\<lambda>t. t_run_id t = i) (tasks d))"
  using count_put [OF assms(1-3), of "\<lambda>t. t_run_id t = i \<and> t_state t = st"]
    count_put [OF assms(1-3), of "\<lambda>t. t_run_id t = i"] assms(4)
  by (auto simp: tasks_in_def put_task_def split: if_splits)

lemma waiting_put:
  assumes "distinct (map t_id (tasks d))" and "c \<in> set (tasks d)" and "t_id c' = t_id c"
    and "t_state c = TaskStatePENDING" and "t_state c' \<noteq> TaskStatePENDING"
  shows "waiting d = Suc (waiting (put_task c' d))"
  using count_put [OF assms(1-3), of "\<lambda>t. t_state t = TaskStatePENDING"] assms(4,5)
  by (simp add: waiting_def put_task_def)

lemma tasks_in_bounds: "0 \<le> tasks_in d i st" "tasks_in d i st \<le> int (length (tasks d))"
  by (simp_all add: tasks_in_def)

lemma tallied_in_range:
  assumes "tallied d" and "r \<in> set (runs d)" and "r_state r \<noteq> RunStateCANCELLED"
  shows "tallied_run d r" and "counters_in_range r" and "counters_in_range (started_row p r)"
    and "counters_in_range (succeeded_row (started_row p r))"
    and "int4 (r_tasks_done r + r_tasks_failed r + 1)"
proof -
  show t: "tallied_run d r"
    using assms by (auto simp: tallied_def list_all_iff)
  have len: "int (length (tasks d)) < 1000000000"
    using assms(1) by (simp add: tallied_def)
  note b = tasks_in_bounds [of d "r_id r"]
  show "counters_in_range r" "counters_in_range (started_row p r)"
    "counters_in_range (succeeded_row (started_row p r))"
    "int4 (r_tasks_done r + r_tasks_failed r + 1)"
    using t len b(1,2) [of TaskStatePENDING] b(1,2) [of TaskStateLEASED] b(1,2) [of TaskStateSUCCEEDED]
      b(1,2) [of TaskStateFAILED]
    by (auto simp: tallied_run_def counters_in_range_def int4_def started_row_def succeeded_row_def)
qed

section \<open>Every task has what it needs\<close>

lemma has_keyE: "has_key key rows k \<Longrightarrow> (\<And>r. r \<in> set rows \<Longrightarrow> key r = k \<Longrightarrow> thesis) \<Longrightarrow> thesis"
  by (auto simp: has_key_iff)

lemma task_has_run:
  assumes "integrity d" and "t \<in> set (tasks d)"
  obtains r where "r \<in> set (runs d)" "r_id r = t_run_id t"
  using assms by (auto simp: integrity_defs list_all_iff elim!: has_keyE)

lemma run_reads:
  assumes "integrity d" and "r \<in> set (runs d)"
  obtains j x where "j \<in> set (jobs d)" "j_id j = r_job_id r"
    "\<And>p. fst (getRunState (r_id r) p d) = Inr (r_state r)"
    "\<And>p. fst (getJobByRunID (r_id r) p d) = Inr j"
    "\<And>p. fst (getDatasetByJobID (j_id j) p d) = Inr x"
proof -
  have ids: "distinct (map r_id (runs d))" "distinct (map j_id (jobs d))" "distinct (map d_id (datasets d))"
    using assms(1) by (simp_all add: integrity_defs)
  obtain j where j: "j \<in> set (jobs d)" "j_id j = r_job_id r"
    using assms by (auto simp: integrity_defs list_all_iff elim!: has_keyE)
  obtain x where x: "x \<in> set (datasets d)" "d_id x = j_dataset_id j"
    using assms(1) j(1) by (auto simp: integrity_defs list_all_iff elim!: has_keyE)
  have "fst (getRunState (r_id r) p d) = Inr (r_state r)" for p
    using filter_key_unique [OF ids(1) assms(2)] by (simp add: getRunState_def)
  moreover have "fst (getJobByRunID (r_id r) p d) = Inr j" for p
    using join_row [OF ids(2) j(1) ids(1) assms(2), of r_job_id] j(2) by (simp add: getJobByRunID_def)
  moreover have "fst (getDatasetByJobID (j_id j) p d) = Inr x" for p
    using join_row [OF ids(3) x(1) ids(2) j(1), of j_dataset_id] x(2) by (simp add: getDatasetByJobID_def)
  ultimately show thesis
    using that j by blast
qed

section \<open>One poll of a worker that works its queue off\<close>

definition drainable :: "worker_env \<Rightarrow> world \<Rightarrow> bool" where
  "drainable W w \<longleftrightarrow>
     slots w = [] \<and> breaker_closed W \<and> integrity (data w) \<and> tallied (data w)
     \<and> (\<forall>env t. \<exists>out. task_runner W env t = Inr out)
     \<and> \<not> has_key r_id (runs (data w)) uuid_nil
     \<and> list_all (\<lambda>t. t_state t = TaskStatePENDING \<longrightarrow> t_lease_expires_at t = None) (tasks (data w))"

definition cancelled :: "db \<Rightarrow> uuid \<Rightarrow> bool" where
  "cancelled d i \<longleftrightarrow> list_ex (\<lambda>r. r_id r = i \<and> r_state r = RunStateCANCELLED) (runs d)"

text \<open>A poll leases a waiting task when there is one.\<close>

lemma drainable_leases:
  assumes "drainable W w" and "waiting (data w) \<noteq> 0"
  obtains c where "c \<in> set (tasks (data w))" "t_state c = TaskStatePENDING"
    "leases W w (lease_row (context_of w) (owner_of W) c)"
proof -
  have ids: "distinct (map t_id (tasks (data w)))"
    using assms(1) by (simp add: drainable_def integrity_defs)
  have pending: "leasable p t" if "t \<in> set (tasks (data w))" "t_state t = TaskStatePENDING" for t p
    using assms(1) that by (auto simp: drainable_def list_all_iff leasable_def)
  show thesis
  proof (cases rule: leaseTask_cases [OF ids, of "owner_of W" "context_of w"])
    case 1
    with pending assms(2) show thesis by (auto simp: waiting_def filter_empty_conv)
  next
    case (2 c)
    then obtain r where "r \<in> set (runs (data w))" "r_id r = t_run_id c"
      using task_has_run assms(1) by (metis drainable_def)
    then have "t_run_id c \<noteq> uuid_nil"
      using assms(1) by (auto simp: drainable_def has_key_iff)
    with 2 assms(1) that [of c] show thesis by (simp add: leases_def leasable_def drainable_def)
  qed
qed

text \<open>The run of the ended task, with its counters moved on, and finished when they say so.\<close>

definition ended_run :: "pg \<Rightarrow> Run \<Rightarrow> Run" where
  "ended_run p r =
     (let q = succeeded_row (started_row p r)
      in if r_tasks_done q + r_tasks_failed q = r_tasks_total q
         then q\<lparr>r_state := (if 0 < r_tasks_failed q then RunStateFAILED else RunStateSUCCEEDED),
                r_finished_at := Some (now p)\<rparr>
         else q)"

definition all_ended :: "Run \<Rightarrow> bool" where
  "all_ended r \<longleftrightarrow> r_tasks_done r + 1 + r_tasks_failed r = r_tasks_total r"

lemma ended_run_simps [simp]:
  "r_id (ended_run p r) = r_id r" "r_job_id (ended_run p r) = r_job_id r"
  "r_tasks_pending (ended_run p r) = r_tasks_pending r - 1"
  "r_tasks_running (ended_run p r) = r_tasks_running r"
  "r_tasks_done (ended_run p r) = r_tasks_done r + 1"
  "r_tasks_failed (ended_run p r) = r_tasks_failed r"
  "r_tasks_total (ended_run p r) = r_tasks_total r"
  "r_state (ended_run p r) =
     (if all_ended r then if 0 < r_tasks_failed r then RunStateFAILED else RunStateSUCCEEDED else r_state r)"
  by (simp_all add: ended_run_def Let_def all_ended_def succeeded_row_def started_row_def)

lemma succeeded_runs:
  assumes "distinct (map r_id (runs (data w)))" and "r \<in> set (runs (data w))" and "r_id r = t_run_id task"
    and "counters_in_range (started_row (context_of w) r)"
    and "counters_in_range (succeeded_row (started_row (context_of w) r))"
  shows "runs (succeeded w task out) = upd_where (\<lambda>q. r_id q = r_id r)
      (\<lambda>_. succeeded_row (started_row (context_of w) r)) (runs (data w))"
proof -
  let ?p = "context_of w"
  have row: "filter (\<lambda>q. r_id q = t_run_id task) (runs (data w)) = [r]"
    using filter_key_unique [OF assms(1,2)] assms(3) by simp
  have start: "runs (begun w task) = upd_where (\<lambda>q. r_id q = t_run_id task) (started_row ?p) (runs (data w))"
    using row assms(4) by (simp add: begun_def taskStarted_def update_returning_def)
  moreover have "filter (\<lambda>q. r_id q = t_run_id task)
      (upd_where (\<lambda>q. r_id q = t_run_id task) (started_row ?p) (runs (data w))) = [started_row ?p r]"
    using row by (simp add: filter_upd_where_all)
  ultimately have "runs (succeeded w task out) =
      upd_where (\<lambda>q. r_id q = t_run_id task) succeeded_row
        (upd_where (\<lambda>q. r_id q = t_run_id task) (started_row ?p) (runs (data w)))"
    using assms(5) by (simp add: succeeded_def taskSucceeded_def update_returning_def)
  also have "\<dots> = upd_where (\<lambda>q. r_id q = r_id r) (\<lambda>_. succeeded_row (started_row ?p r)) (runs (data w))"
    using unique_row [OF assms(1) _ assms(2)] assms(3) by (auto simp: upd_where_def)
  finally show ?thesis .
qed

text \<open>What one poll makes of a waiting task of a run that is not cancelled.\<close>

lemma poll_ends_task:
  assumes "drainable W w" and "c \<in> set (tasks (data w))" and "t_state c = TaskStatePENDING"
    and "leases W w (lease_row (context_of w) (owner_of W) c)"
    and "r \<in> set (runs (data w))" and "r_id r = t_run_id c" and "r_state r \<noteq> RunStateCANCELLED"
    and "w' = snd (run_state (pollAndProcess U W) w)"
  obtains c' j where "t_id c' = t_id c" "t_run_id c' = t_run_id c" "t_state c' = TaskStateSUCCEEDED"
    "tasks (data w') = tasks (put_task c' (data w))"
    "runs (data w') = upd_where (\<lambda>q. r_id q = r_id r) (\<lambda>_. ended_run (context_of w) r) (runs (data w))"
    "j \<in> set (jobs (data w))" "j_id j = r_job_id r"
    "jobs (data w') = (if all_ended r then finished_jobs (r_job_id r)
        (if 0 < r_tasks_failed r then JobStateFAILED else JobStateSUCCEEDED) (clock w) (jobs (data w))
       else jobs (data w))"
    "topics w' = (if all_ended r then topics w @ [completed_message U j] else topics w)"
proof -
  define task q where "task = lease_row (context_of w) (owner_of W) c"
    and "q = succeeded_row (started_row (context_of w) r)"
  have int: "integrity (data w)" and tal: "tallied (data w)"
    using assms(1) by (simp_all add: drainable_def)
  note range = tallied_in_range [OF tal assms(5,7)]
  obtain j x where j: "j \<in> set (jobs (data w))" "j_id j = r_job_id r"
    "fst (getRunState (r_id r) p (data w)) = Inr (r_state r)"
    "fst (getJobByRunID (r_id r) p (data w)) = Inr j"
    "fst (getDatasetByJobID (j_id j) p (data w)) = Inr x" for p
    using run_reads [OF int assms(5)] by metis
  have started: "started_on w task j x"
    using j assms(6,7) by (simp add: started_on_def task_def)
  obtain out where out: "task_runner W (runner_env U W w task j x) (clock w) = Inr out"
    using assms(1) by (auto simp: drainable_def)
  have "distinct (map r_id (runs (data w)))"
    using int by (simp add: integrity_defs)
  note rows = succeeded_runs [OF this assms(5), of task out]
  have runs: "runs (succeeded w task out) = upd_where (\<lambda>q. r_id q = r_id r) (\<lambda>_. q) (runs (data w))"
    using rows range assms(6) by (simp add: task_def q_def)
  have q1: "r_id q = t_run_id task" "int4 (r_tasks_done q + r_tasks_failed q)"
    using assms(6) range(5) by (simp_all add: q_def task_def succeeded_row_def started_row_def algebra_simps)
  have "q \<in> (\<lambda>_. q) ` {q \<in> set (runs (data w)). r_id q = r_id r}"
    using assms(5) by blast
  then have "q \<in> set (runs (succeeded w task out))"
    unfolding runs set_upd_where by blast
  note q = this q1
  note poll = run_poll_succeeded [OF assms(4) [folded task_def] int started out q]
  have fin: "r_tasks_done q + r_tasks_failed r = r_tasks_total q \<longleftrightarrow> all_ended r"
    and failed: "r_tasks_failed q = r_tasks_failed r"
    by (simp_all add: q_def all_ended_def succeeded_row_def started_row_def)
  have jobs: "jobs (succeeded w task out) = jobs (data w)"
    by (simp add: succeeded_def begun_def taskStarted_def taskSucceeded_def createArtifact_def draw_def
        case_prod_unfold Let_def)
  have same: "finished_runs (r_id q) st (clock w) (upd_where (\<lambda>q. r_id q = r_id r) (\<lambda>_. q) rs)
      = upd_where (\<lambda>q. r_id q = r_id r) (\<lambda>_. q\<lparr>r_state := st, r_finished_at := Some (clock w)\<rparr>) rs" for st rs
    by (induction rs) (simp_all add: finished_runs_def q_def)
  have ended: "ended_run (context_of w) r = (if all_ended r
      then q\<lparr>r_state := (if 0 < r_tasks_failed r then RunStateFAILED else RunStateSUCCEEDED),
             r_finished_at := Some (clock w)\<rparr> else q)"
    by (simp only: ended_run_def Let_def q_def [symmetric] fin failed context_simps)
  have tasks: "tasks (succeeded w task out) = tasks (put_task (task\<lparr>t_state := TaskStateSUCCEEDED\<rparr>) (data w))"
    by (simp add: succeeded_def put_task_def taskSucceeded_def case_prod_unfold Let_def)
  show thesis
  proof (rule that [of "task\<lparr>t_state := TaskStateSUCCEEDED\<rparr>" j])
    show "tasks (data w') = tasks (put_task (task\<lparr>t_state := TaskStateSUCCEEDED\<rparr>) (data w))"
      using poll tasks by (simp add: assms(8) completed_def)
    show "runs (data w') = upd_where (\<lambda>q. r_id q = r_id r) (\<lambda>_. ended_run (context_of w) r) (runs (data w))"
      using poll runs same by (simp add: assms(8) completed_def fin failed ended)
    show "jobs (data w') = (if all_ended r then finished_jobs (r_job_id r)
        (if 0 < r_tasks_failed r then JobStateFAILED else JobStateSUCCEEDED) (clock w) (jobs (data w))
       else jobs (data w))"
      using poll jobs j(2) by (simp add: assms(8) completed_def fin failed)
    show "topics w' = (if all_ended r then topics w @ [completed_message U j] else topics w)"
      using poll by (simp add: assms(8) completed_def fin failed)
  qed (use j in \<open>simp_all add: task_def\<close>)
qed

section \<open>What the queue will come to\<close>

text \<open>
  The state every task and every run has once the queue is empty, read off the database before:
  no poll changes it.
\<close>

definition task_outcome :: "db \<Rightarrow> Task \<Rightarrow> TaskState" where
  "task_outcome d t =
     (if t_state t = TaskStatePENDING
      then if cancelled d (t_run_id t) then TaskStateDEAD else TaskStateSUCCEEDED
      else t_state t)"

definition will_end :: "Run \<Rightarrow> bool" where
  "will_end r \<longleftrightarrow>
     r_state r \<noteq> RunStateCANCELLED \<and> 0 < r_tasks_pending r
     \<and> r_tasks_pending r + r_tasks_done r + r_tasks_failed r = r_tasks_total r"

definition final_state :: "Run \<Rightarrow> RunState" where
  "final_state r = (if 0 < r_tasks_failed r then RunStateFAILED else RunStateSUCCEEDED)"

definition run_outcome :: "Run \<Rightarrow> RunState" where
  "run_outcome r = (if will_end r then final_state r else r_state r)"

definition outcomes :: "db \<Rightarrow> (uuid \<times> TaskState) list \<times> (uuid \<times> uuid \<times> RunState) list" where
  "outcomes d = (map (\<lambda>t. (t_id t, task_outcome d t)) (tasks d), map (\<lambda>r. (r_id r, r_job_id r, run_outcome r)) (runs d))"

text \<open>A run that a poll ends a task of.\<close>

lemma tallied_sum:
  assumes "tallied_run d r"
  shows "r_tasks_pending r + r_tasks_done r + r_tasks_failed r \<le> r_tasks_total r"
proof -
  let ?ts = "filter (\<lambda>t. t_run_id t = r_id r) (tasks d)"
  have "length (filter (\<lambda>t. t_state t = TaskStatePENDING) ts) + length (filter (\<lambda>t. t_state t = TaskStateSUCCEEDED) ts)
      + length (filter (\<lambda>t. t_state t = TaskStateFAILED) ts) \<le> length ts" for ts
    by (induction ts) auto
  from this [of ?ts] show ?thesis
    using assms by (simp add: tallied_run_def tasks_in_def conj_commute)
qed

lemma ended_run_outcome:
  assumes "tallied_run d r" and "0 < r_tasks_pending r" and "r_state r \<noteq> RunStateCANCELLED"
  shows "run_outcome (ended_run p r) = run_outcome r" and "all_ended r \<Longrightarrow> will_end r"
    and "will_end r \<Longrightarrow> all_ended r \<or> will_end (ended_run p r)"
  using tallied_sum [OF assms(1)] assms(2,3)
  by (auto simp: run_outcome_def will_end_def final_state_def all_ended_def)

lemma cancelled_upd:
  assumes "distinct (map r_id rs)" and "r \<in> set rs" and "r_id r' = r_id r"
    and "r_state r' = RunStateCANCELLED \<longleftrightarrow> r_state r = RunStateCANCELLED"
  shows "list_ex (\<lambda>q. r_id q = i \<and> r_state q = RunStateCANCELLED) (upd_where (\<lambda>q. r_id q = r_id r) (\<lambda>_. r') rs)
    = list_ex (\<lambda>q. r_id q = i \<and> r_state q = RunStateCANCELLED) rs"
proof -
  have "r_id q = r_id r \<Longrightarrow> q \<in> set rs \<Longrightarrow> q = r" for q
    using unique_row [OF assms(1) _ assms(2)] by metis
  then show ?thesis
    using assms(2-4) by (auto simp: list_ex_iff set_upd_where)
qed

lemma map_upd_const:
  assumes "distinct (map key rows)" and "c \<in> set rows" and "key c' = key c" and "g c' = g c"
  shows "map g (upd_where (\<lambda>q. key q = key c') (\<lambda>_. c') rows) = map g rows"
proof -
  have "key q = key c \<Longrightarrow> q \<in> set rows \<Longrightarrow> q = c" for q
    using unique_row [OF assms(1) _ assms(2)] by metis
  then show ?thesis
    using assms(3,4) by (auto simp: upd_where_def)
qed

text \<open>One poll: one task fewer waits, and the outcome stays.\<close>

definition poll_progress :: "worker_env \<Rightarrow> world \<Rightarrow> world \<Rightarrow> bool" where
  "poll_progress W w w' \<longleftrightarrow>
     drainable W w' \<and> waiting (data w) = Suc (waiting (data w')) \<and> outcomes (data w') = outcomes (data w)"

lemma uses_pollAndProcess:
  assumes "breaker_ok W"
  shows "state_io_rel uses_slots (pollAndProcess U W)"
proof -
  have python: "state_io_rel uses_slots (run_python W env)" for env
    unfolding run_python_def by (rule uses_call) simp
  have lease: "state_io_rel uses_slots (lease_closure W)"
    unfolding lease_closure_def by (intro uses_intros)
  have "state_io_rel uses_slots (dbBreaker W (lease_closure W))"
  proof (rule state_io_relI)
    fix r w w'
    assume "run_state (dbBreaker W (lease_closure W)) w = (r, w')"
    then show "uses_slots w w'"
      using assms state_io_relD [OF lease] use.kept_refl unfolding breaker_ok_def by (metis prod.inject)
  qed
  then show ?thesis
    unfolding pollAndProcess_def handle_leased_def handle_success_def handle_failure_def mark_dead_def
      process_task_def checkAndCompleteRun_def
    by (intro uses_intros uses_Publish python)
qed

lemma poll_frame:
  assumes "breaker_closed W" and "slots w = []" and "integrity (data w)"
    and "w' = snd (run_state (pollAndProcess U W) w)"
  shows "slots w' = []" and "integrity (data w')"
proof -
  have ok: "breaker_ok W"
    using assms(1) by (auto simp: breaker_ok_def breaker_closed_def)
  show "slots w' = []"
    using uses_slots_quiet [OF state_io_relD [OF uses_pollAndProcess [OF ok] prod.collapse [symmetric]]] assms(2,4)
    by simp
  have "follows (\<lambda>_. True) w w'"
    using state_io_relD [OF follows_pollAndProcess [OF ok, of "\<lambda>_. True"] prod.collapse [symmetric]]
    by (simp add: assms(4))
  then have "db_steps (uuids w) (\<lambda>_. True) (data w) (data w')"
    by (simp add: follows_def others_within_def list_all_iff)
  then show "integrity (data w')"
    using assms(3) by (rule db_steps_integrity)
qed

lemma poll_keeps_drainable:
  assumes "drainable W w" and "w' = snd (run_state (pollAndProcess U W) w)"
    and "c \<in> set (tasks (data w))" and "t_id c' = t_id c" and "t_state c' \<noteq> TaskStatePENDING"
    and "tasks (data w') = tasks (put_task c' (data w))"
    and "map r_id (runs (data w')) = map r_id (runs (data w))" and "tallied (data w')"
  shows "drainable W w'"
proof -
  have "slots w' = []" "integrity (data w')"
    using poll_frame [OF _ _ _ assms(2)] assms(1) by (simp_all add: drainable_def)
  moreover have "has_key r_id (runs (data w')) i = has_key r_id (runs (data w)) i" for i
    using assms(7) by (metis has_key_iff set_map)
  ultimately show ?thesis
    using assms(1,5,8) by (auto simp: drainable_def assms(6) put_task_def list_all_iff set_upd_where)
qed

lemma outcomes_put:
  assumes "distinct (map t_id (tasks d))" and "c \<in> set (tasks d)" and "t_id c' = t_id c"
    and "tasks d' = tasks (put_task c' d)" and "\<And>i. cancelled d' i = cancelled d i"
    and "task_outcome d c' = task_outcome d c"
  shows "map (\<lambda>t. (t_id t, task_outcome d' t)) (tasks d') = map (\<lambda>t. (t_id t, task_outcome d t)) (tasks d)"
proof -
  have "task_outcome d' = task_outcome d"
    by (rule ext) (simp add: task_outcome_def assms(5))
  then show ?thesis
    using map_upd_const [OF assms(1-3), of "\<lambda>t. (t_id t, task_outcome d t)"] assms(3,4,6)
    by (simp add: put_task_def)
qed

text \<open>The two ways a poll goes, told apart by the run of the task.\<close>

lemma poll_cancelled_progress:
  assumes "drainable W w" and "c \<in> set (tasks (data w))" and "t_state c = TaskStatePENDING"
    and "leases W w (lease_row (context_of w) (owner_of W) c)"
    and "r \<in> set (runs (data w))" and "r_id r = t_run_id c" and "r_state r = RunStateCANCELLED"
    and "w' = snd (run_state (pollAndProcess U W) w)"
  shows "poll_progress W w w' \<and> runs (data w') = runs (data w) \<and> jobs (data w') = jobs (data w)
    \<and> topics w' = topics w"
proof -
  define c' where "c' = (lease_row (context_of w) (owner_of W) c)\<lparr>t_state := TaskStateDEAD\<rparr>"
  have c': "t_id c' = t_id c" "t_run_id c' = t_run_id c" "t_state c' = TaskStateDEAD"
    by (simp_all add: c'_def)
  have int: "integrity (data w)" and tal: "tallied (data w)"
    using assms(1) by (simp_all add: drainable_def)
  have ids: "distinct (map t_id (tasks (data w)))" "distinct (map r_id (runs (data w)))"
    using int by (simp_all add: integrity_defs)
  have "fst (getRunState (t_run_id c) p (data w)) = Inr RunStateCANCELLED" for p
    using run_reads [OF int assms(5)] assms(6,7) by metis
  then have w': "data w' = put_task c' (data w)" "topics w' = topics w"
    using run_poll_cancelled [OF assms(4) int, of U] assms(8) by (simp_all add: c'_def)
  have dead: "cancelled (data w) (t_run_id c)"
    using assms(5-7) by (auto simp: cancelled_def list_ex_iff)
  have "cancelled (data w') i = cancelled (data w) i" for i
    by (simp add: cancelled_def w')
  then have "map (\<lambda>t. (t_id t, task_outcome (data w') t)) (tasks (data w'))
      = map (\<lambda>t. (t_id t, task_outcome (data w) t)) (tasks (data w))"
    using dead assms(3) c'
    by (intro outcomes_put [OF ids(1) assms(2) c'(1)]) (simp_all add: w'(1) task_outcome_def)
  moreover have "tallied (data w')"
  proof -
    have "tallied_run (data w') q" if "q \<in> set (runs (data w))" "r_state q \<noteq> RunStateCANCELLED" for q
    proof -
      have "r_id q \<noteq> t_run_id c"
        using unique_row [OF ids(2) that(1) assms(5)] that(2) assms(6,7) by auto
      then show ?thesis
        using tallied_in_range(1) [OF tal that] tasks_in_put [OF ids(1) assms(2) c'(1,2), of "r_id q"]
        by (simp add: tallied_run_def w')
    qed
    then show ?thesis
      using tal by (auto simp: tallied_def list_all_iff w' put_task_def)
  qed
  moreover have "drainable W w'"
    using poll_keeps_drainable [OF assms(1,8,2) c'(1), of] calculation(2) c'(3) by (simp add: w')
  ultimately show ?thesis
    using waiting_put [OF ids(1) assms(2) c'(1) assms(3)] c'(3)
    by (simp add: poll_progress_def outcomes_def w')
qed

lemma poll_alive_progress:
  assumes "drainable W w" and "c \<in> set (tasks (data w))" and "t_state c = TaskStatePENDING"
    and "leases W w (lease_row (context_of w) (owner_of W) c)"
    and "r \<in> set (runs (data w))" and "r_id r = t_run_id c" and "r_state r \<noteq> RunStateCANCELLED"
    and "w' = snd (run_state (pollAndProcess U W) w)"
  shows "poll_progress W w w'"
proof -
  obtain c' where c': "t_id c' = t_id c" "t_run_id c' = t_run_id c" "t_state c' = TaskStateSUCCEEDED"
    "tasks (data w') = tasks (put_task c' (data w))"
    and runs: "runs (data w') = upd_where (\<lambda>q. r_id q = r_id r) (\<lambda>_. ended_run (context_of w) r) (runs (data w))"
    by (rule poll_ends_task [OF assms])
  have int: "integrity (data w)" and tal: "tallied (data w)"
    using assms(1) by (simp_all add: drainable_def)
  have ids: "distinct (map t_id (tasks (data w)))" "distinct (map r_id (runs (data w)))"
    using int by (simp_all add: integrity_defs)
  have same: "cancelled (data w') i = cancelled (data w) i" for i
    using cancelled_upd [OF ids(2) assms(5), of "ended_run (context_of w) r" i] assms(7)
    by (simp add: cancelled_def runs)
  have alive: "\<not> cancelled (data w) (t_run_id c)"
    using unique_row [OF ids(2) _ assms(5)] assms(6,7) by (auto simp: cancelled_def list_ex_iff)
  have tasks: "map (\<lambda>t. (t_id t, task_outcome (data w') t)) (tasks (data w'))
      = map (\<lambda>t. (t_id t, task_outcome (data w) t)) (tasks (data w))"
    using alive assms(3) c'(1-3)
    by (intro outcomes_put [OF ids(1) assms(2) c'(1,4) same]) (simp add: task_outcome_def)
  have counts: "tasks_in (data w') i st = tasks_in (put_task c' (data w)) i st"
    "length (filter (\<lambda>t. t_run_id t = i) (tasks (data w'))) = length (filter (\<lambda>t. t_run_id t = i) (tasks (data w)))" for i st
    using tasks_in_put(2) [OF ids(1) assms(2) c'(1,2)] by (simp_all add: tasks_in_def c'(4))
  note put = tasks_in_put(1) [OF ids(1) assms(2) c'(1,2)]
  have run: "tallied_run (data w) r"
    by (rule tallied_in_range(1) [OF tal assms(5,7)])
  then have "tallied_run (data w') (ended_run (context_of w) r)"
    using assms(3,6) c'(3) by (simp add: tallied_run_def counts put)
  moreover have "tallied_run (data w') q"
    if "q \<in> set (runs (data w))" "r_id q \<noteq> r_id r" "r_state q \<noteq> RunStateCANCELLED" for q
    using tallied_in_range(1) [OF tal that(1,3)] that(2) assms(6) by (simp add: tallied_run_def counts put)
  ultimately have "tallied (data w')"
    using tal by (auto simp: tallied_def list_all_iff runs set_upd_where c'(4) put_task_def)
  moreover have "map r_id (runs (data w')) = map r_id (runs (data w))"
    using map_upd_const [OF ids(2) assms(5), of "ended_run (context_of w) r" r_id] by (simp add: runs)
  ultimately have "drainable W w'"
    using poll_keeps_drainable [OF assms(1,8,2) c'(1) _ c'(4)] c'(3) by simp
  moreover have "0 < r_tasks_pending r"
    using run assms(2,3,6) by (auto simp: tallied_run_def tasks_in_def filter_empty_conv)
  then have "map (\<lambda>r. (r_id r, r_job_id r, run_outcome r)) (runs (data w')) = map (\<lambda>r. (r_id r, r_job_id r, run_outcome r)) (runs (data w))"
    using map_upd_const [OF ids(2) assms(5), of "ended_run (context_of w) r" "\<lambda>r. (r_id r, r_job_id r, run_outcome r)"]
      ended_run_outcome(1) [OF run _ assms(7)] by (simp add: runs)
  moreover have "waiting (data w) = Suc (waiting (data w'))"
    using waiting_put [OF ids(1) assms(2) c'(1) assms(3)] c'(3) by (simp add: waiting_def c'(4))
  ultimately show ?thesis
    using tasks by (simp add: poll_progress_def outcomes_def)
qed

lemma poll_makes_progress:
  assumes "drainable W w" and "waiting (data w) \<noteq> 0" and "w' = snd (run_state (pollAndProcess U W) w)"
  shows "poll_progress W w w'"
proof -
  obtain c where c: "c \<in> set (tasks (data w))" "t_state c = TaskStatePENDING"
    "leases W w (lease_row (context_of w) (owner_of W) c)"
    by (rule drainable_leases [OF assms(1,2)])
  obtain r where r: "r \<in> set (runs (data w))" "r_id r = t_run_id c"
    using task_has_run c(1) assms(1) by (metis drainable_def)
  show ?thesis
    using poll_alive_progress [OF assms(1) c r _ assms(3)] poll_cancelled_progress [OF assms(1) c r _ assms(3)]
    by blast
qed

section \<open>The worker's loop empties the queue\<close>

lemma idle_poll:
  assumes "drainable W w" and "waiting (data w) = 0"
  shows "run_state (pollAndProcess U W) w = (Inr (), w)"
proof -
  have "filter (leasable (context_of w)) (tasks (data w)) = []"
    using assms(2) by (auto simp: waiting_def filter_empty_conv leasable_def)
  then have "leaseTask (owner_of W) (context_of w) (data w) = (Inl ErrNoRows, data w)"
    by (rule leaseTask_none)
  then show ?thesis
    using assms(1) by (simp add: drainable_def breaker_closed_def pollAndProcess_def lease_closure_def
        run_dbcall_quiet)
qed

lemma drainable_later: "drainable W (w\<lparr>clock := t\<rparr>) = drainable W w"
  by (simp add: drainable_def)

lemma loop_progress:
  assumes "drainable W w" and "w' = snd (run_state (worker_loop U W n) w)"
  shows "drainable W w'" and "waiting (data w') = waiting (data w) - n"
    and "outcomes (data w') = outcomes (data w)"
proof -
  have "drainable W w' \<and> waiting (data w') = waiting (data w) - n \<and> outcomes (data w') = outcomes (data w)"
    using assms
  proof (induction n arbitrary: w)
    case (Suc n)
    define w1 where "w1 = snd (run_state (pollAndProcess U W) w)"
    have "drainable W w1 \<and> waiting (data w1) = waiting (data w) - 1 \<and> outcomes (data w1) = outcomes (data w)"
    proof (cases "waiting (data w) = 0")
      case True
      with Suc.prems(1) show ?thesis by (simp add: w1_def idle_poll)
    next
      case False
      with poll_makes_progress [OF Suc.prems(1) _ w1_def] show ?thesis by (simp add: poll_progress_def)
    qed
    moreover have "w' = snd (run_state (worker_loop U W n) (w1\<lparr>clock := clock w1 + seconds 2\<rparr>))"
      using Suc.prems(2) by (simp add: worker_loop_Suc w1_def Let_def del: worker_loop.simps)
    ultimately show ?case
      using Suc.IH [of "w1\<lparr>clock := clock w1 + seconds 2\<rparr>"] by (simp add: drainable_later)
  qed simp
  then show "drainable W w'" "waiting (data w') = waiting (data w) - n" "outcomes (data w') = outcomes (data w)"
    by simp_all
qed

lemma outcomes_empty:
  assumes "drainable W w" and "waiting (data w) = 0"
  shows "outcomes (data w) =
    (map (\<lambda>t. (t_id t, t_state t)) (tasks (data w)), map (\<lambda>r. (r_id r, r_job_id r, r_state r)) (runs (data w)))"
proof -
  have none: "t_state t \<noteq> TaskStatePENDING" if "t \<in> set (tasks (data w))" for t
    using assms(2) that by (auto simp: waiting_def filter_empty_conv)
  have "\<not> will_end r" if "r \<in> set (runs (data w))" for r
  proof
    assume "will_end r"
    then have "tallied_run (data w) r" "0 < r_tasks_pending r"
      using assms(1) that tallied_in_range(1) by (auto simp: will_end_def drainable_def)
    then show False
      using none by (auto simp: tallied_run_def tasks_in_def filter_empty_conv)
  qed
  with none show ?thesis
    by (auto simp: outcomes_def task_outcome_def run_outcome_def)
qed


definition sample_waiting :: world where
  "sample_waiting = sample_world\<lparr>data := sample_db\<lparr>runs := [sample_run\<lparr>r_tasks_total := 2, r_tasks_running := 0\<rparr>],
     tasks := [sample_task 7 1 2, sample_task 8 2 1]\<rparr>\<rparr>"

lemma sample_drainable: "drainable (sample_worker (\<lambda>_. Inr out)) sample_waiting"
proof -
  have "integrity (data sample_waiting)"
    by (simp add: sample_waiting_def integrity_defs) (simp add: sample_db_def sample_rows)
  moreover have "tallied (data sample_waiting)"
    by (simp add: sample_waiting_def tallied_def tallied_run_def tasks_in_def sample_run_def sample_task_def)
  ultimately show ?thesis
    by (simp add: drainable_def) (simp add: sample_waiting_def sample_run_def sample_task_def)
qed

lemma sample_waiting_two: "waiting (data sample_waiting) = 2"
  by (simp add: sample_waiting_def waiting_def sample_task_def)


section \<open>The completion is announced\<close>

definition announced :: "uuid_lib \<Rightarrow> world \<Rightarrow> uuid \<Rightarrow> uuid \<Rightarrow> RunState \<Rightarrow> bool" where
  "announced U w i job_id st \<longleftrightarrow>
     (\<exists>j \<in> set (jobs (data w)). j_id j = job_id \<and> completed_message U j \<in> set (topics w)
        \<and> j_state j \<in> {JobStateSUCCEEDED, JobStateFAILED}
        \<and> ((\<forall>q \<in> set (runs (data w)). r_job_id q = job_id \<longrightarrow> r_id q = i) \<longrightarrow>
             j_state j = (if st = RunStateFAILED then JobStateFAILED else JobStateSUCCEEDED)))"

definition ends_well :: "uuid_lib \<Rightarrow> world \<Rightarrow> uuid \<Rightarrow> uuid \<Rightarrow> RunState \<Rightarrow> bool" where
  "ends_well U w i job_id st \<longleftrightarrow>
     (\<exists>r \<in> set (runs (data w)). r_id r = i \<and> r_job_id r = job_id \<and> r_state r \<noteq> RunStateCANCELLED
        \<and> final_state r = st \<and> (will_end r \<or> r_state r = st \<and> announced U w i job_id st))"

lemma announced_finished:
  assumes "announced U w i job_id st" and "set (topics w) \<subseteq> set (topics w')"
    and "map (\<lambda>r. (r_id r, r_job_id r)) (runs (data w')) = map (\<lambda>r. (r_id r, r_job_id r)) (runs (data w))"
    and "jobs (data w') = finished_jobs k s t (jobs (data w))" and "s = JobStateSUCCEEDED \<or> s = JobStateFAILED"
    and "k = job_id \<Longrightarrow> \<exists>q \<in> set (runs (data w)). r_job_id q = job_id \<and> r_id q \<noteq> i"
  shows "announced U w' i job_id st"
proof -
  obtain j where j: "j \<in> set (jobs (data w))" "j_id j = job_id" "completed_message U j \<in> set (topics w)"
    "j_state j \<in> {JobStateSUCCEEDED, JobStateFAILED}"
    "(\<forall>q \<in> set (runs (data w)). r_job_id q = job_id \<longrightarrow> r_id q = i) \<longrightarrow>
       j_state j = (if st = RunStateFAILED then JobStateFAILED else JobStateSUCCEEDED)"
    using assms(1) by (auto simp: announced_def)
  define j' where "j' = (if j_id j = k then j\<lparr>j_state := s, j_finished_at := Some t\<rparr> else j)"
  have sole: "(\<forall>q \<in> set (runs (data w')). r_job_id q = job_id \<longrightarrow> r_id q = i)
      \<longleftrightarrow> (\<forall>q \<in> set (runs (data w)). r_job_id q = job_id \<longrightarrow> r_id q = i)"
    using arg_cong [OF assms(3), of "\<lambda>xs. \<forall>(a, b) \<in> set xs. b = job_id \<longrightarrow> a = i"] by simp
  have "j' \<in> set (jobs (data w'))"
    using j(1) by (auto simp: assms(4) finished_jobs_def upd_where_def j'_def)
  moreover have "completed_message U j' = completed_message U j" "j_id j' = job_id"
    by (simp_all add: completed_message_def completed_payload_def j'_def j(2))
  moreover have "j_state j' \<in> {JobStateSUCCEEDED, JobStateFAILED}"
    using j(4) assms(5) by (simp add: j'_def)
  moreover have "j_state j' = (if st = RunStateFAILED then JobStateFAILED else JobStateSUCCEEDED)"
    if "\<forall>q \<in> set (runs (data w)). r_job_id q = job_id \<longrightarrow> r_id q = i"
    using j(2,5) assms(6) that by (auto simp: j'_def)
  ultimately show ?thesis
    unfolding announced_def sole using j(3) assms(2) by (intro bexI [of _ j']) auto
qed

text \<open>A poll that ends a task of another run, or of this one.\<close>

lemma map_upd_ids:
  assumes "distinct (map r_id rs)" and "q \<in> set rs"
  shows "map (\<lambda>r. (r_id r, r_job_id r)) (upd_where (\<lambda>r. r_id r = r_id q) (\<lambda>_. ended_run p q) rs)
    = map (\<lambda>r. (r_id r, r_job_id r)) rs"
  using map_upd_const [OF assms, of "ended_run p q" "\<lambda>r. (r_id r, r_job_id r)"] by simp

lemma poll_ends_well:
  assumes "drainable W w" and "waiting (data w) \<noteq> 0" and "w' = snd (run_state (pollAndProcess U W) w)"
    and "ends_well U w i job_id st"
  shows "ends_well U w' i job_id st"
proof -
  obtain c where c: "c \<in> set (tasks (data w))" "t_state c = TaskStatePENDING"
    "leases W w (lease_row (context_of w) (owner_of W) c)"
    by (rule drainable_leases [OF assms(1,2)])
  have int: "integrity (data w)" and tal: "tallied (data w)"
    using assms(1) by (simp_all add: drainable_def)
  obtain q where q: "q \<in> set (runs (data w))" "r_id q = t_run_id c"
    using task_has_run [OF int c(1)] by metis
  show ?thesis
  proof (cases "r_state q = RunStateCANCELLED")
    case True
    with poll_cancelled_progress [OF assms(1) c q _ assms(3)] assms(4) show ?thesis
      by (simp add: ends_well_def announced_def)
  next
    case False
    obtain c' j where poll: 
      "runs (data w') = upd_where (\<lambda>r. r_id r = r_id q) (\<lambda>_. ended_run (context_of w) q) (runs (data w))"
      "j \<in> set (jobs (data w))" "j_id j = r_job_id q"
      "jobs (data w') = (if all_ended q then finished_jobs (r_job_id q)
          (if 0 < r_tasks_failed q then JobStateFAILED else JobStateSUCCEEDED) (clock w) (jobs (data w))
         else jobs (data w))"
      "topics w' = (if all_ended q then topics w @ [completed_message U j] else topics w)"
      by (rule poll_ends_task [OF assms(1) c q False assms(3)])
    have ids: "distinct (map r_id (runs (data w)))"
      using int by (simp add: integrity_defs)
    have run: "tallied_run (data w) q"
      by (rule tallied_in_range(1) [OF tal q(1) False])
    have pos: "0 < r_tasks_pending q"
      using run c(1,2) q(2) by (auto simp: tallied_run_def tasks_in_def filter_empty_conv)
    have map_ids: "map (\<lambda>r. (r_id r, r_job_id r)) (runs (data w')) = map (\<lambda>r. (r_id r, r_job_id r)) (runs (data w))"
      unfolding poll(1) by (rule map_upd_ids [OF ids q(1)])
    obtain r where r: "r \<in> set (runs (data w))" "r_id r = i" "r_job_id r = job_id"
      "r_state r \<noteq> RunStateCANCELLED" "final_state r = st"
      "will_end r \<or> r_state r = st \<and> announced U w i job_id st"
      using assms(4) by (auto simp: ends_well_def)
    have keep: "announced U w' i job_id st" if "announced U w i job_id st" "all_ended q \<Longrightarrow> r_id q \<noteq> i"
    proof (cases "all_ended q")
      case True
      have "\<exists>x \<in> set (runs (data w)). r_job_id x = job_id \<and> r_id x \<noteq> i" if "r_job_id q = job_id"
        using q(1) that True \<open>all_ended q \<Longrightarrow> r_id q \<noteq> i\<close> by blast
      then show ?thesis
        using True poll(4,5) by (intro announced_finished [OF that(1) _ map_ids]) auto
    next
      case False
      have "(\<forall>q \<in> set (runs (data w')). r_job_id q = job_id \<longrightarrow> r_id q = i)
          \<longleftrightarrow> (\<forall>q \<in> set (runs (data w)). r_job_id q = job_id \<longrightarrow> r_id q = i)"
        using arg_cong [OF map_ids, of "\<lambda>xs. \<forall>(a, b) \<in> set xs. b = job_id \<longrightarrow> a = i"] by simp
      with False poll(4,5) that(1) show ?thesis by (simp add: announced_def)
    qed
    show ?thesis
    proof (cases "r_id q = i")
      case False
      then have "r \<in> set (runs (data w'))"
        using r(1,2) by (auto simp: poll(1) upd_where_def)
      then show ?thesis
        using r keep False by (auto simp: ends_well_def)
    next
      case True
      then have "q = r" using unique_row [OF ids q(1) r(1)] r(2) by simp
      define r' where "r' = ended_run (context_of w) r"
      have "r' \<in> (\<lambda>_. r') ` {r \<in> set (runs (data w)). r_id r = r_id q}"
        using q(1) by blast
      then have r': "r' \<in> set (runs (data w'))"
        unfolding poll(1) set_upd_where r'_def \<open>q = r\<close> by blast
      have "will_end r' \<or> r_state r' = st \<and> announced U w' i job_id st"
      proof (cases "all_ended r")
        case True
        define j' where "j' = j\<lparr>j_state := (if 0 < r_tasks_failed r then JobStateFAILED else JobStateSUCCEEDED),
          j_finished_at := Some (clock w)\<rparr>"
        have "j' \<in> set (jobs (data w'))"
          using True poll(2-4) by (auto simp: \<open>q = r\<close> j'_def finished_jobs_def upd_where_def)
        moreover have "completed_message U j' \<in> set (topics w')"
          using True poll(5) by (simp add: \<open>q = r\<close> j'_def completed_message_def completed_payload_def)
        moreover have "j_id j' = job_id" "st = (if 0 < r_tasks_failed r then RunStateFAILED else RunStateSUCCEEDED)"
          using poll(3) r(3,5) by (simp_all add: j'_def \<open>q = r\<close> final_state_def)
        ultimately have "announced U w' i job_id st"
          unfolding announced_def by (intro bexI [of _ j']) (simp_all add: j'_def)
        with True r(5) show ?thesis by (simp add: r'_def final_state_def)
      next
        case False
        then show ?thesis
          using r(6) ended_run_outcome(3) [OF run pos] r(4) keep by (auto simp: r'_def \<open>q = r\<close>)
      qed
      moreover have "r_id r' = i" "r_job_id r' = job_id" "r_state r' \<noteq> RunStateCANCELLED" "final_state r' = st"
        using r(2-5) by (auto simp: r'_def final_state_def split: if_splits)
      ultimately show ?thesis
        unfolding ends_well_def using r' by blast
    qed
  qed
qed

lemma loop_ends_well:
  assumes "drainable W w" and "ends_well U w i job_id st"
  shows "ends_well U (snd (run_state (worker_loop U W n) w)) i job_id st"
  using assms
proof (induction n arbitrary: w)
  case (Suc n)
  define w1 where "w1 = snd (run_state (pollAndProcess U W) w)"
  have "drainable W w1 \<and> ends_well U w1 i job_id st"
  proof (cases "waiting (data w) = 0")
    case True
    with Suc.prems show ?thesis by (simp add: w1_def idle_poll)
  next
    case False
    with poll_makes_progress [OF Suc.prems(1) _ w1_def] poll_ends_well [OF Suc.prems(1) _ w1_def Suc.prems(2)]
    show ?thesis by (simp add: poll_progress_def)
  qed
  then have "drainable W (w1\<lparr>clock := clock w1 + seconds 2\<rparr>)"
    "ends_well U (w1\<lparr>clock := clock w1 + seconds 2\<rparr>) i job_id st"
    by (simp_all add: drainable_later ends_well_def announced_def)
  from Suc.IH [OF this] show ?case
    by (simp add: worker_loop_Suc w1_def [symmetric] Let_def del: worker_loop.simps)
qed simp

text \<open>
  A run that has waiting tasks, and whose tasks all wait or have ended, finishes: after as
  many polls as tasks wait in the queue it is failed if one of its tasks had failed and succeeded
  otherwise, its completion is announced on the topic of completed jobs, and its job has finished,
  in the same way as the run if that is the only run of the job.
\<close>
lemma loop_announces:
  assumes "drainable W w" and "waiting (data w) \<le> n" and "r \<in> set (runs (data w))" and "will_end r"
    and "w' = snd (run_state (worker_loop U W n) w)"
  shows "\<exists>r' \<in> set (runs (data w')). r_id r' = r_id r \<and> r_job_id r' = r_job_id r
      \<and> r_state r' = final_state r \<and> announced U w' (r_id r) (r_job_id r) (final_state r)"
proof -
  have "ends_well U w (r_id r) (r_job_id r) (final_state r)"
    using assms(3,4) by (auto simp: ends_well_def will_end_def)
  from loop_ends_well [OF assms(1) this, of n, folded assms(5)]
  obtain r' where r': "r' \<in> set (runs (data w'))" "r_id r' = r_id r" "r_job_id r' = r_job_id r"
    "r_state r' \<noteq> RunStateCANCELLED"
    "will_end r' \<or> r_state r' = final_state r \<and> announced U w' (r_id r) (r_job_id r) (final_state r)"
    by (auto simp: ends_well_def)
  have "drainable W w'" "waiting (data w') = 0"
    using loop_progress(1,2) [OF assms(1,5)] assms(2) by simp_all
  then have "\<not> will_end r'"
    using r'(1) tallied_in_range(1) [of "data w'" r'] r'(4)
    by (auto simp: drainable_def will_end_def tallied_run_def tasks_in_def waiting_def filter_empty_conv)
  with r' show ?thesis by blast
qed

end
