(* ===== verification/Platform.thy ===== *)
theory Platform imports Access Controllers Drain begin

text \<open>
  The services together: the platform as a transition system whose steps are the actions of the
  services, each under any interference and any fault, and the way of a submitted job from the
  gateway to its planned run.
\<close>

section \<open>The platform as a transition system\<close>

text \<open>
  One rule per entry point of a service. The slots of the world decide what the other processes do
  during an action and which of its calls fail; between two actions new slots may come.
\<close>

inductive platform_step :: "world \<Rightarrow> world \<Rightarrow> bool" where
  request: "platform_step w (snd (run_state (serve g salt tp header req) w))"
| dispatch_round: "platform_step w (snd (run_state (dispatch U) w))"
| submitted: "platform_step w
    (snd (run_state (Consume (HandleJobSubmitted U has_k8s) ''job.submitted'' reads) w))"
| completed: "platform_step w (snd (run_state (Consume HandleJobCompleted ''job.completed'' reads) w))"
| poll: "breaker_ok W \<Longrightarrow> platform_step w (snd (run_state (pollAndProcess U W) w))"
| beat: "platform_step w (snd (run_state (heartbeat U W i ticks) w))"
| tick: "platform_step w (snd (run_state (evaluate cfg has_k8s since) w))"
| cleanup: "platform_step w (snd (run_state runCleanup w))"
| environment: "platform_step w (w\<lparr>slots := ss, clock := clock w + int t\<rparr>)"

inductive platform :: "world \<Rightarrow> world \<Rightarrow> bool" where
  platform_refl: "platform w w"
| platform_step: "platform w w' \<Longrightarrow> platform_step w' w'' \<Longrightarrow> platform w w''"

lemma follows_any: "state_io_rel (follows (\<lambda>_. True)) m \<Longrightarrow>
    uuids (snd (run_state m w)) = uuids w
    \<and> db_steps (uuids w) (\<lambda>_. True) (data w) (data (snd (run_state m w)))"
  using state_io_relD [OF _ prod.collapse [symmetric]]
  by (fastforce simp: follows_def others_within_def list_all_iff)

interpretation scheduler_any: message_handler "HandleJobSubmitted U has_k8s" "\<lambda>_. True" for U has_k8s
  by unfold_locales (simp_all add: follows_HandleJobSubmitted uses_HandleJobSubmitted)

interpretation completed_any: message_handler HandleJobCompleted "\<lambda>_. True"
  by unfold_locales (simp_all add: follows_HandleJobCompleted uses_HandleJobCompleted)

lemma platform_step_follows:
  assumes "platform_step w w'"
  shows "uuids w' = uuids w \<and> db_steps (uuids w) (\<lambda>_. True) (data w) (data w')"
  using assms
proof cases
  case (environment ss t)
  then show ?thesis by (simp add: db_steps_refl)
qed (auto intro!: follows_any follows_serve follows_dispatch scheduler_any.Consume_follows
    completed_any.Consume_follows follows_pollAndProcess follows_heartbeat follows_evaluate
    follows_runCleanup)

lemma platform_follows:
  "platform w w' \<Longrightarrow> uuids w' = uuids w \<and> db_steps (uuids w) (\<lambda>_. True) (data w) (data w')"
proof (induction rule: platform.induct)
  case (platform_step w w' w'')
  then show ?case
    using platform_step_follows [of w' w''] by (auto intro: db_steps_trans)
qed (simp add: db_steps_refl)



section \<open>From the request to the planned run\<close>

lemma run_Consume_one:
  assumes "slots w = []" and "fst (run_state (HandleJobSubmitted U has_k8s (message_trace msg) (m_value msg)) w) = Inr ()"
  shows "snd (run_state (Consume (HandleJobSubmitted U has_k8s) topic [Inr msg]) w)
    = snd (run_state (HandleJobSubmitted U has_k8s (message_trace msg) (m_value msg)) w)"
  using assms
  by (simp add: scheduler_handler.consume_quiet case_prod_unfold Let_def run_attempt_def)

lemma submission_planned:
  assumes "slots w = []" and "running_jobs w ws < n" and "int8 (running_jobs w ws + 1)"
    and "uuid_ok U" and "uuid_Parse U ws = Inr wsid" and "uuid_Parse U creator = Inr byid"
    and "uuid_Parse U ds = Inr dsid"
    and "job = new_job (CreateJob_params wsid byid dsid entry (Some ps) (Some c) mr key)
                 (uuids w (drawn (data w))) (clock w) ps c"
    and "check_job job (data w) = None"
    and "event = submitted_event U ws tp (uuids w (drawn (data w) + 1)) (j_id job) (clock w)"
    and "check_event event (data w) = None"
    and "list_all (\<lambda>e. o_status e \<noteq> OutboxStatusPENDING) (outbox (data w))"
    and "d = (data w)\<lparr>jobs := jobs (data w) @ [job], outbox := outbox (data w) @ [delivered (clock w) event],
               drawn := drawn (data w) + 2\<rparr>"
    and "fresh_plan (uuids w) d"
    and "w1 = snd (run_state (CreateJob U n tp ws creator ds entry (Some ps) (Some c) mr key) w)"
    and "w2 = snd (run_state (dispatch U) w1)"
  shows "\<exists>msg. slots w2 = [] \<and> uuids w2 = uuids w \<and> data w2 = d
    \<and> topics w2 = topics w @ [msg] \<and> m_topic msg = ''job.submitted''
    \<and> data (snd (run_state (Consume (HandleJobSubmitted U has_k8s) ''job.submitted'' [Inr msg]) w2))
        = planned (uuids w) (j_id job) wsid (clock w) d"
proof -
  have w1: "w1 = w\<lparr>data := (data w)\<lparr>jobs := jobs (data w) @ [job], outbox := outbox (data w) @ [event],
                      drawn := drawn (data w) + 2\<rparr>,
                redis := (redis w)(rate_key ws \<mapsto> running_jobs w ws + 1)\<rparr>"
    using run_CreateJob [OF assms(1-3,5-11)] assms(15) by simp
  have "\<forall>e \<in> set (outbox (data w)). o_id e \<noteq> o_id event"
    using assms(11) by (auto simp: check_event_def has_key_iff image_iff split: if_splits)
  then have old: "filter (\<lambda>e. o_status e = OutboxStatusPENDING) (outbox (data w)) = []"
    "upd_where (\<lambda>e. o_id e = o_id event) f (outbox (data w)) = outbox (data w)" for f
    using assms(12) by (simp_all add: filter_empty_conv list_all_iff upd_where_none)
  have pending: "o_status event = OutboxStatusPENDING" "o_event_type event = ''job.submitted''"
    by (simp_all add: assms(10) submitted_event_def)
  have batch: "fst (getPendingOutboxEvents (context_of w1) (data w1)) = Inr [event]"
    using old(1) pending by (simp add: getPendingOutboxEvents_def w1)
  define msg where "msg = event_message U event"
  have w2: "w2 = w1\<lparr>topics := topics w1 @ [msg], data := (data w1)\<lparr>outbox :=
      outbox (data w) @ [delivered (clock w) event]\<rparr>\<rparr>"
    using run_dispatch [OF _ batch, of U] assms(1,16) old(2) by (simp add: w1 msg_def)
  have data2: "data w2 = d"
    by (simp add: w2 w1 assms(13))
  have parse: "parse_event (m_value msg) = Inr \<lparr>ev_JobID = uuid_String U (j_id job), ev_WorkspaceID = ws\<rparr>"
    by (simp add: msg_def event_message_def assms(10) submitted_event_def)
  have keys: "has_key j_id (jobs d) (j_id job)" "has_key w_id (workspaces d) wsid"
    using assms(8,9) by (auto simp: assms(13) check_job_def new_job_def CreateJob_params_def split: if_splits)
  have quiet: "slots w2 = []" and ctx: "uuids w2 = uuids w" "clock w2 = clock w"
    using assms(1) by (simp_all add: w2 w1)
  note plan = scheduler_plans [OF quiet parse, where U = U and jid = "j_id job" and wsid = wsid]
  have handled: "fst (run_state (HandleJobSubmitted U has_k8s (message_trace msg) (m_value msg)) w2) = Inr ()"
    "data (snd (run_state (HandleJobSubmitted U has_k8s (message_trace msg) (m_value msg)) w2))
        = planned (uuids w) (j_id job) wsid (clock w) d"
    using plan assms(4,5,14) keys by (simp_all add: data2 ctx)
  have "topics w2 = topics w @ [msg]" "m_topic msg = ''job.submitted''"
    by (simp_all add: w2 w1 msg_def event_message_def pending)
  then show ?thesis
    using handled(2) quiet ctx data2
    by (intro exI [of _ msg]) (simp only: run_Consume_one [OF quiet handled(1)] simp_thms)
qed

text \<open>
  C8: a job that the gateway accepts is planned, once, by way of the outbox and the bus: the
  submission, one round of the dispatcher and the scheduler's consumer leave the job queued with one
  run of three pending tasks, its event delivered, and one message on the topic of submitted jobs.
\<close>
theorem submission_becomes_a_planned_run:
  assumes "slots w = []" and "running_jobs w ws < n" and "int8 (running_jobs w ws + 1)"
    and "uuid_ok U" and "uuid_Parse U ws = Inr wsid" and "uuid_Parse U creator = Inr byid"
    and "uuid_Parse U ds = Inr dsid"
    and "job = new_job (CreateJob_params wsid byid dsid entry (Some ps) (Some c) mr key)
                 (uuids w (drawn (data w))) (clock w) ps c"
    and "check_job job (data w) = None"
    and "event = submitted_event U ws tp (uuids w (drawn (data w) + 1)) (j_id job) (clock w)"
    and "check_event event (data w) = None"
    and "list_all (\<lambda>e. o_status e \<noteq> OutboxStatusPENDING) (outbox (data w))"
    and "d = (data w)\<lparr>jobs := jobs (data w) @ [job], outbox := outbox (data w) @ [delivered (clock w) event],
               drawn := drawn (data w) + 2\<rparr>"
    and "fresh_plan (uuids w) d"
    and "w1 = snd (run_state (CreateJob U n tp ws creator ds entry (Some ps) (Some c) mr key) w)"
    and "w2 = snd (run_state (dispatch U) w1)"
  shows "\<exists>msg. topics w2 = topics w @ [msg] \<and> m_topic msg = ''job.submitted''
    \<and> data (snd (run_state (Consume (HandleJobSubmitted U has_k8s) ''job.submitted'' [Inr msg]) w2))
        = planned (uuids w) (j_id job) wsid (clock w) d"
  using submission_planned [OF assms, of has_k8s] by blast

theorem submission_becomes_a_planned_run_witness:
  "let w1 = snd (run_state (CreateJob sample_uuids 10 ''tp'' (uuid_text 2) (uuid_text 1) (uuid_text 3)
         ''transform'' (Some (JObject [])) (Some (JObject [])) 2 ''k2'') (sample_world\<lparr>data := sample_db\<lparr>outbox := []\<rparr>\<rparr>));
       w2 = snd (run_state (dispatch sample_uuids) w1)
   in \<exists>msg. topics w2 = [msg] \<and> length (tasks (data (snd (run_state
        (Consume (HandleJobSubmitted sample_uuids True) ''job.submitted'' [Inr msg]) w2)))) = 6"
proof -
  let ?w = "sample_world\<lparr>data := sample_db\<lparr>outbox := []\<rparr>\<rparr>"
  let ?job = "new_job (CreateJob_params 2 1 3 ''transform'' (Some (JObject [])) (Some (JObject [])) 2 ''k2'')
      100 10 (JObject []) (JObject [])"
  let ?event = "submitted_event sample_uuids (uuid_text 2) ''tp'' 101 100 10"
  let ?d = "sample_db\<lparr>outbox := []\<rparr>\<lparr>jobs := jobs sample_db @ [?job], outbox := [delivered 10 ?event], drawn := 2\<rparr>"
  have ok: "check_job ?job (sample_db\<lparr>outbox := []\<rparr>) = None" "check_event ?event (sample_db\<lparr>outbox := []\<rparr>) = None"
    by (simp_all add: check_job_def check_event_def new_job_def CreateJob_params_def sample_db_def sample_rows)
  have id: "j_id ?job = 100" by (simp add: new_job_def)
  have "gen sample_pg 2 = 102" "gen sample_pg (Suc (Suc 0)) = 102" "gen sample_pg 3 = 103" "gen sample_pg 4 = 104" "gen sample_pg 5 = 105"
    by (simp_all add: sample_gen)
  then have fresh: "fresh_plan (gen sample_pg) ?d"
    by (simp add: fresh_plan_def) (simp add: sample_db_def sample_rows)
  define w1 where "w1 = snd (run_state (CreateJob sample_uuids 10 ''tp'' (uuid_text 2) (uuid_text 1) (uuid_text 3)
         ''transform'' (Some (JObject [])) (Some (JObject [])) 2 ''k2'') ?w)"
  note e2e = submission_becomes_a_planned_run [where w = ?w and ws = "uuid_text 2" and n = 10 and U = sample_uuids
      and wsid = 2 and creator = "uuid_text 1" and byid = 1 and ds = "uuid_text 3" and dsid = 3 and job = ?job
      and entry = "''transform''" and ps = "JObject []" and c = "JObject []" and mr = 2 and key = "''k2''"
      and event = ?event and tp = "''tp''" and d = ?d and has_k8s = True]
  obtain msg where "topics (snd (run_state (dispatch sample_uuids) w1)) = [msg]"
    "data (snd (run_state (Consume (HandleJobSubmitted sample_uuids True) ''job.submitted'' [Inr msg])
          (snd (run_state (dispatch sample_uuids) w1)))) = planned (gen sample_pg) 100 2 10 ?d"
    using e2e [OF _ _ _ _ _ _ _ _ _ _ _ _ _ _ w1_def refl] ok fresh id
    by (simp add: running_jobs_def int8_def) blast
  moreover have "length (tasks (planned (gen sample_pg) 100 2 10 ?d)) = 6"
    by (simp add: planned_def Let_def) (simp add: sample_db_def)
  ultimately show ?thesis
    unfolding w1_def [symmetric] Let_def by (intro exI [of _ msg]) simp
qed

end
