(* ===== verification/Lifecycle.thy ===== *)
theory Lifecycle imports Platform begin

text \<open>
  The whole life of a job: submitted at the gateway, carried over the outbox and the bus, planned by
  the scheduler, worked off by a worker, announced, and its place under the rate limit given back.
  Each stage hands the next one the state that the next one's progress needs.
\<close>

section \<open>Calls that leave the rate limits alone\<close>

definition keeps_limits :: "world \<Rightarrow> world \<Rightarrow> bool" where
  "keeps_limits w w' \<longleftrightarrow> (slots w = [] \<longrightarrow> slots w' = [] \<and> redis w' = redis w)"

interpretation limits: kept_relation keeps_limits
  by unfold_locales (auto simp: keeps_limits_def)

lemma keeps_limits_call:
  assumes "\<And>w. slots (snd (f w)) = slots w \<and> redis (snd (f w)) = redis w"
  shows "state_io_rel keeps_limits (call f)"
proof (rule state_io_relI)
  fix r w w'
  assume run: "run_state (call f) w = (r, w')"
  show "keeps_limits w w'"
    unfolding keeps_limits_def
  proof
    assume "slots w = []"
    with run have "w' = snd (f w)"
      by (simp add: run_call_quiet)
    with assms [of w] \<open>slots w = []\<close> show "slots w' = [] \<and> redis w' = redis w"
      by simp
  qed
qed

lemma keeps_limits_calls:
  "state_io_rel keeps_limits (dbcall q)" "state_io_rel keeps_limits (write_message m)"
  "state_io_rel keeps_limits (kube_call f)"
  unfolding dbcall_def write_message_def kube_call_def
  by (rule keeps_limits_call, simp add: case_prod_unfold Let_def)+

lemma keeps_limits_state:
  "state_io_rel keeps_limits (Add m n)" "state_io_rel keeps_limits (Inc m)"
  "state_io_rel keeps_limits (modify (\<lambda>w. w\<lparr>clock := f w\<rparr>))"
  unfolding Inc_def Add_def by (rule limits.kept_modify, simp add: keeps_limits_def)+

lemma keeps_limits_wait: "state_io_rel keeps_limits (wait t)"
  by (rule state_io_relI) (auto simp: keeps_limits_def run_wait_quiet)

lemma keeps_limits_breaker:
  assumes "breaker_closed W" and "state_io_rel keeps_limits m"
  shows "state_io_rel keeps_limits (dbBreaker W m)"
  using assms by (auto simp: breaker_closed_def intro!: state_io_relI dest: state_io_relD)

lemma keeps_limits_parsed:
  "(\<And>i. state_io_rel keeps_limits (k i)) \<Longrightarrow> state_io_rel keeps_limits (parsed U s msg k)"
  unfolding parsed_def by (intro limits.kept_sum limits.kept_return)

lemmas limits_intros = limits.kept_intros keeps_limits_calls keeps_limits_state keeps_limits_wait
  keeps_limits_parsed

lemma keeps_limits_dispatch: "state_io_rel keeps_limits (dispatch U)"
  unfolding dispatch_def dispatch_event_def Publish_def by (intro limits_intros)

lemma keeps_limits_submitted: "state_io_rel keeps_limits (HandleJobSubmitted U has_k8s tp payload)"
  unfolding HandleJobSubmitted_def start_workers_def create_tasks_def EnsureNamespace_def
    CreateWorkerJob_def ApplyNetworkPolicy_def ApplyResourceQuota_def tolerate_existing_def
  by (intro limits_intros)

interpretation limits_bus: bus_relation keeps_limits "HandleJobSubmitted U has_k8s" for U has_k8s
  by unfold_locales (fact keeps_limits_submitted keeps_limits_wait keeps_limits_calls)+

lemma keeps_limits_poll:
  assumes "breaker_closed W"
  shows "state_io_rel keeps_limits (pollAndProcess U W)"
proof -
  have python: "state_io_rel keeps_limits (run_python W env)" for env
    unfolding run_python_def by (rule keeps_limits_call) simp
  show ?thesis
    unfolding pollAndProcess_def lease_closure_def handle_leased_def handle_success_def
      handle_failure_def mark_dead_def process_task_def checkAndCompleteRun_def Publish_def
    by (intro limits_intros keeps_limits_breaker [OF assms] python)
qed

lemma keeps_limits_worker:
  assumes "breaker_closed W"
  shows "state_io_rel keeps_limits (worker_loop U W n)"
  by (induction n) (simp_all, (intro limits_intros keeps_limits_poll [OF assms])+)

lemma keeps_limitsD:
  assumes "state_io_rel keeps_limits m" and "slots w = []"
  shows "slots (snd (run_state m w)) = []" and "running_jobs (snd (run_state m w)) ws = running_jobs w ws"
  using state_io_relD [OF assms(1) prod.collapse [symmetric]] assms(2)
  by (simp_all add: keeps_limits_def running_jobs_def)

section \<open>Jobs keep their workspace\<close>

definition job_homes :: "db \<Rightarrow> (uuid \<times> uuid) list" where
  "job_homes d = map (\<lambda>j. (j_id j, j_workspace_id j)) (jobs d)"

lemma job_homes_updated:
  assumes "\<And>j. j_id (f j) = j_id j \<and> j_workspace_id (f j) = j_workspace_id j"
  shows "map (\<lambda>j. (j_id j, j_workspace_id j)) (snd (update_returning P f ok rows))
    = map (\<lambda>j. (j_id j, j_workspace_id j)) rows"
  using assms update_returning_rows [of P f ok rows] by (auto simp: map_upd_where)

interpretation homes: stmt_invariant G "worker_stmt W" "\<lambda>d. job_homes d = hs" for G W hs
proof
  show "job_homes (exec_stmt s \<lparr>now = t, gen = G\<rparr> d) = hs"
    if "worker_stmt W s" "job_homes d = hs" for s t d
  proof (cases s)
    case (LeaseTask own)
    with that(2) show ?thesis
      by (simp add: leaseTask_def job_homes_def case_prod_unfold Let_def split: list.splits)
  qed (use that in \<open>simp_all add: exec_defs job_homes_def job_homes_updated split: option.splits\<close>)
qed

lemma worker_keeps_homes:
  assumes "breaker_ok W" and "slots w = []"
  shows "job_homes (data (snd (run_state (worker_loop U W n) w))) = job_homes (data w)"
proof -
  have "follows (worker_stmt W) w (snd (run_state (worker_loop U W n) w))"
    by (rule state_io_relD [OF follows_worker_loop [OF assms(1)] prod.collapse [symmetric]])
  then show ?thesis
    using homes.history_keeps assms(2) by (auto simp: follows_def others_within_def)
qed


section \<open>A planned job is ready to be worked off\<close>

lemma tallied_planned:
  assumes "tallied d" and "integrity d" and "fresh_plan G d" and "length (tasks d) + 3 < 1000000000"
  shows "tallied (planned G i ws t d)"
proof -
  define k r where "k = drawn d" and "r = G k"
  have new: "r_id q \<noteq> r" if "q \<in> set (runs d)" for q
    using assms(3) imageI [OF that, of r_id] by (auto simp: fresh_plan_def Let_def k_def r_def has_key_iff)
  then have "t_run_id x \<noteq> r" if "x \<in> set (tasks d)" for x
    using task_has_run [OF assms(2) that] by metis
  then have none: "filter (\<lambda>x. t_run_id x = r \<and> t_state x = s) (tasks d) = []"
    "filter (\<lambda>x. t_run_id x = r) (tasks d) = []" for s
    by (auto simp: filter_empty_conv)
  have "tallied_run (planned G i ws t d) q"
    if "q \<in> set (runs d)" "r_state q \<noteq> RunStateCANCELLED" for q
    using new [OF that(1)] tallied_in_range(1) [OF assms(1) that]
    by (simp add: tallied_run_def tasks_in_def planned_def Let_def planned_task_def k_def r_def)
  moreover have "tallied_run (planned G i ws t d) (planned_run r i ws t)"
    using none
    by (simp add: tallied_run_def tasks_in_def planned_def Let_def planned_task_def planned_run_def k_def r_def)
  ultimately show ?thesis
    using assms(4) by (auto simp: tallied_def list_all_iff planned_def Let_def k_def r_def)
qed

lemma drainable_planned:
  assumes "drainable W w" and "slots w' = []" and "integrity (data w')"
    and "tasks d = tasks (data w)" and "runs d = runs (data w)" and "integrity d"
    and "fresh_plan G d" and "G (drawn d) \<noteq> uuid_nil" and "length (tasks (data w)) + 3 < 1000000000"
    and "data w' = planned G i ws t d"
  shows "drainable W w'" and "waiting (data w') = waiting (data w) + 3"
proof -
  have "tallied d"
    using assms(1,4,5) by (simp add: drainable_def tallied_def tallied_run_def tasks_in_def)
  then have "tallied (data w')"
    unfolding assms(10) using assms(4,6,7,9) by (intro tallied_planned) simp_all
  then show "drainable W w'"
    using assms(1-5,8) by (simp add: drainable_def assms(10) planned_def Let_def planned_run_def planned_task_def)
  show "waiting (data w') = waiting (data w) + 3"
    by (simp add: assms(4,10) planned_def Let_def planned_task_def waiting_def)
qed

lemma job_homes_planned: "job_homes (planned G i ws t d) = job_homes d"
  by (simp add: job_homes_def planned_def Let_def queued_def map_upd_where)

text \<open>The runs of a job that was new before its plan: only the planned one.\<close>

lemma runs_of_new_job:
  assumes "integrity d" and "\<not> has_key j_id (jobs d) i" and "runs d' = runs d"
  shows "filter (\<lambda>q. r_job_id q = i) (runs (planned G i ws t d')) = [planned_run (G (drawn d')) i ws t]"
proof -
  have "filter (\<lambda>q. r_job_id q = i) (runs d) = []"
    using assms(1,2) by (auto simp: filter_empty_conv integrity_defs list_all_iff)
  then show ?thesis
    by (simp add: planned_def Let_def assms(3)) (simp add: planned_run_def)
qed

lemma filter_outcomes:
  "map r_state (filter (\<lambda>q. r_job_id q = i) rs) =
    map (\<lambda>(a, b, s). s) (filter (\<lambda>(a, b, s). b = i) (map (\<lambda>q. (r_id q, r_job_id q, r_state q)) rs))"
  "map run_outcome (filter (\<lambda>q. r_job_id q = i) rs) =
    map (\<lambda>(a, b, s). s) (filter (\<lambda>(a, b, s). b = i) (map (\<lambda>q. (r_id q, r_job_id q, run_outcome q)) rs))"
  by (induction rs) simp_all

lemma planned_job_completes:
  assumes "drainable W w" and "waiting (data w) \<le> n"
    and "filter (\<lambda>q. r_job_id q = i) (runs (data w)) = [planned_run r i ws t]"
    and "w' = snd (run_state (worker_loop U W n) w)"
  shows "map r_state (filter (\<lambda>q. r_job_id q = i) (runs (data w'))) = [RunStateSUCCEEDED]"
    and "\<exists>j \<in> set (jobs (data w')). j_id j = i \<and> j_state j = JobStateSUCCEEDED \<and> completed_message U j \<in> set (topics w')"
proof -
  let ?r = "planned_run r i ws t"
  have ends: "will_end ?r" "final_state ?r = RunStateSUCCEEDED" "r_id ?r = r" "r_job_id ?r = i"
    by (simp_all add: planned_run_def will_end_def final_state_def)
  have "waiting (data w') = 0"
    using loop_progress(2) [OF assms(1,4)] assms(2) by simp
  from outcomes_empty [OF loop_progress(1) [OF assms(1,4)] this, unfolded loop_progress(3) [OF assms(1,4)]]
  have runs': "map (\<lambda>q. (r_id q, r_job_id q, r_state q)) (runs (data w'))
      = map (\<lambda>q. (r_id q, r_job_id q, run_outcome q)) (runs (data w))"
    by (simp only: outcomes_def prod.inject)
  have "map r_state (filter (\<lambda>q. r_job_id q = i) (runs (data w'))) = map run_outcome (filter (\<lambda>q. r_job_id q = i) (runs (data w)))"
    unfolding filter_outcomes runs' ..
  then show "map r_state (filter (\<lambda>q. r_job_id q = i) (runs (data w'))) = [RunStateSUCCEEDED]"
    by (simp add: assms(3) run_outcome_def ends)
  have mem: "?r \<in> set (filter (\<lambda>q. r_job_id q = i) (runs (data w)))"
    by (simp add: assms(3))
  have sole: "r_id q = r" if "q \<in> set (runs (data w))" "r_job_id q = i" for q
  proof -
    have "q \<in> set (filter (\<lambda>q. r_job_id q = i) (runs (data w)))" using that by simp
    then show ?thesis by (simp add: assms(3) ends(3))
  qed
  have "map (\<lambda>q. (r_id q, r_job_id q)) (runs (data w')) = map (\<lambda>q. (r_id q, r_job_id q)) (runs (data w))"
    using arg_cong [OF runs', of "map (\<lambda>(a, b, s). (a, b))"] by (simp add: comp_def)
  from arg_cong [OF this, of set]
  have pairs: "(\<lambda>q. (r_id q, r_job_id q)) ` set (runs (data w')) = (\<lambda>q. (r_id q, r_job_id q)) ` set (runs (data w))"
    by (simp only: set_map)
  have sole': "r_id q = r" if "q \<in> set (runs (data w'))" "r_job_id q = i" for q
  proof -
    have "(r_id q, i) \<in> (\<lambda>q. (r_id q, r_job_id q)) ` set (runs (data w))"
      using that unfolding pairs [symmetric] by blast
    then show ?thesis using sole by auto
  qed
  have "announced U w' r i RunStateSUCCEEDED"
    using loop_announces [OF assms(1,2) _ ends(1) assms(4)] mem by (auto simp: ends)
  with sole' show "\<exists>j \<in> set (jobs (data w')). j_id j = i \<and> j_state j = JobStateSUCCEEDED \<and> completed_message U j \<in> set (topics w')"
    by (auto simp: announced_def)
qed

section \<open>The completion reaches the gateway\<close>

lemma completion_decrements:
  assumes "slots w = []" and "running_jobs w ws = k + 1" and "int8 k" and "ws = uuid_String U (j_workspace_id j)"
  shows "running_jobs (snd (run_state (Consume HandleJobCompleted ''job.completed'' [Inr (completed_message U j)]) w)) ws = k"
proof -
  have parse: "parse_event (Inr (completed_payload U j)) = Inr \<lparr>ev_JobID = uuid_String U (j_id j), ev_WorkspaceID = ws\<rparr>"
    unfolding parse_event_def completed_payload_def Unmarshal_fields_Marshal_map sum.case
      decode_string_field_strings assms(4)
    by (simp add: fold_eq_def lower_def)
  have redis: "redis w (rate_key ws) = Some (k + 1) \<or> redis w (rate_key ws) = None \<and> k + 1 = 0"
    using assms(2) by (auto simp: running_jobs_def split: option.splits)
  have run: "run_state (HandleJobCompleted tp (m_value (completed_message U j))) w = (Inr (), w\<lparr>redis := (redis w)(rate_key ws \<mapsto> k)\<rparr>)" for tp
    using assms(1-3) by (simp add: HandleJobCompleted_def completed_message_def parse run_DecrementRunningJobs)
  then have "snd (run_state (Consume HandleJobCompleted ''job.completed'' [Inr (completed_message U j)]) w)
      = w\<lparr>redis := (redis w)(rate_key ws \<mapsto> k)\<rparr>"
    using completed_handler.consume_quiet [OF assms(1)] by (simp add: case_prod_unfold Let_def run_attempt_def)
  then show ?thesis by (simp add: running_jobs_def)
qed

section \<open>From the request to the completion\<close>

text \<open>
  C1: a job that the gateway accepts completes: on a quiet platform whose worker's runner succeeds
  and whose queue is in order, the submission, a round of the dispatcher, the scheduler and as many
  polls as tasks wait by then leave the job succeeded with one run, succeeded, and its completion
  on the bus; and the gateway that reads it has the workspace's counter of running jobs back where
  it was before the submission.
\<close>
theorem submitted_job_completes:
  assumes "drainable W w" and "running_jobs w ws < n" and "int8 (running_jobs w ws)" and "int8 (running_jobs w ws + 1)"
    and "uuid_ok U" and "uuid_Parse U ws = Inr wsid" and "ws = uuid_String U wsid"
    and "uuid_Parse U creator = Inr byid" and "uuid_Parse U ds = Inr dsid"
    and "job = new_job (CreateJob_params wsid byid dsid entry (Some ps) (Some c) mr key)
                 (uuids w (drawn (data w))) (clock w) ps c"
    and "check_job job (data w) = None"
    and "event = submitted_event U ws tp (uuids w (drawn (data w) + 1)) (j_id job) (clock w)"
    and "check_event event (data w) = None"
    and "list_all (\<lambda>e. o_status e \<noteq> OutboxStatusPENDING) (outbox (data w))"
    and "d = (data w)\<lparr>jobs := jobs (data w) @ [job], outbox := outbox (data w) @ [delivered (clock w) event],
               drawn := drawn (data w) + 2\<rparr>"
    and "fresh_plan (uuids w) d" and "uuids w (drawn d) \<noteq> uuid_nil"
    and "length (tasks (data w)) + 3 < 1000000000" and "waiting (data w) + 3 \<le> polls"
    and "w1 = snd (run_state (CreateJob U n tp ws creator ds entry (Some ps) (Some c) mr key) w)"
    and "w2 = snd (run_state (dispatch U) w1)"
  shows "\<exists>msg w3 w4. topics w2 = topics w @ [msg] \<and> m_topic msg = ''job.submitted''
    \<and> w3 = snd (run_state (Consume (HandleJobSubmitted U has_k8s) ''job.submitted'' [Inr msg]) w2)
    \<and> w4 = snd (run_state (worker_loop U W polls) w3)
    \<and> map r_state (filter (\<lambda>r. r_job_id r = j_id job) (runs (data w4))) = [RunStateSUCCEEDED]
    \<and> (\<exists>j \<in> set (jobs (data w4)). j_id j = j_id job \<and> j_state j = JobStateSUCCEEDED
         \<and> completed_message U j \<in> set (topics w4)
         \<and> running_jobs (snd (run_state (Consume HandleJobCompleted ''job.completed''
              [Inr (completed_message U j)]) w4)) ws = running_jobs w ws)"
proof -
  have quiet: "slots w = []" and closed: "breaker_closed W" and int: "integrity (data w)"
    using assms(1) by (simp_all add: drainable_def)
  obtain msg where msg: "slots w2 = []" "uuids w2 = uuids w" "data w2 = d" "topics w2 = topics w @ [msg]"
    "m_topic msg = ''job.submitted''"
    "data (snd (run_state (Consume (HandleJobSubmitted U has_k8s) ''job.submitted'' [Inr msg]) w2))
      = planned (uuids w) (j_id job) wsid (clock w) d"
    using submission_planned [OF quiet assms(2,4-6,8-16,20,21)] by blast
  define w3 where "w3 = snd (run_state (Consume (HandleJobSubmitted U has_k8s) ''job.submitted'' [Inr msg]) w2)"
  define w4 where "w4 = snd (run_state (worker_loop U W polls) w3)"
  have w1: "slots w1 = []" "running_jobs w1 ws = running_jobs w ws + 1"
    using run_CreateJob [OF quiet assms(2,4,6,8-13)] assms(20) quiet by (simp_all add: running_jobs_def)
  have w2: "running_jobs w2 ws = running_jobs w ws + 1"
    using keeps_limitsD(2) [OF keeps_limits_dispatch, of w1 U ws] w1 assms(21) by simp
  have w3: "slots w3 = []" "running_jobs w3 ws = running_jobs w2 ws"
    using keeps_limitsD [OF limits_bus.Consume_kept msg(1)] unfolding w3_def by blast+
  have w4: "slots w4 = []" "running_jobs w4 ws = running_jobs w3 ws"
    using keeps_limitsD [OF keeps_limits_worker [OF closed] w3(1)] unfolding w4_def by blast+
  have plan: "data w3 = planned (uuids w) (j_id job) wsid (clock w) d"
    using msg(6) by (simp add: w3_def)
  have int_d: "integrity d"
  proof -
    have "integrity (data w1)"
      using follows_any [OF follows_CreateJob [where A = "\<lambda>_. True"]] int db_steps_integrity assms(20) by blast
    then have "integrity (data w2)"
      using follows_any [OF follows_dispatch [where A = "\<lambda>_. True"]] db_steps_integrity assms(21) by blast
    then show ?thesis by (simp add: msg(3))
  qed
  have int_3: "integrity (data w3)"
    using follows_any [OF scheduler_any.Consume_follows] int_d db_steps_integrity msg(3) w3_def by blast
  have new: "\<not> has_key j_id (jobs (data w)) (j_id job)"
    using assms(11) by (auto simp: check_job_def split: if_splits)
  have same: "tasks d = tasks (data w)" "runs d = runs (data w)"
    by (simp_all add: assms(15))
  note ready = drainable_planned [OF assms(1) w3(1) int_3 same int_d assms(16-18) plan]
  have sole: "filter (\<lambda>q. r_job_id q = j_id job) (runs (data w3)) = [planned_run (uuids w (drawn d)) (j_id job) wsid (clock w)]"
    unfolding plan by (rule runs_of_new_job [OF int new same(2)])
  have "waiting (data w3) \<le> polls"
    using ready(2) assms(19) by simp
  note finished = planned_job_completes [OF ready(1) this sole w4_def]
  obtain j where j: "j \<in> set (jobs (data w4))" "j_id j = j_id job" "j_state j = JobStateSUCCEEDED"
    "completed_message U j \<in> set (topics w4)"
    using finished(2) by blast
  have homes: "job_homes (data w4) = job_homes (data w3)"
    using worker_keeps_homes [OF _ w3(1)] closed
    by (simp add: w4_def breaker_ok_def breaker_closed_def del: worker_loop.simps)
  have "j_workspace_id j = wsid"
  proof -
    have "(j_id job, j_workspace_id j) \<in> set (job_homes (data w4))"
      unfolding j(2) [symmetric] job_homes_def using j(1) by force
    then have "(j_id job, j_workspace_id j) \<in> set (job_homes (planned (uuids w) (j_id job) wsid (clock w) d))"
      by (simp only: homes plan)
    then have "(j_id job, j_workspace_id j) \<in> set (job_homes (data w)) \<or> j_workspace_id j = j_workspace_id job"
      unfolding job_homes_planned by (auto simp: job_homes_def assms(15))
    then show ?thesis
      using new by (auto simp: job_homes_def has_key_iff assms(10) new_job_def CreateJob_params_def)
  qed
  then have "running_jobs (snd (run_state (Consume HandleJobCompleted ''job.completed''
      [Inr (completed_message U j)]) w4)) ws = running_jobs w ws"
    using w2 w3(2) w4(2) assms(7) by (intro completion_decrements [OF w4(1) _ assms(3)]) simp_all
  with j finished(1) msg(4,5) show ?thesis
    by (intro exI [of _ msg] exI [of _ w3] exI [of _ w4] conjI w3_def w4_def bexI [of _ j]) simp_all
qed

theorem submitted_job_completes_witness:
  "let w1 = snd (run_state (CreateJob sample_uuids 10 ''tp'' (uuid_text 2) (uuid_text 1) (uuid_text 3)
         ''transform'' (Some (JObject [])) (Some (JObject [])) 2 ''k2'')
         (sample_waiting\<lparr>data := (data sample_waiting)\<lparr>outbox := []\<rparr>\<rparr>));
       w2 = snd (run_state (dispatch sample_uuids) w1)
   in \<exists>msg w4. topics w2 = [msg]
      \<and> w4 = snd (run_state (worker_loop sample_uuids (sample_worker (\<lambda>_. Inr ''2/out.csv:17'')) 5)
               (snd (run_state (Consume (HandleJobSubmitted sample_uuids True) ''job.submitted'' [Inr msg]) w2)))
      \<and> (100, JobStateSUCCEEDED) \<in> (\<lambda>j. (j_id j, j_state j)) ` set (jobs (data w4))"
proof -
  let ?db = "(data sample_waiting)\<lparr>outbox := []\<rparr>"
  let ?w = "sample_waiting\<lparr>data := ?db\<rparr>"
  let ?W = "sample_worker (\<lambda>_. Inr ''2/out.csv:17'')"
  let ?job = "new_job (CreateJob_params 2 1 3 ''transform'' (Some (JObject [])) (Some (JObject [])) 2 ''k2'')
      100 10 (JObject []) (JObject [])"
  let ?event = "submitted_event sample_uuids (uuid_text 2) ''tp'' 101 100 10"
  let ?d = "?db\<lparr>jobs := jobs ?db @ [?job], outbox := [delivered 10 ?event], drawn := 2\<rparr>"
  have db: "jobs (data sample_waiting) = [sample_job]" "users (data sample_waiting) = [sample_user]" "workspaces (data sample_waiting) = [sample_workspace]"
    "datasets (data sample_waiting) = [sample_dataset]" "drawn (data sample_waiting) = 0"
    "runs (data sample_waiting) = [sample_run\<lparr>r_tasks_total := 2, r_tasks_running := 0\<rparr>]"
    "tasks (data sample_waiting) = [sample_task 7 1 2, sample_task 8 2 1]"
    by (simp_all add: sample_waiting_def) (simp_all add: sample_db_def)
  have world: "clock ?w = 10" "uuids ?w = gen sample_pg" "redis ?w = (\<lambda>_. None)" "topics ?w = []"
    by (simp_all add: sample_waiting_def)
  have gens: "gen sample_pg 0 = 100" "gen sample_pg 1 = 101" "gen sample_pg (Suc 0) = 101" "gen sample_pg 2 = 102"
    "gen sample_pg (Suc (Suc 0)) = 102" "gen sample_pg 3 = 103" "gen sample_pg 4 = 104" "gen sample_pg 5 = 105"
    by (simp_all add: sample_gen)
  have "length (tasks (data ?w)) = 2" by (simp add: db)
  then have ready: "drainable ?W ?w" "waiting (data ?w) + 3 \<le> 5" "length (tasks (data ?w)) + 3 < 1000000000"
    using sample_drainable [of "''2/out.csv:17''"] sample_waiting_two
    by (simp_all add: drainable_def tallied_def tallied_run_def tasks_in_def integrity_defs waiting_def)
  have limit: "running_jobs ?w (uuid_text 2) = 0"
    by (simp add: running_jobs_def world)
  then have limits: "running_jobs ?w (uuid_text 2) < 10" "int8 (running_jobs ?w (uuid_text 2))"
    "int8 (running_jobs ?w (uuid_text 2) + 1)"
    by (simp_all add: int8_def)
  have ids: "uuid_Parse sample_uuids (uuid_text i) = Inr i" "uuid_text i = uuid_String sample_uuids i" "uuid_ok sample_uuids" for i
    by simp_all
  have rows: "?job = new_job (CreateJob_params 2 1 3 ''transform'' (Some (JObject [])) (Some (JObject [])) 2 ''k2'')
      (uuids ?w (drawn (data ?w))) (clock ?w) (JObject []) (JObject [])"
    "?event = submitted_event sample_uuids (uuid_text 2) ''tp'' (uuids ?w (drawn (data ?w) + 1)) (j_id ?job) (clock ?w)"
    by (simp_all add: world db gens new_job_def)
  have ok: "check_job ?job (data ?w) = None" "check_event ?event (data ?w) = None"
    "list_all (\<lambda>e. o_status e \<noteq> OutboxStatusPENDING) (outbox (data ?w))"
    by (simp_all add: check_job_def check_event_def db new_job_def CreateJob_params_def sample_rows)
  have after: "?d = (data ?w)\<lparr>jobs := jobs (data ?w) @ [?job], outbox := outbox (data ?w) @ [delivered (clock ?w) ?event],
      drawn := drawn (data ?w) + 2\<rparr>"
    by (simp add: world db)
  have fresh: "fresh_plan (uuids ?w) ?d" "uuids ?w (drawn ?d) \<noteq> uuid_nil"
    by (simp_all add: fresh_plan_def db gens Let_def world) (simp add: sample_rows)
  have id: "j_id ?job = 100"
    by (simp add: new_job_def)
  define w1 where "w1 = snd (run_state (CreateJob sample_uuids 10 ''tp'' (uuid_text 2) (uuid_text 1) (uuid_text 3)
         ''transform'' (Some (JObject [])) (Some (JObject [])) 2 ''k2'') ?w)"
  define w2 where "w2 = snd (run_state (dispatch sample_uuids) w1)"
  note completes = submitted_job_completes [OF ready(1) limits ids(3,1,2,1,1) rows(1) ok(1) rows(2) ok(2,3) after fresh
      ready(3,2) w1_def w2_def, of True]
  then obtain msg w3 w4 j where c: "topics w2 = topics ?w @ [msg]"
    "w3 = snd (run_state (Consume (HandleJobSubmitted sample_uuids True) ''job.submitted'' [Inr msg]) w2)"
    "w4 = snd (run_state (worker_loop sample_uuids ?W 5) w3)"
    "j \<in> set (jobs (data w4))" "j_id j = j_id ?job" "j_state j = JobStateSUCCEEDED"
    by (elim exE conjE bexE)
  then have "(100, JobStateSUCCEEDED) \<in> (\<lambda>j. (j_id j, j_state j)) ` set (jobs (data w4))"
    using id by force
  then show ?thesis
    unfolding Let_def w1_def [symmetric] w2_def [symmetric] c(2) [symmetric] using c(1)
    by (intro exI [of _ msg] exI [of _ w4] conjI) (simp_all only: c(2,3) world append_Nil)
qed

end
