(* ===== verification/Enum_Scan.thy ===== *)
theory Enum_Scan imports Db_Enums begin

text \<open>
  How an enum crosses the boundary to the database driver (\<open>internal/db/generated/models.go\<close>):
  the \<open>Scan\<close> of each enum, and the nullable wrapper with its \<open>Scan\<close> and
  \<open>Value\<close>. In Go an enum is a text, and \<open>Scan\<close> takes any text; that a
  column holds one of the labels is the database's doing.
\<close>

section \<open>Values of the driver\<close>

text \<open>A value of an interface type, with the name that \<open>%T\<close> prints for its type.\<close>

datatype go_value = Nil_value | Bytes_value string | String_value string | Other_value string

fun type_name :: "go_value \<Rightarrow> string" where
  "type_name Nil_value = ''<nil>''"
| "type_name (Bytes_value s) = ''[]uint8''"
| "type_name (String_value s) = ''string''"
| "type_name (Other_value tname) = tname"

text \<open>
  The receiver of \<open>Scan\<close> is a pointer: the result and the value left in it.
\<close>

definition scan_text :: "string \<Rightarrow> go_value \<Rightarrow> string \<Rightarrow> (go_error + unit) \<times> string" where
  "scan_text enum_name src e =
     (case src of
        Bytes_value s \<Rightarrow> (Inr (), s)
      | String_value s \<Rightarrow> (Inr (), s)
      | _ \<Rightarrow> (Inl (ErrorString (''unsupported scan type for '' @ enum_name @ '': '' @ type_name src)), e))"

record null_enum =
  null_text :: string
  Valid :: bool

definition null_scan ::
  "(go_value \<Rightarrow> string \<Rightarrow> (go_error + unit) \<times> string) \<Rightarrow> go_value \<Rightarrow> null_enum \<Rightarrow> (go_error + unit) \<times> null_enum" where
  "null_scan scan v ns =
     (if v = Nil_value then (Inr (), \<lparr>null_text = [], Valid = False\<rparr>)
      else let (r, e) = scan v (null_text ns) in (r, \<lparr>null_text = e, Valid = True\<rparr>))"

definition null_value :: "null_enum \<Rightarrow> go_error + go_value" where
  "null_value ns = (if \<not> Valid ns then Inr Nil_value else Inr (String_value (null_text ns)))"

section \<open>The enums\<close>

type_synonym NullDatasetState = null_enum

definition DatasetState_Scan :: "go_value \<Rightarrow> string \<Rightarrow> (go_error + unit) \<times> string" where
  "DatasetState_Scan = scan_text ''DatasetState''"

definition NullDatasetState_Scan :: "go_value \<Rightarrow> NullDatasetState \<Rightarrow> (go_error + unit) \<times> NullDatasetState" where
  "NullDatasetState_Scan = null_scan DatasetState_Scan"

definition NullDatasetState_Value :: "NullDatasetState \<Rightarrow> go_error + go_value" where
  "NullDatasetState_Value = null_value"

type_synonym NullFileFormat = null_enum

definition FileFormat_Scan :: "go_value \<Rightarrow> string \<Rightarrow> (go_error + unit) \<times> string" where
  "FileFormat_Scan = scan_text ''FileFormat''"

definition NullFileFormat_Scan :: "go_value \<Rightarrow> NullFileFormat \<Rightarrow> (go_error + unit) \<times> NullFileFormat" where
  "NullFileFormat_Scan = null_scan FileFormat_Scan"

definition NullFileFormat_Value :: "NullFileFormat \<Rightarrow> go_error + go_value" where
  "NullFileFormat_Value = null_value"

type_synonym NullJobState = null_enum

definition JobState_Scan :: "go_value \<Rightarrow> string \<Rightarrow> (go_error + unit) \<times> string" where
  "JobState_Scan = scan_text ''JobState''"

definition NullJobState_Scan :: "go_value \<Rightarrow> NullJobState \<Rightarrow> (go_error + unit) \<times> NullJobState" where
  "NullJobState_Scan = null_scan JobState_Scan"

definition NullJobState_Value :: "NullJobState \<Rightarrow> go_error + go_value" where
  "NullJobState_Value = null_value"

type_synonym NullOutboxStatus = null_enum

definition OutboxStatus_Scan :: "go_value \<Rightarrow> string \<Rightarrow> (go_error + unit) \<times> string" where
  "OutboxStatus_Scan = scan_text ''OutboxStatus''"

definition NullOutboxStatus_Scan :: "go_value \<Rightarrow> NullOutboxStatus \<Rightarrow> (go_error + unit) \<times> NullOutboxStatus" where
  "NullOutboxStatus_Scan = null_scan OutboxStatus_Scan"

definition NullOutboxStatus_Value :: "NullOutboxStatus \<Rightarrow> go_error + go_value" where
  "NullOutboxStatus_Value = null_value"

type_synonym NullRunState = null_enum

definition RunState_Scan :: "go_value \<Rightarrow> string \<Rightarrow> (go_error + unit) \<times> string" where
  "RunState_Scan = scan_text ''RunState''"

definition NullRunState_Scan :: "go_value \<Rightarrow> NullRunState \<Rightarrow> (go_error + unit) \<times> NullRunState" where
  "NullRunState_Scan = null_scan RunState_Scan"

definition NullRunState_Value :: "NullRunState \<Rightarrow> go_error + go_value" where
  "NullRunState_Value = null_value"

type_synonym NullTaskState = null_enum

definition TaskState_Scan :: "go_value \<Rightarrow> string \<Rightarrow> (go_error + unit) \<times> string" where
  "TaskState_Scan = scan_text ''TaskState''"

definition NullTaskState_Scan :: "go_value \<Rightarrow> NullTaskState \<Rightarrow> (go_error + unit) \<times> NullTaskState" where
  "NullTaskState_Scan = null_scan TaskState_Scan"

definition NullTaskState_Value :: "NullTaskState \<Rightarrow> go_error + go_value" where
  "NullTaskState_Value = null_value"

type_synonym NullUserRole = null_enum

definition UserRole_Scan :: "go_value \<Rightarrow> string \<Rightarrow> (go_error + unit) \<times> string" where
  "UserRole_Scan = scan_text ''UserRole''"

definition NullUserRole_Scan :: "go_value \<Rightarrow> NullUserRole \<Rightarrow> (go_error + unit) \<times> NullUserRole" where
  "NullUserRole_Scan = null_scan UserRole_Scan"

definition NullUserRole_Value :: "NullUserRole \<Rightarrow> go_error + go_value" where
  "NullUserRole_Value = null_value"

type_synonym NullWorkspacePlan = null_enum

definition WorkspacePlan_Scan :: "go_value \<Rightarrow> string \<Rightarrow> (go_error + unit) \<times> string" where
  "WorkspacePlan_Scan = scan_text ''WorkspacePlan''"

definition NullWorkspacePlan_Scan :: "go_value \<Rightarrow> NullWorkspacePlan \<Rightarrow> (go_error + unit) \<times> NullWorkspacePlan" where
  "NullWorkspacePlan_Scan = null_scan WorkspacePlan_Scan"

definition NullWorkspacePlan_Value :: "NullWorkspacePlan \<Rightarrow> go_error + go_value" where
  "NullWorkspacePlan_Value = null_value"

section \<open>The labels of each enum\<close>

definition DatasetState_values :: "DatasetState list" where
  "DatasetState_values = [DatasetStateINITIATED, DatasetStateUPLOADING, DatasetStateVALIDATING,
     DatasetStateREGISTERING, DatasetStateREADY, DatasetStateFAILED, DatasetStateDEPRECATED]"

definition JobState_values :: "JobState list" where
  "JobState_values = [JobStateSUBMITTED, JobStateVALIDATING, JobStateQUEUED,
     JobStatePROVISIONING, JobStateRUNNING, JobStateAGGREGATING, JobStateRETRYING,
     JobStateSUCCEEDED, JobStateFAILED, JobStateCANCELLED]"

definition OutboxStatus_values :: "OutboxStatus list" where
  "OutboxStatus_values = [OutboxStatusPENDING, OutboxStatusDELIVERED, OutboxStatusFAILED]"

definition RunState_values :: "RunState list" where
  "RunState_values = [RunStateSUBMITTED, RunStatePLANNING, RunStatePROVISIONING, RunStateRUNNING,
     RunStateAGGREGATING, RunStateSUCCEEDED, RunStateFAILED, RunStateCANCELLED]"

definition TaskState_values :: "TaskState list" where
  "TaskState_values = [TaskStatePENDING, TaskStateLEASED, TaskStateRUNNING,
     TaskStateCHECKPOINTING, TaskStateSUCCEEDED, TaskStateFAILED, TaskStateDEAD]"

definition UserRole_values :: "UserRole list" where
  "UserRole_values = [UserRoleAdmin, UserRoleEditor, UserRoleViewer]"

interpretation dataset_state: enum_codec DatasetState_label DatasetState_values
proof
  show "e \<in> set DatasetState_values" for e
    by (cases e) (simp_all add: DatasetState_values_def)
qed (simp add: DatasetState_values_def)

interpretation job_state: enum_codec JobState_label JobState_values
proof
  show "e \<in> set JobState_values" for e
    by (cases e) (simp_all add: JobState_values_def)
qed (simp add: JobState_values_def)

interpretation outbox_status: enum_codec OutboxStatus_label OutboxStatus_values
proof
  show "e \<in> set OutboxStatus_values" for e
    by (cases e) (simp_all add: OutboxStatus_values_def)
qed (simp add: OutboxStatus_values_def)

interpretation run_state: enum_codec RunState_label RunState_values
proof
  show "e \<in> set RunState_values" for e
    by (cases e) (simp_all add: RunState_values_def)
qed (simp add: RunState_values_def)

interpretation task_state: enum_codec TaskState_label TaskState_values
proof
  show "e \<in> set TaskState_values" for e
    by (cases e) (simp_all add: TaskState_values_def)
qed (simp add: TaskState_values_def)

interpretation user_role: enum_codec UserRole_label UserRole_values
proof
  show "e \<in> set UserRole_values" for e
    by (cases e) (simp_all add: UserRole_values_def)
qed (simp add: UserRole_values_def)

section \<open>The enums as finite types\<close>

text \<open>
  The listed values make each enum an instance of the library's class of enumerable types, so that a
  statement about all values of an enum computes.
\<close>

instantiation DatasetState :: enum
begin

definition enum_DatasetState :: "DatasetState list" where
  "enum_DatasetState = DatasetState_values"

definition enum_all_DatasetState :: "(DatasetState \<Rightarrow> bool) \<Rightarrow> bool" where
  "enum_all_DatasetState P \<longleftrightarrow> list_all P DatasetState_values"

definition enum_ex_DatasetState :: "(DatasetState \<Rightarrow> bool) \<Rightarrow> bool" where
  "enum_ex_DatasetState P \<longleftrightarrow> list_ex P DatasetState_values"

instance
  by standard (simp_all add: enum_DatasetState_def enum_all_DatasetState_def enum_ex_DatasetState_def dataset_state.vals_UNIV
    dataset_state.distinct_vals list_all_iff list_ex_iff)

end

instantiation FileFormat :: enum
begin

definition enum_FileFormat :: "FileFormat list" where
  "enum_FileFormat = FileFormat_values"

definition enum_all_FileFormat :: "(FileFormat \<Rightarrow> bool) \<Rightarrow> bool" where
  "enum_all_FileFormat P \<longleftrightarrow> list_all P FileFormat_values"

definition enum_ex_FileFormat :: "(FileFormat \<Rightarrow> bool) \<Rightarrow> bool" where
  "enum_ex_FileFormat P \<longleftrightarrow> list_ex P FileFormat_values"

instance
  by standard (simp_all add: enum_FileFormat_def enum_all_FileFormat_def enum_ex_FileFormat_def file_format.vals_UNIV
    file_format.distinct_vals list_all_iff list_ex_iff)

end

instantiation JobState :: enum
begin

definition enum_JobState :: "JobState list" where
  "enum_JobState = JobState_values"

definition enum_all_JobState :: "(JobState \<Rightarrow> bool) \<Rightarrow> bool" where
  "enum_all_JobState P \<longleftrightarrow> list_all P JobState_values"

definition enum_ex_JobState :: "(JobState \<Rightarrow> bool) \<Rightarrow> bool" where
  "enum_ex_JobState P \<longleftrightarrow> list_ex P JobState_values"

instance
  by standard (simp_all add: enum_JobState_def enum_all_JobState_def enum_ex_JobState_def job_state.vals_UNIV
    job_state.distinct_vals list_all_iff list_ex_iff)

end

instantiation OutboxStatus :: enum
begin

definition enum_OutboxStatus :: "OutboxStatus list" where
  "enum_OutboxStatus = OutboxStatus_values"

definition enum_all_OutboxStatus :: "(OutboxStatus \<Rightarrow> bool) \<Rightarrow> bool" where
  "enum_all_OutboxStatus P \<longleftrightarrow> list_all P OutboxStatus_values"

definition enum_ex_OutboxStatus :: "(OutboxStatus \<Rightarrow> bool) \<Rightarrow> bool" where
  "enum_ex_OutboxStatus P \<longleftrightarrow> list_ex P OutboxStatus_values"

instance
  by standard (simp_all add: enum_OutboxStatus_def enum_all_OutboxStatus_def enum_ex_OutboxStatus_def outbox_status.vals_UNIV
    outbox_status.distinct_vals list_all_iff list_ex_iff)

end

instantiation RunState :: enum
begin

definition enum_RunState :: "RunState list" where
  "enum_RunState = RunState_values"

definition enum_all_RunState :: "(RunState \<Rightarrow> bool) \<Rightarrow> bool" where
  "enum_all_RunState P \<longleftrightarrow> list_all P RunState_values"

definition enum_ex_RunState :: "(RunState \<Rightarrow> bool) \<Rightarrow> bool" where
  "enum_ex_RunState P \<longleftrightarrow> list_ex P RunState_values"

instance
  by standard (simp_all add: enum_RunState_def enum_all_RunState_def enum_ex_RunState_def run_state.vals_UNIV
    run_state.distinct_vals list_all_iff list_ex_iff)

end

instantiation TaskState :: enum
begin

definition enum_TaskState :: "TaskState list" where
  "enum_TaskState = TaskState_values"

definition enum_all_TaskState :: "(TaskState \<Rightarrow> bool) \<Rightarrow> bool" where
  "enum_all_TaskState P \<longleftrightarrow> list_all P TaskState_values"

definition enum_ex_TaskState :: "(TaskState \<Rightarrow> bool) \<Rightarrow> bool" where
  "enum_ex_TaskState P \<longleftrightarrow> list_ex P TaskState_values"

instance
  by standard (simp_all add: enum_TaskState_def enum_all_TaskState_def enum_ex_TaskState_def task_state.vals_UNIV
    task_state.distinct_vals list_all_iff list_ex_iff)

end

instantiation UserRole :: enum
begin

definition enum_UserRole :: "UserRole list" where
  "enum_UserRole = UserRole_values"

definition enum_all_UserRole :: "(UserRole \<Rightarrow> bool) \<Rightarrow> bool" where
  "enum_all_UserRole P \<longleftrightarrow> list_all P UserRole_values"

definition enum_ex_UserRole :: "(UserRole \<Rightarrow> bool) \<Rightarrow> bool" where
  "enum_ex_UserRole P \<longleftrightarrow> list_ex P UserRole_values"

instance
  by standard (simp_all add: enum_UserRole_def enum_all_UserRole_def enum_ex_UserRole_def user_role.vals_UNIV
    user_role.distinct_vals list_all_iff list_ex_iff)

end

instantiation WorkspacePlan :: enum
begin

definition enum_WorkspacePlan :: "WorkspacePlan list" where
  "enum_WorkspacePlan = WorkspacePlan_values"

definition enum_all_WorkspacePlan :: "(WorkspacePlan \<Rightarrow> bool) \<Rightarrow> bool" where
  "enum_all_WorkspacePlan P \<longleftrightarrow> list_all P WorkspacePlan_values"

definition enum_ex_WorkspacePlan :: "(WorkspacePlan \<Rightarrow> bool) \<Rightarrow> bool" where
  "enum_ex_WorkspacePlan P \<longleftrightarrow> list_ex P WorkspacePlan_values"

instance
  by standard (simp_all add: enum_WorkspacePlan_def enum_all_WorkspacePlan_def enum_ex_WorkspacePlan_def workspace_plan.vals_UNIV
    workspace_plan.distinct_vals list_all_iff list_ex_iff)

end

text \<open>
  One enum with its wrapper: its name, its labels and the two functions of the wrapper.
\<close>

record enum_wrapper =
  enum_name :: string
  enum_labels :: "string list"
  enum_scan :: "go_value \<Rightarrow> null_enum \<Rightarrow> (go_error + unit) \<times> null_enum"
  enum_value :: "null_enum \<Rightarrow> go_error + go_value"

definition enum_wrappers :: "enum_wrapper list" where
  "enum_wrappers =
     [\<lparr>enum_name = ''DatasetState'', enum_labels = map DatasetState_label DatasetState_values,
        enum_scan = NullDatasetState_Scan, enum_value = NullDatasetState_Value\<rparr>,
      \<lparr>enum_name = ''FileFormat'', enum_labels = map FileFormat_label FileFormat_values,
        enum_scan = NullFileFormat_Scan, enum_value = NullFileFormat_Value\<rparr>,
      \<lparr>enum_name = ''JobState'', enum_labels = map JobState_label JobState_values,
        enum_scan = NullJobState_Scan, enum_value = NullJobState_Value\<rparr>,
      \<lparr>enum_name = ''OutboxStatus'', enum_labels = map OutboxStatus_label OutboxStatus_values,
        enum_scan = NullOutboxStatus_Scan, enum_value = NullOutboxStatus_Value\<rparr>,
      \<lparr>enum_name = ''RunState'', enum_labels = map RunState_label RunState_values,
        enum_scan = NullRunState_Scan, enum_value = NullRunState_Value\<rparr>,
      \<lparr>enum_name = ''TaskState'', enum_labels = map TaskState_label TaskState_values,
        enum_scan = NullTaskState_Scan, enum_value = NullTaskState_Value\<rparr>,
      \<lparr>enum_name = ''UserRole'', enum_labels = map UserRole_label UserRole_values,
        enum_scan = NullUserRole_Scan, enum_value = NullUserRole_Value\<rparr>,
      \<lparr>enum_name = ''WorkspacePlan'', enum_labels = map WorkspacePlan_label WorkspacePlan_values,
        enum_scan = NullWorkspacePlan_Scan, enum_value = NullWorkspacePlan_Value\<rparr>]"

section \<open>What a scan does\<close>

text \<open>The contract of an enum's \<open>Scan\<close>, and what the wrapper makes of it.\<close>

locale text_scanner =
  fixes ename :: string and scan :: "go_value \<Rightarrow> string \<Rightarrow> (go_error + unit) \<times> string"
  assumes scan_bytes: "scan (Bytes_value s) e = (Inr (), s)"
    and scan_string: "scan (String_value s) e = (Inr (), s)"
    and scan_other: "\<forall>s. v \<noteq> Bytes_value s \<and> v \<noteq> String_value s \<Longrightarrow> scan v e =
      (Inl (ErrorString (''unsupported scan type for '' @ ename @ '': '' @ type_name v)), e)"
begin

lemma null_scan_cases:
  "null_scan scan v old =
     (case v of
        Nil_value \<Rightarrow> (Inr (), \<lparr>null_text = [], Valid = False\<rparr>)
      | Bytes_value s \<Rightarrow> (Inr (), \<lparr>null_text = s, Valid = True\<rparr>)
      | String_value s \<Rightarrow> (Inr (), \<lparr>null_text = s, Valid = True\<rparr>)
      | Other_value t \<Rightarrow> (Inl (ErrorString (''unsupported scan type for '' @ ename @ '': '' @ t)),
          old\<lparr>Valid := True\<rparr>))"
  using scan_other [of v] by (cases v) (simp_all add: null_scan_def scan_bytes scan_string)

lemma null_roundtrip:
  assumes "Valid ns \<or> null_text ns = []"
  shows "\<exists>v. null_value ns = Inr v \<and> null_scan scan v old = (Inr (), ns)"
  using assms by (cases ns) (auto simp: null_value_def null_scan_cases)

end

interpretation enum_scanner: text_scanner ename "scan_text ename" for ename
proof
  show "scan_text ename v e = (Inl (ErrorString (''unsupported scan type for '' @ ename @ '': '' @ type_name v)), e)"
    if "\<forall>s. v \<noteq> Bytes_value s \<and> v \<noteq> String_value s" for v e
    using that by (cases v) (simp_all add: scan_text_def)
qed (simp_all add: scan_text_def)

lemmas enum_Scan_defs =
  DatasetState_Scan_def NullDatasetState_Scan_def NullDatasetState_Value_def
  FileFormat_Scan_def NullFileFormat_Scan_def NullFileFormat_Value_def
  JobState_Scan_def NullJobState_Scan_def NullJobState_Value_def
  OutboxStatus_Scan_def NullOutboxStatus_Scan_def NullOutboxStatus_Value_def
  RunState_Scan_def NullRunState_Scan_def NullRunState_Value_def
  TaskState_Scan_def NullTaskState_Scan_def NullTaskState_Value_def
  UserRole_Scan_def NullUserRole_Scan_def NullUserRole_Value_def
  WorkspacePlan_Scan_def NullWorkspacePlan_Scan_def NullWorkspacePlan_Value_def

text \<open>Every wrapper is the one wrapper around the one scan of its name.\<close>

lemma enum_wrapper_uniform:
  assumes "c \<in> set enum_wrappers"
  shows "enum_scan c = null_scan (scan_text (enum_name c))" and "enum_value c = null_value"
  using assms by (auto simp: enum_wrappers_def enum_Scan_defs)

text \<open>
  C35: what an enum's wrapper hands to the driver it reads back: for each of the eight enums, the
  value of a wrapper that is valid, or null with an empty text as the scan of a null leaves it,
  scans to the same wrapper, whatever the wrapper it is scanned into held before.
\<close>
theorem nullable_enum_roundtrip:
  assumes "c \<in> set enum_wrappers" and "Valid ns \<or> null_text ns = []"
  shows "\<exists>v. enum_value c ns = Inr v \<and> enum_scan c v old = (Inr (), ns)"
  unfolding enum_wrapper_uniform [OF assms(1)] by (rule enum_scanner.null_roundtrip [OF assms(2)])

theorem nullable_enum_roundtrip_witness:
  "(let ns = \<lparr>null_text = ''READY'', Valid = True\<rparr>
    in \<exists>v. NullDatasetState_Value ns = Inr v \<and> NullDatasetState_Scan v \<lparr>null_text = ''x'', Valid = False\<rparr> = (Inr (), ns))"
  using nullable_enum_roundtrip [of "enum_wrappers ! 0" "\<lparr>null_text = ''READY'', Valid = True\<rparr>"]
  by (simp add: enum_wrappers_def)

text \<open>A wrapper is typed when a valid one holds a label.\<close>

definition typed :: "enum_wrapper \<Rightarrow> null_enum \<Rightarrow> bool" where
  "typed c ns \<longleftrightarrow> (if Valid ns then null_text ns \<in> set (enum_labels c) else null_text ns = [])"

text \<open>
  C36: a scan does not check the text. It succeeds exactly for a null and for a text, and then the
  wrapper is typed exactly when the value was a null or one of the enum's labels, so that the types
  rest on the enum columns of the database. Any other value is an error that names the enum, and
  leaves the old text in a wrapper that now claims to be valid.
\<close>
theorem scan_is_typed_for_labels:
  assumes "c \<in> set enum_wrappers" and "enum_scan c v old = (r, ns)"
  shows "case v of
      Nil_value \<Rightarrow> r = Inr () \<and> typed c ns
    | Bytes_value s \<Rightarrow> r = Inr () \<and> typed c ns = (s \<in> set (enum_labels c))
    | String_value s \<Rightarrow> r = Inr () \<and> typed c ns = (s \<in> set (enum_labels c))
    | Other_value t \<Rightarrow> r = Inl (ErrorString (''unsupported scan type for '' @ enum_name c @ '': '' @ t))
        \<and> ns = \<lparr>null_text = null_text old, Valid = True\<rparr>"
  using assms(2) unfolding enum_wrapper_uniform [OF assms(1)]
  by (cases v) (auto simp: enum_scanner.null_scan_cases typed_def)

theorem scan_is_typed_for_labels_witness:
  "\<not> typed (enum_wrappers ! 5) (snd (NullTaskState_Scan (String_value ''pending'') \<lparr>null_text = [], Valid = False\<rparr>))
   \<and> typed (enum_wrappers ! 5) (snd (NullTaskState_Scan (String_value ''PENDING'') \<lparr>null_text = [], Valid = False\<rparr>))
   \<and> snd (NullTaskState_Scan (Other_value ''int64'') \<lparr>null_text = [], Valid = False\<rparr>) = \<lparr>null_text = [], Valid = True\<rparr>"
proof -
  have c: "enum_wrappers ! 5 \<in> set enum_wrappers" "enum_scan (enum_wrappers ! 5) = NullTaskState_Scan"
    "enum_labels (enum_wrappers ! 5) = map TaskState_label TaskState_values"
    by (simp_all add: enum_wrappers_def eval_nat_numeral)
  note scan = scan_is_typed_for_labels [OF c(1) prod.collapse [symmetric]]
  from scan [of "String_value ''pending''"] scan [of "String_value ''PENDING''"] scan [of "Other_value ''int64''"]
  show ?thesis
    by (simp add: c(2,3)) (simp add: TaskState_values_def)
qed

end
