(* ===== verification/Service_States.thy ===== *)
theory Service_States imports Platform Enum_Scan begin

text \<open>
  Which values of the state types occur: the schema declares more states of jobs, runs, tasks and
  datasets than the services ever write. The statements of the services are listed once, and a
  platform whose surroundings run only such statements stays within the states in use.
\<close>

section \<open>The statements of the services\<close>

fun service_stmt :: "stmt \<Rightarrow> bool" where
  "service_stmt (CreateUser email hash role) = (role = UserRoleViewer)"
| "service_stmt (stmt.CreateJob arg) = False"
| "service_stmt (CreateOutboxEvent ty i payload) = False"
| "service_stmt (CreateTask r ws k) = (0 \<le> k \<and> k < 3)"
| "service_stmt (UpdateRunTasksTotal i n) = (n = 3)"
| "service_stmt (UpdateDatasetState i st) = False"
| "service_stmt (UpdateJobState i st) = (st = JobStateCANCELLED \<or> st = JobStateQUEUED)"
| "service_stmt (UpdateRunState i st) = (st = RunStateCANCELLED)"
| "service_stmt (UpdateTaskState i st) = (st = TaskStateDEAD \<or> st = TaskStateSUCCEEDED)"
| "service_stmt (CompleteJob i st) = (st = JobStateSUCCEEDED \<or> st = JobStateFAILED)"
| "service_stmt (CompleteRun i st) = (st = RunStateSUCCEEDED \<or> st = RunStateFAILED)"
| "service_stmt (CommitTxn t) = submits t"
| "service_stmt _ = True"

lemma service_stmts:
  "gateway_stmt s \<Longrightarrow> service_stmt s" "scheduler_stmt s \<Longrightarrow> service_stmt s"
  "worker_stmt W s \<Longrightarrow> service_stmt s"
  by (cases s; simp)+

interpretation scheduler_service: message_handler "HandleJobSubmitted U has_k8s" service_stmt for U has_k8s
  by unfold_locales (simp_all add: follows_HandleJobSubmitted uses_HandleJobSubmitted service_stmts)

interpretation completed_service: message_handler HandleJobCompleted service_stmt
  by unfold_locales (simp_all add: follows_HandleJobCompleted uses_HandleJobCompleted)

lemma follows_of: "state_io_rel (follows A) m \<Longrightarrow> follows A w (snd (run_state m w))"
  by (metis prod.collapse state_io_relD)

text \<open>Every action of a service is made of statements of the services.\<close>

lemma platform_step_service:
  assumes "platform_step w w'"
  obtains "follows service_stmt w w'" | ss t where "w' = w\<lparr>slots := ss, clock := clock w + int t\<rparr>"
  using assms
proof cases
  case (environment ss t)
  then show ?thesis using that(2) by blast
qed (rule that(1), (auto intro!: follows_of follows_serve follows_dispatch scheduler_service.Consume_follows
    completed_service.Consume_follows follows_pollAndProcess follows_heartbeat follows_evaluate
    follows_runCleanup intro: service_stmts))+

section \<open>The states in use\<close>

definition used_job_states :: "JobState list" where
  "used_job_states = [JobStateSUBMITTED, JobStateQUEUED, JobStateSUCCEEDED, JobStateFAILED, JobStateCANCELLED]"

definition used_run_states :: "RunState list" where
  "used_run_states = [RunStateSUBMITTED, RunStateSUCCEEDED, RunStateFAILED, RunStateCANCELLED]"

definition used_task_states :: "TaskState list" where
  "used_task_states = [TaskStatePENDING, TaskStateLEASED, TaskStateSUCCEEDED, TaskStateFAILED, TaskStateDEAD]"

definition used_dataset_states :: "DatasetState list" where
  "used_dataset_states = [DatasetStateINITIATED, DatasetStateREADY]"

lemmas used_states_defs =
  used_job_states_def used_run_states_def used_task_states_def used_dataset_states_def

text \<open>The other declared states, read off the enums: those that no service ever writes.\<close>

lemma unused_states:
  "filter (\<lambda>s. s \<notin> set used_job_states) Enum.enum =
     [JobStateVALIDATING, JobStatePROVISIONING, JobStateRUNNING, JobStateAGGREGATING, JobStateRETRYING]"
  "filter (\<lambda>s. s \<notin> set used_run_states) Enum.enum =
     [RunStatePLANNING, RunStatePROVISIONING, RunStateRUNNING, RunStateAGGREGATING]"
  "filter (\<lambda>s. s \<notin> set used_task_states) Enum.enum = [TaskStateRUNNING, TaskStateCHECKPOINTING]"
  "filter (\<lambda>s. s \<notin> set used_dataset_states) Enum.enum =
     [DatasetStateUPLOADING, DatasetStateVALIDATING, DatasetStateREGISTERING, DatasetStateFAILED,
      DatasetStateDEPRECATED]"
  by code_simp+

definition states_in_use :: "db \<Rightarrow> bool" where
  "states_in_use d \<longleftrightarrow>
     list_all (\<lambda>j. j_state j \<in> set used_job_states) (jobs d)
     \<and> list_all (\<lambda>r. r_state r \<in> set used_run_states) (runs d)
     \<and> list_all (\<lambda>t. t_state t \<in> set used_task_states) (tasks d)
     \<and> list_all (\<lambda>x. d_state x \<in> set used_dataset_states) (datasets d)
     \<and> list_all (\<lambda>u. u_role u = UserRoleViewer) (users d)"

lemma states_commit:
  assumes "submits t" and "states_in_use d"
  shows "states_in_use (snd (commit_txn t p d))"
  using commit_txn_rows [of t p d] assms
  by (auto simp: states_in_use_def submits_def used_states_defs list_all_iff)

lemma states_stmt:
  assumes "service_stmt s" and "states_in_use d"
  shows "states_in_use (exec_stmt s p d)"
proof (cases s)
  case (CommitTxn t)
  with assms states_commit show ?thesis by simp
next
  case (LeaseTask own)
  with assms show ?thesis
    by (auto simp: leaseTask_def states_in_use_def used_states_defs case_prod_unfold Let_def
        split: list.splits intro!: list_all_returning)
qed (use assms in \<open>auto simp: exec_defs states_in_use_def used_states_defs 
      intro!: list_all_returning list_all_del_where split: option.splits\<close>)

interpretation in_use: stmt_invariant G service_stmt states_in_use for G
  by unfold_locales (rule states_stmt)

text \<open>
  A closed platform: what other processes do during an action are statements of the services.
\<close>

inductive closed_platform :: "world \<Rightarrow> world \<Rightarrow> bool" where
  closed_refl: "closed_platform w w"
| closed_step: "closed_platform w w' \<Longrightarrow> platform_step w' w'' \<Longrightarrow> others_within service_stmt w'' \<Longrightarrow>
    closed_platform w w''"

lemma closed_within:
  "closed_platform w w' \<Longrightarrow> others_within service_stmt w \<Longrightarrow> others_within service_stmt w'"
  by (induction rule: closed_platform.induct) simp_all

lemma closed_platform_steps:
  assumes "closed_platform w w'" and "others_within service_stmt w"
  shows "uuids w' = uuids w \<and> db_steps (uuids w) service_stmt (data w) (data w')"
  using assms
proof (induction rule: closed_platform.induct)
  case (closed_step w w' w'')
  have "uuids w'' = uuids w' \<and> db_steps (uuids w') service_stmt (data w') (data w'')"
    using closed_step.hyps(2)
  proof (cases rule: platform_step_service)
    case 1
    then show ?thesis
      using closed_within [OF closed_step.hyps(1)] closed_step.prems by (simp add: follows_def)
  qed (simp add: db_steps_refl)
  then show ?case
    using closed_step by (auto intro: db_steps_trans)
qed (simp add: db_steps_refl)

text \<open>
  C11: only some of the declared states ever occur. On a platform on which everything that happens
  is an action or a statement of the services, under all faults and interleavings, a job is
  submitted, queued, succeeded, failed or cancelled, a run submitted, succeeded, failed or
  cancelled, a task pending, leased, succeeded, failed or dead, a dataset initiated or ready, and a
  user a viewer; in particular no job, run or task is ever in state running.
\<close>
theorem only_used_states_occur:
  assumes "closed_platform w w'" and "others_within service_stmt w" and "states_in_use (data w)"
  shows "list_all (\<lambda>j. j_state j \<in> {JobStateSUBMITTED, JobStateQUEUED, JobStateSUCCEEDED, JobStateFAILED,
        JobStateCANCELLED}) (jobs (data w'))
    \<and> list_all (\<lambda>r. r_state r \<in> {RunStateSUBMITTED, RunStateSUCCEEDED, RunStateFAILED, RunStateCANCELLED})
        (runs (data w'))
    \<and> list_all (\<lambda>t. t_state t \<in> {TaskStatePENDING, TaskStateLEASED, TaskStateSUCCEEDED, TaskStateFAILED,
        TaskStateDEAD}) (tasks (data w'))
    \<and> list_all (\<lambda>x. d_state x \<in> {DatasetStateINITIATED, DatasetStateREADY}) (datasets (data w'))
    \<and> list_all (\<lambda>u. u_role u = UserRoleViewer) (users (data w'))"
proof -
  have "states_in_use (data w')"
    using closed_platform_steps [OF assms(1,2)] in_use.history_keeps assms(3) by blast
  then show ?thesis
    by (simp add: states_in_use_def used_states_defs)
qed

theorem only_used_states_occur_witness:
  "list_all (\<lambda>t. t_state t \<noteq> TaskStateRUNNING) (tasks (data (snd (run_state (dispatch sample_uuids)
     (snd (run_state runCleanup sample_world))))))"
proof -
  have within: "others_within service_stmt w" if "slots w = []" for w
    using that by (simp add: others_within_def)
  have quiet: "slots (snd (run_state runCleanup sample_world)) = []"
    by (simp add: runCleanup_def run_dbcall_quiet)
  then have quiet2: "slots (snd (run_state (dispatch sample_uuids) (snd (run_state runCleanup sample_world)))) = []"
    by (rule uses_slots_quiet [OF state_io_relD [OF uses_dispatch prod.collapse [symmetric]]])
  have "closed_platform sample_world (snd (run_state (dispatch sample_uuids) (snd (run_state runCleanup sample_world))))"
    by (rule closed_step [OF closed_step [OF closed_refl]]; (rule platform_step.intros within quiet quiet2)+)
  from only_used_states_occur [OF this within] show ?thesis
    by (simp add: states_in_use_def used_states_defs sample_db_def)
      (auto simp: sample_rows list_all_iff)
qed

end
