(* ===== verification/Outbox_Drain.thy ===== *)
theory Outbox_Drain imports Delivery begin

text \<open>
  Progress of the outbox: a dispatcher that nothing disturbs sends every waiting event, oldest
  first and ten a round, so that a tenth as many rounds as events empty the outbox.
\<close>

section \<open>The events that wait\<close>

definition unsent :: "db \<Rightarrow> Outbox list" where
  "unsent d = order_asc o_created_at (filter (\<lambda>e. o_status e = OutboxStatusPENDING) (outbox d))"

text \<open>What becomes of an event of an outbox that is emptied.\<close>

definition sent_or_same :: "Outbox \<Rightarrow> Outbox \<Rightarrow> bool" where
  "sent_or_same e e' \<longleftrightarrow> e' = e \<or> (o_status e = OutboxStatusPENDING \<and> (\<exists>t. e' = delivered t e))"

lemma sent_or_same_refl: "list_all2 sent_or_same es es"
  by (rule list.rel_refl_strong) (simp add: sent_or_same_def)

lemma delivered_twice [simp]: "delivered t (delivered s e) = delivered t e"
  by (simp add: delivered_def)

lemma order_asc_filter: "order_asc k (filter P rows) = filter P (order_asc k rows)"
  by (simp add: order_asc_def filter_sort)

lemma filter_after_take:
  assumes "distinct (map key rows)"
  shows "filter (\<lambda>r. key r \<notin> set (map key (take n rows))) rows = drop n rows"
proof -
  have "distinct (map key (take n rows @ drop n rows))"
    using assms by simp
  then have "\<forall>r \<in> set (drop n rows). key r \<notin> set (map key (take n rows))"
    unfolding map_append distinct_append by auto
  then have "filter (\<lambda>r. key r \<notin> set (map key (take n rows))) (take n rows @ drop n rows) = drop n rows"
    unfolding filter_append by (simp add: filter_id_conv filter_empty_conv)
  then show ?thesis by simp
qed

lemma unsent_keys: "distinct (map o_id (outbox d)) \<Longrightarrow> distinct (map o_id (unsent d))"
  using distinct_map_filter [of o_id "outbox d"] by (simp add: unsent_def order_asc_def distinct_map)

text \<open>The outbox after a batch is marked delivered.\<close>

lemma unsent_after_batch:
  assumes "distinct (map o_id (outbox d))" and "es = take n (unsent d)"
    and "outbox d' = upd_where (\<lambda>q. o_id q \<in> set (map o_id es)) (delivered t) (outbox d)"
  shows "unsent d' = drop n (unsent d)" and "map o_id (outbox d') = map o_id (outbox d)"
proof -
  have "filter (\<lambda>e. o_status e = OutboxStatusPENDING) (upd_where (\<lambda>q. o_id q \<in> S) (delivered t) rows)
      = filter (\<lambda>e. o_id e \<notin> S) (filter (\<lambda>e. o_status e = OutboxStatusPENDING) rows)" for S rows
    by (induction rows) auto
  then have "unsent d' = filter (\<lambda>e. o_id e \<notin> set (map o_id es)) (unsent d)"
    by (simp only: unsent_def assms(3) order_asc_filter)
  also have "\<dots> = drop n (unsent d)"
    unfolding assms(2) by (rule filter_after_take [OF unsent_keys [OF assms(1)]])
  finally show "unsent d' = drop n (unsent d)" .
  show "map o_id (outbox d') = map o_id (outbox d)"
    by (simp add: assms(3) map_upd_where)
qed

lemma sent_after_batch:
  assumes "distinct (map o_id (outbox d))" and "set es \<subseteq> {e \<in> set (outbox d). o_status e = OutboxStatusPENDING}"
  shows "list_all2 sent_or_same (outbox d) (upd_where (\<lambda>q. o_id q \<in> set (map o_id es)) (delivered t) (outbox d))"
proof -
  have "o_status e = OutboxStatusPENDING" if e: "e \<in> set (outbox d)" "o_id e \<in> set (map o_id es)" for e
  proof -
    obtain x where x: "x \<in> set es" "o_id e = o_id x"
      using e(2) by auto
    then have "x \<in> set (outbox d)" "o_status x = OutboxStatusPENDING"
      using assms(2) by auto
    then show ?thesis
      using unique_row [OF assms(1) e(1)] x(2) by metis
  qed
  then have "sent_or_same e (if o_id e \<in> set (map o_id es) then delivered t e else e)" if "e \<in> set (outbox d)" for e
    using that by (auto simp: sent_or_same_def)
  then show ?thesis
    unfolding upd_where_def list_all2_map2 by (rule list.rel_refl_strong)
qed

lemma sent_or_same_trans:
  assumes "list_all2 sent_or_same xs ys" and "list_all2 sent_or_same ys zs"
  shows "list_all2 sent_or_same xs zs"
proof -
  have "sent_or_same x y \<Longrightarrow> sent_or_same y z \<Longrightarrow> sent_or_same x z" for x y z
    by (auto simp: sent_or_same_def)
  with assms show ?thesis
    using list_all2_trans by blast
qed

section \<open>Rounds\<close>

lemma run_round:
  assumes "slots w = []" and "distinct (map o_id (outbox (data w)))"
    and "w' = snd (run_state (dispatch U) w)"
  shows "slots w' = []" and "clock w' = clock w"
    and "topics w' = topics w @ map (event_message U) (take 10 (unsent (data w)))"
    and "unsent (data w') = drop 10 (unsent (data w))"
    and "distinct (map o_id (outbox (data w')))"
    and "list_all2 sent_or_same (outbox (data w)) (outbox (data w'))"
proof -
  let ?es = "take 10 (unsent (data w))"
  have "fst (getPendingOutboxEvents (context_of w) (data w)) = Inr ?es"
    by (simp add: getPendingOutboxEvents_def unsent_def)
  from run_dispatch [OF assms(1) this, of U] assms(3)
  have w': "w' = w\<lparr>topics := topics w @ map (event_message U) ?es, data := (data w)\<lparr>outbox :=
      upd_where (\<lambda>q. o_id q \<in> set (map o_id ?es)) (delivered (clock w)) (outbox (data w))\<rparr>\<rparr>"
    by simp
  then show "slots w' = []" "clock w' = clock w"
    "topics w' = topics w @ map (event_message U) (take 10 (unsent (data w)))"
    using assms(1) by simp_all
  have out: "outbox (data w') = upd_where (\<lambda>q. o_id q \<in> set (map o_id ?es)) (delivered (clock w)) (outbox (data w))"
    by (simp add: w')
  note batch = unsent_after_batch [OF assms(2) refl out]
  from batch(1) show "unsent (data w') = drop 10 (unsent (data w))" .
  from batch(2) show "distinct (map o_id (outbox (data w')))"
    using assms(2) by simp
  have "set ?es \<subseteq> {e \<in> set (outbox (data w)). o_status e = OutboxStatusPENDING}"
    using set_take_subset [of 10 "unsent (data w)"] by (auto simp: unsent_def)
  then show "list_all2 sent_or_same (outbox (data w)) (outbox (data w'))"
    unfolding out by (rule sent_after_batch [OF assms(2)])
qed

lemma run_rounds:
  assumes "slots w = []" and "distinct (map o_id (outbox (data w)))"
    and "w' = snd (run_state (dispatcher_loop U n) w)"
  shows "topics w' = topics w @ map (event_message U) (take (10 * n) (unsent (data w)))
    \<and> unsent (data w') = drop (10 * n) (unsent (data w))
    \<and> list_all2 sent_or_same (outbox (data w)) (outbox (data w'))"
  using assms
proof (induction n arbitrary: w)
  case 0
  then show ?case by (simp add: sent_or_same_refl)
next
  case (Suc n)
  define w0 w1 where "w0 = w\<lparr>clock := clock w + seconds 2\<rparr>" and "w1 = snd (run_state (dispatch U) w0)"
  have w0: "slots w0 = []" "data w0 = data w" "topics w0 = topics w"
    using Suc.prems(1) by (simp_all add: w0_def)
  have ids: "distinct (map o_id (outbox (data w0)))"
    using Suc.prems(2) by (simp add: w0(2))
  note round = run_round [OF w0(1) ids w1_def, unfolded w0]
  have "w' = snd (run_state (dispatcher_loop U n) w1)"
    using Suc.prems(1,3) by (simp add: run_wait_quiet w0_def w1_def case_prod_unfold)
  from Suc.IH [OF round(1,5) this] show ?case
    using round(3,4) sent_or_same_trans [OF round(6)]
    by (simp add: take_add [symmetric] drop_drop add.commute)
      (metis append_assoc map_append take_add)
qed

text \<open>
  C10: a dispatcher that nothing disturbs empties the outbox: after a tenth as many rounds as
  events wait, every waiting event is delivered and its message on the bus, in the order of
  creation, once each, and the other events are as they were.
\<close>
theorem dispatcher_empties_the_outbox:
  assumes "slots w = []" and "distinct (map o_id (outbox (data w)))"
    and "length (unsent (data w)) \<le> 10 * n" and "w' = snd (run_state (dispatcher_loop U n) w)"
  shows "topics w' = topics w @ map (event_message U) (unsent (data w))
    \<and> list_all2 (\<lambda>e e'. if o_status e = OutboxStatusPENDING then \<exists>t. e' = delivered t e else e' = e)
        (outbox (data w)) (outbox (data w'))"
proof -
  note rounds = run_rounds [OF assms(1,2,4)]
  have "unsent (data w') = []"
    using rounds assms(3) by simp
  then have "\<forall>e \<in> set (outbox (data w')). o_status e \<noteq> OutboxStatusPENDING"
    by (simp add: unsent_def filter_empty_conv)
  then have "list_all2 (\<lambda>e e'. if o_status e = OutboxStatusPENDING then \<exists>t. e' = delivered t e else e' = e)
      (outbox (data w)) (outbox (data w'))"
    by (intro list.rel_mono_strong [OF conjunct2 [OF conjunct2 [OF rounds]]]) (auto simp: sent_or_same_def)
  then show ?thesis
    using rounds assms(3) by simp
qed

theorem dispatcher_empties_the_outbox_witness:
  "topics (snd (run_state (dispatcher_loop sample_uuids 1) sample_world)) = [event_message sample_uuids sample_event]"
proof -
  have "unsent sample_db = [sample_event]"
    by (simp add: unsent_def sample_db_def) (simp add: sample_event_def)
  moreover have "distinct (map o_id (outbox sample_db))"
    by (simp add: sample_db_def)
  ultimately show ?thesis
    using dispatcher_empties_the_outbox [of sample_world 1, OF _ _ _ refl, of sample_uuids]
    by (simp del: dispatcher_loop.simps)
qed

end
