(* ===== verification/Outbox_Order.thy ===== *)
theory Outbox_Order imports Outbox_Drain Platform begin

text \<open>
  Outbox and bus as a queue: submissions put their events in at one end, rounds of the dispatcher
  take up to ten out at the other. What is published is, at any time, the events in the order in
  which their jobs were submitted, each once, up to some point; the rest waits.
\<close>

section \<open>Buffers that are emptied in batches\<close>

datatype 'a buffer_action = Enqueue 'a | Flush | Pass nat

primrec buffer_step ::
  "('a \<Rightarrow> 's \<Rightarrow> 's) \<Rightarrow> ('s \<Rightarrow> 's) \<Rightarrow> (nat \<Rightarrow> 's \<Rightarrow> 's) \<Rightarrow> 'a buffer_action \<Rightarrow> 's \<Rightarrow> 's" where
  "buffer_step enq flush pass (Enqueue a) s = enq a s"
| "buffer_step enq flush pass Flush s = flush s"
| "buffer_step enq flush pass (Pass t) s = pass t s"

text \<open>
  The contract: an action puts entries in at the end, or takes a batch out at the front and sends it.
  \<open>entered\<close> says what was put in between two states.
\<close>

locale batch_buffer =
  fixes inv :: "'s \<Rightarrow> bool" and sent :: "'s \<Rightarrow> 'm list" and queue :: "'s \<Rightarrow> 'e list"
    and message :: "'e \<Rightarrow> 'm" and batch :: nat
    and enq :: "'a \<Rightarrow> 's \<Rightarrow> 's" and flush :: "'s \<Rightarrow> 's" and pass :: "nat \<Rightarrow> 's \<Rightarrow> 's"
    and entered :: "'s \<Rightarrow> 's \<Rightarrow> 'e list \<Rightarrow> bool"
  assumes enq_buffer: "inv s \<Longrightarrow> inv (enq a s) \<and> sent (enq a s) = sent s
      \<and> (\<exists>es. entered s (enq a s) es \<and> queue (enq a s) = queue s @ es)"
    and flush_buffer: "inv s \<Longrightarrow> inv (flush s) \<and> sent (flush s) = sent s @ map message (take batch (queue s))
      \<and> queue (flush s) = drop batch (queue s) \<and> entered s (flush s) []"
    and pass_buffer: "inv s \<Longrightarrow> inv (pass t s) \<and> sent (pass t s) = sent s \<and> queue (pass t s) = queue s
      \<and> entered s (pass t s) []"
    and entered_refl: "entered s s []"
    and entered_trans: "entered s s' es \<Longrightarrow> entered s' s'' es' \<Longrightarrow> entered s s'' (es @ es')"
begin

lemma step_buffer:
  assumes "inv s" and "s' = buffer_step enq flush pass a s"
  shows "inv s' \<and> (\<exists>k es. sent s' = sent s @ map message (take k (queue s)) \<and> k \<le> length (queue s)
    \<and> queue s' = drop k (queue s) @ es \<and> entered s s' es)"
proof (cases a)
  case (Enqueue x)
  then obtain es where "entered s s' es" "queue s' = queue s @ es" "inv s'" "sent s' = sent s"
    using enq_buffer [OF assms(1), of x] assms(2) by auto
  then show ?thesis by (intro conjI exI [of _ 0] exI [of _ es]) simp_all
next
  case Flush
  with flush_buffer [OF assms(1)] assms(2) show ?thesis
    by (intro conjI exI [of _ "min batch (length (queue s))"] exI [of _ "[]"]) (simp_all add: min_def)
next
  case (Pass t)
  with pass_buffer [OF assms(1)] assms(2) show ?thesis
    by (intro conjI exI [of _ 0] exI [of _ "[]"]) simp_all
qed

lemma buffer_run:
  assumes "inv s" and "s' = fold (buffer_step enq flush pass) as s"
  shows "\<exists>k es. sent s' = sent s @ map message (take k (queue s @ es))
    \<and> queue s' = drop k (queue s @ es) \<and> entered s s' es"
  using assms
proof (induction as arbitrary: s)
  case Nil
  then show ?case by (intro exI [of _ 0] exI [of _ "[]"]) (simp add: entered_refl)
next
  case (Cons a as)
  define s1 where "s1 = buffer_step enq flush pass a s"
  obtain k1 es1 where k1: "inv s1" "sent s1 = sent s @ map message (take k1 (queue s))" "k1 \<le> length (queue s)"
    "queue s1 = drop k1 (queue s) @ es1" "entered s s1 es1"
    using step_buffer [OF Cons.prems(1) s1_def] by blast
  obtain k2 es2 where k2: "sent s' = sent s1 @ map message (take k2 (queue s1 @ es2))"
    "queue s' = drop k2 (queue s1 @ es2)" "entered s1 s' es2"
    using Cons.IH [OF k1(1)] Cons.prems(2) by (auto simp: s1_def)
  have all: "queue s @ es1 @ es2 = take k1 (queue s) @ (queue s1 @ es2)"
    by (simp add: k1(4))
  have "sent s' = sent s @ map message (take (k1 + k2) (queue s @ es1 @ es2))"
    "queue s' = drop (k1 + k2) (queue s @ es1 @ es2)"
    unfolding all using k1(2,3) k2(1,2) by simp_all
  then show ?case
    using entered_trans [OF k1(5) k2(3)] by blast
qed

end

section \<open>Submissions enqueue their events\<close>

record submission =
  sub_traceparent :: string
  sub_workspace :: string
  sub_creator :: string
  sub_dataset :: string
  sub_entrypoint :: string
  sub_parameters :: "json option"
  sub_compute :: "json option"
  sub_max_retries :: int
  sub_key :: string

definition submit :: "uuid_lib \<Rightarrow> int \<Rightarrow> submission \<Rightarrow> world \<Rightarrow> world" where
  "submit U n s w = snd (run_state (CreateJob U n (sub_traceparent s) (sub_workspace s) (sub_creator s)
     (sub_dataset s) (sub_entrypoint s) (sub_parameters s) (sub_compute s) (sub_max_retries s) (sub_key s)) w)"

definition appends :: "uuid_lib \<Rightarrow> world \<Rightarrow> world \<Rightarrow> bool" where
  "appends U w w' \<longleftrightarrow>
     slots w' = [] \<and> topics w' = topics w \<and> clock w' = clock w
     \<and> (jobs (data w') = jobs (data w) \<and> outbox (data w') = outbox (data w)
        \<or> (\<exists>job event ws tp. jobs (data w') = jobs (data w) @ [job] \<and> outbox (data w') = outbox (data w) @ [event]
             \<and> event = submitted_event U ws tp (o_id event) (j_id job) (clock w)))"

lemma txn_drawn: "txn_query q t p d = (r, t', d') \<Longrightarrow> \<exists>n. d' = d\<lparr>drawn := n\<rparr>"
  by (auto simp: txn_query_def case_prod_unfold Let_def)

lemma txn_event:
  assumes "txn_query (createOutboxEvent ''job.submitted'' i (submitted_payload U i ws tp))
      \<lparr>tx_start = t, tx_jobs = js, tx_outbox = []\<rparr> p d = (Inr event, tx, d')"
  shows "tx = \<lparr>tx_start = t, tx_jobs = js, tx_outbox = [event]\<rparr> \<and> event = submitted_event U ws tp (o_id event) i t"
  using assms
  by (auto simp: txn_query_def createOutboxEvent_def draw_def txn_view_def submitted_event_def
      case_prod_unfold Let_def split: option.splits)

lemma appends_later: "jobs d = jobs (data w) \<Longrightarrow> outbox d = outbox (data w) \<Longrightarrow> appends U (w\<lparr>data := d\<rparr>) w' = appends U w w'"
  by (simp add: appends_def)

lemma run_Increment_quiet:
  assumes "slots w = []"
  shows "\<exists>r m. run_state (IncrementRunningJobs ws) w = (r, w\<lparr>redis := m\<rparr>)"
  using assms
  by (simp add: IncrementRunningJobs_def redis_addcall_def run_call_quiet case_prod_unfold Let_def) (rule exI, rule refl)

lemma appends_commit:
  assumes "slots w = []" and "t = \<lparr>tx_start = clock w, tx_jobs = [job], tx_outbox = [event]\<rparr>"
    and "event = submitted_event U ws tp (o_id event) (j_id job) (clock w)"
  shows "appends U w (snd (run_state (checked (dbcall (commit_txn t)) wrap
    (\<lambda>_. checked (IncrementRunningJobs key) wrap' (\<lambda>_. State_Monad.return (Inr job)))) w))"
proof -
  define w1 where "w1 = w\<lparr>data := snd (commit_txn t (context_of w) (data w))\<rparr>"
  have w1: "slots w1 = []" "appends U w w1"
    using commit_txn_rows [of t "context_of w" "data w"] assms by (auto simp: appends_def w1_def)
  obtain r m where "run_state (IncrementRunningJobs key) w1 = (r, w1\<lparr>redis := m\<rparr>)"
    using run_Increment_quiet [OF w1(1)] by blast
  moreover have "appends U w (w1\<lparr>redis := m\<rparr>)"
    using w1(2) by (simp add: appends_def)
  ultimately show ?thesis
    using w1 assms(1)
    by (simp add: run_checked run_dbcall_quiet w1_def [symmetric] split: sum.splits)
qed

lemma appends_submit_job:
  assumes "slots w = []"
  shows "appends U w (snd (run_state (submit_job U tp ws arg) w))"
proof -
  obtain r1 t1 d1 where q1: "txn_query (createJob arg) (begin_txn (clock w)) (context_of w) (data w) = (r1, t1, d1)"
    by (metis prod.collapse)
  obtain n1 where d1: "d1 = (data w)\<lparr>drawn := n1\<rparr>" using txn_drawn [OF q1] by blast
  show ?thesis
  proof (cases r1)
    case (Inl e)
    with assms q1 show ?thesis
      by (simp add: submit_job_def run_checked run_begin_call txcall_def run_call_quiet appends_def d1)
  next
    case (Inr job)
    note tx1 = txn_createJob [OF q1[unfolded Inr]]
    obtain r2 t2 d2 where q2: "txn_query (createOutboxEvent ''job.submitted'' (j_id job)
        (submitted_payload U (j_id job) ws tp)) t1 (context_of w) d1 = (r2, t2, d2)"
      by (metis prod.collapse)
    obtain n2 where d2: "d2 = (data w)\<lparr>drawn := n2\<rparr>" using txn_drawn [OF q2] d1 by auto
    show ?thesis
    proof (cases r2)
      case (Inl e)
      with assms q1 q2 \<open>r1 = Inr job\<close> show ?thesis
        by (simp add: submit_job_def run_checked run_begin_call txcall_def run_call_quiet appends_def d2)
    next
      case (Inr event)
      note tx2 = txn_event [OF q2[unfolded Inr conjunct1 [OF tx1]]]
      define w2 where "w2 = w\<lparr>data := d2\<rparr>"
      have "run_state (submit_job U tp ws arg) w = run_state (checked (dbcall (commit_txn t2))
          (WrapError ''failed to commit transaction'') (\<lambda>_. checked (IncrementRunningJobs ws)
          (WrapError ''failed to increment rate limit'') (\<lambda>_. State_Monad.return (Inr job)))) w2"
        using assms q1 q2 \<open>r1 = Inr job\<close> Inr
        by (simp add: submit_job_def run_checked run_begin_call txcall_def run_call_quiet w2_def)
      moreover have "appends U w2 (snd (run_state (checked (dbcall (commit_txn t2))
          (WrapError ''failed to commit transaction'') (\<lambda>_. checked (IncrementRunningJobs ws)
          (WrapError ''failed to increment rate limit'') (\<lambda>_. State_Monad.return (Inr job)))) w2))"
        using assms conjunct1 [OF tx2] conjunct2 [OF tx2] by (intro appends_commit) (simp_all add: w2_def)
      ultimately show ?thesis
        by (simp add: w2_def appends_later d2)
    qed
  qed
qed

lemma appends_nothing: "slots w = [] \<Longrightarrow> appends U w w"
  by (simp add: appends_def)

lemma appends_submit:
  assumes "slots w = []"
  shows "appends U w (submit U n s w)"
proof -
  have "appends U w (snd (run_state (parsed U x msg k) w))"
    if "\<And>i. appends U w (snd (run_state (k i) w))" for x msg and k :: "uuid \<Rightarrow> (world, go_error + Job) state"
    using that assms by (cases "uuid_Parse U x") (simp_all add: parsed_def appends_nothing)
  then show ?thesis
    using assms
    by (simp add: submit_def CreateJob_def run_checked run_AllowJobSubmission appends_nothing appends_submit_job)
qed

section \<open>Outbox and bus are such a buffer\<close>

lemma insort_snoc: "k y \<le> k x \<Longrightarrow> insort_key k y (zs @ [x]) = insort_key k y zs @ [x]"
  by (induction zs) auto

lemma order_asc_snoc: "\<forall>y \<in> set xs. k y \<le> k x \<Longrightarrow> order_asc k (xs @ [x]) = order_asc k xs @ [x]"
  by (induction xs) (simp_all add: order_asc_def insort_snoc)

text \<open>No event is from the future, and nothing disturbs the platform.\<close>

definition orderly :: "world \<Rightarrow> bool" where
  "orderly w \<longleftrightarrow> slots w = [] \<and> integrity (data w)
     \<and> list_all (\<lambda>e. o_status e = OutboxStatusPENDING \<longrightarrow> o_created_at e \<le> clock w) (outbox (data w))"

definition entered :: "uuid_lib \<Rightarrow> world \<Rightarrow> world \<Rightarrow> Outbox list \<Rightarrow> bool" where
  "entered U w w' es \<longleftrightarrow>
     jobs (data w') = jobs (data w) @ drop (length (jobs (data w))) (jobs (data w'))
     \<and> map o_aggregate_id es = map j_id (drop (length (jobs (data w))) (jobs (data w')))
     \<and> list_all (\<lambda>e. \<exists>ws tp t. e = submitted_event U ws tp (o_id e) (o_aggregate_id e) t) es"

lemma enteredI:
  "jobs (data w') = jobs (data w) @ js \<Longrightarrow> map o_aggregate_id es = map j_id js \<Longrightarrow>
   list_all (\<lambda>e. \<exists>ws tp t. e = submitted_event U ws tp (o_id e) (o_aggregate_id e) t) es \<Longrightarrow> entered U w w' es"
  by (simp add: entered_def)

lemma enteredE:
  assumes "entered U w w' es"
  obtains js where "jobs (data w') = jobs (data w) @ js" "map o_aggregate_id es = map j_id js"
    "list_all (\<lambda>e. \<exists>ws tp t. e = submitted_event U ws tp (o_id e) (o_aggregate_id e) t) es"
  using assms unfolding entered_def by blast

lemma handler_keeps_integrity:
  assumes "state_io_rel (follows (\<lambda>_. True)) m" and "integrity (data w)"
  shows "integrity (data (snd (run_state m w)))"
  using follows_any [OF assms(1)] db_steps_integrity assms(2) by blast

lemma submit_enters:
  assumes "orderly w" and "w' = submit U n s w"
  shows "orderly w' \<and> topics w' = topics w \<and> (\<exists>es. entered U w w' es \<and> unsent (data w') = unsent (data w) @ es)"
proof -
  have quiet: "slots w = []" and int: "integrity (data w)"
    and past: "list_all (\<lambda>e. o_status e = OutboxStatusPENDING \<longrightarrow> o_created_at e \<le> clock w) (outbox (data w))"
    using assms(1) by (simp_all add: orderly_def)
  have app: "appends U w w'"
    unfolding assms(2) by (rule appends_submit [OF quiet])
  have int': "integrity (data w')"
    unfolding assms(2) submit_def by (rule handler_keeps_integrity [OF follows_CreateJob int]) simp_all
  consider "jobs (data w') = jobs (data w)" "outbox (data w') = outbox (data w)"
    | job event ws tp where "jobs (data w') = jobs (data w) @ [job]" "outbox (data w') = outbox (data w) @ [event]"
      "event = submitted_event U ws tp (o_id event) (j_id job) (clock w)"
    using app by (auto simp: appends_def)
  then show ?thesis
  proof cases
    case 1
    then have "entered U w w' []" "unsent (data w') = unsent (data w) @ []"
      by (simp_all add: enteredI unsent_def)
    then show ?thesis
      using app int' past 1(2) by (auto simp: orderly_def appends_def)
  next
    case 2
    have event: "o_status event = OutboxStatusPENDING" "o_created_at event = clock w" "o_aggregate_id event = j_id job"
      by (subst 2(3), simp add: submitted_event_def)+
    have "entered U w w' [event]"
      using 2 event(3) by (intro enteredI [of w' w "[job]"]) auto
    moreover have "unsent (data w') = unsent (data w) @ [event]"
      using past event by (simp add: unsent_def 2(2)) (rule order_asc_snoc, simp add: list_all_iff)
    ultimately show ?thesis
      using app int' past 2(2) event by (auto simp: orderly_def appends_def)
  qed
qed

lemma round_sends:
  assumes "orderly w" and "w' = snd (run_state (dispatch U) w)"
  shows "orderly w' \<and> topics w' = topics w @ map (event_message U) (take 10 (unsent (data w)))
    \<and> unsent (data w') = drop 10 (unsent (data w)) \<and> entered U w w' []"
proof -
  have quiet: "slots w = []" and int: "integrity (data w)" and ids: "distinct (map o_id (outbox (data w)))"
    using assms(1) by (simp_all add: orderly_def integrity_defs)
  note round = run_round [OF quiet ids assms(2)]
  have "fst (getPendingOutboxEvents (context_of w) (data w)) = Inr (take 10 (unsent (data w)))"
    by (simp add: getPendingOutboxEvents_def unsent_def)
  from run_dispatch [OF quiet this, of U] assms(2) have "jobs (data w') = jobs (data w)"
    by simp
  moreover have "integrity (data w')"
    unfolding assms(2) by (rule handler_keeps_integrity [OF follows_dispatch int]) simp_all
  moreover have "list_all (\<lambda>e. o_status e = OutboxStatusPENDING \<longrightarrow> o_created_at e \<le> clock w') (outbox (data w'))"
  proof -
    have "o_created_at e \<le> clock w" if e: "e \<in> set (outbox (data w'))" "o_status e = OutboxStatusPENDING" for e
    proof -
      obtain e0 where "e0 \<in> set (outbox (data w))" "sent_or_same e0 e"
        using round(6) e(1) by (metis in_set_conv_nth list_all2_conv_all_nth)
      then show ?thesis
        using e(2) assms(1) by (auto simp: sent_or_same_def orderly_def list_all_iff)
    qed
    then show ?thesis by (simp add: list_all_iff round(2))
  qed
  ultimately show ?thesis
    using round(1,3,4) by (simp add: orderly_def enteredI)
qed

abbreviation wait_for :: "nat \<Rightarrow> world \<Rightarrow> world" where
  "wait_for t w \<equiv> w\<lparr>clock := clock w + int t\<rparr>"

interpretation outbox_buffer: batch_buffer orderly topics "\<lambda>w. unsent (data w)" "event_message U" 10
  "submit U n" "\<lambda>w. snd (run_state (dispatch U) w)" wait_for "entered U" for U n
proof
  show "entered U w w'' (es @ es')" if e: "entered U w w' es" and e': "entered U w' w'' es'" for w w' w'' es es'
  proof -
    obtain js where js: "jobs (data w') = jobs (data w) @ js" "map o_aggregate_id es = map j_id js"
      "list_all (\<lambda>e. \<exists>ws tp t. e = submitted_event U ws tp (o_id e) (o_aggregate_id e) t) es"
      using e by (rule enteredE)
    obtain js' where "jobs (data w'') = jobs (data w') @ js'" "map o_aggregate_id es' = map j_id js'"
      "list_all (\<lambda>e. \<exists>ws tp t. e = submitted_event U ws tp (o_id e) (o_aggregate_id e) t) es'"
      using e' by (rule enteredE)
    with js show ?thesis by (intro enteredI [of _ _ "js @ js'"]) simp_all
  qed
  show "orderly (wait_for t w) \<and> topics (wait_for t w) = topics w \<and> unsent (data (wait_for t w)) = unsent (data w)
      \<and> entered U w (wait_for t w) []" if "orderly w" for t w
    using that by (auto simp: orderly_def list_all_iff enteredI)
  show "entered U w w []" for w
    by (simp add: enteredI)
qed (use submit_enters round_sends in blast)+

text \<open>
  C9: outbox and bus are a queue. However submissions, rounds of the dispatcher and waits follow
  each other, what has been published is a first part of the events that waited at the start
  followed by the events of the jobs accepted since, one for each of these jobs and in the order in
  which they were accepted, and the rest of them waits: nothing is lost, doubled or overtaken.
\<close>
theorem outbox_refines_queue:
  assumes "orderly w"
    and "w' = fold (buffer_step (submit U n) (\<lambda>w. snd (run_state (dispatch U) w)) wait_for) actions w"
  shows "\<exists>k events js. topics w' = topics w @ map (event_message U) (take k (unsent (data w) @ events))
    \<and> unsent (data w') = drop k (unsent (data w) @ events)
    \<and> jobs (data w') = jobs (data w) @ js \<and> map o_aggregate_id events = map j_id js
    \<and> list_all (\<lambda>e. \<exists>ws tp t. e = submitted_event U ws tp (o_id e) (o_aggregate_id e) t) events"
proof -
  obtain k events where "topics w' = topics w @ map (event_message U) (take k (unsent (data w) @ events))"
    "unsent (data w') = drop k (unsent (data w) @ events)" "entered U w w' events"
    using outbox_buffer.buffer_run [OF assms] by blast
  then show ?thesis by (elim enteredE) blast
qed

definition sample_submission :: submission where
  "sample_submission = \<lparr>sub_traceparent = ''tp'', sub_workspace = uuid_text 2, sub_creator = uuid_text 1,
     sub_dataset = uuid_text 3, sub_entrypoint = ''transform'', sub_parameters = Some (JObject []),
     sub_compute = Some (JObject []), sub_max_retries = 2, sub_key = ''k2''\<rparr>"

theorem outbox_refines_queue_witness:
  "\<exists>k events. topics (fold (buffer_step (submit sample_uuids 10) (\<lambda>w. snd (run_state (dispatch sample_uuids) w)) wait_for)
       [Enqueue sample_submission, Pass 5, Flush, Enqueue sample_submission] sample_world)
     = map (event_message sample_uuids) (take k (sample_event # events))"
proof -
  let ?acts = "[Enqueue sample_submission, Pass 5, Flush, Enqueue sample_submission]"
  have start: "orderly sample_world" "unsent sample_db = [sample_event]"
    by (simp_all add: orderly_def unsent_def) (simp_all add: sample_db_def sample_event_def)
  obtain k events where "topics (fold (buffer_step (submit sample_uuids 10)
      (\<lambda>w. snd (run_state (dispatch sample_uuids) w)) wait_for) ?acts sample_world)
     = topics sample_world @ map (event_message sample_uuids) (take k (unsent (data sample_world) @ events))"
    using outbox_refines_queue [OF start(1) refl, of sample_uuids 10 ?acts] by blast
  then have "topics (fold (buffer_step (submit sample_uuids 10)
      (\<lambda>w. snd (run_state (dispatch sample_uuids) w)) wait_for) ?acts sample_world)
     = map (event_message sample_uuids) (take k (sample_event # events))"
    by (simp only: sample_world_simps start(2) append_Nil append_Cons)
  then show ?thesis by blast
qed

end
