(* ===== verification/Scaling.thy ===== *)
theory Scaling imports Controllers begin

text \<open>
  The autoscaler under a load that lasts: its loop computes a closed form, one replica more in
  every cool-down period, up to the maximum.
\<close>

section \<open>The period between two changes\<close>

text \<open>The ticks from one change to the first one after its cool-down.\<close>

definition period :: "AutoscalerConfig \<Rightarrow> int" where
  "period cfg =
     max 1 ((CooldownSeconds cfg + PollIntervalSeconds cfg - 1) div PollIntervalSeconds cfg)"

lemma le_div_iff:
  fixes k b p :: int
  assumes "0 < p"
  shows "k \<le> b div p \<longleftrightarrow> k * p \<le> b"
proof
  assume "k \<le> b div p"
  then have "k * p \<le> b div p * p" using assms by simp
  moreover have "b div p * p + b mod p = b" "0 \<le> b mod p" using assms by simp_all
  ultimately show "k * p \<le> b" by linarith
next
  assume "k * p \<le> b"
  then show "k \<le> b div p" using zdiv_mono1 [of "k * p" b p] assms by simp
qed

lemma period_cooldown:
  assumes "0 < PollIntervalSeconds cfg" and "0 < k"
  shows "k * PollIntervalSeconds cfg < CooldownSeconds cfg \<longleftrightarrow> k < period cfg"
proof -
  define c p where "c = CooldownSeconds cfg" and "p = PollIntervalSeconds cfg"
  have p: "0 < p" using assms(1) by (simp add: p_def)
  have "k < (c + p - 1) div p \<longleftrightarrow> k + 1 \<le> (c + p - 1) div p" by linarith
  also have "\<dots> \<longleftrightarrow> (k + 1) * p \<le> c + p - 1"
    by (rule le_div_iff [OF p])
  also have "\<dots> \<longleftrightarrow> k * p < c" by (simp add: algebra_simps) linarith
  finally show ?thesis
    using assms(2) by (simp add: period_def c_def p_def less_max_iff_disj)
qed

lemma default_period: "period default_config = 3"
  by (simp add: period_def default_config_def)

section \<open>A load that lasts\<close>

definition loaded :: "AutoscalerConfig \<Rightarrow> world \<Rightarrow> bool" where
  "loaded cfg w \<longleftrightarrow>
     slots w = [] \<and> 0 < PollIntervalSeconds cfg
     \<and> ScaleUpThreshold cfg < pending_tasks (data w) \<and> ScaleDownThreshold cfg < pending_tasks (data w)
     \<and> int4 (MaxWorkers cfg + 1)"

text \<open>The change before: never, or some ticks ago and still within the period.\<close>

definition ticks_ago :: "AutoscalerConfig \<Rightarrow> timestamp option \<Rightarrow> world \<Rightarrow> int \<Rightarrow> bool" where
  "ticks_ago cfg since w j \<longleftrightarrow>
     0 \<le> j \<and> j < period cfg
     \<and> (case since of None \<Rightarrow> j = period cfg - 1
        | Some t \<Rightarrow> clock w - t = j * seconds (PollIntervalSeconds cfg))"

lemma cooldown_over:
  assumes "ticks_ago cfg since w j" and "0 < PollIntervalSeconds cfg"
  shows "in_cooldown cfg since (clock w + seconds (PollIntervalSeconds cfg)) \<longleftrightarrow> j + 1 < period cfg"
proof (cases since)
  case None
  then show ?thesis using assms(1) by (simp add: in_cooldown_def ticks_ago_def)
next
  case (Some t)
  then have "clock w + seconds (PollIntervalSeconds cfg) - t = (j + 1) * seconds (PollIntervalSeconds cfg)"
    using assms(1) by (simp add: ticks_ago_def algebra_simps)
  also have "\<dots> < seconds (CooldownSeconds cfg) \<longleftrightarrow> (j + 1) * PollIntervalSeconds cfg < CooldownSeconds cfg"
    by (simp add: seconds_def)
  also have "\<dots> \<longleftrightarrow> j + 1 < period cfg"
    using assms by (intro period_cooldown) (simp_all add: ticks_ago_def)
  finally show ?thesis using Some by (simp add: in_cooldown_def)
qed

text \<open>One tick under load.\<close>

lemma loaded_tick:
  assumes "loaded cfg w" and "deployment (kube w) = Some (Some r)" and "r \<le> MaxWorkers cfg" and "int4 (r - 1)"
    and "run_state (evaluate cfg True since) (w\<lparr>clock := t\<rparr>) = ((res, since'), w')"
  shows "loaded cfg w'" and "clock w' = t"
    and "(deployment (kube w'), since') = (if in_cooldown cfg since t \<or> r = MaxWorkers cfg
           then (Some (Some r), since) else (Some (Some (r + 1)), Some t))"
proof -
  have "int4 (r + 1)"
    using assms(1,3,4) by (auto simp: loaded_def int4_def)
  then have tick: "slots w' = [] \<and> clock w' = t \<and> res = Inr () \<and> data w' = data w \<and>
    (deployment (kube w'), since') =
      (if in_cooldown cfg since t then (Some (Some r), since)
       else if r < MaxWorkers cfg then (Some (Some (r + 1)), Some t)
       else (Some (Some r), since))"
    using run_tick [OF _ _ _ assms(4,5)] assms(1,2) by (simp add: loaded_def)
  then show "loaded cfg w'" "clock w' = t"
    using assms(1) by (simp_all add: loaded_def)
  show "(deployment (kube w'), since') = (if in_cooldown cfg since t \<or> r = MaxWorkers cfg
           then (Some (Some r), since) else (Some (Some (r + 1)), Some t))"
    using tick assms(3) by auto
qed

text \<open>The loop from a tick on.\<close>

lemma run_autoscaler_Suc:
  assumes "slots w = []"
    and "run_state (evaluate cfg has_k8s since) (w\<lparr>clock := clock w + seconds (PollIntervalSeconds cfg)\<rparr>)
      = ((res, since'), w')"
  shows "run_state (autoscaler_loop cfg has_k8s (Suc n) since) w = run_state (autoscaler_loop cfg has_k8s n since') w'"
  using assms by (simp add: run_wait_quiet)

lemma loaded_at_max:
  assumes "loaded cfg w" and "deployment (kube w) = Some (Some (MaxWorkers cfg))" and "int4 (MaxWorkers cfg - 1)"
  shows "deployment (kube (snd (run_state (autoscaler_loop cfg True n since) w))) = Some (Some (MaxWorkers cfg))"
  using assms
proof (induction n arbitrary: w since)
  case (Suc n)
  let ?t = "clock w + seconds (PollIntervalSeconds cfg)"
  obtain res since' w' where run: "run_state (evaluate cfg True since) (w\<lparr>clock := ?t\<rparr>) = ((res, since'), w')"
    by (metis prod.collapse)
  note tick = loaded_tick [OF Suc.prems(1,2) _ Suc.prems(3) run]
  from Suc.IH [of w' since'] tick Suc.prems show ?case
    using run_autoscaler_Suc [OF _ run] by (simp add: loaded_def del: autoscaler_loop.simps)
qed simp

text \<open>
  The replicas after \<open>n\<close> ticks, as a function of the number the period divides.
\<close>

lemma loaded_loop:
  assumes "loaded cfg w" and "deployment (kube w) = Some (Some r)" and "r \<le> MaxWorkers cfg" and "int4 (r - 1)"
    and "ticks_ago cfg since w j"
  shows "deployment (kube (snd (run_state (autoscaler_loop cfg True n since) w)))
    = Some (Some (min (MaxWorkers cfg) (r + (int n + j) div period cfg)))"
  using assms
proof (induction n arbitrary: w since r j)
  case 0
  then have "j div period cfg = 0"
    by (simp add: ticks_ago_def div_pos_pos_trivial)
  with 0 show ?case by (simp add: min_absorb2)
next
  case (Suc n)
  let ?p = "PollIntervalSeconds cfg" and ?m = "period cfg"
  let ?t = "clock w + seconds ?p"
  have pos: "0 < ?p" "0 < ?m" "0 \<le> j"
    using Suc.prems(1,5) by (simp_all add: loaded_def period_def ticks_ago_def)
  obtain res since' w' where run: "run_state (evaluate cfg True since) (w\<lparr>clock := ?t\<rparr>) = ((res, since'), w')"
    by (metis prod.collapse)
  note tick = loaded_tick [OF Suc.prems(1-4) run]
  have slots: "slots w = []"
    using Suc.prems(1) by (simp add: loaded_def)
  show ?case
    unfolding run_autoscaler_Suc [OF slots run]
  proof (cases "r = MaxWorkers cfg")
    case True
    have "0 \<le> (int (Suc n) + j) div ?m"
      using pos by (simp add: pos_imp_zdiv_nonneg_iff)
    with True loaded_at_max [OF tick(1)] tick(3) Suc.prems(4)
    show "deployment (kube (snd (run_state (autoscaler_loop cfg True n since') w')))
        = Some (Some (min (MaxWorkers cfg) (r + (int (Suc n) + j) div ?m)))" by simp
  next
    case False
    show "deployment (kube (snd (run_state (autoscaler_loop cfg True n since') w')))
        = Some (Some (min (MaxWorkers cfg) (r + (int (Suc n) + j) div ?m)))"
    proof (cases "j + 1 < ?m")
      case True
      then have "in_cooldown cfg since ?t"
        using cooldown_over [OF Suc.prems(5) pos(1)] by simp
      with tick(3) have same: "deployment (kube w') = Some (Some r)" "since' = since"
        by simp_all
      have "ticks_ago cfg since w' (j + 1)"
        using True Suc.prems(5) tick(2) by (cases since) (auto simp: ticks_ago_def algebra_simps)
      from Suc.IH [OF tick(1) same(1) Suc.prems(3,4) this] show ?thesis
        by (simp add: same(2) algebra_simps)
    next
      case False
      then have j: "j = ?m - 1"
        using Suc.prems(5) by (simp add: ticks_ago_def)
      have "\<not> in_cooldown cfg since ?t"
        using cooldown_over [OF Suc.prems(5) pos(1)] False by simp
      with tick(3) \<open>r \<noteq> MaxWorkers cfg\<close> have up: "deployment (kube w') = Some (Some (r + 1))" "since' = Some ?t"
        by simp_all
      have "ticks_ago cfg since' w' 0"
        using pos by (simp add: ticks_ago_def up(2) tick(2))
      moreover have "r + 1 \<le> MaxWorkers cfg" "int4 (r + 1 - 1)"
        using Suc.prems(1,3,4) \<open>r \<noteq> MaxWorkers cfg\<close> by (auto simp: loaded_def int4_def)
      moreover have "(int (Suc n) + j) div ?m = 1 + int n div ?m"
        using pos(2) div_add_self2 [of ?m "int n"] by (simp add: j algebra_simps)
      ultimately show ?thesis
        using Suc.IH [OF tick(1) up(1)] by (simp add: algebra_simps)
    qed
  qed
qed

text \<open>
  C16: under a load that lasts the loop of the autoscaler equals a closed form: starting at
  \<open>r\<close> replicas it has after \<open>n\<close> ticks added one for every cool-down period begun,
  up to the maximum. With the configuration of the service, a tick every ten seconds and a cool-down
  of thirty, that is one replica every three ticks.
\<close>
theorem loaded_autoscaler_closed_form:
  assumes "loaded cfg w" and "deployment (kube w) = Some (Some r)" and "r \<le> MaxWorkers cfg" and "int4 (r - 1)"
  shows "deployment (kube (snd (run_state (autoscaler_loop cfg True n None) w)))
    = Some (Some (min (MaxWorkers cfg) (r + (int n + period cfg - 1) div period cfg)))"
proof -
  have "ticks_ago cfg None w (period cfg - 1)"
    by (simp add: ticks_ago_def period_def)
  from loaded_loop [OF assms this] show ?thesis
    by (simp add: algebra_simps)
qed

theorem loaded_autoscaler_closed_form_witness:
  "let w = sample_world\<lparr>data := sample_db\<lparr>tasks := map (\<lambda>k. sample_task (word_of_nat (10 + k)) 0 0) [0..<4]\<rparr>\<rparr>
   in deployment (kube (snd (run_state (autoscaler_loop default_config True 4 None) w))) = Some (Some 4)
      \<and> deployment (kube (snd (run_state (autoscaler_loop default_config True 60 None) w))) = Some (Some 10)"
proof -
  let ?w = "sample_world\<lparr>data := sample_db\<lparr>tasks := map (\<lambda>k. sample_task (word_of_nat (10 + k)) 0 0) [0..<4]\<rparr>\<rparr>"
  have "loaded default_config ?w"
    by (simp add: loaded_def pending_tasks_def default_config_def int4_def sample_task_def comp_def)
  from loaded_autoscaler_closed_form [OF this, of 2 4] loaded_autoscaler_closed_form [OF this, of 2 60]
  show ?thesis
    by (simp add: Let_def default_period int4_def del: autoscaler_loop.simps) (simp add: default_config_def)
qed

end
