(* ===== verification/Startup.thy ===== *)
theory Startup imports Controllers begin

text \<open>
  How the services start: connecting to the database, the broker, the object store, the cache and
  the cluster (\<open>internal/db/db.go\<close>, \<open>internal/kafka/producer.go\<close>,
  \<open>internal/storage/minio.go\<close>, \<open>internal/ratelimit/ratelimit.go\<close>,
  \<open>internal/k8s/controller.go\<close>), the \<open>main\<close> functions of the five services,
  the metrics registry, the settings of the circuit breakers, and the endpoints of the gateway that
  are not behind the router.
\<close>

section \<open>Metrics\<close>

text \<open>\<open>internal/metrics/metrics.go\<close>: the collectors with their labels or buckets.\<close>

datatype collector =
  Counter string
| CounterVec string "string list"
| Gauge string
| Histogram string "int list"

primrec collector_name :: "collector \<Rightarrow> string" where
  "collector_name (Counter n) = n"
| "collector_name (CounterVec n labels) = n"
| "collector_name (Gauge n) = n"
| "collector_name (Histogram n buckets) = n"

definition metrics_registry :: "collector list" where
  "metrics_registry =
     [CounterVec ''http_requests_total'' [''method'', ''path'', ''status''],
      Counter ''jobs_submitted_total'',
      Counter ''jobs_cancelled_total'',
      CounterVec ''tasks_processed_total'' [''state''],
      Histogram ''task_duration_seconds'' [1, 5, 10, 30, 60, 120, 300],
      Histogram ''python_subprocess_duration_seconds'' [1, 5, 10, 30, 60, 120, 300],
      Counter ''runs_created_total'',
      Counter ''tasks_created_total'',
      Gauge ''worker_replicas_current'',
      Gauge ''pending_tasks_current'',
      Gauge ''running_tasks_current'']"

text \<open>Registering a second collector of the same name panics: \<open>None\<close>.\<close>

fun register_all :: "collector list \<Rightarrow> string list \<Rightarrow> string list option" where
  "register_all [] names = Some names"
| "register_all (c # cs) names =
     (if collector_name c \<in> set names then None else register_all cs (collector_name c # names))"

section \<open>Circuit breakers\<close>

text \<open>
  \<open>internal/circuitbreaker/circuitbreaker.go\<close>: what the breakers are made with, and the
  wrapper around their \<open>Execute\<close>, which is an argument. The counts are of the
  \<open>gobreaker\<close> package.
\<close>

record breaker_counts =
  Requests :: nat
  ConsecutiveFailures :: nat

record breaker_settings =
  breaker_Name :: string
  MaxRequests :: nat
  Interval :: int
  Timeout :: int
  ReadyToTrip :: "breaker_counts \<Rightarrow> bool"

definition New_breaker :: "string \<Rightarrow> breaker_settings" where
  "New_breaker name =
     \<lparr>breaker_Name = name, MaxRequests = 1, Interval = seconds 30, Timeout = seconds 30,
      ReadyToTrip = (\<lambda>counts. 3 \<le> ConsecutiveFailures counts)\<rparr>"

definition Execute ::
  "string \<Rightarrow> ((world, go_error + 'a) state \<Rightarrow> (world, go_error + 'a) state)
    \<Rightarrow> (world, go_error + 'a) state \<Rightarrow> (world, go_error + 'a) state" where
  "Execute name cb_Execute fn =
     checked (cb_Execute fn) (WrapError (''circuit breaker ['' @ name @ '']''))
       (\<lambda>result. State_Monad.return (Inr result))"

section \<open>What a service is started with\<close>

text \<open>
  The state of the broker and the object store that starting depends on, and the fate of the next
  calls that leave the process: \<open>None\<close> is served, and so are all calls after the list.
\<close>

record infra =
  created_topics :: "(string \<times> int \<times> int) list"
  buckets :: "string list"
  objects :: "((string \<times> string) \<times> string) list"
  faults :: "go_error option list"

definition ext_call :: "(infra \<Rightarrow> (go_error + 'a) \<times> infra) \<Rightarrow> (infra, go_error + 'a) state" where
  "ext_call f = State (\<lambda>s. case faults s of
       [] \<Rightarrow> f s
     | None # fs \<Rightarrow> f (s\<lparr>faults := fs\<rparr>)
     | Some e # fs \<Rightarrow> (Inl e, s\<lparr>faults := fs\<rparr>))"

text \<open>
  What the client libraries do without leaving the process: reading a connection string and making
  a client. They are arguments, and so are the circuit breaker made with given settings, the Python
  process of a given interpreter, script and time limit in nanoseconds, the environment, the next
  random identifier and the exporter of traces.
\<close>

record client_libs =
  pgxpool_New :: "string \<Rightarrow> go_error + unit"
  minio_New :: "string \<Rightarrow> string \<Rightarrow> string \<Rightarrow> go_error + unit"
  redis_ParseURL :: "string \<Rightarrow> go_error + unit"
  BuildConfigFromFlags :: "go_error + unit"
  NewForConfig :: "go_error + unit"
  NewCircuitBreaker :: "breaker_settings \<Rightarrow> (world, go_error + Task option) state
    \<Rightarrow> (world, go_error + Task option) state"
  python_process :: "string \<Rightarrow> string \<Rightarrow> int \<Rightarrow> (string \<times> string) list \<Rightarrow> timestamp \<Rightarrow> go_error + string"
  Environ :: "(string \<times> string) list"
  uuid_New_String :: string
  stdouttrace_New :: "go_error + unit"

definition Connect :: "client_libs \<Rightarrow> string \<Rightarrow> (infra, go_error + unit) state" where
  "Connect L dbURL =
     checked (State_Monad.return (pgxpool_New L dbURL)) (WrapError ''failed to connect to database'') (\<lambda>_.
     checked (ext_call (\<lambda>s. (Inr (), s))) (WrapError ''failed to ping database'') (\<lambda>_.
     State_Monad.return (Inr ())))"

text \<open>Creating a topic that exists leaves it as it is.\<close>

definition CreateTopic :: "string \<Rightarrow> (infra, go_error + unit) state" where
  "CreateTopic topic =
     checked (ext_call (\<lambda>s. (Inr (), s))) (WrapError ''failed to connect to kafka'') (\<lambda>_.
     checked (ext_call (\<lambda>s. (Inr (),
         if topic \<in> fst ` set (created_topics s) then s
         else s\<lparr>created_topics := created_topics s @ [(topic, 3, 1)]\<rparr>)))
       (WrapError ''failed to create topic'') (\<lambda>_.
     State_Monad.return (Inr ())))"

text \<open>The client of the object store, which remembers its bucket.\<close>

definition NewMinioClient :: "client_libs \<Rightarrow> string \<Rightarrow> string \<Rightarrow> string \<Rightarrow> string \<Rightarrow> go_error + string" where
  "NewMinioClient L endpoint accessKey secretKey bucket =
     (case minio_New L endpoint accessKey secretKey of
        Inl err \<Rightarrow> Inl (WrapError ''failed to create minio client'' err)
      | Inr _ \<Rightarrow> Inr bucket)"

definition EnsureBucketExists :: "string \<Rightarrow> (infra, go_error + unit) state" where
  "EnsureBucketExists bucket =
     checked (ext_call (\<lambda>s. (Inr (bucket \<in> set (buckets s)), s))) (WrapError ''failed to check bucket'')
       (\<lambda>exists.
     if \<not> exists then
       checked (ext_call (\<lambda>s. (Inr (), s\<lparr>buckets := buckets s @ [bucket]\<rparr>)))
         (WrapError ''failed to create bucket'') (\<lambda>_. State_Monad.return (Inr ()))
     else State_Monad.return (Inr ()))"

text \<open>The store refuses a bucket it does not have, and reports the size it stored.\<close>

definition UploadBytes :: "string \<Rightarrow> string \<Rightarrow> string \<Rightarrow> (infra, go_error + int) state" where
  "UploadBytes bucket objectKey content =
     checked (ext_call (\<lambda>s. if bucket \<in> set (buckets s)
         then (Inr (int (length content)), s\<lparr>objects := ((bucket, objectKey), content) # objects s\<rparr>)
         else (Inl (ErrorString ''The specified bucket does not exist''), s)))
       (WrapError ''failed to upload object'') (\<lambda>size. State_Monad.return (Inr size))"

text \<open>A limiter is its bound on the running jobs.\<close>

definition NewRateLimiter :: "client_libs \<Rightarrow> string \<Rightarrow> int \<Rightarrow> go_error + int" where
  "NewRateLimiter L redisURL maxRunningJobs =
     (case redis_ParseURL L redisURL of
        Inl err \<Rightarrow> Inl (WrapError ''failed to parse redis url'' err)
      | Inr _ \<Rightarrow> Inr maxRunningJobs)"

definition NewController :: "client_libs \<Rightarrow> go_error + unit" where
  "NewController L =
     (case BuildConfigFromFlags L of
        Inl err \<Rightarrow> Inl (WrapError ''failed to build k8s config'' err)
      | Inr _ \<Rightarrow>
          (case NewForConfig L of
             Inl err \<Rightarrow> Inl (WrapError ''failed to create k8s client'' err)
           | Inr _ \<Rightarrow> Inr ()))"

text \<open>A duration of Go counts nanoseconds in 64 bits, and the product wraps around.\<close>

definition go_seconds :: "int \<Rightarrow> int" where
  "go_seconds n = (n * 1000000000 + 9223372036854775808) mod 18446744073709551616 - 9223372036854775808"

lemma go_seconds_id: "\<bar>n\<bar> \<le> 9223372036 \<Longrightarrow> go_seconds n = n * 1000000000"
  by (simp add: go_seconds_def)

text \<open>The worker; its second breaker, for the object store, is made and never used.\<close>

definition NewWorker ::
  "client_libs \<Rightarrow> string \<Rightarrow> string \<Rightarrow> string \<Rightarrow> string \<Rightarrow> string \<Rightarrow> string \<Rightarrow> string \<Rightarrow> int \<Rightarrow> worker_env" where
  "NewWorker L wid endpoint accessKey secretKey bucket pythonPath taskRunnerPath taskTimeout =
     \<lparr>workerID = wid, dbBreaker = NewCircuitBreaker L (New_breaker ''postgres''),
      task_runner = python_process L pythonPath taskRunnerPath taskTimeout, base_env = Environ L,
      minioEndpoint = endpoint, minioAccessKey = accessKey, minioSecretKey = secretKey, minioBucket = bucket\<rparr>"

text \<open>\<open>pkg/logger/logger.go\<close>: the handler of the log.\<close>

datatype log_level = LevelDebug | LevelInfo

datatype log_handler = TintHandler log_level | JSONHandler log_level

definition logger_Init :: "string \<Rightarrow> log_handler" where
  "logger_Init env = (if env = ''development'' then TintHandler LevelDebug else JSONHandler LevelInfo)"

text \<open>
  \<open>internal/telemetry/telemetry.go\<close>: the global tracing state that starting sets, the
  service of the tracer provider, the tracer, and whether trace headers are read and written.
\<close>

record tracing =
  TracerProvider :: "string option"
  Tracer :: "string option"
  TextMapPropagator :: bool

definition no_tracing :: tracing where
  "no_tracing = \<lparr>TracerProvider = None, Tracer = None, TextMapPropagator = False\<rparr>"

definition telemetry_Init :: "client_libs \<Rightarrow> string \<Rightarrow> tracing" where
  "telemetry_Init L serviceName =
     (case stdouttrace_New L of
        Inl err \<Rightarrow> no_tracing
      | Inr _ \<Rightarrow> \<lparr>TracerProvider = Some serviceName, Tracer = Some serviceName, TextMapPropagator = True\<rparr>)"

section \<open>The five services\<close>

text \<open>
  A started service: its log and its tracing, whether it dispatches the outbox, its consumer, its
  bound on running jobs, its worker, the configuration of its autoscaler, whether it cleans up,
  whether it has a cluster, and the address it listens on.
\<close>

record service =
  logs :: log_handler
  traces :: tracing
  dispatches :: bool
  consumes :: "consumer option"
  job_limit :: "int option"
  works :: "worker_env option"
  autoscales :: "AutoscalerConfig option"
  cleans :: bool
  has_cluster :: bool
  listens :: "string option"

abbreviation idle_service :: "Config \<Rightarrow> tracing \<Rightarrow> service" where
  "idle_service cfg tr \<equiv> \<lparr>logs = logger_Init (Env cfg), traces = tr, dispatches = False, consumes = None, job_limit = None, works = None, autoscales = None,
     cleans = False, has_cluster = False, listens = None\<rparr>"

datatype startup = Exited int | Running service

definition or_exit ::
  "(infra, go_error + 'a) state \<Rightarrow> ('a \<Rightarrow> (infra, startup) state) \<Rightarrow> (infra, startup) state" where
  "or_exit m k =
     State_Monad.bind m (\<lambda>r. case r of Inl err \<Rightarrow> State_Monad.return (Exited 1) | Inr x \<Rightarrow> k x)"

definition or_warn :: "(infra, go_error + unit) state \<Rightarrow> (infra, startup) state \<Rightarrow> (infra, startup) state" where
  "or_warn m k = State_Monad.bind m (\<lambda>_. k)"

definition gateway_main :: "client_libs \<Rightarrow> (string \<Rightarrow> string) \<Rightarrow> (infra, startup) state" where
  "gateway_main L getenv =
     (let cfg = Load getenv in
      or_exit (Connect L (DBUrl cfg)) (\<lambda>_.
      or_warn (CreateTopic ''job.submitted'') (
      or_warn (CreateTopic ''job.completed'') (
      or_exit (State_Monad.return (NewMinioClient L (MinioEndpoint cfg) (MinioAccessKey cfg)
          (MinioSecretKey cfg) (MinioBucket cfg))) (\<lambda>bucket.
      or_exit (EnsureBucketExists bucket) (\<lambda>_.
      or_exit (State_Monad.return (NewRateLimiter L (RedisURL cfg) 10)) (\<lambda>limit.
      State_Monad.return (Running (idle_service cfg (telemetry_Init L ''api-gateway'')
        \<lparr>dispatches := True, consumes := Some (NewConsumer (KafkaBrokers cfg) ''job.completed'' ''api-gateway-group''),
         job_limit := Some limit,
         listens := Some ('':'' @ APIPort cfg)\<rparr>)))))))))"

definition worker_main :: "client_libs \<Rightarrow> (string \<Rightarrow> string) \<Rightarrow> (infra, startup) state" where
  "worker_main L getenv =
     (let cfg = Load getenv in
      or_exit (Connect L (DBUrl cfg)) (\<lambda>_.
      or_warn (CreateTopic ''job.completed'') (
      or_exit (State_Monad.return (NewMinioClient L (MinioEndpoint cfg) (MinioAccessKey cfg)
          (MinioSecretKey cfg) (MinioBucket cfg))) (\<lambda>bucket.
      State_Monad.return (Running (idle_service cfg (telemetry_Init L ''worker'')
        \<lparr>works := Some (NewWorker L (uuid_New_String L) (MinioEndpoint cfg) (MinioAccessKey cfg)
           (MinioSecretKey cfg) (MinioBucket cfg) (PythonPath cfg) (TaskRunnerPath cfg)
           (go_seconds (TaskTimeoutSeconds cfg))),
         listens := Some '':9095''\<rparr>))))))"

definition scheduler_main :: "client_libs \<Rightarrow> (string \<Rightarrow> string) \<Rightarrow> (infra, startup) state" where
  "scheduler_main L getenv =
     (let cfg = Load getenv in
      or_exit (Connect L (DBUrl cfg)) (\<lambda>_.
      or_warn (CreateTopic ''job.submitted.deadletter'') (
      State_Monad.return (Running (idle_service cfg (telemetry_Init L ''scheduler'')
        \<lparr>consumes := Some (NewConsumer (KafkaBrokers cfg) ''job.submitted'' ''scheduler-group''),
         has_cluster := \<not> isl (NewController L), listens := Some '':9091''\<rparr>)))))"

definition autoscaler_main :: "client_libs \<Rightarrow> (string \<Rightarrow> string) \<Rightarrow> (infra, startup) state" where
  "autoscaler_main L getenv =
     (let cfg = Load getenv in
      or_exit (Connect L (DBUrl cfg)) (\<lambda>_.
      State_Monad.return (Running (idle_service cfg no_tracing
        \<lparr>autoscales := Some default_config, has_cluster := \<not> isl (NewController L),
         listens := Some '':9093''\<rparr>))))"

definition cleanup_main :: "client_libs \<Rightarrow> (string \<Rightarrow> string) \<Rightarrow> (infra, startup) state" where
  "cleanup_main L getenv =
     (let cfg = Load getenv in
      or_exit (Connect L (DBUrl cfg)) (\<lambda>_.
      State_Monad.return (Running (idle_service cfg no_tracing\<lparr>cleans := True\<rparr>))))"

section \<open>Endpoints beside the router\<close>

datatype status_body =
  StatusBody string
| StatusErrorBody string string
| StatsBody int int

definition Health :: "(world, nat \<times> status_body) state" where
  "Health = State_Monad.return (200, StatusBody ''ok'')"

definition Ready :: "(world, nat \<times> status_body) state" where
  "Ready =
     State_Monad.bind (call (\<lambda>w. (Inr (), w))) (\<lambda>r. case r of
       Inl err \<Rightarrow> State_Monad.return (503, StatusErrorBody ''not ready'' ''database unreachable'')
     | Inr (_ :: unit) \<Rightarrow> State_Monad.return (200, StatusBody ''ready''))"

text \<open>The errors of the two queries are dropped; a failed one counts as zero.\<close>

definition AdminStats :: "(world, nat \<times> status_body) state" where
  "AdminStats =
     State_Monad.bind (dbcall getPendingTaskCount) (\<lambda>pending.
     State_Monad.bind (dbcall getRunningTaskCount) (\<lambda>running.
     State_Monad.return (200, StatsBody
       (case pending of Inl err \<Rightarrow> 0 | Inr n \<Rightarrow> n) (case running of Inl err \<Rightarrow> 0 | Inr n \<Rightarrow> n))))"

section \<open>What starting guarantees\<close>

lemma run_or_exit [run_simps]:
  "run_state (or_exit m k) s =
     (case run_state m s of (Inl e, s') \<Rightarrow> (Exited 1, s') | (Inr x, s') \<Rightarrow> run_state (k x) s')"
  by (auto simp: or_exit_def split: prod.splits sum.splits)

lemma run_or_warn [run_simps]: "run_state (or_warn m k) s = run_state k (snd (run_state m s))"
  by (simp add: or_warn_def case_prod_unfold)

text \<open>No two collectors share a name, so that registering them all does not panic.\<close>

lemma register_all_distinct:
  "register_all cs names \<noteq> None \<longleftrightarrow> distinct (map collector_name cs) \<and> set (map collector_name cs) \<inter> set names = {}"
  by (induction cs arbitrary: names) auto

lemma metrics_register: "register_all metrics_registry [] \<noteq> None"
  unfolding register_all_distinct by (simp add: metrics_registry_def)

text \<open>The wrapper of a breaker keeps the classification of an error.\<close>

lemma Execute_classifies:
  "run_state (Execute name cb fn) w =
     (map_sum (WrapError (''circuit breaker ['' @ name @ '']'')) id (fst (run_state (cb fn) w)),
      snd (run_state (cb fn) w))"
  by (auto simp: Execute_def run_checked split: prod.splits sum.splits)

text \<open>The calls that may fail, one by one.\<close>

lemma bucket_exists_after:
  assumes "run_state (EnsureBucketExists bucket) s = (Inr (), s')"
  shows "bucket \<in> set (buckets s')"
  using assms
  by (auto simp: EnsureBucketExists_def run_checked ext_call_def
      split: prod.splits sum.splits list.splits option.splits if_splits)

text \<open>A scheduler that started reads the trace headers, unless its exporter could not be made.\<close>

lemma started_scheduler_traces:
  assumes "fst (run_state (scheduler_main L getenv) s) = Running v" and "stdouttrace_New L = Inr x"
  shows "TextMapPropagator (traces v)"
  using assms
  by (auto simp: scheduler_main_def Let_def run_or_exit run_or_warn telemetry_Init_def split: prod.splits sum.splits)

text \<open>
  A worker that started works under a breaker that keeps the contract the worker relies on, if the
  library's breakers do.
\<close>

lemma started_worker_breaker:
  assumes "fst (run_state (worker_main L getenv) s) = Running v" and "works v = Some W"
    and "\<And>st f w. run_state (NewCircuitBreaker L st f) w = run_state f w
           \<or> (\<exists>e. run_state (NewCircuitBreaker L st f) w = (Inl e, w))"
  shows "breaker_ok W"
proof -
  have "dbBreaker W = NewCircuitBreaker L (New_breaker ''postgres'')"
    using assms(1,2)
    by (auto simp: worker_main_def Let_def run_or_exit run_or_warn NewWorker_def split: prod.splits sum.splits)
  with assms(3) show ?thesis by (simp add: breaker_ok_def)
qed

text \<open>
  C34: however its calls fail, the gateway either exits with status 1 or serves; and it serves only
  after the bucket of its configuration exists, consuming the completed jobs, with a limit of ten
  running jobs a workspace. A broker that cannot create the topics does not stop it.
\<close>
theorem gateway_serves_only_with_bucket:
  assumes "run_state (gateway_main L getenv) s = (out, s')"
  shows "out = Exited 1 \<or>
    (MinioBucket (Load getenv) \<in> set (buckets s')
     \<and> out = Running (idle_service (Load getenv) (telemetry_Init L ''api-gateway'')
        \<lparr>dispatches := True, consumes := Some (NewConsumer (KafkaBrokers (Load getenv)) ''job.completed'' ''api-gateway-group''),
          job_limit := Some 10, listens := Some ('':'' @ APIPort (Load getenv))\<rparr>))"
proof (cases "out = Exited 1")
  case False
  then show ?thesis
    using assms
    by (auto simp: gateway_main_def Let_def run_or_exit run_or_warn NewMinioClient_def NewRateLimiter_def
        split: prod.splits sum.splits dest!: bucket_exists_after)
qed simp

definition sample_libs :: client_libs where
  "sample_libs = \<lparr>pgxpool_New = (\<lambda>_. Inr ()), minio_New = (\<lambda>_ _ _. Inr ()), redis_ParseURL = (\<lambda>_. Inr ()),
     BuildConfigFromFlags = Inl (ErrorString ''no config''), NewForConfig = Inr (),
     NewCircuitBreaker = (\<lambda>_ f. f), python_process = (\<lambda>_ _ _ _ _. Inr ''2/out.csv:17''), Environ = [],
     uuid_New_String = ''w1'', stdouttrace_New = Inr ()\<rparr>"

definition sample_infra :: infra where
  "sample_infra = \<lparr>created_topics = [], buckets = [], objects = [],
     faults = [None, Some (ErrorString ''no broker''), Some (ErrorString ''no broker'')]\<rparr>"

definition sample_env :: "string \<Rightarrow> string" where
  "sample_env name = (if name = ''MINIO_BUCKET'' then ''datasets'' else if name = ''API_PORT'' then ''8080'' else [])"

theorem gateway_serves_only_with_bucket_witness:
  "fst (run_state (gateway_main sample_libs sample_env) sample_infra) \<noteq> Exited 1
   \<and> buckets (snd (run_state (gateway_main sample_libs sample_env) sample_infra)) = [''datasets'']"
proof -
  have out: "fst (run_state (gateway_main sample_libs sample_env) sample_infra) \<noteq> Exited 1"
    by (simp add: gateway_main_def Let_def run_or_exit run_or_warn sample_libs_def Connect_def CreateTopic_def
        EnsureBucketExists_def run_checked ext_call_def sample_infra_def NewMinioClient_def NewRateLimiter_def)
  have "length (buckets (snd (run_state (gateway_main sample_libs sample_env) sample_infra))) = 1"
    by (simp add: gateway_main_def Let_def run_or_exit run_or_warn sample_libs_def Connect_def CreateTopic_def
        EnsureBucketExists_def run_checked ext_call_def sample_infra_def NewMinioClient_def NewRateLimiter_def)
  moreover have "MinioBucket (Load sample_env) = ''datasets''"
    by (simp add: Load_def Let_def sample_env_def)
  ultimately show ?thesis
    using gateway_serves_only_with_bucket [OF prod.collapse [symmetric], of sample_libs sample_env sample_infra] out
    by (cases "buckets (snd (run_state (gateway_main sample_libs sample_env) sample_infra))") auto
qed

text \<open>
  The topics that exist once all services have started on a fresh broker that serves them: the two
  topics of the platform and the dead letters of the submissions, but not those of the completions,
  to which the gateway's consumer sends what its handler refuses.
\<close>

definition start_all :: "client_libs \<Rightarrow> (string \<Rightarrow> string) \<Rightarrow> (infra, unit) state" where
  "start_all L getenv =
     for_each (\<lambda>main. State_Monad.bind main (\<lambda>_. State_Monad.return ()))
       [gateway_main L getenv, worker_main L getenv, scheduler_main L getenv, autoscaler_main L getenv,
        cleanup_main L getenv]"

lemma started_topics:
  assumes "faults s = []" and "created_topics s = []" and "\<And>u. \<not> isl (pgxpool_New L u)"
  shows "map fst (created_topics (snd (run_state (start_all L getenv) s)))
    = [''job.submitted'', ''job.completed'', ''job.submitted.deadletter'']"
proof -
  have pg: "pgxpool_New L u = Inr ()" for u
    using assms(3) [of u] by (cases "pgxpool_New L u") auto
  show ?thesis
    using assms(1,2)
    by (simp add: start_all_def gateway_main_def worker_main_def scheduler_main_def autoscaler_main_def
        cleanup_main_def Let_def run_or_exit run_or_warn Connect_def CreateTopic_def EnsureBucketExists_def
        run_checked ext_call_def pg NewMinioClient_def NewRateLimiter_def split: sum.splits if_splits prod.splits)
qed

theorem completion_dead_letters_have_no_topic:
  assumes "faults s = []" and "created_topics s = []" and "\<And>u. \<not> isl (pgxpool_New L u)"
  shows "dlq_topic (NewConsumer brokers ''job.completed'' groupID) \<notin> fst ` set (created_topics (snd (run_state (start_all L getenv) s)))"
proof -
  have "set (map fst (created_topics (snd (run_state (start_all L getenv) s))))
      = {''job.submitted'', ''job.completed'', ''job.submitted.deadletter''}"
    unfolding started_topics [OF assms] by simp
  then show ?thesis
    by (simp add: NewConsumer_def)
qed

section \<open>The unguarded endpoints\<close>

lemma run_dbcall_calm_read:
  assumes "slots w = s # ss" and "calm_slot s" and "\<And>p d. q p d = (Inr (f d), d)"
  shows "\<exists>c. run_state (dbcall q) w =
    (case fate s of Served \<Rightarrow> Inr (f (data w)) | Refused e \<Rightarrow> Inl e | Lost e \<Rightarrow> Inl e,
     w\<lparr>slots := ss, clock := c\<rparr>)"
  using assms
  by (cases "fate s") (auto simp: dbcall_def call_def arrive_def interfere_def Let_def calm_slot_def)

text \<open>
  C37: the public statistics never report a failure: whatever becomes of their two queries, the
  answer has status 200; a query that is served gives the number of waiting or of leased tasks, and
  one that fails gives zero.
\<close>
theorem admin_stats_hide_failures:
  assumes "slots w = [s1, s2]" and "calm_slot s1" and "calm_slot s2"
  shows "fst (run_state AdminStats w) = (200, StatsBody
    (if fate s1 = Served then pending_tasks (data w) else 0)
    (if fate s2 = Served then leased_tasks (data w) else 0))"
proof -
  obtain c where c: "run_state (dbcall getPendingTaskCount) w =
    (case fate s1 of Served \<Rightarrow> Inr (pending_tasks (data w)) | Refused e \<Rightarrow> Inl e | Lost e \<Rightarrow> Inl e,
     w\<lparr>slots := [s2], clock := c\<rparr>)"
    using run_dbcall_calm_read [OF assms(1,2), of getPendingTaskCount pending_tasks]
    by (auto simp: getPendingTaskCount_def pending_tasks_def)
  obtain c' where "run_state (dbcall getRunningTaskCount) (w\<lparr>slots := [s2], clock := c\<rparr>) =
    (case fate s2 of Served \<Rightarrow> Inr (leased_tasks (data (w\<lparr>slots := [s2], clock := c\<rparr>)))
       | Refused e \<Rightarrow> Inl e | Lost e \<Rightarrow> Inl e, w\<lparr>slots := [s2], clock := c\<rparr>\<lparr>slots := [], clock := c'\<rparr>)"
    using run_dbcall_calm_read [of "w\<lparr>slots := [s2], clock := c\<rparr>" s2 "[]" getRunningTaskCount leased_tasks] assms(3)
    by (auto simp: getRunningTaskCount_def leased_tasks_def)
  with c show ?thesis
    by (cases "fate s1"; cases "fate s2") (simp_all add: AdminStats_def)
qed

lemma fate_slot_with: "fate (slot_with ft) = ft"
  by (simp add: slot_with_def)

theorem admin_stats_hide_failures_witness:
  "fst (run_state AdminStats (sample_world\<lparr>slots := [slot_with (Refused ErrNoRows), slot_with Served]\<rparr>))
     = (200, StatsBody 0 1)"
  using admin_stats_hide_failures [of "sample_world\<lparr>slots := [slot_with (Refused ErrNoRows), slot_with Served]\<rparr>"
      "slot_with (Refused ErrNoRows)" "slot_with Served"]
  by (simp add: fate_slot_with) (simp add: leased_tasks_def sample_db_def sample_leased_def sample_task_def)

end
