(* ===== verification/Spec2Isabelle.thy ===== *)
theory Spec2Isabelle imports Lifecycle Service_States Outbox_Order Scaling Startup Enum_Scan begin

text \<open>
  A verification library for mini-databricks, a platform that runs data jobs on behalf of
  workspaces. All Go packages under \<open>src/internal\<close>, \<open>src/services\<close> and
  \<open>src/pkg\<close> are covered; this block says which theory models which of them, what the
  theorems show and where the model stops. The theory itself only ties the library together: its
  imports are the leaves of the development.

  THE PROGRAM AND ITS PARTS

  Five processes share a PostgreSQL database, a Kafka broker, a Redis counter store, a MinIO object
  store and a Kubernetes cluster. The gateway (\<open>services/api-gateway\<close>) answers HTTP
  requests; a submission writes a job and an outbox event in one transaction, and the gateway's
  dispatcher (\<open>internal/kafka/dispatcher.go\<close>) publishes pending events. The scheduler
  (\<open>services/scheduler\<close>) consumes \<open>job.submitted\<close>, plans a run with three
  tasks and starts workers in the cluster. Workers (\<open>services/worker\<close>) lease tasks, run
  a Python process, record the outcome, retry, and finish run and job; they announce the end on
  \<open>job.completed\<close>, from which the gateway gives the place under the rate limit back. The
  autoscaler (\<open>services/autoscaler\<close>) changes the replicas of the workers with the load,
  and the cleanup (\<open>services/cleanup\<close>) deletes old rows.

  THE STATE

  \<open>Db_Model.db\<close> is the database: one list of rows per table, in the order of insertion,
  with the row records of \<open>internal/db/generated/models.go\<close> and a count of the identifiers
  drawn so far. \<open>World.world\<close> is what all processes share: the database, the messages on the
  bus, the Redis counters, the cluster, the metrics, the clock in microseconds, the sequence of
  identifiers the database will draw, and a list of slots. A slot stands before one call that leaves
  the process: it says how much time passes, which statements, counter commands and messages of other
  processes come first, and the fate of the call: \<open>Served\<close>, \<open>Refused\<close> before it took
  effect, or \<open>Lost\<close> after it did. When the slots are used up every call is served at once.
  Interleavings and faults are thus data, and a theorem that quantifies over the slots holds for
  all of them.

  Handlers are functions in the state monad over the world, with results \<open>go_error + 'a\<close>;
  \<open>checked\<close> is the pattern \<open>if err != nil { return wrap(err) }\<close>. Machine integers
  that may wrap do so explicitly (\<open>wrap32\<close>, \<open>int4\<close> for a column, \<open>int8\<close> for a
  counter); identifiers are 128-bit words.

  THE THEORIES

  Foundations: \<open>Go_Prelude\<close> (integers, strings, tables, the monad, the locale
  \<open>kept_relation\<close> for what every step of a handler keeps), \<open>Job_Errors\<close>
  (\<open>internal/errors\<close>), \<open>Go_Json\<close> (\<open>encoding/json\<close> on what the services
  exchange), \<open>Db_Enums\<close> and \<open>Enum_Scan\<close> (the enums, their labels, their scans and
  nullable wrappers, with the locales \<open>enum_codec\<close> and \<open>text_scanner\<close>),
  \<open>Db_Model\<close> (rows, constraints, integrity), \<open>Samples\<close> (the rows of the concrete
  instances).

  Statements, one definition per query of \<open>internal/db/generated/*.sql.go\<close>:
  \<open>Db_Tasks\<close>, \<open>Db_Runs\<close>, \<open>Db_Jobs\<close> (jobs and outbox), \<open>Db_Assets\<close>
  (users, workspaces, datasets, artifacts). \<open>Statements\<close> makes them one type
  \<open>stmt\<close> with \<open>exec_stmt\<close>, adds transactions, and has the locale
  \<open>stmt_invariant\<close> that lifts what every statement keeps to every history.
  \<open>Db_Integrity\<close>: all statements keep keys, unique columns and references.
  \<open>Task_History\<close>: exclusive leases and adding counters along every history.

  Services: \<open>World\<close> (the world and its calls), \<open>Go_Libs\<close> (third-party packages as
  arguments, with concrete instances), \<open>Rate_Limit\<close> (\<open>internal/ratelimit\<close>),
  \<open>Kafka_Bus\<close> (\<open>internal/kafka\<close>, with the locales \<open>bus_relation\<close>,
  \<open>quiet_handler\<close> and \<open>message_handler\<close> between the consumer and its handlers),
  \<open>Job_Service\<close> and \<open>Account_Services\<close> (\<open>internal/service\<close>, with the links of
  \<open>internal/storage\<close>), \<open>Scheduler\<close> (\<open>services/scheduler\<close>,
  \<open>internal/k8s\<close> and the gateway's handler of completed jobs), \<open>Worker\<close>,
  \<open>Autoscaler\<close> (with the cleanup), \<open>Http_Api\<close> (middleware, handlers, routes,
  configuration), \<open>Startup\<close> (the \<open>main\<close> functions and what they connect: database,
  topics, bucket, limiter, cluster, breakers, tracing, logging, metrics; the endpoints beside the
  router).

  Theorems on the services: \<open>Calm\<close> (runs with faults but without interference),
  \<open>Submission\<close>, \<open>Delivery\<close>, \<open>Scheduling\<close>, \<open>Worker_Polls\<close>,
  \<open>Access\<close>, \<open>Controllers\<close>; progress in \<open>Outbox_Drain\<close>, \<open>Drain\<close> and
  \<open>Scaling\<close>; \<open>Outbox_Order\<close> (outbox and bus as a queue, over the locale
  \<open>batch_buffer\<close>); the services together in \<open>Platform\<close> (the transition relation
  \<open>platform_step\<close> with one rule per entry point), \<open>Service_States\<close> and
  \<open>Lifecycle\<close>.

  WHAT THE THEOREMS SHOW

  Safety under every fault, and where stated under every interleaving: integrity of the database on
  the whole platform; a submission writes job and event together or not at all; a delivered event is
  on the bus; a leased task is leased to nobody else; the counters of a run add up; the replicas
  stay within their bounds; protected routes need a valid token; reads stay in the workspace the
  request names; only some of the declared states ever occur; the gateway serves only with its bucket.

  Function, branch by branch: the lease, retries and failures, success and completion, cancelled
  runs, heartbeats, the attempts of the consumer, one tick of the autoscaler, one round of the
  cleanup, cancelling, deleting a workspace, registration and login.

  Progress: an undisturbed dispatcher empties the outbox, an undisturbed worker with a runner that
  succeeds empties the queue and finishes every run, a task that always fails ends after its retries,
  and a job that the gateway accepts completes, end to end, with its place under the rate limit given
  back. Refinement and equivalence: submission, dispatch and scheduling amount to the one plan
  \<open>planned\<close>; outbox and bus refine a queue that is emptied in batches; under a lasting load the autoscaler's loop equals a closed form.

  Round trips: the token of a login, the runner's output, the nullable enums. Some theorems record
  what the code does although it was hardly meant: the last failure leaves a run open, retries drain
  a counter, a redelivered event plans a second run, a repeated idempotency key is an error, another
  spelling of a workspace id evades the limit, the statistics hide failures.

  BOUNDS AND LOOPS

  The endless loops (\<open>worker_loop\<close>, \<open>dispatcher_loop\<close>, \<open>autoscaler_loop\<close>,
  \<open>cleanup_loop\<close>, \<open>heartbeat_ticks\<close>) take the number of their turns, and
  \<open>Consume\<close> the list of what the reader returns; theorems hold for every number, and progress
  theorems say how many turns are enough: one poll per waiting task, one round per ten events, one
  turn per cool-down and replica. The consumer's attempts terminate by the measure of the attempts
  left. The bound of a thousand million tasks in \<open>tallied\<close> keeps the counters of a run
  within their 32-bit columns.

  ARGUMENTS OF THE MODEL

  Code that is not in the repository is an argument with its documented behaviour as hypothesis, and
  instantiated in the witnesses: parsing and printing of identifiers, password hashing, token
  signing, presigned links, the circuit breaker (\<open>breaker_ok\<close>: it runs the request or refuses it),
  the Python process (its output by environment and start time), the client constructors in
  \<open>client_libs\<close>, and the binding of HTTP bodies to structs. SQL leaves the order of equal
  sort keys open; here it is the order of insertion. The goroutine that sends heartbeats beside a
  task runs in the slots of the calls it interleaves with.

  NOT MODELLED

  Spans and log lines, whose only effect is output (the advice that the autoscaler logs without a
  cluster is defined, but not part of its tick); the bodies of Kubernetes manifests beyond names, sizes and replicas; the
  cross-origin settings and the \<open>/metrics\<close> endpoint, which configure third-party middleware;
  constructors that only store their arguments; closing connections at shutdown;
  \<open>kafka.ParsePayload\<close>, which has no caller; the Python task runner, the migrations' effect
  on old data, the web front end and the deployment files, which are not Go.
\<close>

end
